(* ===== verification/Py_Monad.thy ===== *)
theory Py_Monad
  imports Prelude
begin

text \<open>
  Stateful Python code as functions of an exception-and-state monad. A program takes the
  state and returns either the exception it raises or its value, and in both cases the
  state it leaves behind: an exception does not undo what the code wrote before it.

  The datatype exn lists the exception classes the modelled code raises, with their
  message. The theory ends with the rules for three kinds of statement about programs:
  keeps (an invariant), evolves (a reflexive and transitive relation between the state
  before and after) and reads_only (the program does not change the state).
\<close>

datatype exn =
    ValueError string
  | KeyError string
  | TypeError string
  | AttributeError string
  | RuntimeError string
  | RunNotFoundError string
  | GraphNodeNotFoundError string
  | ArtifactNotFoundError string
  | RunCheckpointNotFoundError string
  | EvaluationResultNotFoundError string
  | WorkflowJobNotFoundError string
  | WorkflowJobOwnershipError string
  | WorkflowJobStateError string
  | GraphValidationError string
  | OrchestrationError string
  | PlannerValidationError string
  | DeploymentApprovalError string
  | RunArchiveError string
  | RunArchiveConflictError string
  | AuthenticationError string
  | AuthorizationError string
  | OtherError string string

text \<open>str(exc) of the exceptions above, and the name of their class.\<close>

fun exn_message :: "exn \<Rightarrow> string" where
  "exn_message (ValueError m) = m"
| "exn_message (KeyError m) = m"
| "exn_message (TypeError m) = m"
| "exn_message (AttributeError m) = m"
| "exn_message (RuntimeError m) = m"
| "exn_message (RunNotFoundError m) = m"
| "exn_message (GraphNodeNotFoundError m) = m"
| "exn_message (ArtifactNotFoundError m) = m"
| "exn_message (RunCheckpointNotFoundError m) = m"
| "exn_message (EvaluationResultNotFoundError m) = m"
| "exn_message (WorkflowJobNotFoundError m) = m"
| "exn_message (WorkflowJobOwnershipError m) = m"
| "exn_message (WorkflowJobStateError m) = m"
| "exn_message (GraphValidationError m) = m"
| "exn_message (OrchestrationError m) = m"
| "exn_message (PlannerValidationError m) = m"
| "exn_message (DeploymentApprovalError m) = m"
| "exn_message (RunArchiveError m) = m"
| "exn_message (RunArchiveConflictError m) = m"
| "exn_message (AuthenticationError m) = m"
| "exn_message (AuthorizationError m) = m"
| "exn_message (OtherError c m) = m"

type_synonym 'a result = "exn + 'a"
type_synonym ('s, 'a) py = "'s \<Rightarrow> 'a result \<times> 's"

definition ret :: "'a \<Rightarrow> ('s, 'a) py" where
  "ret x = (\<lambda>s. (Inr x, s))"

definition raise :: "exn \<Rightarrow> ('s, 'a) py" where
  "raise e = (\<lambda>s. (Inl e, s))"

definition bnd :: "('s, 'a) py \<Rightarrow> ('a \<Rightarrow> ('s, 'b) py) \<Rightarrow> ('s, 'b) py" where
  "bnd m f = (\<lambda>s. case m s of (Inl e, s') \<Rightarrow> (Inl e, s') | (Inr x, s') \<Rightarrow> f x s')"

abbreviation seq :: "('s, 'a) py \<Rightarrow> ('s, 'b) py \<Rightarrow> ('s, 'b) py" where
  "seq m n \<equiv> bnd m (\<lambda>_. n)"

definition asks :: "('s \<Rightarrow> 'a) \<Rightarrow> ('s, 'a) py" where
  "asks f = (\<lambda>s. (Inr (f s), s))"

definition modify :: "('s \<Rightarrow> 's) \<Rightarrow> ('s, unit) py" where
  "modify f = (\<lambda>s. (Inr (), f s))"

text \<open>A value computed from the state that may raise: the program of a pure result.\<close>

definition lift_result :: "'a result \<Rightarrow> ('s, 'a) py" where
  "lift_result r = (\<lambda>s. (r, s))"

definition guard :: "bool \<Rightarrow> exn \<Rightarrow> ('s, unit) py" where
  "guard b e = (if b then ret () else raise e)"

text \<open>try: m; except: h, where the handler is given the exception and may raise it again.\<close>

definition try_catch :: "('s, 'a) py \<Rightarrow> (exn \<Rightarrow> ('s, 'a) py) \<Rightarrow> ('s, 'a) py" where
  "try_catch m h = (\<lambda>s. case m s of (Inl e, s') \<Rightarrow> h e s' | (Inr x, s') \<Rightarrow> (Inr x, s'))"

text \<open>A for loop over a list whose body is run for its effect.\<close>

fun for_each :: "'a list \<Rightarrow> ('a \<Rightarrow> ('s, unit) py) \<Rightarrow> ('s, unit) py" where
  "for_each [] f = ret ()"
| "for_each (x # xs) f = seq (f x) (for_each xs f)"

text \<open>A list comprehension whose element expression may raise or have an effect.\<close>

fun map_each :: "'a list \<Rightarrow> ('a \<Rightarrow> ('s, 'b) py) \<Rightarrow> ('s, 'b list) py" where
  "map_each [] f = ret []"
| "map_each (x # xs) f = bnd (f x) (\<lambda>y. bnd (map_each xs f) (\<lambda>ys. ret (y # ys)))"

section \<open>Running programs\<close>

lemma ret_run [py_simps]: "ret x s = (Inr x, s)"
  by (simp add: ret_def)

lemma raise_run [py_simps]: "raise e s = (Inl e, s)"
  by (simp add: raise_def)

lemma asks_run [py_simps]: "asks f s = (Inr (f s), s)"
  by (simp add: asks_def)

lemma modify_run [py_simps]: "modify f s = (Inr (), f s)"
  by (simp add: modify_def)

lemma lift_result_run [py_simps]: "lift_result r s = (r, s)"
  by (simp add: lift_result_def)

lemma guard_run [py_simps]: "guard b e s = (if b then (Inr (), s) else (Inl e, s))"
  by (simp add: guard_def ret_def raise_def)

lemma bnd_run [py_simps]:
  "bnd m f s = (case m s of (r, s') \<Rightarrow> (case r of Inl e \<Rightarrow> (Inl e, s') | Inr x \<Rightarrow> f x s'))"
  by (simp add: bnd_def split: prod.splits sum.splits)

lemma try_catch_run [py_simps]:
  "try_catch m h s = (case m s of (r, s') \<Rightarrow> (case r of Inl e \<Rightarrow> h e s' | Inr x \<Rightarrow> (Inr x, s')))"
  by (simp add: try_catch_def split: prod.splits sum.splits)

text \<open>A composed program succeeds only when each part does.\<close>

lemma bnd_InrE:
  assumes "bnd m f s = (Inr y, s'')"
  obtains x s' where "m s = (Inr x, s')" and "f x s' = (Inr y, s'')"
  using assms by (auto simp: bnd_def split: prod.splits sum.splits)

lemma bnd_Inl_iff:
  "fst (bnd m f s) = Inl e \<longleftrightarrow>
     fst (m s) = Inl e \<or> (\<exists>x. fst (m s) = Inr x \<and> fst (f x (snd (m s))) = Inl e)"
  by (auto simp: bnd_def split: prod.splits sum.splits)

lemma bnd_ret [simp]: "bnd (ret x) f = f x"
  by (simp add: bnd_def ret_def)

lemma bnd_guard_False: "bnd (guard False e) f = raise e"
  by (simp add: bnd_def guard_def raise_def)

lemma bnd_guard_True: "bnd (guard True e) f = f ()"
  by (simp add: guard_def)

lemma bnd_assoc: "bnd (bnd m f) g = bnd m (\<lambda>x. bnd (f x) g)"
  by (rule ext) (simp add: bnd_def split: prod.splits sum.splits)

section \<open>Invariants, relations and frames\<close>

definition keeps :: "('s \<Rightarrow> bool) \<Rightarrow> ('s, 'a) py \<Rightarrow> bool" where
  "keeps I m \<longleftrightarrow> (\<forall>s. I s \<longrightarrow> I (snd (m s)))"

definition evolves :: "('s \<Rightarrow> 's \<Rightarrow> bool) \<Rightarrow> ('s, 'a) py \<Rightarrow> bool" where
  "evolves R m \<longleftrightarrow> (\<forall>s. R s (snd (m s)))"

definition reads_only :: "('s, 'a) py \<Rightarrow> bool" where
  "reads_only m \<longleftrightarrow> (\<forall>s. snd (m s) = s)"

lemma keepsI: "(\<And>s. I s \<Longrightarrow> I (snd (m s))) \<Longrightarrow> keeps I m"
  by (simp add: keeps_def)

lemma keepsD: "keeps I m \<Longrightarrow> I s \<Longrightarrow> m s = (r, s') \<Longrightarrow> I s'"
  by (metis keeps_def snd_conv)

lemma keeps_ret [keeps_intros]: "keeps I (ret x)"
  by (simp add: keeps_def ret_def)

lemma keeps_raise [keeps_intros]: "keeps I (raise e)"
  by (simp add: keeps_def raise_def)

lemma keeps_asks [keeps_intros]: "keeps I (asks f)"
  by (simp add: keeps_def asks_def)

lemma keeps_lift_result [keeps_intros]: "keeps I (lift_result r)"
  by (simp add: keeps_def lift_result_def)

lemma keeps_guard [keeps_intros]: "keeps I (guard b e)"
  by (simp add: keeps_def guard_def ret_def raise_def)

lemma keeps_bnd [keeps_intros]:
  "keeps I m \<Longrightarrow> (\<And>x. keeps I (f x)) \<Longrightarrow> keeps I (bnd m f)"
  by (fastforce simp: keeps_def bnd_def split: prod.splits sum.splits)

lemma keeps_try_catch [keeps_intros]:
  "keeps I m \<Longrightarrow> (\<And>e. keeps I (h e)) \<Longrightarrow> keeps I (try_catch m h)"
  by (fastforce simp: keeps_def try_catch_def split: prod.splits sum.splits)

lemma keeps_if [keeps_intros]:
  "(b \<Longrightarrow> keeps I m) \<Longrightarrow> (\<not> b \<Longrightarrow> keeps I n) \<Longrightarrow> keeps I (if b then m else n)"
  by simp

lemma keeps_case_option [keeps_intros]:
  "(x = None \<Longrightarrow> keeps I m) \<Longrightarrow> (\<And>y. x = Some y \<Longrightarrow> keeps I (f y)) \<Longrightarrow>
     keeps I (case x of None \<Rightarrow> m | Some y \<Rightarrow> f y)"
  by (cases x) auto

lemma keeps_case_prod [keeps_intros]:
  "(\<And>a b. p = (a, b) \<Longrightarrow> keeps I (f a b)) \<Longrightarrow> keeps I (case p of (a, b) \<Rightarrow> f a b)"
  by (cases p) auto

lemma keeps_case_sum [keeps_intros]:
  "(\<And>a. x = Inl a \<Longrightarrow> keeps I (f a)) \<Longrightarrow> (\<And>b. x = Inr b \<Longrightarrow> keeps I (g b)) \<Longrightarrow>
     keeps I (case x of Inl a \<Rightarrow> f a | Inr b \<Rightarrow> g b)"
  by (cases x) auto

lemma keeps_let [keeps_intros]: "keeps I (f x) \<Longrightarrow> keeps I (let y = x in f y)"
  by simp

lemma keeps_for_each [keeps_intros]:
  "(\<And>x. x \<in> set xs \<Longrightarrow> keeps I (f x)) \<Longrightarrow> keeps I (for_each xs f)"
  by (induction xs) (auto intro!: keeps_intros)

lemma keeps_map_each [keeps_intros]:
  "(\<And>x. x \<in> set xs \<Longrightarrow> keeps I (f x)) \<Longrightarrow> keeps I (map_each xs f)"
  by (induction xs) (auto intro!: keeps_intros)

lemma keeps_modify: "(\<And>s. I s \<Longrightarrow> I (f s)) \<Longrightarrow> keeps I (modify f)"
  by (simp add: keeps_def modify_def)

text \<open>
  A relation between the state before and after is an invariant "related to the start", so
  the same rules prove it: from every start, being related to that start is kept.
\<close>

lemma evolves_by_keeps:
  assumes "reflp R" and "\<And>s0. keeps (R s0) m"
  shows "evolves R m"
  using assms by (auto simp: evolves_def keeps_def reflp_def)

lemma evolvesD: "evolves R m \<Longrightarrow> m s = (r, s') \<Longrightarrow> R s s'"
  by (metis evolves_def snd_conv)

lemma keeps_of_evolves:
  assumes "transp R" and "evolves R m"
  shows "keeps (R s0) m"
  using assms unfolding keeps_def evolves_def transp_def by blast

lemma reads_only_keeps: "reads_only m \<Longrightarrow> keeps I m"
  by (simp add: reads_only_def keeps_def)

lemma reads_onlyD: "reads_only m \<Longrightarrow> m s = (r, s') \<Longrightarrow> s' = s"
  by (metis reads_only_def snd_conv)

section \<open>Partial correctness\<close>

text \<open>
  ensures P m Q: from a state in P, when m returns a value, the value and the state it
  leaves satisfy Q. What m does when it raises is left open.
\<close>

definition ensures :: "('s \<Rightarrow> bool) \<Rightarrow> ('s, 'a) py \<Rightarrow> ('a \<Rightarrow> 's \<Rightarrow> bool) \<Rightarrow> bool" where
  "ensures P m Q \<longleftrightarrow> (\<forall>s x s'. P s \<longrightarrow> m s = (Inr x, s') \<longrightarrow> Q x s')"

lemma ensuresI: "(\<And>s x s'. P s \<Longrightarrow> m s = (Inr x, s') \<Longrightarrow> Q x s') \<Longrightarrow> ensures P m Q"
  by (simp add: ensures_def)

lemma ensuresD: "ensures P m Q \<Longrightarrow> m s = (Inr x, s') \<Longrightarrow> P s \<Longrightarrow> Q x s'"
  by (simp add: ensures_def)

lemma ensures_bnd:
  "ensures P m R \<Longrightarrow> (\<And>x. ensures (R x) (f x) Q) \<Longrightarrow> ensures P (bnd m f) Q"
  unfolding ensures_def by (blast elim: bnd_InrE)

lemma ensures_keeps: "keeps I m \<Longrightarrow> ensures I m (\<lambda>x. I)"
  unfolding ensures_def by (blast dest: keepsD)

text \<open>A step that keeps the precondition, in front or behind.\<close>

lemma ensures_skip: "keeps P m \<Longrightarrow> (\<And>x. ensures P (f x) Q) \<Longrightarrow> ensures P (bnd m f) Q"
  by (rule ensures_bnd [OF ensures_keeps])

lemma ensures_ret: "(\<And>s. P s \<Longrightarrow> Q x s) \<Longrightarrow> ensures P (ret x) Q"
  by (simp add: ensures_def ret_def)

lemma ensures_raise: "ensures P (raise e) Q"
  by (simp add: ensures_def raise_def)

lemma ensures_lift_result: "(\<And>x s. r = Inr x \<Longrightarrow> P s \<Longrightarrow> Q x s) \<Longrightarrow> ensures P (lift_result r) Q"
  by (simp add: ensures_def lift_result_def)

lemma ensures_guard: "(\<And>s. b \<Longrightarrow> P s \<Longrightarrow> Q () s) \<Longrightarrow> ensures P (guard b e) Q"
  by (simp add: ensures_def guard_run)

lemma ensures_weaken:
  "ensures P' m Q' \<Longrightarrow> (\<And>s. P s \<Longrightarrow> P' s) \<Longrightarrow> (\<And>x s. Q' x s \<Longrightarrow> Q x s) \<Longrightarrow> ensures P m Q"
  unfolding ensures_def by blast

lemma ensures_if:
  "(b \<Longrightarrow> ensures P m Q) \<Longrightarrow> (\<not> b \<Longrightarrow> ensures P n Q) \<Longrightarrow> ensures P (if b then m else n) Q"
  by simp

lemma ensures_conj: "ensures P m Q \<Longrightarrow> ensures P m R \<Longrightarrow> ensures P m (\<lambda>x s. Q x s \<and> R x s)"
  by (simp add: ensures_def)

lemma ensures_fact: "(\<And>s. P s \<Longrightarrow> A) \<Longrightarrow> (A \<Longrightarrow> ensures P m Q) \<Longrightarrow> ensures P m Q"
  by (auto simp: ensures_def)

end
