(* ===== verification/Py_Value.thy ===== *)
theory Py_Value
  imports Py_Monad Complex_Main
begin

text \<open>
  The values a Python annotation Any or dict[str, Any] ranges over in the modelled code:
  what JSON can hold. A float is the rational number the double stands for; the modelled
  code stores and compares such floats and computes nothing from them. Times are integers,
  microseconds since 1970-01-01 UTC, and isoformat is their text form.
\<close>

datatype pyval =
    PNone
  | PBool bool
  | PInt int
  | PFloat rat
  | PStr string
  | PList "pyval list"
  | PDict "(string \<times> pyval) list"

text \<open>The truth value of a condition such as if value, or value or default.\<close>

fun truthy :: "pyval \<Rightarrow> bool" where
  "truthy PNone = False"
| "truthy (PBool b) = b"
| "truthy (PInt i) = (i \<noteq> 0)"
| "truthy (PFloat q) = (q \<noteq> 0)"
| "truthy (PStr s) = (s \<noteq> [])"
| "truthy (PList xs) = (xs \<noteq> [])"
| "truthy (PDict d) = (d \<noteq> [])"

text \<open>
  str(value). The text of a float, a list or a dict is Python's repr, which is passed in:
  no claim below depends on it.
\<close>

fun py_str :: "(pyval \<Rightarrow> string) \<Rightarrow> pyval \<Rightarrow> string" where
  "py_str rp PNone = ''None''"
| "py_str rp (PBool b) = (if b then ''True'' else ''False'')"
| "py_str rp (PInt i) = int_str i"
| "py_str rp (PStr s) = s"
| "py_str rp v = rp v"

definition opt_str :: "string option \<Rightarrow> pyval" where
  "opt_str x = (case x of None \<Rightarrow> PNone | Some s \<Rightarrow> PStr s)"

definition opt_int :: "int option \<Rightarrow> pyval" where
  "opt_int x = (case x of None \<Rightarrow> PNone | Some i \<Rightarrow> PInt i)"

definition strs :: "string list \<Rightarrow> pyval" where
  "strs xs = PList (map PStr xs)"

text \<open>Reading back a string or a list of strings; None when the value has another shape.\<close>

fun as_str :: "pyval \<Rightarrow> string option" where
  "as_str (PStr s) = Some s"
| "as_str _ = None"

fun as_strs_list :: "pyval list \<Rightarrow> string list option" where
  "as_strs_list [] = Some []"
| "as_strs_list (v # vs) =
     (case (as_str v, as_strs_list vs) of (Some s, Some ss) \<Rightarrow> Some (s # ss) | _ \<Rightarrow> None)"

fun as_strs :: "pyval \<Rightarrow> string list option" where
  "as_strs (PList vs) = as_strs_list vs"
| "as_strs _ = None"

text \<open>d.get(key) of a dictionary value: None for a missing key.\<close>

definition pget :: "(string, pyval) dict \<Rightarrow> string \<Rightarrow> pyval" where
  "pget d k = (case dict_get d k of None \<Rightarrow> PNone | Some v \<Rightarrow> v)"

text \<open>value or default, for a value that may be absent.\<close>

definition str_or :: "string option \<Rightarrow> string option \<Rightarrow> string option" where
  "str_or a b = (case a of None \<Rightarrow> b | Some s \<Rightarrow> if s = [] then b else Some s)"

section \<open>int(text)\<close>

text \<open>Python's int of a string: surrounding space, a sign, digits with single underscores.\<close>

definition digit_val :: "char \<Rightarrow> int option" where
  "digit_val c = (let n = (of_char c :: nat) in if 48 \<le> n \<and> n \<le> 57 then Some (int (n - 48)) else None)"

fun digits_val :: "int \<Rightarrow> string \<Rightarrow> int option" where
  "digits_val acc [] = Some acc"
| "digits_val acc (c # cs) =
     (case digit_val c of
        Some d \<Rightarrow> digits_val (10 * acc + d) cs
      | None \<Rightarrow>
          (if c = CHR ''_'' then
             (case cs of [] \<Rightarrow> None
              | c' # cs' \<Rightarrow> (case digit_val c' of None \<Rightarrow> None
                            | Some d \<Rightarrow> digits_val (10 * acc + d) cs'))
           else None))"

definition unsigned_int :: "string \<Rightarrow> int option" where
  "unsigned_int s =
     (case s of [] \<Rightarrow> None
      | c # cs \<Rightarrow> (case digit_val c of None \<Rightarrow> None | Some d \<Rightarrow> digits_val d cs))"

definition parse_int :: "string \<Rightarrow> int option" where
  "parse_int s =
     (case strip s of
        [] \<Rightarrow> None
      | c # cs \<Rightarrow>
          (if c = CHR ''-'' then map_option uminus (unsigned_int cs)
           else if c = CHR ''+'' then unsigned_int cs
           else unsigned_int (c # cs)))"

text \<open>int(value) for a value of any kind; the error is the exception int raises.\<close>

fun to_int :: "pyval \<Rightarrow> int result" where
  "to_int PNone = Inl (TypeError ''int() argument must be a string or a number'')"
| "to_int (PBool b) = Inr (if b then 1 else 0)"
| "to_int (PInt i) = Inr i"
| "to_int (PFloat q) = Inr (if q < 0 then - \<lfloor>- q\<rfloor> else \<lfloor>q\<rfloor>)"
| "to_int (PStr s) =
     (case parse_int s of None \<Rightarrow> Inl (ValueError ''invalid literal for int()'') | Some i \<Rightarrow> Inr i)"
| "to_int (PList xs) = Inl (TypeError ''int() argument must be a string or a number'')"
| "to_int (PDict d) = Inl (TypeError ''int() argument must be a string or a number'')"

section \<open>Times\<close>

text \<open>The date of a day counted from 1970-01-01 in the proleptic Gregorian calendar.\<close>

definition civil_from_days :: "int \<Rightarrow> int \<times> int \<times> int" where
  "civil_from_days days =
     (let z = days + 719468;
          era = z div 146097;
          doe = z mod 146097;
          yoe = (doe - doe div 1460 + doe div 36524 - doe div 146096) div 365;
          doy = doe - (365 * yoe + yoe div 4 - yoe div 100);
          mp = (5 * doy + 2) div 153;
          d = doy - (153 * mp + 2) div 5 + 1;
          m = (if mp < 10 then mp + 3 else mp - 9);
          y = yoe + era * 400 + (if m \<le> 2 then 1 else 0)
      in (y, m, d))"

definition zpad :: "nat \<Rightarrow> string \<Rightarrow> string" where
  "zpad k s = replicate (k - length s) CHR ''0'' @ s"

text \<open>datetime.isoformat of an aware UTC time, for the years 1 to 9999 of datetime.\<close>

definition isoformat :: "int \<Rightarrow> string" where
  "isoformat t =
     (let us = t mod 1000000; secs = t div 1000000;
          sod = secs mod 86400;
          (y, m, d) = civil_from_days (secs div 86400)
      in zpad 4 (int_str y) @ ''-'' @ zpad 2 (int_str m) @ ''-'' @ zpad 2 (int_str d) @ ''T''
         @ zpad 2 (int_str (sod div 3600)) @ '':'' @ zpad 2 (int_str (sod div 60 mod 60)) @ '':''
         @ zpad 2 (int_str (sod mod 60))
         @ (if us = 0 then [] else ''.'' @ zpad 6 (int_str us)) @ ''+00:00'')"

section \<open>Lemmas\<close>

lemma as_strs_strs [simp]: "as_strs (strs xs) = Some xs"
proof -
  have "as_strs_list (map PStr xs) = Some xs"
    by (induction xs) auto
  then show ?thesis by (simp add: strs_def)
qed

lemma opt_str_simps [simp]: "opt_str None = PNone" "opt_str (Some s) = PStr s"
  by (simp_all add: opt_str_def)

lemma pget_set: "pget (dict_set k v d) k' = (if k' = k then v else pget d k')"
  by (simp add: pget_def dict_get_set)

lemma pget_set_same [simp]: "pget (dict_set k v d) k = v"
  by (simp add: pget_set)

lemma pget_set_other [simp]: "k' \<noteq> k \<Longrightarrow> pget (dict_set k v d) k' = pget d k'"
  by (simp add: pget_set)

end
