(* ===== verification/Redaction.thy ===== *)
theory Redaction
  imports Py_Value
begin

text \<open>
  security/redaction.py: the rules that keep secrets out of records, events and archives.
  redact_uri rests on urllib (urlsplit, parse_qsl, urlencode) and is the parameter ru of
  the definitions below; every statement holds for every such function. The three regular
  expressions of the module repeat character classes only, so each is a scanner: it gives
  the replacement and the length of the match at a position, and sub_with is re.sub.
\<close>

definition REDACTED :: string where
  "REDACTED = ''[REDACTED]''"

definition sensitive_key_fragments :: "string list" where
  "sensitive_key_fragments =
     [''api_key'', ''apikey'', ''auth_token'', ''authorization'', ''cookie'', ''password'',
      ''private_key'', ''secret'', ''session'', ''token'']"

definition sensitive_exact_keys :: "string list" where
  "sensitive_exact_keys =
     [''access_key'', ''access_key_id'', ''connection_string'', ''database_url'', ''dsn'',
      ''secret_access_key'']"

definition safe_reference_keys :: "string list" where
  "safe_reference_keys =
     [''configured_env_keys'', ''credential_profile'', ''credential_profile_id'',
      ''credential_profile_ids'', ''missing_env_keys'', ''secret_env_keys'', ''token_env_options'']"

definition is_sensitive_key :: "string \<Rightarrow> bool" where
  "is_sensitive_key key =
     (let normalized = map (\<lambda>c. if c = CHR ''-'' then CHR ''_'' else c) (lower key)
      in if normalized \<in> set safe_reference_keys then False
         else if normalized \<in> set sensitive_exact_keys then True
         else list_ex (\<lambda>fragment. contains fragment normalized) sensitive_key_fragments)"

section \<open>The regular expressions\<close>

definition in_range :: "char \<Rightarrow> nat \<Rightarrow> nat \<Rightarrow> bool" where
  "in_range c lo hi = (lo \<le> (of_char c :: nat) \<and> (of_char c :: nat) \<le> hi)"

definition ascii_letter :: "char \<Rightarrow> bool" where
  "ascii_letter c = (in_range c 65 90 \<or> in_range c 97 122)"

definition ascii_digit :: "char \<Rightarrow> bool" where
  "ascii_digit c = in_range c 48 57"

text \<open>A word character for the boundary \b: alphanumeric or underscore.\<close>

definition word_char :: "char \<Rightarrow> bool" where
  "word_char c =
     (ascii_letter c \<or> ascii_digit c \<or> c = CHR ''_''
      \<or> (of_char c :: nat) \<in> {170, 178, 179, 181, 185, 186, 188, 189, 190}
      \<or> in_range c 192 214 \<or> in_range c 216 246 \<or> in_range c 248 255)"

definition boundary_before :: "char option \<Rightarrow> bool" where
  "boundary_before prev = (case prev of None \<Rightarrow> True | Some c \<Rightarrow> \<not> word_char c)"

definition scheme_char :: "char \<Rightarrow> bool" where
  "scheme_char c = (ascii_letter c \<or> ascii_digit c \<or> c \<in> set ''+.-'')"

definition url_char :: "char \<Rightarrow> bool" where
  "url_char c = (\<not> py_space c \<and> c \<notin> {CHR ''<'', CHR ''>'', CHR 0x27, CHR 0x22})"

text \<open>A matcher gives the replacement text and the number of characters matched.\<close>

type_synonym matcher = "char option \<Rightarrow> string \<Rightarrow> (string \<times> nat) option"

definition url_match :: "(string \<Rightarrow> string) \<Rightarrow> matcher" where
  "url_match ru prev s =
     (case s of [] \<Rightarrow> None
      | c # _ \<Rightarrow>
          (if boundary_before prev \<and> ascii_letter c then
             (let scheme = takeWhile scheme_char s; r = dropWhile scheme_char s in
              if starts_with ''://'' r then
                (let body = takeWhile url_char (drop 3 r) in
                 if body = [] then None
                 else (let u = scheme @ ''://'' @ body in Some (ru u, length u)))
              else None)
           else None))"

definition token_char :: "char \<Rightarrow> bool" where
  "token_char c = (ascii_letter c \<or> ascii_digit c \<or> c \<in> set ''._~+/=-'')"

definition bearer_match :: matcher where
  "bearer_match prev s =
     (if boundary_before prev \<and> starts_with ''bearer'' (lower s) then
        (let word = take 6 s; sp = takeWhile py_space (drop 6 s);
             tok = takeWhile token_char (drop (6 + length sp) s)
         in if sp \<noteq> [] \<and> 6 \<le> length tok
            then Some (word @ '' '' @ REDACTED, 6 + length sp + length tok) else None)
      else None)"

text \<open>The alternatives of KEY_VALUE_PATTERN, in order, an optional separator written out.\<close>

definition key_words :: "string list" where
  "key_words =
     [''api_key'', ''api-key'', ''apikey'', ''access_token'', ''access-token'', ''accesstoken'',
      ''refresh_token'', ''refresh-token'', ''refreshtoken'', ''auth_token'', ''auth-token'',
      ''authtoken'', ''token'', ''authorization'', ''password'', ''passwd'', ''secret'',
      ''private_key'', ''private-key'', ''privatekey'', ''session_id'', ''session-id'',
      ''sessionid'']"

definition key_value_at :: "string \<Rightarrow> nat \<Rightarrow> (string \<times> nat) option" where
  "key_value_at s k =
     (let r = drop k s; sp1 = takeWhile py_space r; r1 = dropWhile py_space r in
      case r1 of [] \<Rightarrow> None
      | c # r2 \<Rightarrow>
          (if c = CHR '':'' \<or> c = CHR ''='' then
             (let sp2 = takeWhile py_space r2;
                  val = takeWhile (\<lambda>c. \<not> py_space c \<and> c \<noteq> CHR '','' \<and> c \<noteq> CHR '';'') (dropWhile py_space r2)
              in if val = [] then None
                 else Some (take k s @ sp1 @ [c] @ sp2 @ REDACTED,
                            k + length sp1 + 1 + length sp2 + length val))
           else None))"

fun first_some :: "('a \<Rightarrow> 'b option) \<Rightarrow> 'a list \<Rightarrow> 'b option" where
  "first_some f [] = None"
| "first_some f (x # xs) = (case f x of None \<Rightarrow> first_some f xs | Some y \<Rightarrow> Some y)"

definition key_value_match :: matcher where
  "key_value_match prev s =
     (if boundary_before prev then
        first_some (\<lambda>w. if starts_with w (lower s) then key_value_at s (length w) else None) key_words
      else None)"

text \<open>re.sub: scan from the left, replace each match, go on after it.\<close>

fun sub_with :: "matcher \<Rightarrow> char option \<Rightarrow> string \<Rightarrow> string" where
  "sub_with m prev [] = []"
| "sub_with m prev (c # cs) =
     (case m prev (c # cs) of
        None \<Rightarrow> c # sub_with m (Some c) cs
      | Some (r, n) \<Rightarrow> r @ sub_with m (Some (last (take n (c # cs)))) (drop (n - 1) cs))"

section \<open>redact_text and redact_value\<close>

definition redact_text :: "(string \<Rightarrow> string) \<Rightarrow> string \<Rightarrow> string" where
  "redact_text ru value =
     (case url_match ru None value of
        Some (r, n) \<Rightarrow>
          (if n = length value then ru value
           else sub_with key_value_match None
                  (sub_with bearer_match None (sub_with (url_match ru) None value)))
      | None \<Rightarrow>
          sub_with key_value_match None
            (sub_with bearer_match None (sub_with (url_match ru) None value)))"

definition redact_opt :: "(string \<Rightarrow> string) \<Rightarrow> string option \<Rightarrow> string option" where
  "redact_opt ru = map_option (redact_text ru)"

function redact_value :: "(string \<Rightarrow> string) \<Rightarrow> string option \<Rightarrow> pyval \<Rightarrow> pyval" where
  "redact_value ru key value =
     (if (case key of None \<Rightarrow> False | Some k \<Rightarrow> is_sensitive_key k) then PStr REDACTED
      else case value of
        PDict d \<Rightarrow> PDict (map (\<lambda>(k, v). (k, redact_value ru (Some k) v)) d)
      | PList xs \<Rightarrow> PList (map (redact_value ru None) xs)
      | PStr s \<Rightarrow> PStr (redact_text ru s)
      | v \<Rightarrow> v)"
  by pat_completeness auto
termination
proof (relation "measure (\<lambda>(ru, key, value). size value)")
  show "wf (measure (\<lambda>(ru :: string \<Rightarrow> string, key :: string option, value :: pyval). size value))"
    by simp
next
  fix ru :: "string \<Rightarrow> string" and key :: "string option" and u d p k v
  assume "u = PDict d" "p \<in> set d" "(k, v) = p"
  moreover from this have "size v \<le> size_list (size_prod (\<lambda>_. 0) size) d"
    by (auto intro: size_list_estimation')
  ultimately show "((ru, Some k, v), ru, key, u) \<in> measure (\<lambda>(ru, key, value). size value)"
    by simp
next
  fix ru :: "string \<Rightarrow> string" and key :: "string option" and u xs v
  assume "u = PList xs" "v \<in> set xs"
  moreover from this have "size v \<le> size_list size xs"
    by (auto intro: size_list_estimation')
  ultimately show "((ru, None, v), ru, key, u) \<in> measure (\<lambda>(ru, key, value). size value)"
    by simp
qed

declare redact_value.simps [simp del]

lemma redact_value_sensitive [simp]: "is_sensitive_key k \<Longrightarrow> redact_value ru (Some k) v = PStr REDACTED"
  by (simp add: redact_value.simps)

lemma redact_value_under [simp]: "\<not> is_sensitive_key k \<Longrightarrow> redact_value ru (Some k) v = redact_value ru None v"
  by (subst (1 2) redact_value.simps) simp

lemma redact_value_simps [simp]:
  "redact_value ru None PNone = PNone"
  "redact_value ru None (PBool b) = PBool b"
  "redact_value ru None (PInt i) = PInt i"
  "redact_value ru None (PFloat q) = PFloat q"
  "redact_value ru None (PStr s) = PStr (redact_text ru s)"
  "redact_value ru None (PList xs) = PList (map (redact_value ru None) xs)"
  "redact_value ru None (PDict d) = PDict (map (\<lambda>(k, v). (k, redact_value ru (Some k) v)) d)"
  by (subst redact_value.simps, simp)+

text \<open>redact_value of a dictionary is a dictionary; the shape callers rely on.\<close>

definition redact_dict :: "(string \<Rightarrow> string) \<Rightarrow> (string, pyval) dict \<Rightarrow> (string, pyval) dict" where
  "redact_dict ru d = map (\<lambda>(k, v). (k, redact_value ru (Some k) v)) d"

lemma redact_value_PDict: "redact_value ru None (PDict d) = PDict (redact_dict ru d)"
  by (simp add: redact_dict_def)

lemma dict_get_redact: "dict_get (redact_dict ru d) k = map_option (redact_value ru (Some k)) (dict_get d k)"
  by (induction d) (auto simp: redact_dict_def)

lemma dict_keys_redact [simp]: "dict_keys (redact_dict ru d) = dict_keys d"
  by (induction d) (auto simp: redact_dict_def)

section \<open>What redaction guarantees\<close>

text \<open>
  secret_free v: at any depth of v, a dictionary key that is_sensitive_key accepts holds
  the placeholder and nothing else.
\<close>

fun secret_free :: "pyval \<Rightarrow> bool" where
  "secret_free (PDict d) =
     (\<forall>(k, v) \<in> set d. secret_free v \<and> (is_sensitive_key k \<longrightarrow> v = PStr REDACTED))"
| "secret_free (PList xs) = (\<forall>v \<in> set xs. secret_free v)"
| "secret_free _ = True"

lemma secret_free_redact_value: "secret_free (redact_value ru key v)"
proof (induction ru key v rule: redact_value.induct)
  case (1 ru key v)
  show ?case
  proof (cases "case key of None \<Rightarrow> False | Some k \<Rightarrow> is_sensitive_key k")
    case True
    then show ?thesis by (subst redact_value.simps) simp
  next
    case False
    show ?thesis
    proof (cases v)
      case (PDict d)
      have "secret_free (redact_value ru (Some k) w)" if "(k, w) \<in> set d" for k w
        using "1.IH"(2) [OF False PDict that refl] by simp
      with False PDict show ?thesis
        by (subst redact_value.simps) (auto split: if_splits)
    next
      case (PList xs)
      with False "1.IH"(1) [OF False PList] show ?thesis
        by (subst redact_value.simps) auto
    qed (use False in \<open>subst redact_value.simps, simp\<close>)+
  qed
qed

end
