(* ===== verification/Run_Models.thy ===== *)
theory Run_Models
  imports Redaction
begin

text \<open>
  The data of the platform: the enumerations of schemas/enums.py with their wire values,
  the records of runs/models.py, and the state of a run repository. The state starts with
  the environment the code reads from: the clock, the uuid generator, the tracing context,
  and the logging back ends whose results are recorded.
\<close>

section \<open>Enumerations (schemas/enums.py)\<close>

datatype RunStatus =
    RunPending | RunQueued | RunRunning | RunWaitingForApproval | RunCompleted | RunFailed

datatype WorkflowJobStatus =
    JobQueued | JobRunning | JobWaitingForApproval | JobCompleted | JobFailed | JobDeadLetter
  | JobDismissed

datatype GraphNodeStatus =
    NodePending | NodeRunning | NodeWaitingForApproval | NodeCompleted | NodeFailed | NodeSkipped

datatype ArtifactType =
    DATASET | SCHEMA_PROFILE | QUALITY_REPORT | KPI_TABLE | CHART | DASHBOARD | REPORT | CODE
  | EVALUATION | DEPLOYMENT

datatype AgentEventType =
    EvAudit | EvToolCall | EvLog | EvEvaluation | EvApprovalRequest | EvApprovalDecision | EvError

fun run_status_value :: "RunStatus \<Rightarrow> string" where
  "run_status_value RunPending = ''pending''"
| "run_status_value RunQueued = ''queued''"
| "run_status_value RunRunning = ''running''"
| "run_status_value RunWaitingForApproval = ''waiting_for_approval''"
| "run_status_value RunCompleted = ''completed''"
| "run_status_value RunFailed = ''failed''"

fun job_status_value :: "WorkflowJobStatus \<Rightarrow> string" where
  "job_status_value JobQueued = ''queued''"
| "job_status_value JobRunning = ''running''"
| "job_status_value JobWaitingForApproval = ''waiting_for_approval''"
| "job_status_value JobCompleted = ''completed''"
| "job_status_value JobFailed = ''failed''"
| "job_status_value JobDeadLetter = ''dead_letter''"
| "job_status_value JobDismissed = ''dismissed''"

fun node_status_value :: "GraphNodeStatus \<Rightarrow> string" where
  "node_status_value NodePending = ''pending''"
| "node_status_value NodeRunning = ''running''"
| "node_status_value NodeWaitingForApproval = ''waiting_for_approval''"
| "node_status_value NodeCompleted = ''completed''"
| "node_status_value NodeFailed = ''failed''"
| "node_status_value NodeSkipped = ''skipped''"

fun artifact_type_value :: "ArtifactType \<Rightarrow> string" where
  "artifact_type_value DATASET = ''dataset''"
| "artifact_type_value SCHEMA_PROFILE = ''schema_profile''"
| "artifact_type_value QUALITY_REPORT = ''quality_report''"
| "artifact_type_value KPI_TABLE = ''kpi_table''"
| "artifact_type_value CHART = ''chart''"
| "artifact_type_value DASHBOARD = ''dashboard''"
| "artifact_type_value REPORT = ''report''"
| "artifact_type_value CODE = ''code''"
| "artifact_type_value EVALUATION = ''evaluation''"
| "artifact_type_value DEPLOYMENT = ''deployment''"

fun event_type_value :: "AgentEventType \<Rightarrow> string" where
  "event_type_value EvAudit = ''audit''"
| "event_type_value EvToolCall = ''tool_call''"
| "event_type_value EvLog = ''log''"
| "event_type_value EvEvaluation = ''evaluation''"
| "event_type_value EvApprovalRequest = ''approval_request''"
| "event_type_value EvApprovalDecision = ''approval_decision''"
| "event_type_value EvError = ''error''"

definition all_artifact_types :: "ArtifactType list" where
  "all_artifact_types =
     [DATASET, SCHEMA_PROFILE, QUALITY_REPORT, KPI_TABLE, CHART, DASHBOARD, REPORT, CODE,
      EVALUATION, DEPLOYMENT]"

lemma set_all_artifact_types [simp]: "set all_artifact_types = UNIV"
  by (auto simp: all_artifact_types_def) (metis ArtifactType.exhaust)

section \<open>Records (runs/models.py)\<close>

record RunRecord =
  r_id :: string
  r_task :: string
  r_status :: RunStatus
  r_metadata :: "(string, pyval) dict"
  r_created_at :: int
  r_updated_at :: int
  r_dataset_artifact_id :: "string option"
  r_trace_id :: "string option"
  r_error_summary :: "string option"

record WorkflowJobRecord =
  j_id :: string
  j_run_id :: string
  j_workflow_name :: string
  j_status :: WorkflowJobStatus
  j_payload :: "(string, pyval) dict"
  j_attempt_count :: int
  j_max_attempts :: int
  j_created_at :: int
  j_updated_at :: int
  j_worker_id :: "string option"
  j_error_summary :: "string option"
  j_started_at :: "int option"
  j_finished_at :: "int option"
  j_heartbeat_at :: "int option"

record GraphNodeRecord =
  n_id :: string
  n_run_id :: string
  n_agent_type :: string
  n_status :: GraphNodeStatus
  n_depends_on :: "string list"
  n_required_tools :: "string list"
  n_expected_artifacts :: "string list"
  n_retry_count :: int
  n_created_at :: int
  n_updated_at :: int
  n_started_at :: "int option"
  n_finished_at :: "int option"

record ArtifactRecord =
  a_id :: string
  a_run_id :: string
  a_type :: ArtifactType
  a_uri :: string
  a_metadata :: "(string, pyval) dict"
  a_source_artifact_ids :: "string list"
  a_created_at :: int
  a_producer_node_id :: "string option"
  a_content_type :: "string option"
  a_storage_backend :: "string option"
  a_storage_key :: "string option"
  a_size_bytes :: "int option"

record AgentEventRecord =
  e_id :: string
  e_run_id :: string
  e_node_id :: string
  e_event_type :: string
  e_payload :: "(string, pyval) dict"
  e_created_at :: int

record EvaluationResultRecord =
  v_id :: string
  v_run_id :: string
  v_score :: rat
  v_passed :: bool
  v_checks :: "pyval list"
  v_created_at :: "int option"
  v_target_artifact_id :: "string option"

record RunCheckpointRecord =
  c_run_id :: string
  c_state :: pyval
  c_version :: int
  c_created_at :: int
  c_updated_at :: int

section \<open>The environment and the repository state\<close>

text \<open>
  clock and uuids give the successive readings of datetime.now and uuid4; ticks and
  uuid_ix count how many were taken. active_trace is the tracing context of the caller
  (current_trace_id). mlflow_log and langsmith_log are the status and message with which
  the external logging of an evaluation answers. repr_of is Python's repr of a container.
\<close>

record env =
  clock :: "nat \<Rightarrow> int"
  ticks :: nat
  uuids :: "nat \<Rightarrow> string"
  uuid_ix :: nat
  uri_redactor :: "string \<Rightarrow> string"
  repr_of :: "pyval \<Rightarrow> string"
  active_trace :: "string option"
  mlflow_log :: "RunRecord \<Rightarrow> EvaluationResultRecord \<Rightarrow> string \<times> string option"
  langsmith_log :: "RunRecord \<Rightarrow> EvaluationResultRecord \<Rightarrow> string \<times> string option"

record repo = env +
  runs :: "(string, RunRecord) dict"
  artifacts :: "(string, ArtifactRecord list) dict"
  graph_nodes :: "(string, GraphNodeRecord list) dict"
  events :: "(string, AgentEventRecord list) dict"
  evaluations :: "(string, EvaluationResultRecord list) dict"
  checkpoints :: "(string, RunCheckpointRecord) dict"
  workflow_jobs :: "(string, WorkflowJobRecord) dict"
  workflow_job_order :: "string list"

text \<open>utc_now: one reading of the clock. uuid4_hex: one fresh identifier.\<close>

definition utc_now :: "('z env_scheme, int) py" where
  "utc_now = (\<lambda>s. (Inr (clock s (ticks s)), s\<lparr>ticks := Suc (ticks s)\<rparr>))"

definition uuid4_hex :: "('z env_scheme, string) py" where
  "uuid4_hex = (\<lambda>s. (Inr (uuids s (uuid_ix s)), s\<lparr>uuid_ix := Suc (uuid_ix s)\<rparr>))"

definition ensure_trace_id :: "string option \<Rightarrow> ('z env_scheme, string) py" where
  "ensure_trace_id trace_id =
     (let normalized = strip (case trace_id of None \<Rightarrow> [] | Some t \<Rightarrow> t) in
      if normalized \<noteq> [] then ret normalized
      else bnd (asks active_trace) (\<lambda>t.
        case t of Some x \<Rightarrow> (if x \<noteq> [] then ret x else uuid4_hex) | None \<Rightarrow> uuid4_hex))"

lemma utc_now_run [py_simps]:
  "utc_now s = (Inr (clock s (ticks s)), s\<lparr>ticks := Suc (ticks s)\<rparr>)"
  by (simp add: utc_now_def)

lemma uuid4_hex_run [py_simps]:
  "uuid4_hex s = (Inr (uuids s (uuid_ix s)), s\<lparr>uuid_ix := Suc (uuid_ix s)\<rparr>)"
  by (simp add: uuid4_hex_def)

text \<open>A repository with nothing in it, over a given environment.\<close>

definition empty_repo :: "env \<Rightarrow> repo" where
  "empty_repo e = env.extend e
     \<lparr>runs = [], artifacts = [], graph_nodes = [], events = [], evaluations = [],
      checkpoints = [], workflow_jobs = [], workflow_job_order = []\<rparr>"

text \<open>
  The part of the state the environment owns. Programs advance the counters and change
  nothing else of it, which same_env says of two states.
\<close>

definition same_env :: "'z env_scheme \<Rightarrow> 'y env_scheme \<Rightarrow> bool" where
  "same_env s t \<longleftrightarrow>
     clock t = clock s \<and> uuids t = uuids s \<and> uri_redactor t = uri_redactor s
     \<and> repr_of t = repr_of s \<and> active_trace t = active_trace s \<and> mlflow_log t = mlflow_log s
     \<and> langsmith_log t = langsmith_log s \<and> ticks s \<le> ticks t \<and> uuid_ix s \<le> uuid_ix t"

lemma same_env_refl [simp]: "same_env s s"
  by (simp add: same_env_def)

lemma same_env_trans: "same_env s t \<Longrightarrow> same_env t u \<Longrightarrow> same_env s u"
  by (auto simp: same_env_def)

end
