(* ===== verification/Run_Repository.thy ===== *)
theory Run_Repository
  imports Run_Models
begin

text \<open>
  runs/repository.py: the operations of InMemoryRunRepository, in the order of the file.
  Every public operation holds the repository's lock for its whole body, so it is one
  atomic program over the state, and concurrent callers are sequences of such programs.
  deepcopy has no counterpart: values are immutable here. start_span and the LangSmith
  event log have no effect on the state and no result the code reads.
\<close>

section \<open>Helpers\<close>

definition optional_string :: "(pyval \<Rightarrow> string) \<Rightarrow> pyval \<Rightarrow> string option" where
  "optional_string rp v =
     (if v = PNone then None
      else (let normalized = strip (py_str rp v) in if normalized = [] then None else Some normalized))"

definition optional_int :: "pyval \<Rightarrow> int option" where
  "optional_int v =
     (if v = PNone \<or> v = PStr [] then None
      else (case to_int v of Inl e \<Rightarrow> None | Inr i \<Rightarrow> Some i))"

record storage_metadata =
  sm_content_type :: "string option"
  sm_storage_backend :: "string option"
  sm_storage_key :: "string option"
  sm_size_bytes :: "int option"

definition artifact_storage_metadata ::
    "(string \<Rightarrow> string) \<Rightarrow> (pyval \<Rightarrow> string) \<Rightarrow> (string, pyval) dict \<Rightarrow> string option \<Rightarrow> string option \<Rightarrow>
     string option \<Rightarrow> int option \<Rightarrow> storage_metadata" where
  "artifact_storage_metadata ru rp metadata content_type storage_backend storage_key size_bytes =
     (let resolved_storage_key = str_or storage_key (optional_string rp (pget metadata ''storage_key'')) in
      \<lparr>sm_content_type = str_or content_type (optional_string rp (pget metadata ''content_type'')),
       sm_storage_backend =
         str_or storage_backend (optional_string rp (pget metadata ''storage_backend'')),
       sm_storage_key =
         (case resolved_storage_key of
            None \<Rightarrow> None | Some k \<Rightarrow> if k = [] then None else Some (ru k)),
       sm_size_bytes =
         (case size_bytes of Some n \<Rightarrow> Some n | None \<Rightarrow> optional_int (pget metadata ''size_bytes''))\<rparr>)"

text \<open>
  list(payload.get(name, [])) of a payload value: a list is taken as it is, a string gives
  its characters, a dictionary its keys, anything else raises TypeError.
\<close>

fun py_list :: "pyval \<Rightarrow> pyval list result" where
  "py_list (PList xs) = Inr xs"
| "py_list (PStr s) = Inr (map (\<lambda>c. PStr [c]) s)"
| "py_list (PDict d) = Inr (map (\<lambda>(k, v). PStr k) d)"
| "py_list _ = Inl (TypeError ''object is not iterable'')"

definition append_workflow_failure ::
    "(string \<Rightarrow> string) \<Rightarrow> (string, pyval) dict \<Rightarrow> int \<Rightarrow> WorkflowJobStatus \<Rightarrow> string \<Rightarrow> int \<Rightarrow>
     string option \<Rightarrow> string \<Rightarrow> (string, pyval) dict result" where
  "append_workflow_failure ru payload attempt_count status error_summary recorded_at worker_id reason =
     (case py_list (case dict_get payload ''failure_history'' of None \<Rightarrow> PList [] | Some v \<Rightarrow> v) of
        Inl e \<Rightarrow> Inl e
      | Inr history0 \<Rightarrow>
          (let entry = PDict
                 [(''attempt_count'', PInt attempt_count),
                  (''status'', PStr (job_status_value status)),
                  (''error_summary'', PStr (redact_text ru error_summary)),
                  (''recorded_at'', PStr (isoformat recorded_at)),
                  (''worker_id'', opt_str worker_id),
                  (''reason'', PStr reason)]
           in Inr (dict_set ''last_failure'' entry
                    (dict_set ''failure_history'' (PList (history0 @ [entry])) payload))))"

definition ensure_job_owned_by_worker :: "WorkflowJobRecord \<Rightarrow> string \<Rightarrow> ('s, unit) py" where
  "ensure_job_owned_by_worker job worker_id =
     seq (guard (j_status job = JobRunning)
            (WorkflowJobStateError (''Workflow job '' @ j_id job @ '' is '' @ job_status_value (j_status job) @ '', not running.'')))
         (guard (j_worker_id job = Some worker_id)
            (WorkflowJobOwnershipError
               (''Workflow job '' @ j_id job @ '' is owned by ''
                @ (case j_worker_id job of None \<Rightarrow> ''None'' | Some w \<Rightarrow> w) @ '', not '' @ worker_id @ ''.'')))"

text \<open>Writing one entry of a dictionary of the state.\<close>

definition put_run :: "string \<Rightarrow> RunRecord \<Rightarrow> ('z repo_scheme, unit) py" where
  "put_run run_id run = modify (\<lambda>s. s\<lparr>runs := dict_set run_id run (runs s)\<rparr>)"

definition put_job :: "string \<Rightarrow> WorkflowJobRecord \<Rightarrow> ('z repo_scheme, unit) py" where
  "put_job job_id job = modify (\<lambda>s. s\<lparr>workflow_jobs := dict_set job_id job (workflow_jobs s)\<rparr>)"

text \<open>self._xs[key] of a dictionary in the state: KeyError when the key is missing.\<close>

definition index :: "('s \<Rightarrow> (string, 'v) dict) \<Rightarrow> string \<Rightarrow> ('s, 'v) py" where
  "index f k = bnd (asks f) (\<lambda>d. case dict_get d k of None \<Rightarrow> raise (KeyError k) | Some v \<Rightarrow> ret v)"

section \<open>Runs\<close>

definition create_run ::
    "string \<Rightarrow> (string, pyval) dict \<Rightarrow> string option \<Rightarrow> ('z repo_scheme, RunRecord) py" where
  "create_run task metadata trace_id =
     (let normalized_task = strip task in
      seq (guard (3 \<le> length normalized_task)
             (ValueError ''Task must contain at least 3 non-whitespace characters.''))
      (bnd utc_now (\<lambda>now.
       bnd uuid4_hex (\<lambda>u.
       bnd (asks uri_redactor) (\<lambda>ru.
       bnd (ensure_trace_id trace_id) (\<lambda>trace.
         let run = \<lparr>r_id = ''run_'' @ u, r_task = normalized_task, r_status = RunPending,
                    r_metadata = redact_dict ru metadata, r_created_at = now, r_updated_at = now,
                    r_dataset_artifact_id = None, r_trace_id = Some trace, r_error_summary = None\<rparr>
         in seq (modify (\<lambda>s. s\<lparr>runs := dict_set (r_id run) run (runs s),
                               artifacts := dict_set (r_id run) [] (artifacts s),
                               graph_nodes := dict_set (r_id run) [] (graph_nodes s),
                               events := dict_set (r_id run) [] (events s),
                               evaluations := dict_set (r_id run) [] (evaluations s)\<rparr>))
              (ret run)))))))"

definition list_runs :: "('z repo_scheme, RunRecord list) py" where
  "list_runs = asks (\<lambda>s. sort_key r_created_at (map snd (runs s)))"

definition get_run :: "string \<Rightarrow> ('z repo_scheme, RunRecord) py" where
  "get_run run_id =
     bnd (asks runs) (\<lambda>rs. case dict_get rs run_id of
       None \<Rightarrow> raise (RunNotFoundError (''Run not found: '' @ run_id)) | Some run \<Rightarrow> ret run)"

text \<open>
  The job part of restore_run: the run's jobs leave the order and the dictionary, the
  restored ones are written and appended. Indexing self._workflow_jobs by an id of the
  order raises KeyError when the two disagree.
\<close>

definition restore_jobs :: "string \<Rightarrow> WorkflowJobRecord list \<Rightarrow> ('z repo_scheme, unit) py" where
  "restore_jobs run_id jobs =
     bnd (asks workflow_job_order) (\<lambda>order.
     bnd (map_each order (\<lambda>job_id. bnd (index workflow_jobs job_id) (\<lambda>job. ret (job_id, job)))) (\<lambda>pairs.
     seq (modify (\<lambda>s. s\<lparr>workflow_job_order := map fst (filter (\<lambda>(i, job). j_run_id job \<noteq> run_id) pairs)\<rparr>))
     (seq (modify (\<lambda>s. s\<lparr>workflow_jobs := filter (\<lambda>(i, job). j_run_id job \<noteq> run_id) (workflow_jobs s)\<rparr>))
          (for_each jobs (\<lambda>job.
             modify (\<lambda>s. s\<lparr>workflow_jobs := dict_set (j_id job) job (workflow_jobs s),
                           workflow_job_order := workflow_job_order s @ [j_id job]\<rparr>))))))"

definition restore_run ::
    "RunRecord \<Rightarrow> ArtifactRecord list \<Rightarrow> GraphNodeRecord list \<Rightarrow> AgentEventRecord list \<Rightarrow>
     EvaluationResultRecord list \<Rightarrow> WorkflowJobRecord list \<Rightarrow> RunCheckpointRecord option \<Rightarrow>
     ('z repo_scheme, RunRecord) py" where
  "restore_run run arts nodes evs evals jobs checkpoint =
     seq (modify (\<lambda>s. s\<lparr>runs := dict_set (r_id run) run (runs s),
                       artifacts := dict_set (r_id run) arts (artifacts s),
                       graph_nodes := dict_set (r_id run) nodes (graph_nodes s),
                       events := dict_set (r_id run) evs (events s),
                       evaluations := dict_set (r_id run) evals (evaluations s)\<rparr>))
     (seq (restore_jobs (r_id run) jobs)
     (seq (modify (\<lambda>s. s\<lparr>checkpoints :=
             (case checkpoint of None \<Rightarrow> dict_pop (r_id run) (checkpoints s)
              | Some c \<Rightarrow> dict_set (r_id run) c (checkpoints s))\<rparr>))
          (index runs (r_id run))))"

definition update_status ::
    "string \<Rightarrow> RunStatus \<Rightarrow> string option \<Rightarrow> ('z repo_scheme, RunRecord) py" where
  "update_status run_id status error_summary =
     bnd (get_run run_id) (\<lambda>run.
     bnd (asks uri_redactor) (\<lambda>ru.
     bnd utc_now (\<lambda>now.
       let updated = run\<lparr>r_status := status, r_error_summary := redact_opt ru error_summary,
                         r_updated_at := now\<rparr>
       in seq (put_run run_id updated) (ret updated))))"

section \<open>Workflow jobs\<close>

definition enqueue_workflow_job ::
    "string \<Rightarrow> string \<Rightarrow> (string, pyval) dict \<Rightarrow> int \<Rightarrow> string option \<Rightarrow> WorkflowJobStatus \<Rightarrow>
     ('z repo_scheme, WorkflowJobRecord) py" where
  "enqueue_workflow_job run_id workflow_name payload max_attempts job_id status =
     (let normalized_workflow = strip workflow_name in
      seq (guard (normalized_workflow \<noteq> []) (ValueError ''Workflow name is required.''))
      (seq (guard (1 \<le> max_attempts) (ValueError ''Workflow job max_attempts must be at least 1.''))
      (seq (guard (status \<noteq> JobRunning) (ValueError ''Workflow jobs cannot be enqueued directly as running.''))
      (bnd (get_run run_id) (\<lambda>_.
       bnd utc_now (\<lambda>now.
       bnd (case job_id of
              Some i \<Rightarrow> (if i \<noteq> [] then ret i else bnd uuid4_hex (\<lambda>u. ret (''job_'' @ u)))
            | None \<Rightarrow> bnd uuid4_hex (\<lambda>u. ret (''job_'' @ u))) (\<lambda>new_id.
       bnd (asks uri_redactor) (\<lambda>ru.
         let job = \<lparr>j_id = new_id, j_run_id = run_id, j_workflow_name = normalized_workflow,
                    j_status = status, j_payload = redact_dict ru payload, j_attempt_count = 0,
                    j_max_attempts = max_attempts, j_created_at = now, j_updated_at = now,
                    j_worker_id = None, j_error_summary = None, j_started_at = None,
                    j_finished_at = None, j_heartbeat_at = None\<rparr>
         in seq (put_job (j_id job) job)
            (seq (modify (\<lambda>s. s\<lparr>workflow_job_order := workflow_job_order s @ [j_id job]\<rparr>))
                 (ret job))))))))))"

definition get_workflow_job_for_update :: "string \<Rightarrow> ('z repo_scheme, WorkflowJobRecord) py" where
  "get_workflow_job_for_update job_id =
     bnd (asks workflow_jobs) (\<lambda>js. case dict_get js job_id of
       None \<Rightarrow> raise (WorkflowJobNotFoundError (''Workflow job not found: '' @ job_id))
     | Some job \<Rightarrow> ret job)"

definition update_workflow_job_result ::
    "string \<Rightarrow> WorkflowJobStatus \<Rightarrow> (string, pyval) dict option \<Rightarrow> string option \<Rightarrow>
     ('z repo_scheme, WorkflowJobRecord) py" where
  "update_workflow_job_result job_id status payload error_summary =
     seq (guard (status \<in> {JobCompleted, JobFailed})
            (ValueError ''Workflow job result status must be completed or failed.''))
     (bnd (get_workflow_job_for_update job_id) (\<lambda>job.
      bnd utc_now (\<lambda>now.
      bnd (asks uri_redactor) (\<lambda>ru.
        let updated = job\<lparr>j_status := status,
              j_payload := (case payload of Some p \<Rightarrow> redact_dict ru p | None \<Rightarrow> j_payload job),
              j_error_summary := redact_opt ru error_summary,
              j_updated_at := now, j_finished_at := Some now\<rparr>
        in seq (put_job job_id updated) (ret updated)))))"

definition list_workflow_jobs ::
    "string option \<Rightarrow> WorkflowJobStatus option \<Rightarrow> ('z repo_scheme, WorkflowJobRecord list) py" where
  "list_workflow_jobs run_id status =
     seq (case run_id of None \<Rightarrow> ret () | Some r \<Rightarrow> bnd (get_run r) (\<lambda>_. ret ()))
     (bnd (asks workflow_job_order) (\<lambda>order.
      bnd (map_each order (\<lambda>job_id. index workflow_jobs job_id)) (\<lambda>jobs.
        ret (filter (\<lambda>job. (case run_id of None \<Rightarrow> True | Some r \<Rightarrow> j_run_id job = r)
                           \<and> (case status of None \<Rightarrow> True | Some st \<Rightarrow> j_status job = st)) jobs))))"

definition get_workflow_job :: "string \<Rightarrow> ('z repo_scheme, WorkflowJobRecord) py" where
  "get_workflow_job job_id =
     bnd (asks workflow_jobs) (\<lambda>js. case dict_get js job_id of
       None \<Rightarrow> raise (WorkflowJobNotFoundError (''Workflow job not found: '' @ job_id))
     | Some job \<Rightarrow> ret job)"

text \<open>workflow_name.strip() if workflow_name else None\<close>

definition normalize_workflow :: "string option \<Rightarrow> string option" where
  "normalize_workflow w =
     (case w of None \<Rightarrow> None | Some n \<Rightarrow> if n = [] then None else Some (strip n))"

definition name_matches :: "string option \<Rightarrow> WorkflowJobRecord \<Rightarrow> bool" where
  "name_matches w job = (case w of None \<Rightarrow> True | Some n \<Rightarrow> j_workflow_name job = n)"

text \<open>The record a claim leaves: running, owned by the worker, one more attempt counted.\<close>

definition claimed :: "string \<Rightarrow> int \<Rightarrow> WorkflowJobRecord \<Rightarrow> WorkflowJobRecord" where
  "claimed worker_id now job =
     job\<lparr>j_status := JobRunning, j_worker_id := Some worker_id,
         j_attempt_count := j_attempt_count job + 1,
         j_started_at := (case j_started_at job of None \<Rightarrow> Some now | Some t \<Rightarrow> Some t),
         j_heartbeat_at := Some now, j_updated_at := now\<rparr>"

text \<open>One iteration of the loop of recover_timed_out_workflow_jobs; None for continue.\<close>

definition recover_one ::
    "int \<Rightarrow> string option \<Rightarrow> int \<Rightarrow> int \<Rightarrow> string \<Rightarrow> ('z repo_scheme, WorkflowJobRecord option) py" where
  "recover_one timeout_seconds normalized_workflow reference_time cutoff job_id =
     bnd (index workflow_jobs job_id) (\<lambda>job.
       if j_status job \<noteq> JobRunning then ret None
       else if \<not> name_matches normalized_workflow job then ret None
       else if cutoff < (case j_heartbeat_at job of None \<Rightarrow> j_updated_at job | Some h \<Rightarrow> h) then ret None
       else bnd (asks uri_redactor) (\<lambda>ru.
         let error_summary = ''Workflow job heartbeat timed out after '' @ int_str timeout_seconds @ '' seconds.'';
             should_retry = j_attempt_count job < j_max_attempts job;
             next_status = (if should_retry then JobQueued else JobDeadLetter)
         in bnd (lift_result (append_workflow_failure ru (j_payload job) (j_attempt_count job)
                   next_status (redact_text ru error_summary) reference_time (j_worker_id job)
                   ''heartbeat_timeout'')) (\<lambda>payload.
            let recovered_job = job\<lparr>j_status := next_status, j_payload := payload,
                  j_worker_id := (if should_retry then None else j_worker_id job),
                  j_error_summary := Some error_summary,
                  j_heartbeat_at := (if should_retry then None else j_heartbeat_at job),
                  j_finished_at := (if should_retry then None else Some reference_time),
                  j_updated_at := reference_time\<rparr>
            in seq (put_job job_id recovered_job)
               (seq (if j_status recovered_job = JobDeadLetter then
                       bnd (get_run (j_run_id job)) (\<lambda>run.
                         put_run (j_run_id job)
                           (run\<lparr>r_status := RunFailed,
                                r_error_summary := Some (redact_text ru error_summary),
                                r_updated_at := reference_time\<rparr>))
                     else ret ())
                    (ret (Some recovered_job))))))"

definition recover_timed_out_workflow_jobs ::
    "int \<Rightarrow> string option \<Rightarrow> int option \<Rightarrow> ('z repo_scheme, WorkflowJobRecord list) py" where
  "recover_timed_out_workflow_jobs timeout_seconds workflow_name now =
     seq (guard (1 \<le> timeout_seconds) (ValueError ''Workflow job timeout must be at least 1 second.''))
     (bnd (case now of Some t \<Rightarrow> ret t | None \<Rightarrow> utc_now) (\<lambda>reference_time.
      bnd (asks workflow_job_order) (\<lambda>order.
      bnd (map_each order
             (recover_one timeout_seconds (normalize_workflow workflow_name) reference_time
                (reference_time - timeout_seconds * 1000000))) (\<lambda>found.
        ret (List.map_filter (\<lambda>x. x) found)))))"

text \<open>The loop of claim_next_workflow_job: the first queued job whose name matches.\<close>

fun claim_scan :: "string \<Rightarrow> string option \<Rightarrow> string list \<Rightarrow> ('z repo_scheme, WorkflowJobRecord option) py" where
  "claim_scan worker_id w [] = ret None"
| "claim_scan worker_id w (job_id # rest) =
     bnd (index workflow_jobs job_id) (\<lambda>job.
       if j_status job \<noteq> JobQueued then claim_scan worker_id w rest
       else if \<not> name_matches w job then claim_scan worker_id w rest
       else bnd utc_now (\<lambda>now.
         seq (put_job job_id (claimed worker_id now job)) (ret (Some (claimed worker_id now job)))))"

definition claim_next_workflow_job ::
    "string \<Rightarrow> string option \<Rightarrow> int option \<Rightarrow> ('z repo_scheme, WorkflowJobRecord option) py" where
  "claim_next_workflow_job worker_id workflow_name stale_after_seconds =
     (let normalized_workflow = normalize_workflow workflow_name in
      seq (case stale_after_seconds of None \<Rightarrow> ret ()
           | Some t \<Rightarrow> bnd (recover_timed_out_workflow_jobs t normalized_workflow None) (\<lambda>_. ret ()))
      (bnd (asks workflow_job_order) (\<lambda>order. claim_scan worker_id normalized_workflow order)))"

definition claim_workflow_job ::
    "string \<Rightarrow> string \<Rightarrow> int option \<Rightarrow> ('z repo_scheme, WorkflowJobRecord option) py" where
  "claim_workflow_job job_id worker_id stale_after_seconds =
     seq (case stale_after_seconds of None \<Rightarrow> ret ()
          | Some t \<Rightarrow> bnd (recover_timed_out_workflow_jobs t None None) (\<lambda>_. ret ()))
     (bnd (get_workflow_job_for_update job_id) (\<lambda>job.
       if j_status job \<noteq> JobQueued then ret None
       else bnd utc_now (\<lambda>now.
         seq (put_job job_id (claimed worker_id now job)) (ret (Some (claimed worker_id now job))))))"

definition heartbeat_workflow_job :: "string \<Rightarrow> string \<Rightarrow> ('z repo_scheme, WorkflowJobRecord) py" where
  "heartbeat_workflow_job job_id worker_id =
     bnd (get_workflow_job_for_update job_id) (\<lambda>job.
     seq (ensure_job_owned_by_worker job worker_id)
     (bnd utc_now (\<lambda>now.
       let updated = job\<lparr>j_heartbeat_at := Some now, j_updated_at := now\<rparr>
       in seq (put_job job_id updated) (ret updated))))"

definition complete_workflow_job :: "string \<Rightarrow> string option \<Rightarrow> ('z repo_scheme, WorkflowJobRecord) py" where
  "complete_workflow_job job_id worker_id =
     bnd (get_workflow_job_for_update job_id) (\<lambda>job.
       if j_status job = JobCompleted then ret job
       else seq (case worker_id of None \<Rightarrow> ret () | Some w \<Rightarrow> ensure_job_owned_by_worker job w)
         (bnd utc_now (\<lambda>now.
           let completed = job\<lparr>j_status := JobCompleted, j_updated_at := now, j_finished_at := Some now\<rparr>
           in seq (put_job job_id completed) (ret completed))))"

definition fail_workflow_job ::
    "string \<Rightarrow> string \<Rightarrow> bool \<Rightarrow> string option \<Rightarrow> ('z repo_scheme, WorkflowJobRecord) py" where
  "fail_workflow_job job_id error_summary retry worker_id =
     bnd (get_workflow_job_for_update job_id) (\<lambda>job.
     seq (case worker_id of None \<Rightarrow> ret () | Some w \<Rightarrow> ensure_job_owned_by_worker job w)
     (bnd utc_now (\<lambda>now.
      bnd (asks uri_redactor) (\<lambda>ru.
       let should_retry = (retry \<and> j_attempt_count job < j_max_attempts job);
           next_status = (if should_retry then JobQueued else JobDeadLetter)
       in bnd (lift_result (append_workflow_failure ru (j_payload job) (j_attempt_count job)
                 next_status (redact_text ru error_summary) now
                 (str_or worker_id (j_worker_id job)) ''worker_failure'')) (\<lambda>payload.
          let failed = job\<lparr>j_status := next_status, j_payload := payload,
                j_worker_id := (if should_retry then None else j_worker_id job),
                j_error_summary := Some error_summary,
                j_heartbeat_at := (if should_retry then None else j_heartbeat_at job),
                j_finished_at := (if should_retry then None else Some now), j_updated_at := now\<rparr>
          in seq (put_job job_id failed)
             (seq (if j_status failed = JobDeadLetter then
                     bnd (get_run (j_run_id job)) (\<lambda>run.
                       put_run (j_run_id job)
                         (run\<lparr>r_status := RunFailed,
                              r_error_summary := Some (redact_text ru error_summary),
                              r_updated_at := now\<rparr>))
                   else ret ())
                  (ret failed)))))))"

definition retry_dead_letter_workflow_job ::
    "string \<Rightarrow> string option \<Rightarrow> ('z repo_scheme, WorkflowJobRecord) py" where
  "retry_dead_letter_workflow_job job_id reason =
     bnd (get_workflow_job_for_update job_id) (\<lambda>job.
     seq (guard (j_status job = JobDeadLetter)
            (WorkflowJobStateError (''Workflow job must be dead_letter before manual retry: '' @ job_id)))
     (bnd utc_now (\<lambda>now.
      bnd (asks uri_redactor) (\<lambda>ru.
      bnd (lift_result (to_int (case dict_get (j_payload job) ''manual_retry_count'' of
                                  None \<Rightarrow> PInt 0 | Some v \<Rightarrow> v))) (\<lambda>count.
       let payload1 = dict_update (j_payload job)
             [(''manual_retry_count'', PInt (count + 1)), (''last_manual_retry_at'', PStr (isoformat now))];
           payload = (case reason of None \<Rightarrow> payload1
             | Some r \<Rightarrow> if r = [] then payload1
                        else dict_set ''last_manual_retry_reason'' (PStr (redact_text ru r)) payload1);
           retried = job\<lparr>j_status := JobQueued, j_payload := payload,
             j_max_attempts := max (j_max_attempts job) (j_attempt_count job + 1),
             j_worker_id := None, j_error_summary := None, j_heartbeat_at := None,
             j_finished_at := None, j_updated_at := now\<rparr>
       in seq (put_job job_id retried)
          (bnd (get_run (j_run_id job)) (\<lambda>run.
           seq (put_run (j_run_id job)
                  (run\<lparr>r_status := RunPending, r_error_summary := None, r_updated_at := now\<rparr>))
               (ret retried))))))))"

definition dismiss_dead_letter_workflow_job ::
    "string \<Rightarrow> string option \<Rightarrow> ('z repo_scheme, WorkflowJobRecord) py" where
  "dismiss_dead_letter_workflow_job job_id reason =
     bnd (get_workflow_job_for_update job_id) (\<lambda>job.
     seq (guard (j_status job = JobDeadLetter)
            (WorkflowJobStateError (''Workflow job must be dead_letter before dismissal: '' @ job_id)))
     (bnd utc_now (\<lambda>now.
      bnd (asks uri_redactor) (\<lambda>ru.
       let payload1 = dict_set ''dismissed_at'' (PStr (isoformat now)) (j_payload job);
           payload = (case reason of None \<Rightarrow> payload1
             | Some r \<Rightarrow> if r = [] then payload1
                        else dict_set ''dismissal_reason'' (PStr (redact_text ru r)) payload1);
           dismissed = job\<lparr>j_status := JobDismissed, j_payload := payload, j_worker_id := None,
             j_heartbeat_at := None, j_finished_at := Some now, j_updated_at := now\<rparr>
       in seq (put_job job_id dismissed) (ret dismissed)))))"

section \<open>Artifacts\<close>

definition next_artifact_id :: "('z repo_scheme, string) py" where
  "next_artifact_id = bnd uuid4_hex (\<lambda>u. ret (''artifact_'' @ u))"

text \<open>
  The optional arguments of add_artifact after the uri: metadata or the empty dictionary,
  source_artifact_ids or the empty list, and the storage fields.
\<close>

definition add_artifact ::
    "string \<Rightarrow> ArtifactType \<Rightarrow> string \<Rightarrow> (string, pyval) dict \<Rightarrow> string list \<Rightarrow> string option \<Rightarrow>
     string option \<Rightarrow> string option \<Rightarrow> string option \<Rightarrow> string option \<Rightarrow> int option \<Rightarrow>
     ('z repo_scheme, ArtifactRecord) py" where
  "add_artifact run_id artifact_type uri metadata source_artifact_ids producer_node_id artifact_id
      content_type storage_backend storage_key size_bytes =
     bnd (get_run run_id) (\<lambda>run.
     bnd (case artifact_id of
            Some i \<Rightarrow> (if i \<noteq> [] then ret i else next_artifact_id)
          | None \<Rightarrow> next_artifact_id) (\<lambda>resolved_artifact_id.
     bnd (asks uri_redactor) (\<lambda>ru.
     bnd (asks repr_of) (\<lambda>rp.
     bnd utc_now (\<lambda>now.
       let normalized_metadata = redact_dict ru metadata;
           sm = artifact_storage_metadata ru rp normalized_metadata content_type storage_backend
                  storage_key size_bytes;
           artifact = \<lparr>a_id = resolved_artifact_id, a_run_id = run_id, a_type = artifact_type,
             a_uri = ru uri, a_metadata = normalized_metadata,
             a_source_artifact_ids = source_artifact_ids, a_created_at = now,
             a_producer_node_id = producer_node_id, a_content_type = sm_content_type sm,
             a_storage_backend = sm_storage_backend sm, a_storage_key = sm_storage_key sm,
             a_size_bytes = sm_size_bytes sm\<rparr>
       in bnd (index artifacts run_id) (\<lambda>xs.
          seq (modify (\<lambda>s. s\<lparr>artifacts := dict_set run_id (xs @ [artifact]) (artifacts s)\<rparr>))
          (seq (if artifact_type = DATASET then
                  bnd utc_now (\<lambda>now2.
                    put_run run_id (run\<lparr>r_dataset_artifact_id := Some (a_id artifact),
                                        r_updated_at := now2\<rparr>))
                else ret ())
               (ret artifact))))))))"

definition list_artifacts :: "string \<Rightarrow> ('z repo_scheme, ArtifactRecord list) py" where
  "list_artifacts run_id = bnd (get_run run_id) (\<lambda>_. index artifacts run_id)"

definition get_artifact :: "string \<Rightarrow> string \<Rightarrow> ('z repo_scheme, ArtifactRecord) py" where
  "get_artifact run_id artifact_id =
     bnd (list_artifacts run_id) (\<lambda>xs. case find (\<lambda>a. a_id a = artifact_id) xs of
       None \<Rightarrow> raise (ArtifactNotFoundError (''Artifact not found: '' @ artifact_id))
     | Some a \<Rightarrow> ret a)"

section \<open>Graph nodes\<close>

text \<open>The loop of upsert_graph_node: the first node with that id is replaced, else append.\<close>

fun upsert_node :: "GraphNodeRecord \<Rightarrow> GraphNodeRecord list \<Rightarrow> GraphNodeRecord list" where
  "upsert_node node [] = [node]"
| "upsert_node node (existing # rest) =
     (if n_id existing = n_id node then node # rest else existing # upsert_node node rest)"

definition upsert_graph_node :: "GraphNodeRecord \<Rightarrow> ('z repo_scheme, GraphNodeRecord) py" where
  "upsert_graph_node node =
     bnd (get_run (n_run_id node)) (\<lambda>_.
     bnd (index graph_nodes (n_run_id node)) (\<lambda>nodes.
     seq (modify (\<lambda>s. s\<lparr>graph_nodes := dict_set (n_run_id node) (upsert_node node nodes) (graph_nodes s)\<rparr>))
         (ret node)))"

definition add_graph_node :: "GraphNodeRecord \<Rightarrow> ('z repo_scheme, GraphNodeRecord) py" where
  "add_graph_node node = upsert_graph_node node"

definition list_graph_nodes :: "string \<Rightarrow> ('z repo_scheme, GraphNodeRecord list) py" where
  "list_graph_nodes run_id = bnd (get_run run_id) (\<lambda>_. index graph_nodes run_id)"

definition get_graph_node :: "string \<Rightarrow> string \<Rightarrow> ('z repo_scheme, GraphNodeRecord) py" where
  "get_graph_node run_id node_id =
     bnd (list_graph_nodes run_id) (\<lambda>xs. case find (\<lambda>n. n_id n = node_id) xs of
       None \<Rightarrow> raise (GraphNodeNotFoundError (''Graph node not found: '' @ node_id))
     | Some n \<Rightarrow> ret n)"

section \<open>Events, evaluations and checkpoints\<close>

definition append_event :: "string \<Rightarrow> AgentEventRecord \<Rightarrow> ('z repo_scheme, unit) py" where
  "append_event run_id event =
     bnd (index events run_id) (\<lambda>evs.
       modify (\<lambda>s. s\<lparr>events := dict_set run_id (evs @ [event]) (events s)\<rparr>))"

definition add_event :: "AgentEventRecord \<Rightarrow> ('z repo_scheme, AgentEventRecord) py" where
  "add_event event =
     bnd (get_run (e_run_id event)) (\<lambda>run.
     bnd (asks uri_redactor) (\<lambda>ru.
       let redacted_event = event\<lparr>e_payload := redact_dict ru (e_payload event)\<rparr>
       in seq (append_event (e_run_id event) redacted_event) (ret redacted_event)))"

definition list_events :: "string \<Rightarrow> ('z repo_scheme, AgentEventRecord list) py" where
  "list_events run_id = bnd (get_run run_id) (\<lambda>_. index events run_id)"

definition evaluation_event ::
    "EvaluationResultRecord \<Rightarrow> string option \<Rightarrow> string \<Rightarrow> string option \<Rightarrow> string \<Rightarrow> string option \<Rightarrow>
     ('z env_scheme, AgentEventRecord) py" where
  "evaluation_event rec trace_id mlflow_status mlflow_message langsmith_status langsmith_message =
     bnd utc_now (\<lambda>timestamp.
     bnd uuid4_hex (\<lambda>u.
     bnd utc_now (\<lambda>now.
       let payload0 =
             [(''message'', PStr ''Evaluation result logged.''), (''backend'', PStr ''opentelemetry''),
              (''mlflow_status'', PStr mlflow_status), (''langsmith_status'', PStr langsmith_status),
              (''evaluation_id'', PStr (v_id rec)),
              (''target_artifact_id'', opt_str (v_target_artifact_id rec)),
              (''score'', PFloat (v_score rec)), (''passed'', PBool (v_passed rec)),
              (''check_count'', PInt (int (length (v_checks rec)))), (''trace_id'', opt_str trace_id),
              (''timestamp'', PStr (isoformat timestamp))];
           payload1 = (case mlflow_message of None \<Rightarrow> payload0
             | Some m \<Rightarrow> if m = [] then payload0 else dict_set ''mlflow_message'' (PStr m) payload0);
           payload = (case langsmith_message of None \<Rightarrow> payload1
             | Some m \<Rightarrow> if m = [] then payload1 else dict_set ''langsmith_message'' (PStr m) payload1)
       in ret \<lparr>e_id = ''event_'' @ u, e_run_id = v_run_id rec, e_node_id = ''evaluation'',
               e_event_type = event_type_value EvEvaluation, e_payload = payload,
               e_created_at = now\<rparr>)))"

definition add_evaluation ::
    "EvaluationResultRecord \<Rightarrow> ('z repo_scheme, EvaluationResultRecord) py" where
  "add_evaluation evaluation =
     bnd (get_run (v_run_id evaluation)) (\<lambda>run.
     bnd (asks uri_redactor) (\<lambda>ru.
       let record0 = evaluation\<lparr>v_checks := map (redact_value ru None) (v_checks evaluation)\<rparr>
       in bnd (case v_created_at record0 of
                 Some t \<Rightarrow> ret record0
               | None \<Rightarrow> bnd utc_now (\<lambda>now. ret (record0\<lparr>v_created_at := Some now\<rparr>))) (\<lambda>rec.
          bnd (asks mlflow_log) (\<lambda>ml.
          bnd (asks langsmith_log) (\<lambda>ls.
          bnd (index evaluations (v_run_id evaluation)) (\<lambda>xs.
          seq (modify (\<lambda>s. s\<lparr>evaluations := dict_set (v_run_id evaluation) (xs @ [rec]) (evaluations s)\<rparr>))
          (bnd (index events (v_run_id evaluation)) (\<lambda>evs.
           bnd (evaluation_event rec (r_trace_id run) (fst (ml run rec)) (snd (ml run rec))
                  (fst (ls run rec)) (snd (ls run rec))) (\<lambda>event.
           seq (append_event (v_run_id evaluation) event) (ret rec))))))))))"

definition list_evaluations :: "string \<Rightarrow> ('z repo_scheme, EvaluationResultRecord list) py" where
  "list_evaluations run_id = bnd (get_run run_id) (\<lambda>_. index evaluations run_id)"

definition get_evaluation :: "string \<Rightarrow> string \<Rightarrow> ('z repo_scheme, EvaluationResultRecord) py" where
  "get_evaluation run_id evaluation_id =
     bnd (list_evaluations run_id) (\<lambda>xs. case find (\<lambda>v. v_id v = evaluation_id) xs of
       None \<Rightarrow> raise (EvaluationResultNotFoundError (''Evaluation result not found: '' @ evaluation_id))
     | Some v \<Rightarrow> ret v)"

definition save_checkpoint :: "string \<Rightarrow> pyval \<Rightarrow> ('z repo_scheme, RunCheckpointRecord) py" where
  "save_checkpoint run_id state =
     bnd (get_run run_id) (\<lambda>_.
     bnd utc_now (\<lambda>now.
     bnd (asks checkpoints) (\<lambda>cs.
     bnd (asks uri_redactor) (\<lambda>ru.
       let existing = dict_get cs run_id;
           checkpoint = \<lparr>c_run_id = run_id, c_state = redact_value ru None state,
             c_version = (case existing of Some c \<Rightarrow> c_version c + 1 | None \<Rightarrow> 1),
             c_created_at = (case existing of Some c \<Rightarrow> c_created_at c | None \<Rightarrow> now),
             c_updated_at = now\<rparr>
       in seq (modify (\<lambda>s. s\<lparr>checkpoints := dict_set run_id checkpoint (checkpoints s)\<rparr>))
              (ret checkpoint)))))"

definition get_checkpoint :: "string \<Rightarrow> ('z repo_scheme, RunCheckpointRecord) py" where
  "get_checkpoint run_id =
     bnd (get_run run_id) (\<lambda>_.
     bnd (asks checkpoints) (\<lambda>cs. case dict_get cs run_id of
       None \<Rightarrow> raise (RunCheckpointNotFoundError (''Run checkpoint not found: '' @ run_id))
     | Some c \<Rightarrow> ret c))"

section \<open>Running the operations\<close>

lemma index_run [py_simps]:
  "index f k s = (case dict_get (f s) k of None \<Rightarrow> (Inl (KeyError k), s) | Some v \<Rightarrow> (Inr v, s))"
  by (simp add: index_def py_simps split: option.splits)

lemma put_run_run [py_simps]: "put_run i r s = (Inr (), s\<lparr>runs := dict_set i r (runs s)\<rparr>)"
  by (simp add: put_run_def py_simps)

lemma put_job_run [py_simps]:
  "put_job i j s = (Inr (), s\<lparr>workflow_jobs := dict_set i j (workflow_jobs s)\<rparr>)"
  by (simp add: put_job_def py_simps)

lemma get_run_run [py_simps]:
  "get_run i s = (case dict_get (runs s) i of
     None \<Rightarrow> (Inl (RunNotFoundError (''Run not found: '' @ i)), s) | Some r \<Rightarrow> (Inr r, s))"
  by (simp add: get_run_def py_simps split: option.splits)

lemma get_workflow_job_for_update_run [py_simps]:
  "get_workflow_job_for_update i s = (case dict_get (workflow_jobs s) i of
     None \<Rightarrow> (Inl (WorkflowJobNotFoundError (''Workflow job not found: '' @ i)), s) | Some j \<Rightarrow> (Inr j, s))"
  by (simp add: get_workflow_job_for_update_def py_simps split: option.splits)

lemma ensure_job_owned_run [py_simps]:
  "ensure_job_owned_by_worker job w s =
     (if j_status job \<noteq> JobRunning then
        (Inl (WorkflowJobStateError (''Workflow job '' @ j_id job @ '' is '' @ job_status_value (j_status job) @ '', not running.'')), s)
      else if j_worker_id job \<noteq> Some w then
        (Inl (WorkflowJobOwnershipError
               (''Workflow job '' @ j_id job @ '' is owned by ''
                @ (case j_worker_id job of None \<Rightarrow> ''None'' | Some w \<Rightarrow> w) @ '', not '' @ w @ ''.'')), s)
      else (Inr (), s))"
  by (simp add: ensure_job_owned_by_worker_def py_simps)

end
