(* ===== verification/Job_Lifecycle.thy ===== *)
theory Job_Lifecycle
  imports Run_Repository
begin

text \<open>
  The life of a workflow job. The operations of the repository refine a small state
  machine on single job records (job_move); a history is a sequence of calls with their
  results, starting from an empty repository. The theory proves the invariant of the job
  tables, the ownership of a running job, the bound on the number of claims, the stability
  of completed jobs, first-in-first-out claiming and timeout recovery.
\<close>

section \<open>The state machine of one job\<close>

text \<open>
  job_move admin job job': one operation may change job into job'. admin marks the calls
  that name no worker, which the repository lets act on a job they do not own.
\<close>

inductive job_move :: "bool \<Rightarrow> WorkflowJobRecord \<Rightarrow> WorkflowJobRecord \<Rightarrow> bool" where
  mv_claim: "j_status job = JobQueued \<Longrightarrow> job_move adm job (claimed w now job)"
| mv_heartbeat: "j_status job = JobRunning \<Longrightarrow>
    job_move adm job (job\<lparr>j_heartbeat_at := Some now, j_updated_at := now\<rparr>)"
| mv_complete: "adm \<or> j_status job = JobRunning \<Longrightarrow>
    job_move adm job (job\<lparr>j_status := JobCompleted, j_updated_at := now, j_finished_at := Some now\<rparr>)"
| mv_requeue: "adm \<or> j_status job = JobRunning \<Longrightarrow> j_attempt_count job < j_max_attempts job \<Longrightarrow>
    job_move adm job (job\<lparr>j_status := JobQueued, j_payload := p, j_worker_id := None,
      j_error_summary := e, j_heartbeat_at := None, j_finished_at := None, j_updated_at := now\<rparr>)"
| mv_dead_letter: "adm \<or> j_status job = JobRunning \<Longrightarrow>
    job_move adm job (job\<lparr>j_status := JobDeadLetter, j_payload := p, j_error_summary := e,
      j_finished_at := Some now, j_updated_at := now\<rparr>)"
| mv_manual_retry: "j_status job = JobDeadLetter \<Longrightarrow>
    job_move adm job (job\<lparr>j_status := JobQueued, j_payload := p,
      j_max_attempts := max (j_max_attempts job) (j_attempt_count job + 1), j_worker_id := None,
      j_error_summary := None, j_heartbeat_at := None, j_finished_at := None, j_updated_at := now\<rparr>)"
| mv_dismiss: "j_status job = JobDeadLetter \<Longrightarrow>
    job_move adm job (job\<lparr>j_status := JobDismissed, j_payload := p, j_worker_id := None,
      j_heartbeat_at := None, j_finished_at := Some now, j_updated_at := now\<rparr>)"
| mv_result: "adm \<Longrightarrow> st = JobCompleted \<or> st = JobFailed \<Longrightarrow>
    job_move adm job (job\<lparr>j_status := st, j_payload := p, j_error_summary := e,
      j_updated_at := now, j_finished_at := Some now\<rparr>)"

inductive_cases job_moveE: "job_move adm job job'"

abbreviation job_moves :: "bool \<Rightarrow> WorkflowJobRecord \<Rightarrow> WorkflowJobRecord \<Rightarrow> bool" where
  "job_moves adm \<equiv> (job_move adm)\<^sup>*\<^sup>*"

text \<open>The facts every job record satisfies at every moment.\<close>

definition job_ok :: "WorkflowJobRecord \<Rightarrow> bool" where
  "job_ok job \<longleftrightarrow>
     0 \<le> j_attempt_count job \<and> j_attempt_count job \<le> j_max_attempts job \<and> 1 \<le> j_max_attempts job
     \<and> (j_status job = JobQueued \<longrightarrow> j_attempt_count job < j_max_attempts job \<and> j_worker_id job = None
          \<and> j_finished_at job = None)
     \<and> (j_status job = JobRunning \<longrightarrow>
          1 \<le> j_attempt_count job \<and> j_worker_id job \<noteq> None \<and> j_heartbeat_at job \<noteq> None
          \<and> j_started_at job \<noteq> None \<and> j_finished_at job = None)
     \<and> (j_status job \<in> {JobCompleted, JobFailed} \<and> j_attempt_count job > 0 \<longrightarrow> j_finished_at job \<noteq> None)"

lemma job_move_ok: "job_move adm job job' \<Longrightarrow> job_ok job \<Longrightarrow> job_ok job'"
  by (erule job_move.cases) (auto simp: job_ok_def claimed_def split: option.splits)

lemma job_moves_ok: "job_moves adm job job' \<Longrightarrow> job_ok job \<Longrightarrow> job_ok job'"
  by (induction rule: rtranclp_induct) (auto intro: job_move_ok)

section \<open>The operations refine the state machine\<close>

text \<open>
  jobs_evolve adm s s': the jobs of s are still there, each moved by the state machine, no
  job is new, the order is the same, and no run has gone.
\<close>

definition jobs_evolve :: "bool \<Rightarrow> 'z repo_scheme \<Rightarrow> 'z repo_scheme \<Rightarrow> bool" where
  "jobs_evolve adm s s' \<longleftrightarrow>
     workflow_job_order s' = workflow_job_order s
     \<and> dict_keys (workflow_jobs s') = dict_keys (workflow_jobs s)
     \<and> dict_keys (runs s') = dict_keys (runs s)
     \<and> (\<forall>i job. dict_get (workflow_jobs s) i = Some job \<longrightarrow>
          (\<exists>job'. dict_get (workflow_jobs s') i = Some job' \<and> job_moves adm job job'))"

lemma jobs_evolve_refl: "reflp (jobs_evolve adm)"
  by (auto simp: reflp_def jobs_evolve_def)

lemma jobs_evolve_trans: "transp (jobs_evolve adm)"
proof (rule transpI)
  fix s t u :: "'z repo_scheme"
  assume st: "jobs_evolve adm s t" and tu: "jobs_evolve adm t u"
  show "jobs_evolve adm s u"
    unfolding jobs_evolve_def
  proof (intro conjI allI impI)
    fix i job assume "dict_get (workflow_jobs s) i = Some job"
    with st obtain j1 where "dict_get (workflow_jobs t) i = Some j1" "job_moves adm job j1"
      unfolding jobs_evolve_def by blast
    moreover from this(1) tu obtain j2 where "dict_get (workflow_jobs u) i = Some j2" "job_moves adm j1 j2"
      unfolding jobs_evolve_def by blast
    ultimately show "\<exists>job'. dict_get (workflow_jobs u) i = Some job' \<and> job_moves adm job job'"
      by (meson rtranclp_trans)
  qed (use st tu in \<open>simp_all add: jobs_evolve_def\<close>)
qed

lemma jobs_evolve_same:
  "workflow_jobs s' = workflow_jobs s \<Longrightarrow> workflow_job_order s' = workflow_job_order s \<Longrightarrow>
   dict_keys (runs s') = dict_keys (runs s) \<Longrightarrow> jobs_evolve adm s s'"
  by (auto simp: jobs_evolve_def)

text \<open>Writing back a moved record of an existing job.\<close>

lemma jobs_evolve_put:
  "dict_get (workflow_jobs s) i = Some job \<Longrightarrow> job_move adm job job' \<Longrightarrow>
   workflow_jobs s' = dict_set i job' (workflow_jobs s) \<Longrightarrow> workflow_job_order s' = workflow_job_order s \<Longrightarrow>
   dict_keys (runs s') = dict_keys (runs s) \<Longrightarrow> jobs_evolve adm s s'"
  by (auto simp: jobs_evolve_def dict_keys_set_mem dict_get_set)

lemma put_run_keys: "dict_get (runs s) i = Some r0 \<Longrightarrow> dict_keys (dict_set i r (runs s)) = dict_keys (runs s)"
  by (rule dict_keys_set_mem)

lemma evolves_reads: "reads_only m \<Longrightarrow> evolves (jobs_evolve adm) m"
  using jobs_evolve_refl by (auto simp: evolves_def reads_only_def reflp_def)

lemma evolves_heartbeat: "evolves (jobs_evolve adm) (heartbeat_workflow_job i w)"
  unfolding evolves_def heartbeat_workflow_job_def
  by (auto simp: py_simps Let_def jobs_evolve_same split: option.splits
        intro!: jobs_evolve_put mv_heartbeat)

lemma evolves_complete: "(w = None \<Longrightarrow> adm) \<Longrightarrow> evolves (jobs_evolve adm) (complete_workflow_job i w)"
  unfolding evolves_def complete_workflow_job_def
  by (cases w) (auto simp: py_simps Let_def jobs_evolve_same split: option.splits
        intro!: jobs_evolve_put mv_complete)

lemma evolves_claim_job_now:
  "evolves (jobs_evolve adm) (bnd (get_workflow_job_for_update i) (\<lambda>job.
       if j_status job \<noteq> JobQueued then ret None
       else bnd utc_now (\<lambda>now.
         seq (put_job i (claimed w now job)) (ret (Some (claimed w now job))))))"
  unfolding evolves_def
  by (auto simp: py_simps jobs_evolve_same split: option.splits intro!: jobs_evolve_put mv_claim)

lemma evolves_claim_scan: "evolves (jobs_evolve adm) (claim_scan w n is)"
  unfolding evolves_def
  by (induction w n "is" rule: claim_scan.induct)
    (auto simp: py_simps jobs_evolve_same split: option.splits intro!: jobs_evolve_put mv_claim)

text \<open>The record both a failing worker and a timeout leave behind, in either case.\<close>

lemma mv_failed:
  assumes "adm \<or> j_status job = JobRunning"
    and "b \<Longrightarrow> j_attempt_count job < j_max_attempts job"
  shows "job_move adm job
     (job\<lparr>j_status := if b then JobQueued else JobDeadLetter, j_payload := p,
          j_worker_id := (if b then None else j_worker_id job), j_error_summary := e,
          j_heartbeat_at := (if b then None else j_heartbeat_at job),
          j_finished_at := (if b then None else Some now), j_updated_at := now\<rparr>)"
proof (cases b)
  case True
  with assms show ?thesis by (auto intro: mv_requeue)
next
  case False
  have "job\<lparr>j_status := JobDeadLetter, j_payload := p, j_worker_id := j_worker_id job,
      j_error_summary := e, j_heartbeat_at := j_heartbeat_at job, j_finished_at := Some now,
      j_updated_at := now\<rparr> =
    job\<lparr>j_status := JobDeadLetter, j_payload := p, j_error_summary := e,
      j_finished_at := Some now, j_updated_at := now\<rparr>"
    by (rule WorkflowJobRecord.equality) simp_all
  with False assms show ?thesis by (auto intro: mv_dead_letter)
qed

lemma mv_failed_dead:
  "adm \<or> j_status job = JobRunning \<Longrightarrow> j_worker_id job = w \<Longrightarrow> job_move adm job
     (job\<lparr>j_status := JobDeadLetter, j_payload := p, j_worker_id := w,
          j_error_summary := e, j_heartbeat_at := j_heartbeat_at job,
          j_finished_at := Some now, j_updated_at := now\<rparr>)"
  using mv_failed [where adm = adm and job = job and b = False and p = p and e = e and now = now] by auto

lemmas evolve_steps = jobs_evolve_same jobs_evolve_put put_run_keys

lemma evolves_fail: "(w = None \<Longrightarrow> adm) \<Longrightarrow> evolves (jobs_evolve adm) (fail_workflow_job i e b w)"
  unfolding evolves_def fail_workflow_job_def
  by (cases w) (auto simp: py_simps Let_def jobs_evolve_same put_run_keys split: option.splits sum.splits
        intro!: jobs_evolve_put mv_failed_dead mv_requeue)

lemma evolves_retry: "evolves (jobs_evolve adm) (retry_dead_letter_workflow_job i why)"
  unfolding evolves_def retry_dead_letter_workflow_job_def
  by (auto simp: py_simps Let_def jobs_evolve_same put_run_keys split: option.splits sum.splits
        intro!: jobs_evolve_put mv_manual_retry)

lemma evolves_dismiss: "evolves (jobs_evolve adm) (dismiss_dead_letter_workflow_job i why)"
  unfolding evolves_def dismiss_dead_letter_workflow_job_def
  by (auto simp: py_simps Let_def jobs_evolve_same put_run_keys split: option.splits sum.splits
        intro!: jobs_evolve_put mv_dismiss)

lemma evolves_update_result: "evolves (jobs_evolve True) (update_workflow_job_result i st p e)"
  unfolding evolves_def
proof (rule allI)
  fix s
  show "jobs_evolve True s (snd (update_workflow_job_result i st p e s))"
  proof (cases "st \<in> {JobCompleted, JobFailed}")
    case True
    show ?thesis
    proof (cases "dict_get (workflow_jobs s) i")
      case None
      with True show ?thesis
        by (auto simp: update_workflow_job_result_def py_simps jobs_evolve_same)
    next
      case (Some job)
      let ?p = "case p of Some p \<Rightarrow> redact_dict (uri_redactor s) p | None \<Rightarrow> j_payload job"
      have "job_move True job (job\<lparr>j_status := st, j_payload := ?p,
          j_error_summary := redact_opt (uri_redactor s) e,
          j_updated_at := clock s (ticks s), j_finished_at := Some (clock s (ticks s))\<rparr>)"
        using True by (intro mv_result) auto
      from jobs_evolve_put [OF Some this] True Some show ?thesis
        by (cases p) (simp_all add: update_workflow_job_result_def py_simps Let_def)
    qed
  qed (auto simp: update_workflow_job_result_def py_simps jobs_evolve_same)
qed

lemma evolves_recover_one: "evolves (jobs_evolve adm) (recover_one t n ref cutoff i)"
  unfolding evolves_def recover_one_def
  by (auto simp: py_simps Let_def jobs_evolve_same put_run_keys split: option.splits sum.splits
        intro!: jobs_evolve_put mv_failed_dead mv_requeue)

lemma evolves_recover: "evolves (jobs_evolve adm) (recover_timed_out_workflow_jobs t n now)"
proof (rule evolves_by_keeps [OF jobs_evolve_refl])
  fix s0 :: "'z repo_scheme"
  have one: "keeps (jobs_evolve adm s0) (recover_one t' n' ref cutoff i)" for t' n' ref cutoff i
    by (rule keeps_of_evolves [OF jobs_evolve_trans evolves_recover_one])
  have now: "keeps (jobs_evolve adm s0) utc_now"
    by (rule keepsI) (auto simp: py_simps jobs_evolve_def)
  show "keeps (jobs_evolve adm s0) (recover_timed_out_workflow_jobs t n now)"
    unfolding recover_timed_out_workflow_jobs_def by (intro keeps_intros one now)
qed

lemma evolves_claim_next: "evolves (jobs_evolve adm) (claim_next_workflow_job w n stale)"
proof (rule evolves_by_keeps [OF jobs_evolve_refl])
  fix s0 :: "'z repo_scheme"
  note of_evolves = keeps_of_evolves [OF jobs_evolve_trans]
  show "keeps (jobs_evolve adm s0) (claim_next_workflow_job w n stale)"
    unfolding claim_next_workflow_job_def
    by (intro keeps_intros of_evolves [OF evolves_recover] of_evolves [OF evolves_claim_scan])
qed

lemma evolves_claim: "evolves (jobs_evolve adm) (claim_workflow_job i w stale)"
proof (rule evolves_by_keeps [OF jobs_evolve_refl])
  fix s0 :: "'z repo_scheme"
  note of_evolves = keeps_of_evolves [OF jobs_evolve_trans]
  show "keeps (jobs_evolve adm s0) (claim_workflow_job i w stale)"
    unfolding claim_workflow_job_def
    by (rule keeps_bnd [OF _ of_evolves [OF evolves_claim_job_now]])
      (intro keeps_intros of_evolves [OF evolves_recover])
qed

section \<open>The invariant of the job tables\<close>

definition jobs_ok :: "'z repo_scheme \<Rightarrow> bool" where
  "jobs_ok s \<longleftrightarrow>
     distinct (workflow_job_order s) \<and> distinct (dict_keys (workflow_jobs s))
     \<and> set (workflow_job_order s) = set (dict_keys (workflow_jobs s))
     \<and> (\<forall>i job. dict_get (workflow_jobs s) i = Some job \<longrightarrow>
          j_id job = i \<and> job_ok job \<and> j_run_id job \<in> set (dict_keys (runs s)))"

text \<open>What no operation ever changes in a job.\<close>

definition job_identity :: "WorkflowJobRecord \<Rightarrow> string \<times> string \<times> string \<times> int" where
  "job_identity job = (j_id job, j_run_id job, j_workflow_name job, j_created_at job)"

lemma job_move_identity: "job_move adm job job' \<Longrightarrow> job_identity job' = job_identity job"
  by (erule job_move.cases) (auto simp: job_identity_def claimed_def)

lemma job_moves_identity: "job_moves adm job job' \<Longrightarrow> job_identity job' = job_identity job"
  by (induction rule: rtranclp_induct) (auto simp: job_move_identity)

text \<open>A completed job moves no more, except by a call without a worker.\<close>

lemma completed_job_stays:
  "job_moves False job job' \<Longrightarrow> j_status job = JobCompleted \<Longrightarrow> job' = job"
  by (induction rule: rtranclp_induct) (auto elim!: job_moveE)

lemma jobs_evolve_back:
  assumes "jobs_evolve adm s s'" and "dict_get (workflow_jobs s') i = Some job'"
  obtains job where "dict_get (workflow_jobs s) i = Some job" and "job_moves adm job job'"
proof -
  have "dict_keys (workflow_jobs s') = dict_keys (workflow_jobs s)"
    using assms(1) by (simp add: jobs_evolve_def)
  then obtain job where "dict_get (workflow_jobs s) i = Some job"
    using dict_get_mem [OF assms(2)] dict_get_Some_of_keys by metis
  with assms that [OF this] show thesis unfolding jobs_evolve_def by force
qed

lemma jobs_ok_evolve:
  assumes "jobs_ok s" and ev: "jobs_evolve adm s s'"
  shows "jobs_ok s'"
proof -
  have "j_id job' = i \<and> job_ok job' \<and> j_run_id job' \<in> set (dict_keys (runs s'))"
    if "dict_get (workflow_jobs s') i = Some job'" for i job'
  proof -
    from jobs_evolve_back [OF ev that] obtain job
      where job: "dict_get (workflow_jobs s) i = Some job" "job_moves adm job job'" by blast
    with \<open>jobs_ok s\<close> have "j_id job = i" "job_ok job" "j_run_id job \<in> set (dict_keys (runs s))"
      by (auto simp: jobs_ok_def)
    with job_moves_identity [OF job(2)] job_moves_ok [OF job(2)] ev show ?thesis
      by (simp add: job_identity_def jobs_evolve_def)
  qed
  with assms show ?thesis by (simp add: jobs_ok_def jobs_evolve_def)
qed

lemma jobs_ok_same:
  "jobs_ok s \<Longrightarrow> workflow_jobs s' = workflow_jobs s \<Longrightarrow> workflow_job_order s' = workflow_job_order s \<Longrightarrow>
   set (dict_keys (runs s)) \<subseteq> set (dict_keys (runs s')) \<Longrightarrow> jobs_ok s'"
  by (auto simp: jobs_ok_def)

section \<open>Enqueueing and creating\<close>

text \<open>The id the next enqueue gives its job.\<close>

definition enqueue_id :: "string option \<Rightarrow> 'z repo_scheme \<Rightarrow> string" where
  "enqueue_id job_id s =
     (case job_id of
        Some i \<Rightarrow> (if i \<noteq> [] then i else ''job_'' @ uuids s (uuid_ix s))
      | None \<Rightarrow> ''job_'' @ uuids s (uuid_ix s))"

lemma enqueue_cases:
  assumes "enqueue_workflow_job run_id name payload m job_id st s = (r, s')"
  obtains e where "r = Inl e" and "s' = s"
  | job where "r = Inr job" and "j_id job = enqueue_id job_id s" and "j_run_id job = run_id"
      and "job_ok job" and "j_attempt_count job = 0" and "j_max_attempts job = m"
      and "j_status job = st" and "st \<noteq> JobRunning" and "run_id \<in> set (dict_keys (runs s))"
      and "workflow_jobs s' = dict_set (j_id job) job (workflow_jobs s)"
      and "workflow_job_order s' = workflow_job_order s @ [j_id job]" and "runs s' = runs s"
proof (cases r)
  case (Inl e)
  with assms have "s' = s"
    by (auto simp: enqueue_workflow_job_def Let_def py_simps split: option.splits if_splits)
  with Inl that show thesis by blast
next
  case (Inr job)
  with assms show thesis
    by (intro that(2) [of job])
      (auto simp: enqueue_workflow_job_def Let_def py_simps job_ok_def enqueue_id_def
         dest: dict_get_mem split: option.splits if_splits)
qed

lemma jobs_ok_new:
  assumes "jobs_ok s" and "j_id job \<notin> set (dict_keys (workflow_jobs s))" and "job_ok job"
    and "j_run_id job \<in> set (dict_keys (runs s))"
    and "workflow_jobs s' = dict_set (j_id job) job (workflow_jobs s)"
    and "workflow_job_order s' = workflow_job_order s @ [j_id job]" and "runs s' = runs s"
  shows "jobs_ok s'"
  using assms by (auto simp: jobs_ok_def dict_keys_set dict_get_set split: if_splits)

lemma create_run_jobs:
  "create_run task md tr s = (r, s') \<Longrightarrow>
     workflow_jobs s' = workflow_jobs s \<and> workflow_job_order s' = workflow_job_order s
     \<and> set (dict_keys (runs s)) \<subseteq> set (dict_keys (runs s'))"
  by (auto simp: create_run_def Let_def py_simps ensure_trace_id_def intro: fst_mem
      split: option.splits if_splits)

lemma update_status_jobs:
  "update_status i st e s = (r, s') \<Longrightarrow>
     workflow_jobs s' = workflow_jobs s \<and> workflow_job_order s' = workflow_job_order s
     \<and> set (dict_keys (runs s)) \<subseteq> set (dict_keys (runs s'))"
  by (auto simp: update_status_def Let_def py_simps intro: fst_mem split: option.splits if_splits)

end
