(* ===== verification/Job_History.thy ===== *)
theory Job_History
  imports Job_Lifecycle
begin

text \<open>
  Histories of the job queue: the calls callers make with their results, from an empty
  repository. What a claim does exactly, what the other calls leave alone (quiet), and the
  ghost readings of a history the properties speak of: the last claimer of a job, how often
  it was claimed, and its budget of attempts.
\<close>

section \<open>What a claim changes\<close>

definition claim_effect ::
    "string \<Rightarrow> 'z repo_scheme \<Rightarrow> WorkflowJobRecord \<Rightarrow> 'z repo_scheme \<Rightarrow> bool" where
  "claim_effect w s job' s' \<longleftrightarrow>
     (\<exists>i job now. dict_get (workflow_jobs s) i = Some job \<and> j_status job = JobQueued
        \<and> job' = claimed w now job \<and> workflow_jobs s' = dict_set i job' (workflow_jobs s))"

lemma claim_effectI:
  "dict_get (workflow_jobs s) i = Some job \<Longrightarrow> j_status job = JobQueued \<Longrightarrow>
     workflow_jobs s' = dict_set i (claimed w now job) (workflow_jobs s) \<Longrightarrow>
     claim_effect w s (claimed w now job) s'"
  unfolding claim_effect_def by blast

text \<open>
  The loop finds the first job of the order that is queued and of the asked workflow.
\<close>

definition claimable :: "string option \<Rightarrow> 'z repo_scheme \<Rightarrow> string \<Rightarrow> bool" where
  "claimable n s i =
     (case dict_get (workflow_jobs s) i of
        None \<Rightarrow> False | Some job \<Rightarrow> j_status job = JobQueued \<and> name_matches n job)"

definition claim_at :: "string \<Rightarrow> string \<Rightarrow> 'z repo_scheme \<Rightarrow> WorkflowJobRecord option result \<times> 'z repo_scheme" where
  "claim_at w i s =
     (case dict_get (workflow_jobs s) i of
        None \<Rightarrow> (Inl (KeyError i), s)
      | Some job \<Rightarrow>
          (let job' = claimed w (clock s (ticks s)) job
           in (Inr (Some job'),
               s\<lparr>ticks := Suc (ticks s), workflow_jobs := dict_set i job' (workflow_jobs s)\<rparr>)))"

lemma claim_scan_find:
  "set is \<subseteq> set (dict_keys (workflow_jobs s)) \<Longrightarrow>
     claim_scan w n is s =
       (case find (claimable n s) is of None \<Rightarrow> (Inr None, s) | Some i \<Rightarrow> claim_at w i s)"
proof (induction "is")
  case Nil
  show ?case by (simp add: py_simps)
next
  case (Cons i rest)
  then have "i \<in> set (dict_keys (workflow_jobs s))" by simp
  then obtain job where "dict_get (workflow_jobs s) i = Some job"
    using dict_get_Some_of_keys by metis
  with Cons show ?case by (simp add: py_simps claimable_def claim_at_def Let_def)
qed

lemma claim_scan_cases:
  "claim_scan w n is s = (r, s') \<Longrightarrow>
     (case r of Inr (Some job') \<Rightarrow> claim_effect w s job' s' | _ \<Rightarrow> s' = s)"
proof (induction "is")
  case Nil
  then show ?case by (auto simp: py_simps)
next
  case (Cons i rest)
  show ?case
  proof (cases "dict_get (workflow_jobs s) i")
    case None
    with Cons.prems show ?thesis by (auto simp: py_simps)
  next
    case (Some job)
    show ?thesis
    proof (cases "j_status job = JobQueued \<and> name_matches n job")
      case True
      with Cons.prems Some show ?thesis by (auto simp: py_simps intro!: claim_effectI)
    next
      case False
      with Cons.prems Some have "claim_scan w n rest s = (r, s')"
        by (auto simp: py_simps split: if_splits)
      from Cons.IH [OF this] show ?thesis .
    qed
  qed
qed

section \<open>What the other calls leave alone\<close>

definition quiet_job :: "WorkflowJobRecord \<Rightarrow> WorkflowJobRecord \<Rightarrow> bool" where
  "quiet_job job job' \<longleftrightarrow>
     j_id job' = j_id job \<and> j_attempt_count job' = j_attempt_count job
     \<and> j_max_attempts job' = j_max_attempts job
     \<and> (j_status job' = JobRunning \<longrightarrow> j_status job = JobRunning \<and> j_worker_id job' = j_worker_id job)"

definition quiet :: "'z repo_scheme \<Rightarrow> 'z repo_scheme \<Rightarrow> bool" where
  "quiet s s' \<longleftrightarrow>
     (\<forall>i. rel_option quiet_job (dict_get (workflow_jobs s) i) (dict_get (workflow_jobs s') i))"

lemma quiet_job_refl [simp]: "quiet_job job job"
  by (simp add: quiet_job_def)

lemma quiet_refl: "reflp quiet"
  by (auto simp: reflp_def quiet_def option.rel_refl)

lemma quiet_trans: "transp quiet"
proof (rule transpI)
  fix s t u :: "'z repo_scheme"
  assume "quiet s t" "quiet t u"
  then have st: "rel_option quiet_job (dict_get (workflow_jobs s) i) (dict_get (workflow_jobs t) i)"
    and tu: "rel_option quiet_job (dict_get (workflow_jobs t) i) (dict_get (workflow_jobs u) i)" for i
    by (simp_all add: quiet_def)
  show "quiet s u"
    unfolding quiet_def
  proof
    fix i
    from st [of i] tu [of i]
    show "rel_option quiet_job (dict_get (workflow_jobs s) i) (dict_get (workflow_jobs u) i)"
      by (auto simp: quiet_job_def elim!: option.rel_cases)
  qed
qed

lemma quiet_same: "workflow_jobs s' = workflow_jobs s \<Longrightarrow> quiet s s'"
  by (simp add: quiet_def option.rel_refl)

lemma quiet_put:
  "dict_get (workflow_jobs s) i = Some job \<Longrightarrow>
     workflow_jobs s' = dict_set i job' (workflow_jobs s) \<Longrightarrow> quiet_job job job' \<Longrightarrow> quiet s s'"
  by (auto simp: quiet_def dict_get_set option.rel_refl)

lemma quiet_reads: "reads_only m \<Longrightarrow> evolves quiet m"
  using quiet_refl by (auto simp: evolves_def reads_only_def reflp_def)

lemma quiet_heartbeat: "evolves quiet (heartbeat_workflow_job i w)"
  unfolding evolves_def heartbeat_workflow_job_def
  by (auto simp: py_simps Let_def quiet_same quiet_job_def split: option.splits intro!: quiet_put)

lemma quiet_complete: "evolves quiet (complete_workflow_job i w)"
  unfolding evolves_def complete_workflow_job_def
  by (cases w) (auto simp: py_simps Let_def quiet_same quiet_job_def split: option.splits intro!: quiet_put)

lemma quiet_fail: "evolves quiet (fail_workflow_job i e b w)"
  unfolding evolves_def fail_workflow_job_def
  by (cases w) (auto simp: py_simps Let_def quiet_same quiet_job_def split: option.splits sum.splits
      intro!: quiet_put)

lemma quiet_dismiss: "evolves quiet (dismiss_dead_letter_workflow_job i why)"
  unfolding evolves_def dismiss_dead_letter_workflow_job_def
  by (auto simp: py_simps Let_def quiet_same quiet_job_def split: option.splits intro!: quiet_put)

lemma quiet_update_result: "evolves quiet (update_workflow_job_result i st p e)"
  unfolding evolves_def update_workflow_job_result_def
  by (auto simp: py_simps Let_def quiet_same quiet_job_def split: option.splits intro!: quiet_put)

lemma quiet_recover_one: "evolves quiet (recover_one t n ref cutoff i)"
  unfolding evolves_def recover_one_def
  by (auto simp: py_simps Let_def quiet_same quiet_job_def split: option.splits sum.splits
      intro!: quiet_put)

lemma quiet_recover: "evolves quiet (recover_timed_out_workflow_jobs t n now)"
proof (rule evolves_by_keeps [OF quiet_refl])
  fix s0 :: "'z repo_scheme"
  have now: "keeps (quiet s0) utc_now"
    by (rule keepsI) (simp add: py_simps quiet_def)
  show "keeps (quiet s0) (recover_timed_out_workflow_jobs t n now)"
    unfolding recover_timed_out_workflow_jobs_def
    by (intro keeps_intros now keeps_of_evolves [OF quiet_trans quiet_recover_one])
qed

text \<open>Both claims first run the recovery of timed-out jobs when stale_after_seconds is given.\<close>

abbreviation recover_first :: "int option \<Rightarrow> string option \<Rightarrow> ('z repo_scheme, unit) py" where
  "recover_first stale n \<equiv>
     (case stale of None \<Rightarrow> ret ()
      | Some t \<Rightarrow> bnd (recover_timed_out_workflow_jobs t n None) (\<lambda>_. ret ()))"

lemma recover_first_quiet: "recover_first stale n s = (r, s') \<Longrightarrow> quiet s s'"
proof (cases stale)
  case None
  then show "recover_first stale n s = (r, s') \<Longrightarrow> quiet s s'" by (simp add: py_simps quiet_same)
next
  case (Some t)
  have "quiet s (snd (recover_timed_out_workflow_jobs t n None s))"
    using quiet_recover unfolding evolves_def by blast
  with Some show "recover_first stale n s = (r, s') \<Longrightarrow> quiet s s'"
    by (auto simp: py_simps split: prod.splits sum.splits)
qed

definition claim_outcome :: "string \<Rightarrow> 'z repo_scheme \<Rightarrow> WorkflowJobRecord option result \<Rightarrow> 'z repo_scheme \<Rightarrow> bool" where
  "claim_outcome w s r s' \<longleftrightarrow>
     (case r of Inr (Some job') \<Rightarrow> (\<exists>s1. quiet s s1 \<and> claim_effect w s1 job' s') | _ \<Rightarrow> quiet s s')"

lemma claim_outcome_after:
  assumes "seq (recover_first stale n) m s = (r, s')"
    and "\<And>s1. m s1 = (r, s') \<Longrightarrow>
           (case r of Inr (Some job') \<Rightarrow> claim_effect w s1 job' s' | _ \<Rightarrow> s' = s1)"
  shows "claim_outcome w s r s'"
proof (cases "recover_first stale n s")
  case (Pair x s1)
  note q = recover_first_quiet [OF this]
  show ?thesis
  proof (cases x)
    case (Inl e)
    with assms(1) Pair q show ?thesis by (auto simp: bnd_run claim_outcome_def)
  next
    case (Inr u)
    with assms(1) Pair have "m s1 = (r, s')" by (simp add: bnd_run)
    from assms(2) [OF this] q show ?thesis
      by (auto simp: claim_outcome_def split: option.splits sum.splits)
  qed
qed

lemma claim_next_outcome: "claim_next_workflow_job w n stale s = (r, s') \<Longrightarrow> claim_outcome w s r s'"
  unfolding claim_next_workflow_job_def Let_def
  by (erule claim_outcome_after) (auto simp: bnd_run asks_run dest!: claim_scan_cases)

lemma claim_job_outcome: "claim_workflow_job i w stale s = (r, s') \<Longrightarrow> claim_outcome w s r s'"
  unfolding claim_workflow_job_def
  by (erule claim_outcome_after)
    (auto simp: py_simps intro!: claim_effectI split: option.splits if_splits)

section \<open>Calls and histories\<close>

datatype job_call =
    CallCreateRun string "(string, pyval) dict" "string option"
  | CallUpdateStatus string RunStatus "string option"
  | CallEnqueue string string "(string, pyval) dict" int "string option" WorkflowJobStatus
  | CallClaimNext string "string option" "int option"
  | CallClaim string string "int option"
  | CallHeartbeat string string
  | CallComplete string "string option"
  | CallFail string string bool "string option"
  | CallRetry string "string option"
  | CallDismiss string "string option"
  | CallRecover int "string option" "int option"
  | CallResult string WorkflowJobStatus "(string, pyval) dict option" "string option"

text \<open>The jobs a call returns: none, the one it claimed, changed or created, or all it recovered.\<close>

fun perform :: "job_call \<Rightarrow> ('z repo_scheme, WorkflowJobRecord list) py" where
  "perform (CallCreateRun task md tr) = bnd (create_run task md tr) (\<lambda>_. ret [])"
| "perform (CallUpdateStatus i st e) = bnd (update_status i st e) (\<lambda>_. ret [])"
| "perform (CallEnqueue run_id n p m i st) =
     bnd (enqueue_workflow_job run_id n p m i st) (\<lambda>job. ret [job])"
| "perform (CallClaimNext w n stale) =
     bnd (claim_next_workflow_job w n stale) (\<lambda>x. ret (case x of None \<Rightarrow> [] | Some job \<Rightarrow> [job]))"
| "perform (CallClaim i w stale) =
     bnd (claim_workflow_job i w stale) (\<lambda>x. ret (case x of None \<Rightarrow> [] | Some job \<Rightarrow> [job]))"
| "perform (CallHeartbeat i w) = bnd (heartbeat_workflow_job i w) (\<lambda>job. ret [job])"
| "perform (CallComplete i w) = bnd (complete_workflow_job i w) (\<lambda>job. ret [job])"
| "perform (CallFail i e b w) = bnd (fail_workflow_job i e b w) (\<lambda>job. ret [job])"
| "perform (CallRetry i why) = bnd (retry_dead_letter_workflow_job i why) (\<lambda>job. ret [job])"
| "perform (CallDismiss i why) = bnd (dismiss_dead_letter_workflow_job i why) (\<lambda>job. ret [job])"
| "perform (CallRecover t n now) = recover_timed_out_workflow_jobs t n now"
| "perform (CallResult i st p e) = bnd (update_workflow_job_result i st p e) (\<lambda>job. ret [job])"

text \<open>
  An enqueue must use an id no job has: a fresh uuid, or an id of the caller's that is new.
\<close>

fun call_fresh :: "job_call \<Rightarrow> 'z repo_scheme \<Rightarrow> bool" where
  "call_fresh (CallEnqueue run_id n p m i st) s = (enqueue_id i s \<notin> set (dict_keys (workflow_jobs s)))"
| "call_fresh _ s = True"

text \<open>Calls that change a job without naming the worker that owns it.\<close>

fun administrative :: "job_call \<Rightarrow> bool" where
  "administrative (CallComplete i w) = (w = None)"
| "administrative (CallFail i e b w) = (w = None)"
| "administrative (CallResult i st p e) = True"
| "administrative _ = False"

type_synonym job_log = "(job_call \<times> WorkflowJobRecord list result) list"

inductive job_history :: "job_log \<Rightarrow> 'z repo_scheme \<Rightarrow> bool" where
  history_start: "workflow_jobs s = [] \<Longrightarrow> workflow_job_order s = [] \<Longrightarrow> job_history [] s"
| history_step: "job_history h s \<Longrightarrow> call_fresh c s \<Longrightarrow> perform c s = (r, s') \<Longrightarrow>
    job_history (h @ [(c, r)]) s'"

inductive_cases history_startE: "job_history [] s"
inductive_cases history_stepE: "job_history (h @ [(c, r)]) s"

section \<open>Ghost readings of a history\<close>

fun claimer :: "job_call \<Rightarrow> string option" where
  "claimer (CallClaimNext w n stale) = Some w"
| "claimer (CallClaim i w stale) = Some w"
| "claimer _ = None"

text \<open>The worker a log entry hands job i to, if it is a claim of i.\<close>

definition claims_job :: "string \<Rightarrow> job_call \<times> WorkflowJobRecord list result \<Rightarrow> string option" where
  "claims_job i entry =
     (case entry of
        (c, Inr [job]) \<Rightarrow> (if j_id job = i then claimer c else None)
      | _ \<Rightarrow> None)"

fun last_claimer :: "string \<Rightarrow> job_log \<Rightarrow> string option" where
  "last_claimer i h =
     foldl (\<lambda>w entry. case claims_job i entry of Some w' \<Rightarrow> Some w' | None \<Rightarrow> w) None h"

definition claim_count :: "string \<Rightarrow> job_log \<Rightarrow> nat" where
  "claim_count i h = length (filter (\<lambda>entry. claims_job i entry \<noteq> None) h)"

text \<open>The attempts a history grants job i: max_attempts at its enqueue, one per manual retry.\<close>

definition granted :: "string \<Rightarrow> job_call \<times> WorkflowJobRecord list result \<Rightarrow> int" where
  "granted i entry =
     (case entry of
        (CallEnqueue run_id n p m j st, Inr [job]) \<Rightarrow> (if j_id job = i then m else 0)
      | (CallRetry j why, Inr [job]) \<Rightarrow> (if j_id job = i then 1 else 0)
      | _ \<Rightarrow> 0)"

definition attempt_budget :: "string \<Rightarrow> job_log \<Rightarrow> int" where
  "attempt_budget i h = sum_list (map (granted i) h)"

lemma claim_count_snoc:
  "claim_count i (h @ [entry]) = claim_count i h + (if claims_job i entry = None then 0 else 1)"
  by (simp add: claim_count_def)

lemma attempt_budget_snoc: "attempt_budget i (h @ [entry]) = attempt_budget i h + granted i entry"
  by (simp add: attempt_budget_def)

lemma last_claimer_snoc:
  "last_claimer i (h @ [entry]) =
     (case claims_job i entry of Some w \<Rightarrow> Some w | None \<Rightarrow> last_claimer i h)"
  by (simp split: option.split)

declare last_claimer.simps [simp del]

section \<open>What each call does to the tables\<close>

lemma retry_effect:
  assumes "retry_dead_letter_workflow_job i why s = (r, s')" and ok: "jobs_ok s"
  obtains e where "r = Inl e" and "workflow_jobs s' = workflow_jobs s"
  | job job' where "r = Inr job'" and "dict_get (workflow_jobs s) i = Some job"
      and "j_id job' = i" and "j_attempt_count job' = j_attempt_count job"
      and "j_max_attempts job' \<le> j_max_attempts job + 1" and "j_status job' = JobQueued"
      and "workflow_jobs s' = dict_set i job' (workflow_jobs s)"
proof (cases "dict_get (workflow_jobs s) i")
  case None
  with assms(1) that(1) show thesis
    by (auto simp: retry_dead_letter_workflow_job_def py_simps)
next
  case (Some job)
  with ok have j: "j_id job = i" "j_attempt_count job \<le> j_max_attempts job"
      "j_run_id job \<in> set (dict_keys (runs s))"
    by (auto simp: jobs_ok_def job_ok_def)
  then obtain run where "dict_get (runs s) (j_run_id job) = Some run"
    using dict_get_Some_of_keys by metis
  with assms(1) Some j show thesis
    by (cases r)
      (auto intro: that simp: retry_dead_letter_workflow_job_def py_simps Let_def
       split: sum.splits if_splits)
qed

text \<open>
  The four kinds of step a call can be for the tables.
\<close>

inductive table_step ::
    "'z repo_scheme \<Rightarrow> job_call \<Rightarrow> WorkflowJobRecord list result \<Rightarrow> 'z repo_scheme \<Rightarrow> bool" where
  step_quiet: "quiet s s' \<Longrightarrow> \<forall>i. claims_job i (c, r) = None \<and> granted i (c, r) = 0 \<Longrightarrow> table_step s c r s'"
| step_claim: "claimer c = Some w \<Longrightarrow> quiet s s1 \<Longrightarrow> claim_effect w s1 job' s' \<Longrightarrow>
    \<forall>i. granted i (c, Inr [job']) = 0 \<Longrightarrow> table_step s c (Inr [job']) s'"
| step_enqueue: "c = CallEnqueue run_id n p m i st \<Longrightarrow> j_id job = enqueue_id i s \<Longrightarrow>
    j_attempt_count job = 0 \<Longrightarrow> j_max_attempts job = m \<Longrightarrow> j_status job \<noteq> JobRunning \<Longrightarrow>
    workflow_jobs s' = dict_set (j_id job) job (workflow_jobs s) \<Longrightarrow> table_step s c (Inr [job]) s'"
| step_retry: "c = CallRetry i why \<Longrightarrow> dict_get (workflow_jobs s) i = Some job \<Longrightarrow> j_id job' = i \<Longrightarrow>
    j_attempt_count job' = j_attempt_count job \<Longrightarrow> j_max_attempts job' \<le> j_max_attempts job + 1 \<Longrightarrow>
    j_status job' = JobQueued \<Longrightarrow> workflow_jobs s' = dict_set i job' (workflow_jobs s) \<Longrightarrow>
    table_step s c (Inr [job']) s'"

lemma claims_job_no_claimer: "claimer c = None \<Longrightarrow> claims_job i (c, r) = None"
  by (auto simp: claims_job_def split: sum.splits list.splits)

lemma table_step_quiet:
  "bnd m (\<lambda>x. ret (f x)) s = (r, s') \<Longrightarrow> evolves quiet m \<Longrightarrow> claimer c = None \<Longrightarrow>
     (\<And>i. granted i (c, r) = 0) \<Longrightarrow> table_step s c r s'"
  by (rule step_quiet)
    (auto simp: py_simps claims_job_no_claimer dest!: evolvesD split: prod.splits sum.splits)

lemma claim_step:
  assumes "claim_outcome w s x s1" and "claimer c = Some w" and "s' = s1"
    and "r = (case x of Inl e \<Rightarrow> Inl e | Inr None \<Rightarrow> Inr [] | Inr (Some job) \<Rightarrow> Inr [job])"
    and "\<And>i. granted i (c, r) = 0"
  shows "table_step s c r s'"
  using assms
  by (auto simp: claim_outcome_def claims_job_def intro: step_quiet step_claim
      split: sum.splits option.splits)

lemma perform_table_step:
  assumes "jobs_ok s" and "perform c s = (r, s')"
  shows "table_step s c r s'"
proof (cases c)
  case (CallCreateRun task md tr)
  with assms show ?thesis
    by (intro step_quiet)
      (auto simp: py_simps claims_job_def granted_def dest!: create_run_jobs intro: quiet_same
       split: prod.splits sum.splits)
next
  case (CallUpdateStatus i st e)
  with assms show ?thesis
    by (intro step_quiet)
      (auto simp: py_simps claims_job_def granted_def dest!: update_status_jobs intro: quiet_same
       split: prod.splits sum.splits)
next
  case (CallEnqueue run_id n p m i st)
  obtain x s1 where run: "enqueue_workflow_job run_id n p m i st s = (x, s1)" by fastforce
  with assms(2) CallEnqueue have r: "r = map_sum id (\<lambda>job. [job]) x" "s' = s1"
    by (auto simp: py_simps split: sum.splits)
  from run show ?thesis
  proof (cases rule: enqueue_cases)
    case (1 e)
    with r CallEnqueue show ?thesis
      by (auto intro!: step_quiet quiet_same simp: claims_job_def granted_def)
  next
    case (2 job)
    with r CallEnqueue show ?thesis
      by (auto intro!: step_enqueue)
  qed
next
  case (CallClaimNext w n stale)
  obtain x s1 where run: "claim_next_workflow_job w n stale s = (x, s1)" by fastforce
  from claim_next_outcome [OF run] show ?thesis
    by (rule claim_step [where x = x])
      (use run assms(2) CallClaimNext in \<open>auto simp: py_simps granted_def split: sum.splits option.splits\<close>)
next
  case (CallClaim i w stale)
  obtain x s1 where run: "claim_workflow_job i w stale s = (x, s1)" by fastforce
  from claim_job_outcome [OF run] show ?thesis
    by (rule claim_step [where x = x])
      (use run assms(2) CallClaim in \<open>auto simp: py_simps granted_def split: sum.splits option.splits\<close>)
next
  case (CallRetry i why)
  obtain x s1 where run: "retry_dead_letter_workflow_job i why s = (x, s1)" by fastforce
  with assms(2) CallRetry have r: "r = map_sum id (\<lambda>job. [job]) x" "s' = s1"
    by (auto simp: py_simps split: sum.splits)
  from run assms(1) show ?thesis
  proof (cases rule: retry_effect)
    case (1 e)
    with r CallRetry show ?thesis
      by (auto intro!: step_quiet quiet_same simp: claims_job_def granted_def)
  next
    case (2 job job')
    with r CallRetry show ?thesis by (auto intro!: step_retry)
  qed
next
  case (CallRecover t n now)
  with assms show ?thesis
    by (intro step_quiet)
      (auto simp: claims_job_no_claimer granted_def dest: evolvesD [OF quiet_recover]
        split: sum.splits list.splits)
qed (use assms in \<open>auto intro!: table_step_quiet quiet_heartbeat quiet_complete quiet_fail
    quiet_dismiss quiet_update_result simp: granted_def split: sum.splits list.splits\<close>)

section \<open>The invariant of every history\<close>

lemma evolves_bnd_ret: "evolves (jobs_evolve adm) m \<Longrightarrow> evolves (jobs_evolve adm) (bnd m (\<lambda>x. ret (f x)))"
  by (rule evolves_by_keeps [OF jobs_evolve_refl], intro keeps_bnd keeps_ret)
    (rule keeps_of_evolves [OF jobs_evolve_trans])

fun on_existing_job :: "job_call \<Rightarrow> bool" where
  "on_existing_job (CallCreateRun task md tr) = False"
| "on_existing_job (CallUpdateStatus i st e) = False"
| "on_existing_job (CallEnqueue run_id n p m i st) = False"
| "on_existing_job _ = True"

lemma perform_evolves:
  "on_existing_job c \<Longrightarrow> evolves (jobs_evolve (administrative c)) (perform c)"
  by (cases c)
    (simp_all only: perform.simps administrative.simps on_existing_job.simps,
     (intro evolves_bnd_ret evolves_claim_next evolves_claim evolves_heartbeat evolves_complete
       evolves_fail evolves_retry evolves_dismiss evolves_recover evolves_update_result; simp)+)

lemma perform_jobs_ok:
  assumes ok: "jobs_ok s" and fresh: "call_fresh c s" and run: "perform c s = (r, s')"
  shows "jobs_ok s'"
proof (cases c)
  case (CallCreateRun task md tr)
  with run ok show ?thesis
    by (auto simp: py_simps dest!: create_run_jobs intro: jobs_ok_same split: prod.splits sum.splits)
next
  case (CallUpdateStatus i st e)
  with run ok show ?thesis
    by (auto simp: py_simps dest!: update_status_jobs intro: jobs_ok_same split: prod.splits sum.splits)
next
  case (CallEnqueue run_id n p m i st)
  obtain x s1 where e: "enqueue_workflow_job run_id n p m i st s = (x, s1)" by fastforce
  with run CallEnqueue have "s' = s1" by (auto simp: py_simps split: sum.splits)
  from e show ?thesis
  proof (cases rule: enqueue_cases)
    case (1 x)
    with ok \<open>s' = s1\<close> show ?thesis by simp
  next
    case (2 job)
    show ?thesis
      by (rule jobs_ok_new [of s job]) (use 2 ok fresh CallEnqueue \<open>s' = s1\<close> in auto)
  qed
qed (use jobs_ok_evolve [OF ok evolvesD [OF perform_evolves run]] in simp_all)

definition log_ok :: "string \<Rightarrow> job_log \<Rightarrow> 'z repo_scheme \<Rightarrow> bool" where
  "log_ok i h s \<longleftrightarrow>
     (case dict_get (workflow_jobs s) i of
        None \<Rightarrow> claim_count i h = 0 \<and> attempt_budget i h = 0
      | Some job \<Rightarrow>
          j_attempt_count job = int (claim_count i h) \<and> j_max_attempts job \<le> attempt_budget i h
          \<and> (j_status job = JobRunning \<longrightarrow> j_worker_id job = last_claimer i h))"

lemma quiet_log_ok:
  assumes "quiet s s'" and "log_ok i h s"
  shows "log_ok i h s'"
proof -
  have "rel_option quiet_job (dict_get (workflow_jobs s) i) (dict_get (workflow_jobs s') i)"
    using assms(1) by (simp add: quiet_def)
  with assms(2) show ?thesis
    by (auto simp: log_ok_def quiet_job_def elim!: option.rel_cases)
qed

lemma quiet_ids:
  assumes "quiet s s'" and "\<And>i job. dict_get (workflow_jobs s) i = Some job \<Longrightarrow> j_id job = i"
    and "dict_get (workflow_jobs s') i = Some job'"
  shows "j_id job' = i"
proof -
  have "rel_option quiet_job (dict_get (workflow_jobs s) i) (dict_get (workflow_jobs s') i)"
    using assms(1) by (simp add: quiet_def)
  with assms(2,3) show ?thesis by (auto simp: quiet_job_def elim!: option.rel_cases)
qed

lemma claimed_simps [simp]:
  "j_id (claimed w now job) = j_id job"
  "j_attempt_count (claimed w now job) = j_attempt_count job + 1"
  "j_max_attempts (claimed w now job) = j_max_attempts job"
  "j_status (claimed w now job) = JobRunning"
  "j_worker_id (claimed w now job) = Some w"
  by (simp_all add: claimed_def)

lemma table_step_log_ok:
  assumes step: "table_step s c r s'" and ok: "jobs_ok s" and fresh: "call_fresh c s"
    and log: "\<And>i. log_ok i h s"
  shows "log_ok i (h @ [(c, r)]) s'"
  using step
proof cases
  case step_quiet
  with quiet_log_ok [OF _ log [of i], of s'] show ?thesis
    by (auto simp: log_ok_def claim_count_snoc attempt_budget_snoc last_claimer_snoc split: option.splits)
next
  case (step_claim w s1 job')
  then obtain k job now where j: "dict_get (workflow_jobs s1) k = Some job"
      "j_status job = JobQueued" "job' = claimed w now job"
      "workflow_jobs s' = dict_set k job' (workflow_jobs s1)"
    unfolding claim_effect_def by blast
  have "j_id job = k"
    by (rule quiet_ids [OF step_claim(3) _ j(1)]) (use ok in \<open>auto simp: jobs_ok_def\<close>)
  with step_claim j quiet_log_ok [OF step_claim(3) log, of i] show ?thesis
    by (auto simp: log_ok_def claim_count_snoc attempt_budget_snoc last_claimer_snoc claims_job_def
        dict_get_set split: option.splits)
next
  case (step_enqueue run_id n p m k st job)
  with fresh have new: "dict_get (workflow_jobs s) (j_id job) = None"
    by (simp add: dict_get_None_iff)
  with step_enqueue log [of i] show ?thesis
    by (auto simp: log_ok_def claim_count_snoc attempt_budget_snoc last_claimer_snoc claims_job_def
        granted_def dict_get_set split: option.splits)
next
  case (step_retry k why job job')
  with log [of i] show ?thesis
    by (auto simp: log_ok_def claim_count_snoc attempt_budget_snoc last_claimer_snoc claims_job_def
        granted_def dict_get_set split: option.splits)
qed

theorem history_invariant:
  "job_history h s \<Longrightarrow> jobs_ok s \<and> (\<forall>i. log_ok i h s)"
proof (induction rule: job_history.induct)
  case (history_start s)
  then show ?case by (simp add: jobs_ok_def log_ok_def claim_count_def attempt_budget_def)
next
  case (history_step h s c r s')
  then have ok: "jobs_ok s" and log: "\<And>i. log_ok i h s" by auto
  from perform_table_step [OF ok history_step.hyps(3)]
  have "table_step s c r s'" .
  from table_step_log_ok [OF this ok history_step.hyps(2) log] perform_jobs_ok [OF ok history_step.hyps(2,3)]
  show ?case by blast
qed

end
