(* ===== verification/Job_Properties.thy ===== *)
theory Job_Properties
  imports Job_History
begin

text \<open>
  The properties of the job queue of the in-memory repository: the invariant of its tables,
  exclusive ownership, bounded claims, finality of completed jobs, order of claims, timeout
  recovery and the effect of a failure on job and run.
\<close>

section \<open>Histories\<close>









section \<open>The order of claims\<close>


section \<open>Timeouts\<close>

text \<open>The condition of the loop of recover_timed_out_workflow_jobs.\<close>

definition timed_out :: "string option \<Rightarrow> int \<Rightarrow> WorkflowJobRecord \<Rightarrow> bool" where
  "timed_out n cutoff job \<longleftrightarrow>
     j_status job = JobRunning \<and> name_matches n job
     \<and> (case j_heartbeat_at job of None \<Rightarrow> j_updated_at job | Some h \<Rightarrow> h) \<le> cutoff"

definition recovered_from :: "WorkflowJobRecord \<Rightarrow> WorkflowJobRecord \<Rightarrow> bool" where
  "recovered_from job job' \<longleftrightarrow>
     (if j_attempt_count job < j_max_attempts job
      then j_status job' = JobQueued \<and> j_worker_id job' = None
      else j_status job' = JobDeadLetter \<and> j_worker_id job' = j_worker_id job)"

lemma recover_one_effect:
  assumes "recover_one t n ref cutoff i s = (Inr x, s')" and "dict_get (workflow_jobs s) i = Some job"
  shows "(\<forall>k. k \<noteq> i \<longrightarrow> dict_get (workflow_jobs s') k = dict_get (workflow_jobs s) k)
     \<and> (\<exists>job'. dict_get (workflow_jobs s') i = Some job'
          \<and> (if timed_out n cutoff job then recovered_from job job' else job' = job))"
proof (cases "timed_out n cutoff job")
  case True
  then have t: "j_status job = JobRunning" "name_matches n job"
      "\<not> cutoff < (case j_heartbeat_at job of None \<Rightarrow> j_updated_at job | Some h \<Rightarrow> h)"
    by (simp_all add: timed_out_def)
  show ?thesis
    using assms True t(1,2)
    by (simp add: recover_one_def py_simps t(3) Let_def recovered_from_def split: if_splits sum.splits option.splits)
      (auto simp: dict_get_set)
next
  case False
  with assms show ?thesis
    by (auto simp: recover_one_def py_simps timed_out_def split: if_splits)
qed

text \<open>The failure history of a payload can be extended: it is a list, or not there yet.\<close>

definition history_listed :: "WorkflowJobRecord \<Rightarrow> bool" where
  "history_listed job =
     (case dict_get (j_payload job) ''failure_history'' of
        None \<Rightarrow> True | Some (PList xs) \<Rightarrow> True | _ \<Rightarrow> False)"

lemma append_workflow_failure_listed:
  "history_listed job \<Longrightarrow>
     \<exists>p. append_workflow_failure ru (j_payload job) a st e t w why = Inr p"
  by (auto simp: history_listed_def append_workflow_failure_def Let_def split: option.splits pyval.splits)

lemma recover_one_total:
  assumes "jobs_ok s" and job: "dict_get (workflow_jobs s) i = Some job"
    and "j_status job = JobRunning \<Longrightarrow> history_listed job"
  obtains x s' where "recover_one t n ref cutoff i s = (Inr x, s')"
proof -
  from assms(1) job have "j_run_id job \<in> set (dict_keys (runs s))" by (simp add: jobs_ok_def)
  then obtain run where run: "dict_get (runs s) (j_run_id job) = Some run"
    using dict_get_Some_of_keys by metis
  show thesis
  proof (cases "j_status job = JobRunning")
    case False
    with job that show thesis by (simp add: recover_one_def py_simps)
  next
    case True
    with assms(3) append_workflow_failure_listed obtain p where
      "append_workflow_failure (uri_redactor s) (j_payload job) (j_attempt_count job)
        (if j_attempt_count job < j_max_attempts job then JobQueued else JobDeadLetter)
        (redact_text (uri_redactor s)
          (''Workflow job heartbeat timed out after '' @ int_str t @ '' seconds.''))
        ref (j_worker_id job) ''heartbeat_timeout'' = Inr p"
      by blast
    with job run True have "\<exists>x s'. recover_one t n ref cutoff i s = (Inr x, s')"
      unfolding recover_one_def
      by (cases "j_attempt_count job < j_max_attempts job") (simp_all add: py_simps Let_def)
    with that show thesis by blast
  qed
qed

definition recovered_all :: "string option \<Rightarrow> int \<Rightarrow> string set \<Rightarrow> 'z repo_scheme \<Rightarrow> 'z repo_scheme \<Rightarrow> bool" where
  "recovered_all n cutoff ids s s' \<longleftrightarrow>
     (\<forall>i job. dict_get (workflow_jobs s) i = Some job \<longrightarrow>
        (\<exists>job'. dict_get (workflow_jobs s') i = Some job'
           \<and> (if i \<in> ids \<and> timed_out n cutoff job then recovered_from job job' else job' = job)))"

lemma recover_each:
  assumes "distinct is" and "set is \<subseteq> set (dict_keys (workflow_jobs s))" and "jobs_ok s"
    and "\<And>i job. dict_get (workflow_jobs s) i = Some job \<Longrightarrow> i \<in> set is \<Longrightarrow> j_status job = JobRunning \<Longrightarrow>
           history_listed job"
  shows "\<exists>xs s'. map_each is (recover_one t n ref cutoff) s = (Inr xs, s')
     \<and> recovered_all n cutoff (set is) s s'"
  using assms
proof (induction "is" arbitrary: s)
  case Nil
  then show ?case by (simp add: py_simps recovered_all_def)
next
  case (Cons i rest)
  then have "i \<in> set (dict_keys (workflow_jobs s))" by simp
  then obtain job where job: "dict_get (workflow_jobs s) i = Some job"
    using dict_get_Some_of_keys by metis
  obtain x s1 where x: "recover_one t n ref cutoff i s = (Inr x, s1)"
    by (rule recover_one_total [OF Cons.prems(3) job]) (use Cons.prems(4) [OF job] in auto)
  note eff = recover_one_effect [OF x job]
  have ok1: "jobs_ok s1"
    by (rule jobs_ok_evolve [OF Cons.prems(3) evolvesD [OF evolves_recover_one [of True] x]])
  have keys1: "dict_keys (workflow_jobs s1) = dict_keys (workflow_jobs s)"
    using evolvesD [OF evolves_recover_one [of True] x] by (simp add: jobs_evolve_def)
  have same: "dict_get (workflow_jobs s1) k = dict_get (workflow_jobs s) k" if "k \<in> set rest" for k
    using eff that Cons.prems(1) by auto
  have "\<exists>xs s'. map_each rest (recover_one t n ref cutoff) s1 = (Inr xs, s')
      \<and> recovered_all n cutoff (set rest) s1 s'"
  proof (rule Cons.IH [OF _ _ ok1])
    show "distinct rest" using Cons.prems(1) by simp
    show "set rest \<subseteq> set (dict_keys (workflow_jobs s1))" using Cons.prems(2) keys1 by simp
    show "history_listed j" if "dict_get (workflow_jobs s1) k = Some j" "k \<in> set rest" "j_status j = JobRunning" for k j
      using that same Cons.prems(4) [of k j] by simp
  qed
  then obtain xs s' where rest: "map_each rest (recover_one t n ref cutoff) s1 = (Inr xs, s')"
      "recovered_all n cutoff (set rest) s1 s'" by blast
  have "recovered_all n cutoff (set (i # rest)) s s'"
    unfolding recovered_all_def
  proof (intro allI impI)
    fix k j assume kj: "dict_get (workflow_jobs s) k = Some j"
    show "\<exists>job'. dict_get (workflow_jobs s') k = Some job'
        \<and> (if k \<in> set (i # rest) \<and> timed_out n cutoff j then recovered_from j job' else job' = j)"
    proof (cases "k = i")
      case True
      with Cons.prems(1) have "i \<notin> set rest" by simp
      moreover from eff obtain j1 where "dict_get (workflow_jobs s1) i = Some j1"
          "if timed_out n cutoff job then recovered_from job j1 else j1 = job" by blast
      ultimately show ?thesis
        using rest(2) True kj job unfolding recovered_all_def by fastforce
    next
      case False
      with eff kj have "dict_get (workflow_jobs s1) k = Some j" by simp
      with rest(2) False show ?thesis unfolding recovered_all_def by fastforce
    qed
  qed
  with x rest(1) show ?case by (simp add: py_simps)
qed

text \<open>
  C6: Timeout recovery succeeds when every running job has a well formed failure history; it
  requeues each timed-out job that has an attempt left, without an owner, sends the others to
  the dead letter, and leaves every other job as it was.
\<close>

theorem recovery_requeues_timed_out:
  assumes "jobs_ok s" and "1 \<le> t"
    and "\<forall>i job. dict_get (workflow_jobs s) i = Some job \<and> j_status job = JobRunning \<longrightarrow> history_listed job"
  shows "\<exists>js s'. recover_timed_out_workflow_jobs t n now s = (Inr js, s')
     \<and> (\<forall>i job. dict_get (workflow_jobs s) i = Some job \<longrightarrow>
          (\<exists>job'. dict_get (workflow_jobs s') i = Some job'
             \<and> (if timed_out (normalize_workflow n)
                     ((case now of Some r \<Rightarrow> r | None \<Rightarrow> clock s (ticks s)) - t * 1000000) job
                then recovered_from job job' else job' = job)))"
proof -
  define ref where "ref = (case now of Some r \<Rightarrow> r | None \<Rightarrow> clock s (ticks s))"
  define s0 where "s0 = (case now of Some r \<Rightarrow> s | None \<Rightarrow> s\<lparr>ticks := Suc (ticks s)\<rparr>)"
  have s0: "workflow_jobs s0 = workflow_jobs s" "workflow_job_order s0 = workflow_job_order s"
      "runs s0 = runs s"
    by (simp_all add: s0_def split: option.splits)
  with assms(1) have ok: "jobs_ok s0" by (simp add: jobs_ok_def)
  have order: "distinct (workflow_job_order s0)"
      "set (workflow_job_order s0) = set (dict_keys (workflow_jobs s0))"
    using ok by (simp_all add: jobs_ok_def)
  have "\<exists>xs s'. map_each (workflow_job_order s0)
        (recover_one t (normalize_workflow n) ref (ref - t * 1000000)) s0 = (Inr xs, s')
      \<and> recovered_all (normalize_workflow n) (ref - t * 1000000) (set (workflow_job_order s0)) s0 s'"
    by (rule recover_each [OF order(1) _ ok]) (use order(2) assms(3) s0 in auto)
  then obtain xs s' where run: "map_each (workflow_job_order s0)
        (recover_one t (normalize_workflow n) ref (ref - t * 1000000)) s0 = (Inr xs, s')"
      and all: "recovered_all (normalize_workflow n) (ref - t * 1000000) (set (workflow_job_order s0)) s0 s'"
    by blast
  have "recover_timed_out_workflow_jobs t n now s = (Inr (List.map_filter (\<lambda>x. x) xs), s')"
    using run assms(2)
    by (cases now) (simp_all add: recover_timed_out_workflow_jobs_def py_simps ref_def s0_def)
  moreover have "i \<in> set (workflow_job_order s0)" if "dict_get (workflow_jobs s) i = Some job" for i job
    using dict_get_mem [OF that] order(2) s0 by simp
  ultimately show ?thesis
    using all s0 unfolding recovered_all_def ref_def [symmetric] by (simp cong: conj_cong)
qed

section \<open>Failure and manual retry\<close>

text \<open>
  C7: A failure report of the owner requeues the job without touching its run when a retry is
  asked and an attempt is left; otherwise the job becomes a dead letter and its run failed, with
  the redacted summary. The job record itself keeps the summary as the worker sent it.
\<close>

theorem failed_job_effect:
  assumes "jobs_ok s" and "dict_get (workflow_jobs s) i = Some job" and "j_status job = JobRunning"
    and "j_worker_id job = Some w" and "history_listed job"
  shows "\<exists>job' s'. fail_workflow_job i e again (Some w) s = (Inr job', s')
     \<and> dict_get (workflow_jobs s') i = Some job' \<and> j_error_summary job' = Some e
     \<and> (if again \<and> j_attempt_count job < j_max_attempts job
        then j_status job' = JobQueued \<and> j_worker_id job' = None \<and> runs s' = runs s
        else j_status job' = JobDeadLetter
             \<and> (\<exists>run. dict_get (runs s') (j_run_id job) = Some run \<and> r_status run = RunFailed
                  \<and> r_error_summary run = Some (redact_text (uri_redactor s) e)))"
proof -
  from assms(1,2) have "j_run_id job \<in> set (dict_keys (runs s))" by (simp add: jobs_ok_def)
  then obtain run where run: "dict_get (runs s) (j_run_id job) = Some run"
    using dict_get_Some_of_keys by metis
  obtain p where "append_workflow_failure (uri_redactor s) (j_payload job) (j_attempt_count job)
      (if again \<and> j_attempt_count job < j_max_attempts job then JobQueued else JobDeadLetter)
      (redact_text (uri_redactor s) e) (clock s (ticks s)) (str_or (Some w) (Some w)) ''worker_failure'' = Inr p"
    using append_workflow_failure_listed [OF assms(5)] by blast
  with assms(2-4) run show ?thesis
    unfolding fail_workflow_job_def
    by (cases again; cases "j_attempt_count job < j_max_attempts job") (simp_all add: py_simps Let_def)
qed

text \<open>
  A manual retry of a dead letter queues the job again with at least one attempt left, so it
  can be claimed, and sets its run back to pending without an error.
\<close>

theorem manual_retry_effect:
  assumes "jobs_ok s" and "dict_get (workflow_jobs s) i = Some job" and "j_status job = JobDeadLetter"
    and "dict_get (j_payload job) ''manual_retry_count'' \<in> {None, Some (PInt k)}"
  shows "\<exists>job' s'. retry_dead_letter_workflow_job i why s = (Inr job', s')
     \<and> dict_get (workflow_jobs s') i = Some job' \<and> j_status job' = JobQueued
     \<and> j_attempt_count job' < j_max_attempts job' \<and> claimable (Some (j_workflow_name job)) s' i
     \<and> (\<exists>run. dict_get (runs s') (j_run_id job) = Some run \<and> r_status run = RunPending
          \<and> r_error_summary run = None)"
proof -
  from assms(1,2) have "j_run_id job \<in> set (dict_keys (runs s))" by (simp add: jobs_ok_def)
  then obtain run where "dict_get (runs s) (j_run_id job) = Some run"
    using dict_get_Some_of_keys by metis
  moreover obtain c where "to_int (case dict_get (j_payload job) ''manual_retry_count'' of
      None \<Rightarrow> PInt 0 | Some v \<Rightarrow> v) = Inr c"
    using assms(4) by auto
  ultimately show ?thesis
    using assms(2,3) unfolding retry_dead_letter_workflow_job_def
    by (simp add: py_simps Let_def claimable_def name_matches_def)
qed

section \<open>A concrete history\<close>

fun run_calls :: "job_call list \<Rightarrow> 'z repo_scheme \<Rightarrow> job_log \<times> 'z repo_scheme" where
  "run_calls [] s = ([], s)"
| "run_calls (c # cs) s =
     (case perform c s of (r, s') \<Rightarrow> (case run_calls cs s' of (h, t) \<Rightarrow> ((c, r) # h, t)))"

fun fresh_calls :: "job_call list \<Rightarrow> 'z repo_scheme \<Rightarrow> bool" where
  "fresh_calls [] s = True"
| "fresh_calls (c # cs) s = (call_fresh c s \<and> fresh_calls cs (snd (perform c s)))"

lemma run_calls_history:
  "job_history h0 s \<Longrightarrow> fresh_calls cs s \<Longrightarrow> job_history (h0 @ fst (run_calls cs s)) (snd (run_calls cs s))"
proof (induction cs arbitrary: h0 s)
  case Nil
  then show ?case by simp
next
  case (Cons c cs)
  obtain r s' where run: "perform c s = (r, s')" by fastforce
  with Cons.prems have "job_history (h0 @ [(c, r)]) s'"
    by (auto intro: history_step)
  from Cons.IH [OF this] Cons.prems run show ?case by (auto split: prod.splits)
qed


definition sample_env :: env where
  "sample_env = \<lparr>clock = (\<lambda>n. int n * 1000000), ticks = 0, uuids = nat_str, uuid_ix = 0,
     uri_redactor = (\<lambda>u. u), repr_of = (\<lambda>v. ''...''), active_trace = None,
     mlflow_log = (\<lambda>r v. (''disabled'', None)), langsmith_log = (\<lambda>r v. (''disabled'', None))\<rparr>"

definition sample_calls :: "job_call list" where
  "sample_calls =
     [CallCreateRun ''Analyse sales'' [] (Some ''t1''),
      CallEnqueue ''run_0'' ''analytics'' [] 2 None JobQueued,
      CallClaimNext ''w1'' (Some ''analytics'') None]"

definition sample_state :: repo where
  "sample_state = snd (run_calls sample_calls (empty_repo sample_env))"

definition sample_log :: job_log where
  "sample_log = fst (run_calls sample_calls (empty_repo sample_env))"

lemma sample_history: "job_history sample_log sample_state"
proof -
  have "job_history [] (empty_repo sample_env)"
    by (rule history_start) (simp_all add: empty_repo_def env.defs)
  moreover have "fresh_calls sample_calls (empty_repo sample_env)" by code_simp
  ultimately show ?thesis
    using run_calls_history [of "[]"] by (simp add: sample_state_def sample_log_def)
qed

definition sample_job :: WorkflowJobRecord where
  "sample_job = \<lparr>j_id = ''job_1'', j_run_id = ''run_0'', j_workflow_name = ''analytics'',
     j_status = JobRunning, j_payload = [], j_attempt_count = 1, j_max_attempts = 2,
     j_created_at = 1000000, j_updated_at = 2000000, j_worker_id = Some ''w1'',
     j_error_summary = None, j_started_at = Some 2000000, j_finished_at = None,
     j_heartbeat_at = Some 2000000\<rparr>"

lemma sample_jobs: "workflow_jobs sample_state = [(''job_1'', sample_job)]"
  by code_simp

lemma sample_lookup: "dict_get (workflow_jobs sample_state) ''job_1'' = Some sample_job"
  by (simp add: sample_jobs)

lemma sample_order: "workflow_job_order sample_state = [''job_1'']"
  by code_simp

lemma sample_run_ids: "fst ` set (runs sample_state) = {''run_0''}"
proof -
  have "dict_keys (runs sample_state) = [''run_0'']" by code_simp
  from arg_cong [OF this, of set] show ?thesis by simp
qed

lemma sample_ok: "jobs_ok sample_state"
  using history_invariant [OF sample_history] by blast







theorem recovery_requeues_timed_out_witness:
  "\<exists>js s' job'. recover_timed_out_workflow_jobs 30 None (Some 60000000) sample_state = (Inr js, s')
     \<and> dict_get (workflow_jobs s') ''job_1'' = Some job' \<and> j_status job' = JobQueued"
proof -
  have "\<forall>i job. dict_get (workflow_jobs sample_state) i = Some job \<and> j_status job = JobRunning
      \<longrightarrow> history_listed job"
    by (simp add: sample_jobs sample_job_def history_listed_def)
  from recovery_requeues_timed_out [OF sample_ok _ this, of 30 None "Some 60000000"]
  obtain js s' where run: "recover_timed_out_workflow_jobs 30 None (Some 60000000) sample_state = (Inr js, s')"
    and all: "\<forall>i job. dict_get (workflow_jobs sample_state) i = Some job \<longrightarrow>
          (\<exists>job'. dict_get (workflow_jobs s') i = Some job'
             \<and> (if timed_out (normalize_workflow None) (60000000 - 30 * 1000000) job
                then recovered_from job job' else job' = job))"
    by auto
  have "timed_out (normalize_workflow None) (60000000 - 30 * 1000000) sample_job"
    by (simp add: timed_out_def sample_job_def normalize_workflow_def name_matches_def)
  with all [rule_format, OF sample_lookup] obtain job'
    where "dict_get (workflow_jobs s') ''job_1'' = Some job'" "recovered_from sample_job job'" by auto
  with run show ?thesis by (auto simp: recovered_from_def sample_job_def)
qed

theorem failed_job_effect_witness:
  "\<exists>job' s'. fail_workflow_job ''job_1'' ''boom'' False (Some ''w1'') sample_state = (Inr job', s')
     \<and> j_status job' = JobDeadLetter \<and> (\<exists>run. dict_get (runs s') ''run_0'' = Some run \<and> r_status run = RunFailed)"
proof -
  have j: "j_status sample_job = JobRunning" "j_worker_id sample_job = Some ''w1''"
      "history_listed sample_job" "j_run_id sample_job = ''run_0''"
    by (simp_all add: sample_job_def history_listed_def)
  from failed_job_effect [OF sample_ok sample_lookup j(1-3), of "''boom''" False] j(4)
  show ?thesis by (simp only: simp_thms if_False) metis
qed

definition dead_state :: repo where
  "dead_state = sample_state\<lparr>workflow_jobs := [(''job_1'', sample_job\<lparr>j_status := JobDeadLetter\<rparr>)]\<rparr>"

theorem manual_retry_effect_witness:
  "\<exists>job' s'. retry_dead_letter_workflow_job ''job_1'' None dead_state = (Inr job', s')
     \<and> j_status job' = JobQueued \<and> claimable (Some ''analytics'') s' ''job_1''"
proof -
  let ?job = "sample_job\<lparr>j_status := JobDeadLetter\<rparr>"
  have "jobs_ok dead_state"
    by (simp add: jobs_ok_def dead_state_def sample_order sample_run_ids sample_job_def job_ok_def)
  moreover have "dict_get (workflow_jobs dead_state) ''job_1'' = Some ?job" by (simp add: dead_state_def)
  moreover have "j_status ?job = JobDeadLetter" by simp
  moreover have "dict_get (j_payload ?job) ''manual_retry_count'' \<in> {None, Some (PInt 0)}"
    by (simp add: sample_job_def)
  moreover have "j_workflow_name ?job = ''analytics''" by (simp add: sample_job_def)
  ultimately show ?thesis using manual_retry_effect [of dead_state "''job_1''" ?job 0 None] by metis
qed

end
