(* ===== verification/Exec_Graph.thy ===== *)
theory Exec_Graph
  imports Run_Models
begin

text \<open>
  orchestration/graph.py: execution graphs and their validation. The depth first search of
  _assert_acyclic keeps the set of nodes it is visiting and the set it has finished; here
  the first is a parameter of the recursion (the code adds a node before its dependencies
  and removes it after, so each call sees the nodes on its path) and the second is threaded
  through, newest first. The limit of Python's recursion depth is not modelled.
\<close>

section \<open>Graphs\<close>

record ExecutionNode =
  en_id :: string
  en_agent :: string
  en_task :: string
  en_depends_on :: "string list"
  en_required_tools :: "string list"
  en_expected_artifacts :: "string list"
  en_risk :: string

record ExecutionGraph =
  eg_run_id :: string
  eg_nodes :: "ExecutionNode list"

definition valid_risk_levels :: "string list" where
  "valid_risk_levels = [''low'', ''medium'', ''high'']"

definition valid_artifact_types :: "string list" where
  "valid_artifact_types = map artifact_type_value all_artifact_types"

text \<open>sorted of a set of strings, joined for a message.\<close>

definition sorted_list :: "string list \<Rightarrow> string" where
  "sorted_list xs = join '', '' (sort (remdups xs))"

section \<open>The search for a cycle\<close>

type_synonym node_table = "(string, ExecutionNode) dict"

function visit :: "node_table \<Rightarrow> string list \<Rightarrow> string \<Rightarrow> string list \<Rightarrow> string list result"
  and visit_all :: "node_table \<Rightarrow> string list \<Rightarrow> string list \<Rightarrow> string list \<Rightarrow> string list result" where
  "visit nodes visiting node_id visited =
     (if node_id \<in> set visited then Inr visited
      else if node_id \<in> set visiting
        then Inl (GraphValidationError ''Execution graph contains a dependency cycle.'')
      else case dict_get nodes node_id of
        None \<Rightarrow> Inl (KeyError node_id)
      | Some node \<Rightarrow>
          (case visit_all nodes (node_id # visiting) (en_depends_on node) visited of
             Inl e \<Rightarrow> Inl e | Inr visited' \<Rightarrow> Inr (node_id # visited')))"
| "visit_all nodes visiting [] visited = Inr visited"
| "visit_all nodes visiting (d # ds) visited =
     (case visit nodes visiting d visited of
        Inl e \<Rightarrow> Inl e | Inr visited' \<Rightarrow> visit_all nodes visiting ds visited')"
  by pat_completeness auto
termination
proof (relation "measures
    [\<lambda>x. case x of Inl (nodes, visiting, _, _) \<Rightarrow> card (set (dict_keys nodes) - set visiting)
         | Inr (nodes, visiting, _, _) \<Rightarrow> card (set (dict_keys nodes) - set visiting),
     \<lambda>x. case x of Inl _ \<Rightarrow> 0 | Inr (_, _, ds, _) \<Rightarrow> Suc (length ds)]")
  fix nodes :: node_table and visiting node_id visited node
  assume "node_id \<notin> set visiting" and "dict_get nodes node_id = Some node"
  then have "set (dict_keys nodes) - set (node_id # visiting) \<subset> set (dict_keys nodes) - set visiting"
    using dict_get_mem [of nodes node_id node] by auto
  then have "card (set (dict_keys nodes) - set (node_id # visiting)) < card (set (dict_keys nodes) - set visiting)"
    by (intro psubset_card_mono) auto
  then show "(Inr (nodes, node_id # visiting, en_depends_on node, visited), Inl (nodes, visiting, node_id, visited))
    \<in> measures
        [\<lambda>x. case x of Inl (nodes, visiting, _, _) \<Rightarrow> card (set (dict_keys nodes) - set visiting)
             | Inr (nodes, visiting, _, _) \<Rightarrow> card (set (dict_keys nodes) - set visiting),
         \<lambda>x. case x of Inl _ \<Rightarrow> 0 | Inr (_, _, ds, _) \<Rightarrow> Suc (length ds)]"
    by simp
qed auto

declare visit.simps [simp del]

definition nodes_by_id :: "ExecutionNode list \<Rightarrow> node_table" where
  "nodes_by_id nodes = foldl (\<lambda>d node. dict_set (en_id node) node d) [] nodes"

definition assert_acyclic :: "ExecutionGraph \<Rightarrow> unit result" where
  "assert_acyclic g =
     (case visit_all (nodes_by_id (eg_nodes g)) [] (dict_keys (nodes_by_id (eg_nodes g))) [] of
        Inl e \<Rightarrow> Inl e | Inr visited \<Rightarrow> Inr ())"

section \<open>Validation\<close>

definition check_node :: "string list \<Rightarrow> string list \<Rightarrow> ExecutionNode \<Rightarrow> unit result" where
  "check_node known_agents ids node =
     (let unknown_artifacts = filter (\<lambda>t. t \<notin> set valid_artifact_types) (en_expected_artifacts node);
          missing = filter (\<lambda>d. d \<notin> set ids) (en_depends_on node) in
      if strip (en_id node) = [] then
        Inl (GraphValidationError ''Execution graph contains a node with a blank ID.'')
      else if strip (en_task node) = [] then
        Inl (GraphValidationError (''Node '' @ en_id node @ '' must include a non-empty task.''))
      else if en_agent node \<notin> set known_agents then
        Inl (GraphValidationError (''Unknown agent for node '' @ en_id node @ '': '' @ en_agent node))
      else if en_risk node \<notin> set valid_risk_levels then
        Inl (GraphValidationError
          (''Node '' @ en_id node @ '' has invalid risk '' @ [CHR 0x27] @ en_risk node @ [CHR 0x27] @ ''. Allowed values: ''
           @ sorted_list valid_risk_levels @ ''.''))
      else if unknown_artifacts \<noteq> [] then
        Inl (GraphValidationError
          (''Node '' @ en_id node @ '' declares unknown artifact types: '' @ sorted_list unknown_artifacts
           @ ''. Allowed values: '' @ sorted_list valid_artifact_types @ ''.''))
      else if missing \<noteq> [] then
        Inl (GraphValidationError
          (''Node '' @ en_id node @ '' depends on missing nodes: '' @ sorted_list missing))
      else Inr ())"

fun check_nodes :: "string list \<Rightarrow> string list \<Rightarrow> ExecutionNode list \<Rightarrow> unit result" where
  "check_nodes known_agents ids [] = Inr ()"
| "check_nodes known_agents ids (node # nodes) =
     (case check_node known_agents ids node of
        Inl e \<Rightarrow> Inl e | Inr u \<Rightarrow> check_nodes known_agents ids nodes)"

definition validate_graph :: "ExecutionGraph \<Rightarrow> string list \<Rightarrow> unit result" where
  "validate_graph g known_agents =
     (let ids = map en_id (eg_nodes g) in
      if eg_nodes g = [] then
        Inl (GraphValidationError ''Execution graph must contain at least one node.'')
      else if length ids \<noteq> length (remdups ids) then
        Inl (GraphValidationError ''Execution graph contains duplicate node IDs.'')
      else case check_nodes known_agents ids (eg_nodes g) of
        Inl e \<Rightarrow> Inl e
      | Inr u \<Rightarrow> assert_acyclic g)"

section \<open>What validation means\<close>

text \<open>depends nodes: the pairs of a node's dependency and the node, by their ids.\<close>

definition depends :: "ExecutionNode list \<Rightarrow> (string \<times> string) set" where
  "depends nodes = {(d, en_id node) | d node. node \<in> set nodes \<and> d \<in> set (en_depends_on node)}"

definition node_ok :: "string list \<Rightarrow> string list \<Rightarrow> ExecutionNode \<Rightarrow> bool" where
  "node_ok known_agents ids node \<longleftrightarrow>
     strip (en_id node) \<noteq> [] \<and> strip (en_task node) \<noteq> [] \<and> en_agent node \<in> set known_agents
     \<and> en_risk node \<in> {''low'', ''medium'', ''high''}
     \<and> set (en_expected_artifacts node) \<subseteq> range artifact_type_value
     \<and> set (en_depends_on node) \<subseteq> set ids"

definition graph_ok :: "string list \<Rightarrow> ExecutionGraph \<Rightarrow> bool" where
  "graph_ok known_agents g \<longleftrightarrow>
     eg_nodes g \<noteq> [] \<and> distinct (map en_id (eg_nodes g))
     \<and> (\<forall>node \<in> set (eg_nodes g). node_ok known_agents (map en_id (eg_nodes g)) node)
     \<and> acyclic (depends (eg_nodes g))"

lemma check_node_iff: "check_node known ids node = Inr u \<longleftrightarrow> node_ok known ids node"
  by (auto simp: check_node_def Let_def node_ok_def valid_risk_levels_def valid_artifact_types_def
      filter_empty_conv image_def)

lemma check_nodes_iff: "check_nodes known ids nodes = Inr u \<longleftrightarrow> (\<forall>node \<in> set nodes. node_ok known ids node)"
proof (induction nodes)
  case (Cons a nodes)
  with check_node_iff [of known ids a] show ?case
    by (cases "check_node known ids a") auto
qed simp

section \<open>Correctness of the search\<close>

text \<open>The edges of a node table, from dependency to dependent.\<close>

definition edges :: "node_table \<Rightarrow> (string \<times> string) set" where
  "edges nodes = {(d, n). \<exists>node. dict_get nodes n = Some node \<and> d \<in> set (en_depends_on node)}"

text \<open>A list, newest first, in which the dependencies of each entry come later.\<close>

fun topo :: "node_table \<Rightarrow> string list \<Rightarrow> bool" where
  "topo nodes [] = True"
| "topo nodes (n # vs) = (topo nodes vs \<and> (\<forall>d. (d, n) \<in> edges nodes \<longrightarrow> d \<in> set vs))"

lemma visit_topo:
  "visit nodes vg n vd = Inr vd' \<Longrightarrow> topo nodes vd \<Longrightarrow> topo nodes vd' \<and> n \<in> set vd' \<and> set vd \<subseteq> set vd'"
  "visit_all nodes vg ns vd = Inr vd' \<Longrightarrow> topo nodes vd \<Longrightarrow> topo nodes vd' \<and> set ns \<subseteq> set vd' \<and> set vd \<subseteq> set vd'"
proof (induction nodes vg n vd and nodes vg ns vd arbitrary: vd' and vd' rule: visit_visit_all.induct)
  case (1 nodes vg n vd)
  show ?case
  proof (cases "n \<in> set vd")
    case True
    with 1 show ?thesis by (simp add: visit.simps)
  next
    case False
    with "1.prems"(1) obtain node vd1 where *: "n \<notin> set vg" "dict_get nodes n = Some node"
        "visit_all nodes (n # vg) (en_depends_on node) vd = Inr vd1" "vd' = n # vd1"
      by (subst (asm) visit.simps) (auto split: if_splits option.splits sum.splits)
    from "1.IH" [OF False *(1,2,3) "1.prems"(2)] *(2,4) show ?thesis
      by (auto simp: edges_def)
  qed
next
  case (3 nodes vg d ds vd)
  from "3.prems"(1) obtain vd1 where v: "visit nodes vg d vd = Inr vd1" "visit_all nodes vg ds vd1 = Inr vd'"
    by (auto split: sum.splits)
  from "3.IH"(1) [OF v(1) "3.prems"(2)] "3.IH"(2) [OF v] show ?case by auto
qed simp

lemma topo_rank:
  "topo nodes vs \<Longrightarrow> \<exists>rank :: string \<Rightarrow> nat.
     \<forall>n \<in> set vs. rank n < length vs \<and> (\<forall>d. (d, n) \<in> edges nodes \<longrightarrow> d \<in> set vs \<and> rank d < rank n)"
proof (induction vs)
  case (Cons n vs)
  then obtain rank :: "string \<Rightarrow> nat" where r:
    "\<forall>m \<in> set vs. rank m < length vs \<and> (\<forall>d. (d, m) \<in> edges nodes \<longrightarrow> d \<in> set vs \<and> rank d < rank m)"
    by auto
  show ?case
  proof (cases "n \<in> set vs")
    case True
    with r show ?thesis by (intro exI [of _ rank]) (auto simp: less_Suc_eq)
  next
    case False
    with r Cons.prems show ?thesis
      by (intro exI [of _ "rank(n := length vs)"]) (auto simp: less_Suc_eq)
  qed
qed simp

lemma visit_complete:
  "acyclic (edges nodes) \<Longrightarrow> fst ` edges nodes \<subseteq> set (dict_keys nodes) \<Longrightarrow> n \<in> set (dict_keys nodes) \<Longrightarrow>
     (\<And>v. v \<in> set vg \<Longrightarrow> (n, v) \<in> (edges nodes)\<^sup>+) \<Longrightarrow> \<exists>vd'. visit nodes vg n vd = Inr vd'"
  "acyclic (edges nodes) \<Longrightarrow> fst ` edges nodes \<subseteq> set (dict_keys nodes) \<Longrightarrow> set ns \<subseteq> set (dict_keys nodes) \<Longrightarrow>
     (\<And>n v. n \<in> set ns \<Longrightarrow> v \<in> set vg \<Longrightarrow> (n, v) \<in> (edges nodes)\<^sup>+) \<Longrightarrow> \<exists>vd'. visit_all nodes vg ns vd = Inr vd'"
proof (induction nodes vg n vd and nodes vg ns vd rule: visit_visit_all.induct)
  case (1 nodes vg n vd)
  show ?case
  proof (cases "n \<in> set vd")
    case True
    then show ?thesis by (simp add: visit.simps)
  next
    case False
    have "n \<notin> set vg" using "1.prems"(1,4) by (auto simp: acyclic_def)
    moreover obtain node where node: "dict_get nodes n = Some node"
      using "1.prems"(3) dict_get_Some_of_keys by metis
    moreover have "\<exists>vd'. visit_all nodes (n # vg) (en_depends_on node) vd = Inr vd'"
    proof (rule "1.IH" [OF False \<open>n \<notin> set vg\<close> node "1.prems"(1,2)])
      have e: "(d, n) \<in> edges nodes" if "d \<in> set (en_depends_on node)" for d
        using node that by (auto simp: edges_def)
      then show "set (en_depends_on node) \<subseteq> set (dict_keys nodes)"
        using "1.prems"(2) by force
      show "(d, v) \<in> (edges nodes)\<^sup>+" if "d \<in> set (en_depends_on node)" "v \<in> set (n # vg)" for d v
        using e [OF that(1)] that(2) "1.prems"(4) [of v] by (auto intro: trancl_into_trancl2)
    qed
    ultimately show ?thesis using False by (auto simp: visit.simps)
  qed
next
  case (3 nodes vg d ds vd)
  then obtain vd1 where v: "visit nodes vg d vd = Inr vd1" by auto
  with "3.IH"(2) [OF v] "3.prems" show ?case by auto
qed simp

lemma visit_error:
  "visit nodes vg n vd = Inl e \<Longrightarrow> fst ` edges nodes \<subseteq> set (dict_keys nodes) \<Longrightarrow> n \<in> set (dict_keys nodes) \<Longrightarrow>
     e = GraphValidationError ''Execution graph contains a dependency cycle.''"
  "visit_all nodes vg ns vd = Inl e \<Longrightarrow> fst ` edges nodes \<subseteq> set (dict_keys nodes) \<Longrightarrow>
     set ns \<subseteq> set (dict_keys nodes) \<Longrightarrow>
     e = GraphValidationError ''Execution graph contains a dependency cycle.''"
proof (induction nodes vg n vd and nodes vg ns vd rule: visit_visit_all.induct)
  case (1 nodes vg n vd)
  show ?case
  proof (cases "n \<in> set vd \<or> n \<in> set vg")
    case True
    with "1.prems"(1) show ?thesis by (subst (asm) visit.simps) (auto split: if_splits)
  next
    case False
    then have nn: "n \<notin> set vd" "n \<notin> set vg" by auto
    obtain node where node: "dict_get nodes n = Some node"
      using "1.prems"(3) dict_get_Some_of_keys by metis
    with nn "1.prems"(1) have v: "visit_all nodes (n # vg) (en_depends_on node) vd = Inl e"
      by (subst (asm) visit.simps) (auto split: sum.splits)
    have "(d, n) \<in> edges nodes" if "d \<in> set (en_depends_on node)" for d
      using node that by (auto simp: edges_def)
    then have "set (en_depends_on node) \<subseteq> set (dict_keys nodes)" using "1.prems"(2) by force
    from "1.IH" [OF nn node v "1.prems"(2) this] show ?thesis .
  qed
next
  case (3 nodes vg d ds vd)
  show ?case
  proof (cases "visit nodes vg d vd")
    case (Inl e')
    with "3.IH"(1) [OF _ "3.prems"(2)] "3.prems" show ?thesis by simp
  next
    case (Inr vd1)
    with "3.IH"(2) [OF Inr _ "3.prems"(2)] "3.prems" show ?thesis by simp
  qed
qed simp

lemma foldl_dict_set:
  "distinct (dict_keys acc @ map en_id nodes) \<Longrightarrow>
     foldl (\<lambda>d node. dict_set (en_id node) node d) acc nodes = acc @ map (\<lambda>node. (en_id node, node)) nodes"
  by (induction nodes arbitrary: acc) (simp_all add: dict_set_new)

lemma nodes_by_id_distinct:
  "distinct (map en_id nodes) \<Longrightarrow> nodes_by_id nodes = map (\<lambda>node. (en_id node, node)) nodes"
  by (simp add: nodes_by_id_def foldl_dict_set)

lemma map_of_ids:
  "distinct (map en_id nodes) \<Longrightarrow>
     map_of (map (\<lambda>node. (en_id node, node)) nodes) i = Some node \<longleftrightarrow> node \<in> set nodes \<and> en_id node = i"
  by (subst map_of_eq_Some_iff) (auto simp: comp_def image_iff)

lemma edges_by_id: "distinct (map en_id nodes) \<Longrightarrow> edges (nodes_by_id nodes) = depends nodes"
  by (auto simp: edges_def depends_def nodes_by_id_distinct map_of_ids)

lemma keys_by_id: "distinct (map en_id nodes) \<Longrightarrow> dict_keys (nodes_by_id nodes) = map en_id nodes"
  by (simp add: nodes_by_id_distinct comp_def)

lemma acyclic_by_rank:
  fixes rank :: "'a \<Rightarrow> nat"
  assumes "\<And>x y. (x, y) \<in> r \<Longrightarrow> rank x < rank y"
  shows "acyclic r"
proof -
  have "r \<subseteq> measure rank" using assms by auto
  then show ?thesis by (meson wf_acyclic wf_measure wf_subset)
qed

lemma assert_acyclic_iff:
  assumes d: "distinct (map en_id (eg_nodes g))"
    and closed: "fst ` depends (eg_nodes g) \<subseteq> set (map en_id (eg_nodes g))"
  shows "assert_acyclic g = Inr () \<longleftrightarrow> acyclic (depends (eg_nodes g))"
    and "assert_acyclic g = Inl e \<Longrightarrow> e = GraphValidationError ''Execution graph contains a dependency cycle.''"
proof -
  let ?t = "nodes_by_id (eg_nodes g)"
  note [simp] = edges_by_id [OF d]
  have keys: "set (dict_keys ?t) = set (map en_id (eg_nodes g))" by (simp only: keys_by_id [OF d])
  then have closed': "fst ` edges ?t \<subseteq> set (dict_keys ?t)" using closed by (simp del: set_map)
  show "assert_acyclic g = Inr () \<longleftrightarrow> acyclic (depends (eg_nodes g))"
  proof
    assume "assert_acyclic g = Inr ()"
    then obtain vd where vd: "visit_all ?t [] (dict_keys ?t) [] = Inr vd"
      by (auto simp: assert_acyclic_def split: sum.splits)
    from visit_topo(2) [OF vd] have t: "topo ?t vd" "set (dict_keys ?t) \<subseteq> set vd" by auto
    from topo_rank [OF t(1)] obtain rank :: "string \<Rightarrow> nat" where
      r: "\<forall>n \<in> set vd. \<forall>d. (d, n) \<in> edges ?t \<longrightarrow> rank d < rank n" by blast
    have "n \<in> set vd" if "(m, n) \<in> edges ?t" for m n
      using that t(2) by (auto simp: edges_def dest!: dict_get_mem simp del: edges_by_id)
    with r show "acyclic (depends (eg_nodes g))"
      by (intro acyclic_by_rank [of _ rank]) auto
  next
    assume "acyclic (depends (eg_nodes g))"
    with visit_complete(2) [of ?t "dict_keys ?t" "[]" "[]"] closed'
    obtain vd where "visit_all ?t [] (dict_keys ?t) [] = Inr vd" by auto
    then show "assert_acyclic g = Inr ()" by (simp add: assert_acyclic_def)
  qed
  show "assert_acyclic g = Inl e \<Longrightarrow> e = GraphValidationError ''Execution graph contains a dependency cycle.''"
    using visit_error(2) [of ?t "[]" "dict_keys ?t" "[]" e] closed'
    by (auto simp: assert_acyclic_def split: sum.splits)
qed

lemma nodes_ok_closed:
  "\<forall>node \<in> set nodes. node_ok known (map en_id nodes) node \<Longrightarrow>
     fst ` depends nodes \<subseteq> set (map en_id nodes)"
  by (force simp: depends_def node_ok_def)

lemma dependsI:
  "node \<in> set nodes \<Longrightarrow> d \<in> set (en_depends_on node) \<Longrightarrow> en_id node = n \<Longrightarrow> (d, n) \<in> depends nodes"
  by (auto simp: depends_def)

lemma accepted_iff_ok: "validate_graph g known_agents = Inr () \<longleftrightarrow> graph_ok known_agents g"
proof -
  have len: "length xs \<noteq> length (remdups xs) \<longleftrightarrow> \<not> distinct xs" for xs :: "string list"
    by (metis length_remdups_eq remdups_id_iff_distinct)
  show ?thesis
    using assert_acyclic_iff(1) [of g] nodes_ok_closed [of "eg_nodes g" known_agents]
      check_nodes_iff [of known_agents "map en_id (eg_nodes g)" "eg_nodes g" "()"]
    by (auto simp: validate_graph_def graph_ok_def Let_def len simp del: set_map length_map
        split: sum.splits)
qed

text \<open>
  C8: ExecutionGraph.validate accepts a graph exactly when it has a node, its ids are distinct,
  every node has a non-blank id and task, a known agent, a known risk and artifact types,
  dependencies inside the graph, and the dependency relation has no cycle.
\<close>

theorem validate_graph_iff: "validate_graph g known_agents = Inr () \<longleftrightarrow> graph_ok known_agents g"
  by (rule accepted_iff_ok)

text \<open>
  A graph whose nodes are well formed and in which some node depends on itself through
  others is rejected with the error message about a dependency cycle, and with no other error.
\<close>

theorem cyclic_graph_reported:
  assumes "eg_nodes g \<noteq> []" and "distinct (map en_id (eg_nodes g))"
    and "\<forall>node \<in> set (eg_nodes g). node_ok known_agents (map en_id (eg_nodes g)) node"
    and "(n, n) \<in> (depends (eg_nodes g))\<^sup>+"
  shows "validate_graph g known_agents =
     Inl (GraphValidationError ''Execution graph contains a dependency cycle.'')"
proof -
  have "check_nodes known_agents (map en_id (eg_nodes g)) (eg_nodes g) = Inr ()"
    using assms(3) by (simp add: check_nodes_iff)
  moreover have "assert_acyclic g \<noteq> Inr ()"
    using assms(4) assert_acyclic_iff(1) [OF assms(2) nodes_ok_closed [OF assms(3)]]
    by (auto simp: acyclic_def)
  then obtain e where "assert_acyclic g = Inl e" by (cases "assert_acyclic g") auto
  ultimately show ?thesis
    using assms(1,2) assert_acyclic_iff(2) [OF assms(2) nodes_ok_closed [OF assms(3)]]
    by (simp add: validate_graph_def Let_def distinct_remdups_id)
qed

definition sample_node :: "string \<Rightarrow> string list \<Rightarrow> ExecutionNode" where
  "sample_node i deps = \<lparr>en_id = i, en_agent = ''report'', en_task = ''write'', en_depends_on = deps,
     en_required_tools = [], en_expected_artifacts = [''report''], en_risk = ''low''\<rparr>"

theorem cyclic_graph_reported_witness:
  "validate_graph \<lparr>eg_run_id = ''r'', eg_nodes = [sample_node ''a'' [''b''], sample_node ''b'' [''a'']]\<rparr> [''report'']
     = Inl (GraphValidationError ''Execution graph contains a dependency cycle.'')"
proof (rule cyclic_graph_reported)
  let ?ns = "[sample_node ''a'' [''b''], sample_node ''b'' [''a'']]"
  have "(''a'', ''b'') \<in> depends ?ns"
    by (rule dependsI [of "sample_node ''b'' [''a'']"]) (simp_all add: sample_node_def)
  moreover have "(''b'', ''a'') \<in> depends ?ns"
    by (rule dependsI [of "sample_node ''a'' [''b'']"]) (simp_all add: sample_node_def)
  ultimately show "(''a'', ''a'') \<in> (depends (eg_nodes \<lparr>eg_run_id = ''r'', eg_nodes = ?ns\<rparr>))\<^sup>+"
    by (auto intro: trancl_into_trancl)
  have "artifact_type_value REPORT \<in> range artifact_type_value" by (rule rangeI)
  moreover have "strip ''a'' \<noteq> []" "strip ''b'' \<noteq> []" "strip ''write'' \<noteq> []" by code_simp+
  ultimately show "\<forall>node \<in> set (eg_nodes \<lparr>eg_run_id = ''r'', eg_nodes = ?ns\<rparr>).
      node_ok [''report''] (map en_id (eg_nodes \<lparr>eg_run_id = ''r'', eg_nodes = ?ns\<rparr>)) node"
    by (simp add: node_ok_def sample_node_def)
qed (simp_all add: sample_node_def)

end
