(* ===== verification/Agent_Registry.thy ===== *)
theory Agent_Registry
  imports Run_Models
begin

text \<open>
  agents/registry.py and agents/base.py: registrations of agents by type, and the input and
  output of an agent. It opens with the interface every registry of the program offers: a
  table that refuses a key it holds and finds what was registered.
\<close>

section \<open>Registries as an interface\<close>

text \<open>
  look finds an entry, add registers one and raises when its key is taken. The laws are
  those of a table that only grows.
\<close>

locale registry =
  fixes look :: "'t \<Rightarrow> 'k \<Rightarrow> 'v option"
    and add :: "'v \<Rightarrow> 't \<Rightarrow> 't result"
    and key :: "'v \<Rightarrow> 'k"
  assumes add_new: "look t (key v) = None \<Longrightarrow> \<exists>t'. add v t = Inr t'"
    and add_taken: "look t (key v) \<noteq> None \<Longrightarrow> \<exists>e. add v t = Inl e"
    and look_add: "add v t = Inr t' \<Longrightarrow> look t' k = (if k = key v then Some v else look t k)"
begin

fun add_all :: "'v list \<Rightarrow> 't \<Rightarrow> 't result" where
  "add_all [] t = Inr t"
| "add_all (v # vs) t = (case add v t of Inl e \<Rightarrow> Inl e | Inr t' \<Rightarrow> add_all vs t')"

lemma add_iff: "(\<exists>t'. add v t = Inr t') \<longleftrightarrow> look t (key v) = None"
  using add_new add_taken by (metis Inl_Inr_False)

lemma add_keeps: "add v t = Inr t' \<Longrightarrow> look t k = Some w \<Longrightarrow> look t' k = Some w"
  using look_add add_iff by force

lemma add_all_distinct: "add_all vs t = Inr t' \<Longrightarrow> distinct (map key vs)"
proof (induction vs arbitrary: t)
  case (Cons v vs)
  from Cons.prems obtain t1 where t1: "add v t = Inr t1" "add_all vs t1 = Inr t'"
    by (auto split: sum.splits)
  have "look t1 (key v) = Some v" using look_add [OF t1(1)] by simp
  moreover have "look t1 (key w) = None" if "w \<in> set vs" for w
    using t1(2) that
  proof (induction vs arbitrary: t1)
    case (Cons x xs)
    then obtain t2 where t2: "add x t1 = Inr t2" "add_all xs t2 = Inr t'"
      by (auto split: sum.splits)
    then have "look t1 (key x) = None" using add_iff by blast
    moreover have "look t2 (key w) = None" if "w \<in> set xs" using Cons.IH [OF t2(2) that] .
    ultimately show ?case
      using Cons.prems(2) add_keeps [OF t2(1)] by (metis not_None_eq set_ConsD)
  qed simp
  ultimately have "key v \<notin> key ` set vs" by force
  with Cons.IH [OF t1(2)] show ?case by simp
qed simp

lemma look_add_all:
  "add_all vs t = Inr t' \<Longrightarrow>
     look t' k = (case find (\<lambda>v. key v = k) vs of Some v \<Rightarrow> Some v | None \<Rightarrow> look t k)"
proof (induction vs arbitrary: t)
  case (Cons v vs)
  from Cons.prems obtain t1 where t1: "add v t = Inr t1" "add_all vs t1 = Inr t'"
    by (auto split: sum.splits)
  note IH = Cons.IH [OF t1(2)] and l = look_add [OF t1(1)]
  show ?case
  proof (cases "key v = k")
    case True
    with add_all_distinct [OF Cons.prems] have "find (\<lambda>v. key v = k) vs = None"
      by (simp add: find_None_iff) (metis image_eqI)
    with IH l True show ?thesis by simp
  next
    case False
    with IH l show ?thesis by (simp split: option.split)
  qed
qed simp

end

section \<open>Agents (agents/registry.py)\<close>

record AgentRegistration =
  ag_agent_type :: string
  ag_description :: string
  ag_risk_profile :: string
  ag_capabilities :: "string list"

type_synonym agent_registry = "(string, AgentRegistration) dict"

definition register_agent :: "AgentRegistration \<Rightarrow> agent_registry \<Rightarrow> agent_registry result" where
  "register_agent registration reg =
     (if dict_get reg (ag_agent_type registration) \<noteq> None
      then Inl (ValueError (''Agent already registered: '' @ ag_agent_type registration))
      else Inr (dict_set (ag_agent_type registration) registration reg))"

definition agent_get :: "agent_registry \<Rightarrow> string \<Rightarrow> AgentRegistration result" where
  "agent_get reg agent_type =
     (case dict_get reg agent_type of
        None \<Rightarrow> Inl (KeyError (''Unknown agent type: '' @ agent_type)) | Some r \<Rightarrow> Inr r)"

definition list_agent_types :: "agent_registry \<Rightarrow> string list" where
  "list_agent_types reg = sort (dict_keys reg)"

interpretation agents: registry dict_get register_agent ag_agent_type
  by unfold_locales (auto simp: register_agent_def dict_get_set split: if_splits)

definition default_registrations :: "AgentRegistration list" where
  "default_registrations =
     [\<lparr>ag_agent_type = ''planner'', ag_description = ''Creates the execution graph.'',
        ag_risk_profile = ''medium'',
        ag_capabilities = [''task_decomposition'', ''dependency_planning'', ''execution_graph'']\<rparr>,
      \<lparr>ag_agent_type = ''security'', ag_description = ''Applies tool policy and approval gates.'',
        ag_risk_profile = ''high'',
        ag_capabilities = [''tool_policy'', ''approval_gates'', ''risk_assessment'']\<rparr>,
      \<lparr>ag_agent_type = ''data_retrieval'', ag_description = ''Profiles and retrieves datasets.'',
        ag_risk_profile = ''low'',
        ag_capabilities = [''dataset_reference'', ''schema_profile'', ''quality_signals'']\<rparr>,
      \<lparr>ag_agent_type = ''analytics_code'', ag_description = ''Computes KPIs and reproducible analysis.'',
        ag_risk_profile = ''medium'',
        ag_capabilities = [''kpi_generation'', ''analysis_code'', ''deterministic_metrics'']\<rparr>,
      \<lparr>ag_agent_type = ''investigation'',
        ag_description = ''Executes governed read-only evidence checks selected by a model.'',
        ag_risk_profile = ''low'',
        ag_capabilities = [''bounded_tool_selection'', ''verified_evidence'', ''investigation_report'']\<rparr>,
      \<lparr>ag_agent_type = ''visualization'', ag_description = ''Creates chart and dashboard artifacts.'',
        ag_risk_profile = ''low'',
        ag_capabilities = [''chart_rendering'', ''dashboard_html'', ''visual_summary'']\<rparr>,
      \<lparr>ag_agent_type = ''report'', ag_description = ''Generates final report artifacts.'',
        ag_risk_profile = ''low'',
        ag_capabilities = [''markdown_report'', ''executive_summary'', ''artifact_synthesis'']\<rparr>,
      \<lparr>ag_agent_type = ''evaluation'', ag_description = ''Scores outputs for quality and grounding.'',
        ag_risk_profile = ''low'',
        ag_capabilities = [''quality_checks'', ''evaluation_records'', ''grounding_review'']\<rparr>,
      \<lparr>ag_agent_type = ''deployment'', ag_description = ''Stores or deploys validated artifacts.'',
        ag_risk_profile = ''high'',
        ag_capabilities = [''artifact_promotion'', ''deployment_request'', ''release_metadata'']\<rparr>]"

text \<open>AgentRegistry(registrations): the registrations one after another.\<close>

fun register_agents :: "AgentRegistration list \<Rightarrow> agent_registry \<Rightarrow> agent_registry result" where
  "register_agents [] reg = Inr reg"
| "register_agents (r # rs) reg =
     (case register_agent r reg of Inl e \<Rightarrow> Inl e | Inr reg' \<Rightarrow> register_agents rs reg')"

definition build_default_registry :: "agent_registry result" where
  "build_default_registry = register_agents default_registrations []"

section \<open>Agent input and output (agents/base.py)\<close>

record AgentInput =
  ai_run_id :: string
  ai_node_id :: string
  ai_task :: string
  ai_context :: "(string, pyval) dict"
  ai_artifacts :: "string list"
  ai_approvals :: "string list"

text \<open>The status is one of three literals, which the code compares as a string.\<close>

record AgentOutput =
  ao_status :: string
  ao_summary :: string
  ao_artifacts :: "string list"
  ao_events :: "(string, pyval) dict list"
  ao_metrics :: "(string, pyval) dict"
  ao_errors :: "string list"

lemma register_agents_add_all: "register_agents rs reg = agents.add_all rs reg"
  by (induction rs arbitrary: reg) (simp_all split: sum.split)

lemma default_registry_types:
  "\<exists>reg. build_default_registry = Inr reg \<and> dict_keys reg = map ag_agent_type default_registrations"
  by (simp add: build_default_registry_def default_registrations_def register_agent_def)

end
