(* ===== verification/Tool_Policy.thy ===== *)
theory Tool_Policy
  imports Agent_Registry
begin

text \<open>
  security/policy.py: the registry of tool permissions and policy rules, and the evaluation
  of a tool request against them. The module fnmatch of the standard library is modelled in
  full. A context keeps the declared fields of PolicyEvaluationContext; additional fields,
  which the class allows, are carried but read by nothing. The dump of the context that a
  decision carries is the context record itself.
\<close>

section \<open>Data\<close>

datatype ToolPermissionLevel = READ_ONLY | WRITE | EXTERNAL_NETWORK | CODE_EXECUTION | DEPLOYMENT_LEVEL

datatype ToolRiskLevel = RiskLow | RiskMedium | RiskHigh

datatype ToolPolicyDecisionStatus = ALLOW | APPROVAL_REQUIRED | BLOCK | RETRY | ESCALATE

fun permission_level_value :: "ToolPermissionLevel \<Rightarrow> string" where
  "permission_level_value READ_ONLY = ''read_only''"
| "permission_level_value WRITE = ''write''"
| "permission_level_value EXTERNAL_NETWORK = ''external_network''"
| "permission_level_value CODE_EXECUTION = ''code_execution''"
| "permission_level_value DEPLOYMENT_LEVEL = ''deployment''"

fun risk_value :: "ToolRiskLevel \<Rightarrow> string" where
  "risk_value RiskLow = ''low''"
| "risk_value RiskMedium = ''medium''"
| "risk_value RiskHigh = ''high''"

fun decision_value :: "ToolPolicyDecisionStatus \<Rightarrow> string" where
  "decision_value ALLOW = ''allow''"
| "decision_value APPROVAL_REQUIRED = ''approval_required''"
| "decision_value BLOCK = ''block''"
| "decision_value RETRY = ''retry''"
| "decision_value ESCALATE = ''escalate''"

text \<open>The dictionary of _highest_priority_rule, as the order of the decisions.\<close>

fun decision_priority :: "ToolPolicyDecisionStatus \<Rightarrow> nat" where
  "decision_priority BLOCK = 0"
| "decision_priority RETRY = 1"
| "decision_priority ESCALATE = 2"
| "decision_priority APPROVAL_REQUIRED = 3"
| "decision_priority ALLOW = 4"

lemma decision_priority_inj: "decision_priority a = decision_priority b \<longleftrightarrow> a = b"
  by (cases a; cases b) simp_all

instantiation ToolPolicyDecisionStatus :: linorder
begin

definition less_eq_ToolPolicyDecisionStatus :: "ToolPolicyDecisionStatus \<Rightarrow> ToolPolicyDecisionStatus \<Rightarrow> bool" where
  "less_eq_ToolPolicyDecisionStatus a b \<longleftrightarrow> decision_priority a \<le> decision_priority b"

definition less_ToolPolicyDecisionStatus :: "ToolPolicyDecisionStatus \<Rightarrow> ToolPolicyDecisionStatus \<Rightarrow> bool" where
  "less_ToolPolicyDecisionStatus a b \<longleftrightarrow> decision_priority a < decision_priority b"

instance
  by standard
    (auto simp: less_eq_ToolPolicyDecisionStatus_def less_ToolPolicyDecisionStatus_def
       decision_priority_inj [symmetric])

end

lemma BLOCK_least: "BLOCK \<le> d" and below_BLOCK: "d \<le> BLOCK \<longleftrightarrow> d = BLOCK"
  by (simp_all add: less_eq_ToolPolicyDecisionStatus_def decision_priority_inj [of d BLOCK, symmetric])

record ToolPermission =
  tp_tool :: string
  tp_permission_level :: ToolPermissionLevel
  tp_risk :: ToolRiskLevel
  tp_description :: string
  tp_approval_required :: bool
  tp_blocked :: bool
  tp_destructive :: bool

record PolicyEvaluationContext =
  pc_input_summary :: string
  pc_approved :: bool
  pc_agent_type :: "string option"
  pc_node_id :: "string option"
  pc_run_id :: "string option"
  pc_connector_id :: "string option"
  pc_credential_profile_id :: "string option"
  pc_artifact_type :: "string option"
  pc_artifact_sensitive :: bool
  pc_destination :: "string option"
  pc_metadata :: "(string, pyval) dict"

record ToolPolicyDecision =
  td_tool :: string
  td_policy_rule_id :: "string option"
  td_permission_level :: "ToolPermissionLevel option"
  td_risk :: ToolRiskLevel
  td_decision :: ToolPolicyDecisionStatus
  td_reason :: string
  td_input_summary :: string
  td_approval_required :: bool
  td_approved :: bool
  td_destructive :: bool
  td_escalation_target :: "string option"
  td_retry_after_seconds :: "int option"
  td_context :: PolicyEvaluationContext

record PolicyRule =
  pr_id :: string
  pr_description :: string
  pr_decision :: ToolPolicyDecisionStatus
  pr_reason :: string
  pr_tool_patterns :: "string list"
  pr_permission_levels :: "ToolPermissionLevel list"
  pr_risk_levels :: "ToolRiskLevel list"
  pr_connector_ids :: "string list"
  pr_artifact_types :: "string list"
  pr_destinations :: "string list"
  pr_sensitive_artifact :: "bool option"
  pr_metadata_keys :: "string list"
  pr_escalation_target :: "string option"
  pr_retry_after_seconds :: "int option"

section \<open>Validation of the models\<close>

text \<open>
  The field validators. pydantic raises ValidationError, a ValueError; the length limits of
  a field are checked on the text before it is stripped.
\<close>

definition limited :: "nat \<Rightarrow> string \<Rightarrow> string result" where
  "limited n s =
     (if s = [] \<or> n < length s then Inl (ValueError ''String length out of range.'')
      else if strip s = [] then Inl (ValueError ''Value must not be blank.'')
      else Inr (strip s))"

fun normalize_list_acc :: "string list \<Rightarrow> string list \<Rightarrow> string list" where
  "normalize_list_acc acc [] = acc"
| "normalize_list_acc acc (item # items) =
     (let txt = strip item in
      normalize_list_acc (if txt \<noteq> [] \<and> txt \<notin> set acc then acc @ [txt] else acc) items)"

definition normalize_list :: "string list \<Rightarrow> string list" where
  "normalize_list xs = normalize_list_acc [] xs"

definition validate_rule :: "PolicyRule \<Rightarrow> PolicyRule result" where
  "validate_rule rule =
     (case limited 128 (pr_id rule) of Inl e \<Rightarrow> Inl e | Inr i \<Rightarrow>
      case limited 500 (pr_description rule) of Inl e \<Rightarrow> Inl e | Inr d \<Rightarrow>
      case limited 500 (pr_reason rule) of Inl e \<Rightarrow> Inl e | Inr why \<Rightarrow>
      if (case pr_escalation_target rule of None \<Rightarrow> False | Some t \<Rightarrow> 200 < length t) then
        Inl (ValueError ''String length out of range.'')
      else if (case pr_retry_after_seconds rule of None \<Rightarrow> False | Some t \<Rightarrow> t < 1 \<or> 86400 < t) then
        Inl (ValueError ''retry_after_seconds out of range.'')
      else Inr (rule\<lparr>pr_id := i, pr_description := d, pr_reason := why,
                 pr_tool_patterns := normalize_list (pr_tool_patterns rule),
                 pr_connector_ids := normalize_list (pr_connector_ids rule),
                 pr_artifact_types := normalize_list (pr_artifact_types rule),
                 pr_destinations := normalize_list (pr_destinations rule),
                 pr_metadata_keys := normalize_list (pr_metadata_keys rule)\<rparr>))"

section \<open>fnmatch\<close>

text \<open>
  A pattern is a list of tokens: a star, a question mark, a literal, or a bracket with its
  negation flag and ranges (a single character is a range of one). bracket_body splits off
  the text up to the closing bracket: after an optional exclamation mark the first
  character is taken even when it is a closing bracket.
\<close>

datatype glob_token = GStar | GAny | GLit char | GSet bool "(char \<times> char) list"

fun upto_bracket :: "string \<Rightarrow> (string \<times> string) option" where
  "upto_bracket [] = None"
| "upto_bracket (c # cs) =
     (if c = CHR '']'' then Some ([], cs)
      else map_option (\<lambda>(a, b). (c # a, b)) (upto_bracket cs))"

definition bracket_from :: "string \<Rightarrow> (string \<times> string) option" where
  "bracket_from cs =
     (case cs of
        [] \<Rightarrow> None
      | c # rest \<Rightarrow>
          (if c = CHR '']'' then map_option (\<lambda>(a, b). (c # a, b)) (upto_bracket rest)
           else upto_bracket cs))"

definition bracket_body :: "string \<Rightarrow> (bool \<times> string \<times> string) option" where
  "bracket_body cs =
     (case cs of
        [] \<Rightarrow> None
      | c # rest \<Rightarrow>
          (if c = CHR ''!'' then map_option (\<lambda>(a, b). (True, a, b)) (bracket_from rest)
           else map_option (\<lambda>(a, b). (False, a, b)) (bracket_from cs)))"

fun ranges :: "string \<Rightarrow> (char \<times> char) list" where
  "ranges (x # h # y # rest) =
     (if h = CHR ''-'' then (x, y) # ranges rest else (x, x) # ranges (h # y # rest))"
| "ranges [x, y] = [(x, x), (y, y)]"
| "ranges [x] = [(x, x)]"
| "ranges [] = []"

text \<open>
  Empty ranges are dropped. When that leaves an exclamation mark in front, the translation
  to a regular expression reads it as a negation.
\<close>

definition glob_set :: "bool \<Rightarrow> string \<Rightarrow> glob_token" where
  "glob_set negated body =
     (let kept = filter (\<lambda>(x, y). x \<le> y) (ranges body) in
      if negated then GSet True kept
      else case kept of
        (x, y) # others \<Rightarrow>
          (if x = CHR ''!'' then
             GSet True ((if y = x then [] else [(CHR ''-'', CHR ''-''), (y, y)]) @ others)
           else GSet False kept)
      | [] \<Rightarrow> GSet False [])"

lemma upto_bracket_length: "upto_bracket cs = Some (a, b) \<Longrightarrow> length b < length cs"
  by (induction cs arbitrary: a b) (fastforce split: if_splits)+

lemma bracket_body_length: "bracket_body cs = Some (n, a, b) \<Longrightarrow> length b < length cs"
  by (auto simp: bracket_body_def bracket_from_def split: list.splits if_splits
      dest!: upto_bracket_length)

function glob_tokens :: "string \<Rightarrow> glob_token list" where
  "glob_tokens [] = []"
| "glob_tokens (c # cs) =
     (if c = CHR ''*'' then GStar # glob_tokens cs
      else if c = CHR ''?'' then GAny # glob_tokens cs
      else if c = CHR ''['' then
        (case bracket_body cs of
           None \<Rightarrow> GLit c # glob_tokens cs
         | Some (negated, body, rest) \<Rightarrow> glob_set negated body # glob_tokens rest)
      else GLit c # glob_tokens cs)"
  by pat_completeness auto
termination
  by (relation "measure length") (auto dest: bracket_body_length)

fun glob_match :: "glob_token list \<Rightarrow> string \<Rightarrow> bool" where
  "glob_match [] s = (s = [])"
| "glob_match (GStar # ts) s =
     (glob_match ts s \<or> (case s of [] \<Rightarrow> False | c # cs \<Rightarrow> glob_match (GStar # ts) cs))"
| "glob_match (GAny # ts) s = (case s of [] \<Rightarrow> False | c # cs \<Rightarrow> glob_match ts cs)"
| "glob_match (GLit x # ts) s = (case s of [] \<Rightarrow> False | c # cs \<Rightarrow> c = x \<and> glob_match ts cs)"
| "glob_match (GSet negated rs # ts) s =
     (case s of [] \<Rightarrow> False
      | c # cs \<Rightarrow> (list_ex (\<lambda>(x, y). x \<le> c \<and> c \<le> y) rs \<noteq> negated) \<and> glob_match ts cs)"

definition fnmatch :: "string \<Rightarrow> string \<Rightarrow> bool" where
  "fnmatch name pattern = glob_match (glob_tokens pattern) name"

section \<open>Rule matching\<close>

definition matches_any :: "string \<Rightarrow> string list \<Rightarrow> bool" where
  "matches_any name patterns = list_ex (fnmatch name) patterns"

definition metadata_has_any_key :: "(string, pyval) dict \<Rightarrow> string list \<Rightarrow> bool" where
  "metadata_has_any_key metadata ks =
     (if ks = [] then False
      else list_ex (\<lambda>k. lower k \<in> set (map lower ks)) (dict_keys metadata))"

definition rule_matches :: "PolicyRule \<Rightarrow> string \<Rightarrow> ToolPermission \<Rightarrow> PolicyEvaluationContext \<Rightarrow> bool" where
  "rule_matches rule tool permission context =
     (if pr_tool_patterns rule \<noteq> [] \<and> \<not> list_ex (fnmatch tool) (pr_tool_patterns rule) then False
      else if pr_permission_levels rule \<noteq> []
              \<and> tp_permission_level permission \<notin> set (pr_permission_levels rule) then False
      else if pr_risk_levels rule \<noteq> [] \<and> tp_risk permission \<notin> set (pr_risk_levels rule) then False
      else if pr_connector_ids rule \<noteq> []
              \<and> pc_connector_id context \<notin> Some ` set (pr_connector_ids rule) then False
      else if pr_artifact_types rule \<noteq> []
              \<and> pc_artifact_type context \<notin> Some ` set (pr_artifact_types rule) then False
      else if pr_destinations rule \<noteq> []
              \<and> \<not> matches_any (case pc_destination context of None \<Rightarrow> [] | Some d \<Rightarrow> d) (pr_destinations rule)
        then False
      else if (case pr_sensitive_artifact rule of
                 None \<Rightarrow> False | Some b \<Rightarrow> pc_artifact_sensitive context \<noteq> b)
        then metadata_has_any_key (pc_metadata context) (pr_metadata_keys rule)
      else if pr_metadata_keys rule \<noteq> []
              \<and> \<not> metadata_has_any_key (pc_metadata context) (pr_metadata_keys rule) then False
      else True)"

text \<open>sorted(rules, key = priority and id)[0], of a list that is not empty.\<close>

definition highest_priority_rule :: "PolicyRule list \<Rightarrow> PolicyRule option" where
  "highest_priority_rule rules =
     (if rules = [] then None
      else Some (hd (sort_key (\<lambda>rule. (pr_decision rule, pr_id rule)) rules)))"

section \<open>The permission registry\<close>

record ToolPermissionRegistry =
  permissions :: "(string, ToolPermission) dict"
  rules :: "(string, PolicyRule) dict"

definition register :: "ToolPermission \<Rightarrow> ToolPermissionRegistry \<Rightarrow> ToolPermissionRegistry result" where
  "register permission reg =
     (if dict_get (permissions reg) (tp_tool permission) \<noteq> None
      then Inl (ValueError (''Tool permission already registered: '' @ tp_tool permission))
      else Inr (reg\<lparr>permissions := dict_set (tp_tool permission) permission (permissions reg)\<rparr>))"

definition register_rule :: "PolicyRule \<Rightarrow> ToolPermissionRegistry \<Rightarrow> ToolPermissionRegistry result" where
  "register_rule rule reg =
     (if dict_get (rules reg) (pr_id rule) \<noteq> None
      then Inl (ValueError (''Policy rule already registered: '' @ pr_id rule))
      else Inr (reg\<lparr>rules := dict_set (pr_id rule) rule (rules reg)\<rparr>))"

definition get_permission :: "ToolPermissionRegistry \<Rightarrow> string \<Rightarrow> ToolPermission option" where
  "get_permission reg tool = dict_get (permissions reg) tool"

definition get_rule :: "ToolPermissionRegistry \<Rightarrow> string \<Rightarrow> PolicyRule option" where
  "get_rule reg rule_id = dict_get (rules reg) rule_id"

interpretation tools: registry get_permission register tp_tool
  by unfold_locales (auto simp: get_permission_def register_def dict_get_set split: if_splits)

interpretation policies: registry get_rule register_rule pr_id
  by unfold_locales (auto simp: get_rule_def register_rule_def dict_get_set split: if_splits)

definition list_tools :: "ToolPermissionRegistry \<Rightarrow> string list" where
  "list_tools reg = sort (dict_keys (permissions reg))"

definition list_rules :: "ToolPermissionRegistry \<Rightarrow> PolicyRule list" where
  "list_rules reg = map (\<lambda>i. the (dict_get (rules reg) i)) (sort (dict_keys (rules reg)))"

definition matching_rules ::
    "ToolPermissionRegistry \<Rightarrow> string \<Rightarrow> ToolPermission \<Rightarrow> PolicyEvaluationContext \<Rightarrow> PolicyRule list" where
  "matching_rules reg tool permission context =
     filter (\<lambda>rule. rule_matches rule tool permission context) (map snd (rules reg))"

fun register_all :: "ToolPermission list \<Rightarrow> ToolPermissionRegistry \<Rightarrow> ToolPermissionRegistry result" where
  "register_all [] reg = Inr reg"
| "register_all (p # ps) reg =
     (case register p reg of Inl e \<Rightarrow> Inl e | Inr reg' \<Rightarrow> register_all ps reg')"

fun register_rules :: "PolicyRule list \<Rightarrow> ToolPermissionRegistry \<Rightarrow> ToolPermissionRegistry result" where
  "register_rules [] reg = Inr reg"
| "register_rules (r # rs) reg =
     (case register_rule r reg of Inl e \<Rightarrow> Inl e | Inr reg' \<Rightarrow> register_rules rs reg')"

text \<open>ToolPermissionRegistry(permissions, rules)\<close>

definition make_registry :: "ToolPermission list \<Rightarrow> PolicyRule list \<Rightarrow> ToolPermissionRegistry result" where
  "make_registry ps rs =
     (case register_all ps \<lparr>permissions = [], rules = []\<rparr> of
        Inl e \<Rightarrow> Inl e | Inr reg \<Rightarrow> register_rules rs reg)"

section \<open>Evaluation\<close>

text \<open>
  The payload of a context: a dictionary in which a field may be missing. A
  PolicyEvaluationContext is dumped to a payload in which every field is there.
\<close>

record context_payload =
  cp_input_summary :: "string option"
  cp_approved :: "bool option"
  cp_rest :: PolicyEvaluationContext

definition no_context :: PolicyEvaluationContext where
  "no_context = \<lparr>pc_input_summary = [], pc_approved = False, pc_agent_type = None, pc_node_id = None,
     pc_run_id = None, pc_connector_id = None, pc_credential_profile_id = None,
     pc_artifact_type = None, pc_artifact_sensitive = False, pc_destination = None,
     pc_metadata = []\<rparr>"

definition model_payload :: "PolicyEvaluationContext \<Rightarrow> context_payload" where
  "model_payload c = \<lparr>cp_input_summary = Some (pc_input_summary c), cp_approved = Some (pc_approved c),
     cp_rest = c\<rparr>"

definition empty_payload :: context_payload where
  "empty_payload = \<lparr>cp_input_summary = None, cp_approved = None, cp_rest = no_context\<rparr>"

text \<open>payload.setdefault for the two fields, then model_validate.\<close>

definition build_context :: "string \<Rightarrow> bool \<Rightarrow> context_payload \<Rightarrow> PolicyEvaluationContext result" where
  "build_context input_summary approved payload =
     (let summary = (case cp_input_summary payload of None \<Rightarrow> input_summary | Some t \<Rightarrow> t);
          appr = (case cp_approved payload of None \<Rightarrow> approved | Some b \<Rightarrow> b)
      in case limited 1000 summary of
           Inl e \<Rightarrow> Inl e
         | Inr normalized \<Rightarrow>
             Inr ((cp_rest payload)\<lparr>pc_input_summary := normalized, pc_approved := appr\<rparr>))"

definition decision_from_rule ::
    "string \<Rightarrow> ToolPermission \<Rightarrow> PolicyRule \<Rightarrow> PolicyEvaluationContext \<Rightarrow> ToolPolicyDecision" where
  "decision_from_rule tool permission rule context =
     (let requires_approval = (pr_decision rule \<in> {APPROVAL_REQUIRED, ESCALATE}) in
      if requires_approval \<and> pc_approved context then
        \<lparr>td_tool = tool, td_policy_rule_id = Some (pr_id rule),
         td_permission_level = Some (tp_permission_level permission), td_risk = tp_risk permission,
         td_decision = ALLOW, td_reason = pr_reason rule @ '' Approval has been granted.'',
         td_input_summary = pc_input_summary context, td_approval_required = True,
         td_approved = True, td_destructive = tp_destructive permission,
         td_escalation_target = pr_escalation_target rule, td_retry_after_seconds = None,
         td_context = context\<rparr>
      else
        \<lparr>td_tool = tool, td_policy_rule_id = Some (pr_id rule),
         td_permission_level = Some (tp_permission_level permission), td_risk = tp_risk permission,
         td_decision = pr_decision rule, td_reason = pr_reason rule,
         td_input_summary = pc_input_summary context, td_approval_required = requires_approval,
         td_approved = False, td_destructive = tp_destructive permission,
         td_escalation_target = pr_escalation_target rule,
         td_retry_after_seconds = pr_retry_after_seconds rule, td_context = context\<rparr>)"

definition plain_decision ::
    "string \<Rightarrow> ToolPermission \<Rightarrow> PolicyEvaluationContext \<Rightarrow> ToolPolicyDecisionStatus \<Rightarrow> string \<Rightarrow> bool \<Rightarrow> bool \<Rightarrow>
     ToolPolicyDecision" where
  "plain_decision tool permission context decision reason approval_required approved =
     \<lparr>td_tool = tool, td_policy_rule_id = None,
      td_permission_level = Some (tp_permission_level permission), td_risk = tp_risk permission,
      td_decision = decision, td_reason = reason, td_input_summary = pc_input_summary context,
      td_approval_required = approval_required, td_approved = approved,
      td_destructive = tp_destructive permission, td_escalation_target = None,
      td_retry_after_seconds = None, td_context = context\<rparr>"

definition evaluate ::
    "ToolPermissionRegistry \<Rightarrow> string \<Rightarrow> string \<Rightarrow> bool \<Rightarrow> context_payload \<Rightarrow> ToolPolicyDecision result" where
  "evaluate reg tool input_summary approved payload =
     (case build_context input_summary approved payload of
        Inl e \<Rightarrow> Inl e
      | Inr context \<Rightarrow>
          Inr (case get_permission reg tool of
             None \<Rightarrow>
               \<lparr>td_tool = tool, td_policy_rule_id = None, td_permission_level = None,
                td_risk = RiskHigh, td_decision = BLOCK,
                td_reason = ''Tool is not registered in the permission registry.'',
                td_input_summary = pc_input_summary context, td_approval_required = False,
                td_approved = False, td_destructive = False, td_escalation_target = None,
                td_retry_after_seconds = None, td_context = context\<rparr>
           | Some permission \<Rightarrow>
               (case highest_priority_rule (matching_rules reg tool permission context) of
                  Some rule \<Rightarrow> decision_from_rule tool permission rule context
                | None \<Rightarrow>
                    if tp_blocked permission then
                      plain_decision tool permission context BLOCK
                        (if tp_destructive permission
                         then ''Tool is blocked by policy because it is destructive.''
                         else ''Tool is blocked by policy.'') False False
                    else
                      (let requires_approval =
                             (tp_approval_required permission \<or> tp_risk permission = RiskHigh) in
                       if requires_approval \<and> \<not> approved then
                         plain_decision tool permission context APPROVAL_REQUIRED
                           ''Tool requires approval before execution.'' True False
                       else
                         plain_decision tool permission context ALLOW
                           (if approved \<and> requires_approval then ''Tool execution approved.''
                            else ''Tool allowed.'')
                           requires_approval (approved \<and> requires_approval)))))"

section \<open>The default policy\<close>

definition permission ::
    "string \<Rightarrow> ToolPermissionLevel \<Rightarrow> ToolRiskLevel \<Rightarrow> string \<Rightarrow> bool \<Rightarrow> bool \<Rightarrow> bool \<Rightarrow> ToolPermission" where
  "permission tool level risk description approval_required blocked destructive =
     \<lparr>tp_tool = tool, tp_permission_level = level, tp_risk = risk, tp_description = description,
      tp_approval_required = approval_required, tp_blocked = blocked, tp_destructive = destructive\<rparr>"

text \<open>A rule with the defaults of the class: every tool, no other condition.\<close>

definition policy_rule :: "string \<Rightarrow> string \<Rightarrow> ToolPolicyDecisionStatus \<Rightarrow> string \<Rightarrow> PolicyRule" where
  "policy_rule i description decision reason =
     \<lparr>pr_id = i, pr_description = description, pr_decision = decision, pr_reason = reason,
      pr_tool_patterns = [''*''], pr_permission_levels = [], pr_risk_levels = [],
      pr_connector_ids = [], pr_artifact_types = [], pr_destinations = [],
      pr_sensitive_artifact = None, pr_metadata_keys = [], pr_escalation_target = None,
      pr_retry_after_seconds = None\<rparr>"

definition default_permissions :: "ToolPermission list" where
  "default_permissions =
     [
      permission ''dataset_reader'' READ_ONLY RiskLow
        ''Read local dataset artifacts.'' False False False,
      permission ''schema_profiler'' READ_ONLY RiskLow
        ''Infer schema metadata from datasets.'' False False False,
      permission ''quality_checker'' READ_ONLY RiskLow
        ''Compute dataset quality signals.'' False False False,
      permission ''dataframe_query'' READ_ONLY RiskLow
        ''Read and aggregate dataset rows.'' False False False,
      permission ''artifact_reader'' READ_ONLY RiskLow
        ''Read previously registered artifacts.'' False False False,
      permission ''deterministic_evaluator'' READ_ONLY RiskLow
        ''Run deterministic evaluation checks.'' False False False,
      permission ''python_analysis'' CODE_EXECUTION RiskMedium
        ''Accept statically validated analysis code artifacts.'' False False False,
      permission ''code_artifact_writer'' WRITE RiskMedium
        ''Write reproducible analysis code artifacts.'' False False False,
      permission ''chart_renderer'' WRITE RiskMedium
        ''Write chart artifacts.'' False False False,
      permission ''dashboard_renderer'' WRITE RiskMedium
        ''Write dashboard artifacts.'' False False False,
      permission ''markdown_report_writer'' WRITE RiskMedium
        ''Write Markdown report artifacts.'' False False False,
      permission ''evaluation_writer'' WRITE RiskMedium
        ''Write evaluation artifacts and records.'' False False False,
      permission ''external_http'' EXTERNAL_NETWORK RiskHigh
        ''Call external HTTP services.'' True False False,
      permission ''snowflake_query'' EXTERNAL_NETWORK RiskHigh
        ''Query an external Snowflake warehouse.'' True False False,
      permission ''deploy_artifact'' DEPLOYMENT_LEVEL RiskHigh
        ''Deploy generated artifacts outside the local sandbox.'' True False False,
      permission ''delete_artifact'' WRITE RiskHigh
        ''Delete artifacts from storage.'' False True True,
      permission ''shell_exec'' CODE_EXECUTION RiskHigh
        ''Execute arbitrary shell commands.'' False True True]"

definition default_rules :: "PolicyRule list" where
  "default_rules =
     [(policy_rule ''code-execution-approval''
         ''Gate untrusted code execution tools before they can affect outputs.''
         APPROVAL_REQUIRED ''Untrusted code execution requires reviewer approval.'')
        \<lparr>pr_tool_patterns := [''untrusted_*'', ''dynamic_python_exec'']\<rparr>,
      (policy_rule ''deployment-promotion-approval''
         ''Gate deployment promotion outside local artifact storage.''
         APPROVAL_REQUIRED ''Deployment promotion requires release approval.'')
        \<lparr>pr_permission_levels := [DEPLOYMENT_LEVEL]\<rparr>,
      (policy_rule ''external-connector-escalation''
         ''Escalate external connector access to platform security.''
         ESCALATE ''External connector access requires platform-security review.'')
        \<lparr>pr_permission_levels := [EXTERNAL_NETWORK], pr_escalation_target := Some ''platform-security''\<rparr>,
      (policy_rule ''sensitive-artifact-approval''
         ''Gate access to artifacts marked sensitive or containing secret-like metadata.''
         APPROVAL_REQUIRED ''Sensitive artifact access requires approval.'')
        \<lparr>pr_tool_patterns := [''artifact_reader'', ''dataset_reader''],
         pr_sensitive_artifact := Some True,
         pr_metadata_keys := [''pii'', ''contains_pii'', ''sensitive'', ''secret'']\<rparr>,
      (policy_rule ''destructive-action-deny'' ''Deny destructive tool use.''
         BLOCK ''Destructive tool use is denied by governance policy.'')
        \<lparr>pr_tool_patterns := [''delete_*'', ''shell_exec'']\<rparr>]"

definition default_tool_permission_registry :: "ToolPermissionRegistry result" where
  "default_tool_permission_registry = make_registry default_permissions default_rules"

fun validate_rules :: "PolicyRule list \<Rightarrow> PolicyRule list result" where
  "validate_rules [] = Inr []"
| "validate_rules (r # rs) =
     (case validate_rule r of Inl e \<Rightarrow> Inl e | Inr r' \<Rightarrow>
      case validate_rules rs of Inl e \<Rightarrow> Inl e | Inr rs' \<Rightarrow> Inr (r' # rs'))"

definition build_policy_registry_from_rules ::
    "PolicyRule list \<Rightarrow> ToolPermission list option \<Rightarrow> ToolPermissionRegistry result" where
  "build_policy_registry_from_rules rs ps =
     (case validate_rules rs of Inl e \<Rightarrow> Inl e | Inr parsed \<Rightarrow>
      case (case ps of None \<Rightarrow> default_tool_permission_registry | Some xs \<Rightarrow> make_registry xs []) of
        Inl e \<Rightarrow> Inl e | Inr base \<Rightarrow> register_rules parsed base)"

end
