(* ===== verification/Policy_Properties.thy ===== *)
theory Policy_Properties
  imports Tool_Policy
begin

text \<open>
  The properties of the tool policy: the strictest matching rule decides, the default policy
  never lets a risky or destructive tool through without approval, and rules added to it
  cannot undo that.
\<close>

section \<open>The strictest rule decides\<close>

lemma highest_priority_rule_Some:
  assumes "highest_priority_rule rs = Some r"
  shows "r \<in> set rs" and "\<And>r'. r' \<in> set rs \<Longrightarrow> (pr_decision r, pr_id r) \<le> (pr_decision r', pr_id r')"
proof -
  let ?f = "\<lambda>rule. (pr_decision rule, pr_id rule)"
  from assms have ne: "rs \<noteq> []" and r: "r = hd (sort_key ?f rs)"
    by (auto simp: highest_priority_rule_def split: if_splits)
  then obtain xs where xs: "sort_key ?f rs = r # xs"
    by (cases "sort_key ?f rs") (auto dest: arg_cong [of _ _ length])
  then have "set rs = set (r # xs)" by (metis set_sort)
  then show "r \<in> set rs" by simp
  fix r' assume "r' \<in> set rs"
  with \<open>set rs = set (r # xs)\<close> have "r' = r \<or> r' \<in> set xs" by simp
  moreover have "sorted (map ?f (r # xs))" using sorted_sort_key [of ?f rs] xs by simp
  ultimately show "?f r \<le> ?f r'" by auto
qed

lemma highest_priority_rule_None: "highest_priority_rule rs = None \<longleftrightarrow> rs = []"
  by (simp add: highest_priority_rule_def)

lemma priority_decision_le: "(pr_decision r, pr_id r) \<le> (pr_decision r', pr_id r') \<Longrightarrow> pr_decision r \<le> pr_decision r'"
  by (auto simp: less_eq_prod_def)

text \<open>How evaluate goes on once a rule matches.\<close>

lemma evaluate_by_rule:
  assumes "evaluate reg tool summary approved payload = Inr d" and "get_permission reg tool = Some p"
    and "rule \<in> set (matching_rules reg tool p (td_context d))"
  obtains r where "r \<in> set (matching_rules reg tool p (td_context d))" and "pr_decision r \<le> pr_decision rule"
    and "d = decision_from_rule tool p r (td_context d)"
proof -
  from assms(1) obtain c where c: "build_context summary approved payload = Inr c"
    by (auto simp: evaluate_def split: sum.splits)
  have ctx: "td_context d = c"
    using assms(1,2) c
    by (auto simp: evaluate_def decision_from_rule_def plain_decision_def Let_def split: option.splits if_splits)
  with assms(3) obtain r where r: "highest_priority_rule (matching_rules reg tool p c) = Some r"
    using highest_priority_rule_None by fastforce
  with assms(1,2) c have "d = decision_from_rule tool p r c"
    by (simp add: evaluate_def)
  moreover have "pr_decision r \<le> pr_decision rule"
    using priority_decision_le [OF highest_priority_rule_Some(2) [OF r]] assms(3) ctx by simp
  ultimately show thesis
    using that [of r] highest_priority_rule_Some(1) [OF r] ctx by simp
qed

lemma decision_from_rule_cases:
  "td_decision (decision_from_rule tool p r c) = pr_decision r
   \<or> (td_decision (decision_from_rule tool p r c) = ALLOW \<and> td_approved (decision_from_rule tool p r c)
      \<and> pc_approved c \<and> pr_decision r \<in> {APPROVAL_REQUIRED, ESCALATE})"
  by (simp add: decision_from_rule_def Let_def)

text \<open>
  C9: When rules match a tool request, the decision names a matching rule that is at least as
  strict as every other matching one, and is that rule decision, or allow when the rule asks for
  approval or escalation and the context is approved.
\<close>

theorem strictest_rule_decides:
  assumes "evaluate reg tool summary approved payload = Inr d" and "get_permission reg tool = Some p"
    and "rule \<in> set (matching_rules reg tool p (td_context d))"
  shows "\<exists>r \<in> set (matching_rules reg tool p (td_context d)).
     td_policy_rule_id d = Some (pr_id r) \<and> pr_decision r \<le> pr_decision rule
     \<and> (td_decision d = pr_decision r
        \<or> (td_decision d = ALLOW \<and> pc_approved (td_context d) \<and> pr_decision r \<in> {APPROVAL_REQUIRED, ESCALATE}))"
proof -
  from evaluate_by_rule [OF assms] obtain r where
    r: "r \<in> set (matching_rules reg tool p (td_context d))" "pr_decision r \<le> pr_decision rule"
      "d = decision_from_rule tool p r (td_context d)" .
  have "td_policy_rule_id (decision_from_rule tool p r (td_context d)) = Some (pr_id r)"
    by (simp add: decision_from_rule_def Let_def)
  with r decision_from_rule_cases [of tool p r "td_context d"] show ?thesis by metis
qed

lemma block_rule_wins:
  assumes "evaluate reg tool summary approved payload = Inr d" and "get_permission reg tool = Some p"
    and "rule \<in> set (matching_rules reg tool p (td_context d))" and "pr_decision rule = BLOCK"
  shows "td_decision d = BLOCK"
proof -
  from evaluate_by_rule [OF assms(1-3)] obtain r where
    r: "pr_decision r \<le> pr_decision rule" "d = decision_from_rule tool p r (td_context d)" .
  with assms(4) have "pr_decision r = BLOCK" by (simp add: below_BLOCK)
  with r(2) decision_from_rule_cases [of tool p r "td_context d"] show ?thesis by auto
qed

section \<open>The default policy\<close>

definition default_reg :: ToolPermissionRegistry where
  "default_reg = \<lparr>permissions = map (\<lambda>p. (tp_tool p, p)) default_permissions,
     rules = map (\<lambda>r. (pr_id r, r)) default_rules\<rparr>"

lemma default_registry_is: "default_tool_permission_registry = Inr default_reg"
  by code_simp

text \<open>The tools of the default registry that its rules always gate.\<close>

definition rule_covers :: "PolicyRule \<Rightarrow> ToolPermission \<Rightarrow> bool" where
  "rule_covers r p \<longleftrightarrow>
     r \<in> set default_rules \<and> pr_sensitive_artifact r = None \<and> pr_risk_levels r = []
     \<and> pr_connector_ids r = [] \<and> pr_artifact_types r = [] \<and> pr_destinations r = []
     \<and> pr_metadata_keys r = [] \<and> list_ex (fnmatch (tp_tool p)) (pr_tool_patterns r)
     \<and> (pr_permission_levels r = [] \<or> tp_permission_level p \<in> set (pr_permission_levels r))"

lemma rule_covers_matches: "rule_covers r p \<Longrightarrow> rule_matches r (tp_tool p) p c"
  by (auto simp: rule_covers_def rule_matches_def)

lemma default_gates:
  "\<forall>p \<in> set default_permissions.
     (tp_destructive p \<or> tp_blocked p \<longrightarrow> (\<exists>r \<in> set default_rules. rule_covers r p \<and> pr_decision r = BLOCK))
     \<and> (tp_risk p = RiskHigh \<longrightarrow> (\<exists>r \<in> set default_rules. rule_covers r p))"
  by code_simp

lemma default_rules_never_allow: "\<forall>r \<in> set default_rules. pr_decision r \<noteq> ALLOW"
  by code_simp

lemma default_permission:
  "get_permission default_reg tool = Some p \<Longrightarrow> p \<in> set default_permissions \<and> tp_tool p = tool"
  by (auto simp: get_permission_def default_reg_def dest!: map_of_SomeD)

lemma default_matching:
  "set (matching_rules default_reg tool p c) = {r \<in> set default_rules. rule_matches r tool p c}"
  by (simp add: matching_rules_def default_reg_def comp_def)

lemma default_allow_is_safe:
  assumes "evaluate default_reg tool summary approved payload = Inr d" and "td_decision d = ALLOW"
  shows "\<exists>p. get_permission default_reg tool = Some p \<and> \<not> tp_destructive p \<and> \<not> tp_blocked p
     \<and> (tp_risk p = RiskHigh \<longrightarrow> td_approved d \<and> pc_approved (td_context d))"
proof (cases "get_permission default_reg tool")
  case None
  with assms show ?thesis by (auto simp: evaluate_def split: sum.splits)
next
  case (Some p)
  note p = default_permission [OF Some]
  have covered: "r \<in> set (matching_rules default_reg tool p (td_context d))" if "rule_covers r p" for r
    using that p rule_covers_matches [OF that] by (auto simp: default_matching rule_covers_def)
  have "\<not> tp_destructive p \<and> \<not> tp_blocked p"
  proof (rule ccontr)
    assume "\<not> (\<not> tp_destructive p \<and> \<not> tp_blocked p)"
    with p default_gates obtain r where "rule_covers r p" "pr_decision r = BLOCK" by blast
    with block_rule_wins [OF assms(1) Some covered] assms(2) show False by simp
  qed
  moreover have "td_approved d \<and> pc_approved (td_context d)" if "tp_risk p = RiskHigh"
  proof -
    from that p default_gates obtain r where "rule_covers r p" by blast
    from evaluate_by_rule [OF assms(1) Some covered [OF this]] obtain r' where
      r': "r' \<in> set (matching_rules default_reg tool p (td_context d))"
        "d = decision_from_rule tool p r' (td_context d)" by blast
    from r'(1) default_rules_never_allow have "pr_decision r' \<noteq> ALLOW" by (auto simp: default_matching)
    with r'(2) decision_from_rule_cases [of tool p r' "td_context d"] assms(2) show ?thesis by metis
  qed
  ultimately show ?thesis using Some by blast
qed

text \<open>
  C10: Under the default registry a tool is allowed only if it is registered, neither
  destructive nor blocked, and, when its risk is high, approved.
\<close>

theorem default_policy_gates_risk:
  assumes "evaluate default_reg tool summary approved payload = Inr d" and "td_decision d = ALLOW"
  shows "\<exists>p. get_permission default_reg tool = Some p \<and> \<not> tp_destructive p \<and> \<not> tp_blocked p
     \<and> (tp_risk p = RiskHigh \<longrightarrow> td_approved d \<and> pc_approved (td_context d))"
  by (rule default_allow_is_safe [OF assms])

section \<open>Added rules\<close>

lemma register_rules_add_all: "register_rules rs reg = policies.add_all rs reg"
  by (induction rs arbitrary: reg) (simp_all split: sum.split)

lemma register_rules_permissions: "register_rules rs reg = Inr reg' \<Longrightarrow> permissions reg' = permissions reg"
  by (induction rs arbitrary: reg) (auto simp: register_rule_def split: sum.splits if_splits)

lemma add_all_keeps_rule:
  assumes "policies.add_all rs reg = Inr reg'" and "get_rule reg i = Some r"
  shows "get_rule reg' i = Some r"
  using assms
proof (induction rs arbitrary: reg)
  case (Cons x xs)
  then obtain reg1 where "register_rule x reg = Inr reg1" "policies.add_all xs reg1 = Inr reg'"
    by (auto split: sum.splits)
  with Cons.IH policies.add_keeps [OF _ Cons.prems(2)] show ?case by blast
qed simp

text \<open>
  C11: Whatever custom rules are added to the default registry, the destructive tools
  delete_artifact and shell_exec stay blocked, approved or not.
\<close>

theorem added_rules_cannot_unblock:
  assumes "build_policy_registry_from_rules rs None = Inr reg"
    and "tool \<in> {''delete_artifact'', ''shell_exec''}"
    and "evaluate reg tool summary approved payload = Inr d"
  shows "td_decision d = BLOCK"
proof -
  from assms(1) obtain parsed where reg: "register_rules parsed default_reg = Inr reg"
    by (auto simp: build_policy_registry_from_rules_def default_registry_is split: sum.splits)
  then have get: "get_permission reg tool = get_permission default_reg tool"
    by (simp add: get_permission_def register_rules_permissions)
  have "\<forall>t \<in> {''delete_artifact'', ''shell_exec''}.
      (case get_permission default_reg t of Some p \<Rightarrow> tp_blocked p | None \<Rightarrow> False)" by code_simp
  with assms(2) obtain p where p: "get_permission default_reg tool = Some p" "tp_blocked p"
    by (auto split: option.splits)
  note pd = default_permission [OF p(1)]
  with p(2) default_gates obtain r where r: "rule_covers r p" "pr_decision r = BLOCK" by blast
  have "list_all (\<lambda>r. get_rule default_reg (pr_id r) = Some r) default_rules" by code_simp
  with r(1) have "get_rule default_reg (pr_id r) = Some r" by (simp add: rule_covers_def list_all_iff)
  with reg have "get_rule reg (pr_id r) = Some r"
    using add_all_keeps_rule by (simp add: register_rules_add_all)
  then have "r \<in> snd ` set (rules reg)" unfolding get_rule_def by (force dest: map_of_SomeD)
  with rule_covers_matches [OF r(1)] pd have "r \<in> set (matching_rules reg tool p (td_context d))"
    by (auto simp: matching_rules_def)
  from block_rule_wins [OF assms(3) _ this r(2)] get p(1) show ?thesis by simp
qed

section \<open>Sensitive artifacts\<close>

text \<open>
  Under the default registry, reading an artifact that is only marked sensitive in the
  context, without one of the metadata keys of the rule, is allowed without approval: the
  metadata keys are a further condition of the rule and not an alternative to the mark.
\<close>

theorem sensitive_flag_alone_allows:
  assumes "tool \<in> {''artifact_reader'', ''dataset_reader''}"
    and "evaluate default_reg tool summary approved payload = Inr d"
    and "pc_artifact_sensitive (td_context d)"
    and "\<not> metadata_has_any_key (pc_metadata (td_context d)) [''pii'', ''contains_pii'', ''sensitive'', ''secret'']"
  shows "td_decision d = ALLOW \<and> \<not> td_approval_required d"
proof -
  have "\<forall>t \<in> {''artifact_reader'', ''dataset_reader''}.
      (case get_permission default_reg t of
         Some p \<Rightarrow> tp_permission_level p = READ_ONLY \<and> tp_risk p = RiskLow \<and> \<not> tp_blocked p \<and> \<not> tp_approval_required p
       | None \<Rightarrow> False)" by code_simp
  with assms(1) obtain p where p: "get_permission default_reg tool = Some p" "tp_permission_level p = READ_ONLY"
      "tp_risk p = RiskLow" "\<not> tp_blocked p" "\<not> tp_approval_required p"
    by (auto split: option.splits)
  have "\<forall>t \<in> {''artifact_reader'', ''dataset_reader''}. \<forall>r \<in> set default_rules.
      (pr_tool_patterns r \<noteq> [] \<and> \<not> list_ex (fnmatch t) (pr_tool_patterns r))
      \<or> (pr_permission_levels r \<noteq> [] \<and> READ_ONLY \<notin> set (pr_permission_levels r))
      \<or> (pr_sensitive_artifact r = Some True
         \<and> pr_metadata_keys r = [''pii'', ''contains_pii'', ''sensitive'', ''secret''])"
    by code_simp
  note cases = bspec [OF bspec [OF this assms(1)]]
  have "\<not> rule_matches r tool p (td_context d)" if "r \<in> set default_rules" for r
    using cases [OF that] by (elim disjE conjE) (simp_all add: rule_matches_def assms(3,4) p(2))
  then have none: "matching_rules default_reg tool p (td_context d) = []"
    by (metis (no_types, lifting) default_matching mem_Collect_eq neq_Nil_conv list.set_intros(1))
  from assms(2) obtain c where c: "build_context summary approved payload = Inr c"
    by (auto simp: evaluate_def split: sum.splits)
  have "td_context d = c"
    using assms(2) p(1) c
    by (auto simp: evaluate_def decision_from_rule_def plain_decision_def Let_def split: option.splits if_splits)
  with assms(2) p c none show ?thesis
    by (auto simp: evaluate_def highest_priority_rule_def plain_decision_def)
qed

section \<open>Concrete requests\<close>

definition read_sensitive :: context_payload where
  "read_sensitive = model_payload (no_context\<lparr>pc_input_summary := ''rows'', pc_artifact_sensitive := True\<rparr>)"

theorem sensitive_flag_alone_allows_witness:
  "\<exists>d. evaluate default_reg ''artifact_reader'' ''rows'' False read_sensitive = Inr d \<and> td_decision d = ALLOW"
proof -
  have "case evaluate default_reg ''artifact_reader'' ''rows'' False read_sensitive of
      Inl e \<Rightarrow> False | Inr d \<Rightarrow> pc_artifact_sensitive (td_context d)
        \<and> \<not> metadata_has_any_key (pc_metadata (td_context d)) [''pii'', ''contains_pii'', ''sensitive'', ''secret'']"
    by code_simp
  then obtain d where d: "evaluate default_reg ''artifact_reader'' ''rows'' False read_sensitive = Inr d"
      "pc_artifact_sensitive (td_context d)"
      "\<not> metadata_has_any_key (pc_metadata (td_context d)) [''pii'', ''contains_pii'', ''sensitive'', ''secret'']"
    by (auto split: sum.splits)
  from sensitive_flag_alone_allows [OF _ d] d(1) show ?thesis by auto
qed

theorem strictest_rule_decides_witness:
  "\<exists>d. evaluate default_reg ''shell_exec'' ''ls'' True empty_payload = Inr d
     \<and> td_policy_rule_id d \<noteq> None \<and> td_decision d \<noteq> RETRY"
proof -
  have "case evaluate default_reg ''shell_exec'' ''ls'' True empty_payload of Inl e \<Rightarrow> False
      | Inr d \<Rightarrow> (case get_permission default_reg ''shell_exec'' of None \<Rightarrow> False
          | Some p \<Rightarrow> matching_rules default_reg ''shell_exec'' p (td_context d) \<noteq> []
             \<and> (\<forall>r \<in> set (matching_rules default_reg ''shell_exec'' p (td_context d)). pr_decision r = BLOCK))"
    by code_simp
  then obtain d p r where d: "evaluate default_reg ''shell_exec'' ''ls'' True empty_payload = Inr d"
      "get_permission default_reg ''shell_exec'' = Some p"
      "r \<in> set (matching_rules default_reg ''shell_exec'' p (td_context d))"
    and all: "\<forall>r \<in> set (matching_rules default_reg ''shell_exec'' p (td_context d)). pr_decision r = BLOCK"
    by (auto split: sum.splits option.splits) (metis list.set_intros(1) neq_Nil_conv)
  from strictest_rule_decides [OF d] all d(1) show ?thesis by fastforce
qed

theorem default_policy_gates_risk_witness:
  "\<exists>d. evaluate default_reg ''external_http'' ''get'' True empty_payload = Inr d \<and> td_approved d"
proof -
  have "case evaluate default_reg ''external_http'' ''get'' True empty_payload of
      Inl e \<Rightarrow> False | Inr d \<Rightarrow> td_decision d = ALLOW" by code_simp
  then obtain d where d: "evaluate default_reg ''external_http'' ''get'' True empty_payload = Inr d"
      "td_decision d = ALLOW" by (auto split: sum.splits)
  have "case get_permission default_reg ''external_http'' of None \<Rightarrow> False | Some p \<Rightarrow> tp_risk p = RiskHigh"
    by code_simp
  with default_policy_gates_risk [OF d] d(1) show ?thesis by auto
qed

theorem added_rules_cannot_unblock_witness:
  "\<exists>reg d. build_policy_registry_from_rules [policy_rule ''open-all'' ''Allow.'' ALLOW ''Allowed.''] None = Inr reg
     \<and> evaluate reg ''shell_exec'' ''ls'' True empty_payload = Inr d \<and> td_decision d = BLOCK"
proof -
  have "case build_policy_registry_from_rules [policy_rule ''open-all'' ''Allow.'' ALLOW ''Allowed.''] None of
      Inl e \<Rightarrow> False | Inr reg \<Rightarrow> (case evaluate reg ''shell_exec'' ''ls'' True empty_payload of Inl e \<Rightarrow> False | Inr d \<Rightarrow> True)"
    by code_simp
  then obtain reg d where
    "build_policy_registry_from_rules [policy_rule ''open-all'' ''Allow.'' ALLOW ''Allowed.''] None = Inr reg"
    "evaluate reg ''shell_exec'' ''ls'' True empty_payload = Inr d"
    by (auto split: sum.splits)
  with added_rules_cannot_unblock [OF this(1) _ this(2)] show ?thesis by auto
qed

end
