(* ===== verification/Run_State.thy ===== *)
theory Run_State
  imports Exec_Graph Run_Repository Agent_Registry
begin

text \<open>
  orchestration/state.py: the state of a run that the orchestrator checkpoints. The typed
  dictionary is a record; its entries that are keyed by node ids hold Python values, since
  saving a checkpoint redacts them (Redaction) and what is loaded back need not have the
  type that was written. state_to_py is the dictionary the checkpoint holds and
  state_of_py reads it back.
\<close>

record run_state =
  s_run_id :: string
  s_task :: string
  s_plan :: "ExecutionNode list"
  s_pending_node_ids :: "string list"
  s_completed_node_ids :: "string list"
  s_failed_node_ids :: "string list"
  s_waiting_for_approval_node_id :: "string option"
  s_agent_outputs :: "(string, pyval) dict"
  s_artifacts :: "(string, pyval) dict"
  s_approvals :: "(string, pyval) dict"
  s_evaluation_results :: "pyval list"
  s_errors :: "(string, pyval) dict"

text \<open>A plan item has the fields of the execution node it is made from.\<close>

definition node_to_plan_item :: "ExecutionNode \<Rightarrow> ExecutionNode" where
  "node_to_plan_item node = node"

definition build_initial_state :: "RunRecord \<Rightarrow> ExecutionGraph \<Rightarrow> run_state" where
  "build_initial_state run graph =
     \<lparr>s_run_id = r_id run, s_task = r_task run, s_plan = map node_to_plan_item (eg_nodes graph),
      s_pending_node_ids = map en_id (eg_nodes graph), s_completed_node_ids = [],
      s_failed_node_ids = [], s_waiting_for_approval_node_id = None, s_agent_outputs = [],
      s_artifacts = [], s_approvals = [], s_evaluation_results = [], s_errors = []\<rparr>"

definition output_to_state :: "AgentOutput \<Rightarrow> pyval" where
  "output_to_state output = PDict
     [(''status'', PStr (ao_status output)), (''summary'', PStr (ao_summary output)),
      (''artifacts'', strs (ao_artifacts output)), (''events'', PList (map PDict (ao_events output))),
      (''metrics'', PDict (ao_metrics output)), (''errors'', strs (ao_errors output))]"

definition ids_with :: "GraphNodeStatus \<Rightarrow> (string, GraphNodeStatus) dict \<Rightarrow> string list" where
  "ids_with st statuses = map fst (filter (\<lambda>(i, x). x = st) statuses)"

definition sync_state_from_node_statuses ::
    "run_state \<Rightarrow> (string, GraphNodeStatus) dict \<Rightarrow> run_state" where
  "sync_state_from_node_statuses state statuses =
     state\<lparr>s_pending_node_ids := ids_with NodePending statuses,
           s_completed_node_ids := ids_with NodeCompleted statuses,
           s_failed_node_ids := ids_with NodeFailed statuses,
           s_waiting_for_approval_node_id :=
             (case ids_with NodeWaitingForApproval statuses of [] \<Rightarrow> None | i # rest \<Rightarrow> Some i)\<rparr>"

section \<open>The checkpointed dictionary\<close>

definition plan_item_to_py :: "ExecutionNode \<Rightarrow> pyval" where
  "plan_item_to_py node = PDict
     [(''id'', PStr (en_id node)), (''agent'', PStr (en_agent node)), (''task'', PStr (en_task node)),
      (''depends_on'', strs (en_depends_on node)), (''required_tools'', strs (en_required_tools node)),
      (''expected_artifacts'', strs (en_expected_artifacts node)), (''risk'', PStr (en_risk node))]"

definition state_to_py :: "run_state \<Rightarrow> pyval" where
  "state_to_py state = PDict
     [(''run_id'', PStr (s_run_id state)), (''task'', PStr (s_task state)),
      (''plan'', PList (map plan_item_to_py (s_plan state))),
      (''pending_node_ids'', strs (s_pending_node_ids state)),
      (''completed_node_ids'', strs (s_completed_node_ids state)),
      (''failed_node_ids'', strs (s_failed_node_ids state)),
      (''waiting_for_approval_node_id'', opt_str (s_waiting_for_approval_node_id state)),
      (''agent_outputs'', PDict (s_agent_outputs state)), (''artifacts'', PDict (s_artifacts state)),
      (''approvals'', PDict (s_approvals state)),
      (''evaluation_results'', PList (s_evaluation_results state)), (''errors'', PDict (s_errors state))]"

text \<open>
  Reading the dictionary back. A checkpoint without a field, or with one of another type,
  which only a restored archive can hold, is refused here; the code refuses it where it
  first uses the field.
\<close>

fun field_of :: "pyval \<Rightarrow> string \<Rightarrow> pyval result" where
  "field_of (PDict d) k = (case dict_get d k of None \<Rightarrow> Inl (KeyError k) | Some v \<Rightarrow> Inr v)"
| "field_of v k = Inl (TypeError ''indices must be integers'')"

definition typed :: "'a option \<Rightarrow> 'a result" where
  "typed x = (case x of None \<Rightarrow> Inl (TypeError ''unexpected type'') | Some y \<Rightarrow> Inr y)"

fun as_dict :: "pyval \<Rightarrow> (string, pyval) dict option" where
  "as_dict (PDict d) = Some d"
| "as_dict v = None"

fun as_list :: "pyval \<Rightarrow> pyval list option" where
  "as_list (PList xs) = Some xs"
| "as_list v = None"

fun as_opt_str :: "pyval \<Rightarrow> string option option" where
  "as_opt_str PNone = Some None"
| "as_opt_str (PStr s) = Some (Some s)"
| "as_opt_str v = None"

text \<open>A field read with its type, passed on to the rest.\<close>

definition read :: "pyval \<Rightarrow> string \<Rightarrow> (pyval \<Rightarrow> 'a option) \<Rightarrow> ('a \<Rightarrow> 'b result) \<Rightarrow> 'b result" where
  "read v k cast f =
     (case field_of v k of Inl e \<Rightarrow> Inl e | Inr x \<Rightarrow>
      case typed (cast x) of Inl e \<Rightarrow> Inl e | Inr y \<Rightarrow> f y)"

definition plan_item_of_py :: "pyval \<Rightarrow> ExecutionNode result" where
  "plan_item_of_py v =
     read v ''id'' as_str (\<lambda>i. read v ''agent'' as_str (\<lambda>a. read v ''task'' as_str (\<lambda>t.
     read v ''depends_on'' as_strs (\<lambda>ds. read v ''required_tools'' as_strs (\<lambda>ts.
     read v ''expected_artifacts'' as_strs (\<lambda>xs. read v ''risk'' as_str (\<lambda>r.
       Inr \<lparr>en_id = i, en_agent = a, en_task = t, en_depends_on = ds, en_required_tools = ts,
            en_expected_artifacts = xs, en_risk = r\<rparr>)))))))"

fun plan_of_py :: "pyval list \<Rightarrow> ExecutionNode list result" where
  "plan_of_py [] = Inr []"
| "plan_of_py (v # vs) =
     (case plan_item_of_py v of Inl e \<Rightarrow> Inl e | Inr n \<Rightarrow>
      case plan_of_py vs of Inl e \<Rightarrow> Inl e | Inr ns \<Rightarrow> Inr (n # ns))"

definition state_of_py :: "pyval \<Rightarrow> run_state result" where
  "state_of_py v =
     read v ''run_id'' as_str (\<lambda>run_id. read v ''task'' as_str (\<lambda>task.
     read v ''plan'' as_list (\<lambda>plan0.
     case plan_of_py plan0 of Inl e \<Rightarrow> Inl e | Inr plan \<Rightarrow>
     read v ''pending_node_ids'' as_strs (\<lambda>pend. read v ''completed_node_ids'' as_strs (\<lambda>comp.
     read v ''failed_node_ids'' as_strs (\<lambda>fail.
     read v ''waiting_for_approval_node_id'' as_opt_str (\<lambda>wait.
     read v ''agent_outputs'' as_dict (\<lambda>outs. read v ''artifacts'' as_dict (\<lambda>arts.
     read v ''approvals'' as_dict (\<lambda>apps. read v ''evaluation_results'' as_list (\<lambda>evs.
     read v ''errors'' as_dict (\<lambda>errs.
       Inr \<lparr>s_run_id = run_id, s_task = task, s_plan = plan, s_pending_node_ids = pend,
            s_completed_node_ids = comp, s_failed_node_ids = fail,
            s_waiting_for_approval_node_id = wait, s_agent_outputs = outs, s_artifacts = arts,
            s_approvals = apps, s_evaluation_results = evs, s_errors = errs\<rparr>))))))))))))"

section \<open>A checkpoint loads as the redacted state\<close>

definition redact_node :: "(string \<Rightarrow> string) \<Rightarrow> ExecutionNode \<Rightarrow> ExecutionNode" where
  "redact_node ru n = \<lparr>en_id = redact_text ru (en_id n), en_agent = redact_text ru (en_agent n),
     en_task = redact_text ru (en_task n), en_depends_on = map (redact_text ru) (en_depends_on n),
     en_required_tools = map (redact_text ru) (en_required_tools n),
     en_expected_artifacts = map (redact_text ru) (en_expected_artifacts n),
     en_risk = redact_text ru (en_risk n)\<rparr>"

definition redact_state :: "(string \<Rightarrow> string) \<Rightarrow> run_state \<Rightarrow> run_state" where
  "redact_state ru st =
     \<lparr>s_run_id = redact_text ru (s_run_id st), s_task = redact_text ru (s_task st),
      s_plan = map (redact_node ru) (s_plan st),
      s_pending_node_ids = map (redact_text ru) (s_pending_node_ids st),
      s_completed_node_ids = map (redact_text ru) (s_completed_node_ids st),
      s_failed_node_ids = map (redact_text ru) (s_failed_node_ids st),
      s_waiting_for_approval_node_id = map_option (redact_text ru) (s_waiting_for_approval_node_id st),
      s_agent_outputs = redact_dict ru (s_agent_outputs st),
      s_artifacts = redact_dict ru (s_artifacts st), s_approvals = redact_dict ru (s_approvals st),
      s_evaluation_results = map (redact_value ru None) (s_evaluation_results st),
      s_errors = redact_dict ru (s_errors st)\<rparr>"

lemma state_keys_public:
  "list_all (\<lambda>k. \<not> is_sensitive_key k)
     [''run_id'', ''task'', ''plan'', ''pending_node_ids'', ''completed_node_ids'', ''failed_node_ids'',
      ''waiting_for_approval_node_id'', ''agent_outputs'', ''artifacts'', ''approvals'',
      ''evaluation_results'', ''errors'', ''id'', ''agent'', ''depends_on'', ''required_tools'',
      ''expected_artifacts'', ''risk'']"
  by code_simp

lemmas public_keys = state_keys_public [simplified list.pred_inject simp_thms]

lemma as_strs_list_map [simp]: "as_strs_list (map PStr xs) = Some xs"
  by (induction xs) simp_all

lemma redact_strs [simp]: "redact_value ru None (strs xs) = strs (map (redact_text ru) xs)"
  by (simp add: strs_def)

lemma redact_opt_str [simp]: "redact_value ru None (opt_str x) = opt_str (map_option (redact_text ru) x)"
  by (cases x) (simp_all add: opt_str_def)

lemma as_opt_str_opt_str [simp]: "as_opt_str (opt_str x) = Some x"
  by (cases x) (simp_all add: opt_str_def)

lemma plan_item_redacted:
  "plan_item_of_py (redact_value ru None (plan_item_to_py n)) = Inr (redact_node ru n)"
  using public_keys
  by (simp add: plan_item_of_py_def plan_item_to_py_def read_def typed_def redact_node_def)

lemma plan_redacted:
  "plan_of_py (map (redact_value ru None \<circ> plan_item_to_py) ns) = Inr (map (redact_node ru) ns)"
  by (induction ns) (simp_all add: plan_item_redacted)

lemma checkpoint_reads_back:
  "state_of_py (redact_value ru None (state_to_py st)) = Inr (redact_state ru st)"
  using public_keys
  by (simp add: state_of_py_def state_to_py_def read_def typed_def redact_state_def plan_redacted
      redact_dict_def)

end
