(* ===== verification/Orchestrator.thy ===== *)
theory Orchestrator
  imports Run_State Tool_Policy
begin

text \<open>
  orchestration/service.py: OrchestratorService over the in-memory repository. An agent is a
  program over the repository that is given an AgentInput; which agents there are is a
  parameter. The spans and the monotonic clock have no effect on the state. The loop of
  resume_run runs on fuel and returns None when the fuel ends; Orchestrator_Properties
  proves how much is enough.
\<close>

section \<open>Configuration and results\<close>

type_synonym 'z agent = "AgentInput \<Rightarrow> ('z repo_scheme, AgentOutput) py"

record 'z orchestrator =
  o_registry :: agent_registry
  o_agents :: "(string, 'z agent) dict"
  o_max_attempts :: int
  o_tools :: ToolPermissionRegistry

text \<open>RetryPolicy: at least one attempt.\<close>

definition retry_policy :: "int \<Rightarrow> int result" where
  "retry_policy max_attempts =
     (if max_attempts < 1 then Inl (ValueError ''max_attempts must be at least 1.'') else Inr max_attempts)"

record OrchestrationResult =
  or_run_id :: string
  or_status :: RunStatus
  or_state :: run_state
  or_completed_node_ids :: "string list"
  or_failed_node_ids :: "string list"
  or_waiting_for_approval_node_id :: "string option"

section \<open>Exceptions as text\<close>

text \<open>type(exc).__name__, and str(exc), which for a KeyError is the repr of its argument.\<close>

fun exn_class :: "exn \<Rightarrow> string" where
  "exn_class (ValueError m) = ''ValueError''"
| "exn_class (KeyError m) = ''KeyError''"
| "exn_class (TypeError m) = ''TypeError''"
| "exn_class (AttributeError m) = ''AttributeError''"
| "exn_class (RuntimeError m) = ''RuntimeError''"
| "exn_class (RunNotFoundError m) = ''RunNotFoundError''"
| "exn_class (GraphNodeNotFoundError m) = ''GraphNodeNotFoundError''"
| "exn_class (ArtifactNotFoundError m) = ''ArtifactNotFoundError''"
| "exn_class (RunCheckpointNotFoundError m) = ''RunCheckpointNotFoundError''"
| "exn_class (EvaluationResultNotFoundError m) = ''EvaluationResultNotFoundError''"
| "exn_class (WorkflowJobNotFoundError m) = ''WorkflowJobNotFoundError''"
| "exn_class (WorkflowJobOwnershipError m) = ''WorkflowJobOwnershipError''"
| "exn_class (WorkflowJobStateError m) = ''WorkflowJobStateError''"
| "exn_class (GraphValidationError m) = ''GraphValidationError''"
| "exn_class (OrchestrationError m) = ''OrchestrationError''"
| "exn_class (PlannerValidationError m) = ''PlannerValidationError''"
| "exn_class (DeploymentApprovalError m) = ''DeploymentApprovalError''"
| "exn_class (RunArchiveError m) = ''RunArchiveError''"
| "exn_class (RunArchiveConflictError m) = ''RunArchiveConflictError''"
| "exn_class (AuthenticationError m) = ''AuthenticationError''"
| "exn_class (AuthorizationError m) = ''AuthorizationError''"
| "exn_class (OtherError c m) = c"

definition is_key_error :: "exn \<Rightarrow> bool" where
  "is_key_error e \<longleftrightarrow> exn_class e \<in>
     {''KeyError'', ''RunNotFoundError'', ''GraphNodeNotFoundError'', ''ArtifactNotFoundError'',
      ''RunCheckpointNotFoundError'', ''EvaluationResultNotFoundError'', ''WorkflowJobNotFoundError''}"

definition exn_str :: "(pyval \<Rightarrow> string) \<Rightarrow> exn \<Rightarrow> string" where
  "exn_str rp e = (if is_key_error e then rp (PStr (exn_message e)) else exn_message e)"

section \<open>Reading nodes and state\<close>

text \<open>{node.id: node for node in list_graph_nodes(run_id)}\<close>

definition nodes_table :: "GraphNodeRecord list \<Rightarrow> (string, GraphNodeRecord) dict" where
  "nodes_table nodes = foldl (\<lambda>d node. dict_set (n_id node) node d) [] nodes"

definition ordered_nodes :: "string \<Rightarrow> run_state \<Rightarrow> ('z repo_scheme, GraphNodeRecord list) py" where
  "ordered_nodes run_id state =
     bnd (list_graph_nodes run_id) (\<lambda>nodes.
       ret (List.map_filter (\<lambda>item. dict_get (nodes_table nodes) (en_id item)) (s_plan state)))"

definition statuses_of :: "GraphNodeRecord list \<Rightarrow> (string, GraphNodeStatus) dict" where
  "statuses_of nodes = foldl (\<lambda>d node. dict_set (n_id node) (n_status node) d) [] nodes"

definition refresh_state_from_nodes :: "string \<Rightarrow> run_state \<Rightarrow> ('z repo_scheme, run_state) py" where
  "refresh_state_from_nodes run_id state =
     bnd (ordered_nodes run_id state) (\<lambda>nodes.
       ret (sync_state_from_node_statuses state (statuses_of nodes)))"

text \<open>all(statuses[dependency] == COMPLETED for dependency in node.depends_on)\<close>

fun all_completed :: "(string, GraphNodeStatus) dict \<Rightarrow> string list \<Rightarrow> bool result" where
  "all_completed statuses [] = Inr True"
| "all_completed statuses (d # ds) =
     (case dict_get statuses d of
        None \<Rightarrow> Inl (KeyError d)
      | Some st \<Rightarrow> if st = NodeCompleted then all_completed statuses ds else Inr False)"

definition dependencies_completed :: "GraphNodeRecord \<Rightarrow> GraphNodeRecord list \<Rightarrow> bool result" where
  "dependencies_completed node nodes = all_completed (statuses_of nodes) (n_depends_on node)"

definition plan_item :: "run_state \<Rightarrow> string \<Rightarrow> ExecutionNode result" where
  "plan_item state node_id =
     (case find (\<lambda>item. en_id item = node_id) (s_plan state) of
        None \<Rightarrow> Inl (OrchestrationError (''Node is missing from state plan: '' @ node_id))
      | Some item \<Rightarrow> Inr item)"

text \<open>
  artifacts.extend(node_artifacts) for each value: the elements are strings, as every entry
  is written as a list of strings and redaction leaves strings.
\<close>

fun extend_all :: "string list \<Rightarrow> pyval list \<Rightarrow> string list result" where
  "extend_all acc [] = Inr acc"
| "extend_all acc (v # vs) =
     (case py_list v of Inl e \<Rightarrow> Inl e | Inr xs \<Rightarrow>
      case typed (as_strs_list xs) of Inl e \<Rightarrow> Inl e | Inr ss \<Rightarrow> extend_all (acc @ ss) vs)"

definition known_artifacts :: "run_state \<Rightarrow> string list result" where
  "known_artifacts state = extend_all [] (map snd (s_artifacts state))"

definition load_state :: "string \<Rightarrow> ('z repo_scheme, run_state) py" where
  "load_state run_id =
     bnd (try_catch (get_checkpoint run_id) (\<lambda>e. case e of
            RunCheckpointNotFoundError m \<Rightarrow>
              raise (OrchestrationError (''No checkpoint exists for run: '' @ run_id))
          | _ \<Rightarrow> raise e)) (\<lambda>checkpoint.
     lift_result (state_of_py (c_state checkpoint)))"

definition save_state :: "string \<Rightarrow> run_state \<Rightarrow> ('z repo_scheme, unit) py" where
  "save_state run_id state = bnd (save_checkpoint run_id (state_to_py state)) (\<lambda>_. ret ())"

definition refresh_and_save :: "string \<Rightarrow> run_state \<Rightarrow> ('z repo_scheme, unit) py" where
  "refresh_and_save run_id state =
     bnd (refresh_state_from_nodes run_id state) (\<lambda>refreshed. save_state run_id refreshed)"

definition result_of ::
    "string \<Rightarrow> RunStatus \<Rightarrow> run_state \<Rightarrow> ('z repo_scheme, OrchestrationResult) py" where
  "result_of run_id status state =
     bnd (refresh_state_from_nodes run_id state) (\<lambda>refreshed.
       ret \<lparr>or_run_id = run_id, or_status = status, or_state = refreshed,
            or_completed_node_ids = s_completed_node_ids refreshed,
            or_failed_node_ids = s_failed_node_ids refreshed,
            or_waiting_for_approval_node_id = s_waiting_for_approval_node_id refreshed\<rparr>)"

section \<open>Events\<close>

definition dict_setdefault :: "string \<Rightarrow> pyval \<Rightarrow> (string, pyval) dict \<Rightarrow> (string, pyval) dict" where
  "dict_setdefault k v d = (case dict_get d k of None \<Rightarrow> dict_set k v d | Some w \<Rightarrow> d)"

definition record_event ::
    "string \<Rightarrow> string \<Rightarrow> string \<Rightarrow> (string, pyval) dict \<Rightarrow> ('z repo_scheme, unit) py" where
  "record_event run_id node_id event_type payload =
     bnd (get_run run_id) (\<lambda>run.
     bnd (asks active_trace) (\<lambda>active.
     bnd uuid4_hex (\<lambda>u.
     bnd utc_now (\<lambda>now.
       let p1 = dict_setdefault ''trace_id'' (opt_str (r_trace_id run)) payload;
           p2 = (case active of None \<Rightarrow> p1
             | Some t \<Rightarrow> if t = [] then p1 else dict_setdefault ''otel_trace_id'' (PStr t) p1)
       in bnd (add_event \<lparr>e_id = ''event_'' @ u, e_run_id = run_id, e_node_id = node_id,
                e_event_type = event_type, e_payload = p2, e_created_at = now\<rparr>) (\<lambda>_. ret ())))))"

text \<open>The events an agent or the policy returns: event_type taken out of the payload.\<close>

definition record_output_event ::
    "string \<Rightarrow> string \<Rightarrow> (string, pyval) dict \<Rightarrow> ('z repo_scheme, unit) py" where
  "record_output_event run_id node_id event =
     bnd (asks repr_of) (\<lambda>rp.
       record_event run_id node_id
         (case dict_get event ''event_type'' of None \<Rightarrow> event_type_value EvLog | Some v \<Rightarrow> py_str rp v)
         (filter (\<lambda>(k, v). k \<noteq> ''event_type'') event))"

text \<open>Milliseconds since the node started, to the microsecond.\<close>

definition node_duration_ms :: "GraphNodeRecord \<Rightarrow> ('z repo_scheme, pyval) py" where
  "node_duration_ms node =
     (case n_started_at node of
        None \<Rightarrow> ret PNone
      | Some started \<Rightarrow> bnd utc_now (\<lambda>now. ret (PFloat (Fract (max (now - started) 0) 1000))))"

section \<open>Tool authorization\<close>

definition context_to_py :: "PolicyEvaluationContext \<Rightarrow> pyval" where
  "context_to_py c = PDict (filter (\<lambda>(k, v). v \<noteq> PNone)
     [(''input_summary'', PStr (pc_input_summary c)), (''approved'', PBool (pc_approved c)),
      (''agent_type'', opt_str (pc_agent_type c)), (''node_id'', opt_str (pc_node_id c)),
      (''run_id'', opt_str (pc_run_id c)), (''connector_id'', opt_str (pc_connector_id c)),
      (''credential_profile_id'', opt_str (pc_credential_profile_id c)),
      (''artifact_type'', opt_str (pc_artifact_type c)),
      (''artifact_sensitive'', PBool (pc_artifact_sensitive c)),
      (''destination'', opt_str (pc_destination c)), (''metadata'', PDict (pc_metadata c))])"

definition decision_to_py :: "ToolPolicyDecision \<Rightarrow> pyval" where
  "decision_to_py d = PDict
     [(''tool'', PStr (td_tool d)), (''policy_rule_id'', opt_str (td_policy_rule_id d)),
      (''permission_level'', opt_str (map_option permission_level_value (td_permission_level d))),
      (''risk'', PStr (risk_value (td_risk d))), (''decision'', PStr (decision_value (td_decision d))),
      (''reason'', PStr (td_reason d)), (''input_summary'', PStr (td_input_summary d)),
      (''approval_required'', PBool (td_approval_required d)), (''approved'', PBool (td_approved d)),
      (''destructive'', PBool (td_destructive d)),
      (''escalation_target'', opt_str (td_escalation_target d)),
      (''retry_after_seconds'', opt_int (td_retry_after_seconds d)),
      (''context'', context_to_py (td_context d))]"

definition record_tool_audit_event :: "GraphNodeRecord \<Rightarrow> ToolPolicyDecision \<Rightarrow> ('z repo_scheme, unit) py" where
  "record_tool_audit_event node d =
     bnd utc_now (\<lambda>now.
       record_event (n_run_id node) (n_id node) (event_type_value EvToolCall)
         [(''agent'', PStr (n_agent_type node)), (''tool'', PStr (td_tool d)),
          (''policy_rule_id'', opt_str (td_policy_rule_id d)),
          (''permission_level'', opt_str (map_option permission_level_value (td_permission_level d))),
          (''risk'', PStr (risk_value (td_risk d))), (''decision'', PStr (decision_value (td_decision d))),
          (''input_summary'', PStr (td_input_summary d)), (''reason'', PStr (td_reason d)),
          (''approval_required'', PBool (td_approval_required d)), (''approved'', PBool (td_approved d)),
          (''destructive'', PBool (td_destructive d)),
          (''escalation_target'', opt_str (td_escalation_target d)),
          (''retry_after_seconds'', opt_int (td_retry_after_seconds d)),
          (''policy_context'', context_to_py (td_context d)), (''timestamp'', PStr (isoformat now))])"

definition summarize_tool_input :: "GraphNodeRecord \<Rightarrow> string \<Rightarrow> string" where
  "summarize_tool_input node task =
     (let summary = ''agent='' @ n_agent_type node @ ''; node='' @ n_id node @ ''; task='' @ strip task in
      if length summary \<le> 240 then summary else take 237 summary @ ''...'')"

definition metadata_is_sensitive :: "(string, pyval) dict \<Rightarrow> bool" where
  "metadata_is_sensitive metadata =
     list_ex (\<lambda>k. case pget metadata k of
         PBool b \<Rightarrow> b
       | PStr s \<Rightarrow> lower (strip s) \<in> {''1'', ''true'', ''yes''}
       | _ \<Rightarrow> False)
       [''sensitive'', ''pii'', ''contains_pii'', ''secret'']"

text \<open>The artifacts of the given ids that the repository has.\<close>

definition find_artifacts :: "string \<Rightarrow> string list \<Rightarrow> ('z repo_scheme, ArtifactRecord list) py" where
  "find_artifacts run_id ids =
     bnd (map_each ids (\<lambda>i. try_catch (bnd (get_artifact run_id i) (\<lambda>a. ret (Some a)))
            (\<lambda>e. case e of ArtifactNotFoundError m \<Rightarrow> ret None | _ \<Rightarrow> raise e))) (\<lambda>found.
       ret (List.map_filter (\<lambda>x. x) found))"

text \<open>value or artifact.metadata.get(key), over the artifacts in order.\<close>

definition first_truthy :: "string \<Rightarrow> ArtifactRecord list \<Rightarrow> pyval" where
  "first_truthy k arts =
     foldl (\<lambda>v a. if truthy v then v else pget (a_metadata a) k) PNone arts"

definition policy_context_for_tool ::
    "string \<Rightarrow> GraphNodeRecord \<Rightarrow> run_state \<Rightarrow> string \<Rightarrow> bool \<Rightarrow>
     ('z repo_scheme, PolicyEvaluationContext) py" where
  "policy_context_for_tool tool node state input_summary approved =
     bnd (lift_result (known_artifacts state)) (\<lambda>known.
     bnd (get_run (n_run_id node)) (\<lambda>run.
       let artifact_ids = (case r_dataset_artifact_id run of
             None \<Rightarrow> known
           | Some i \<Rightarrow> if i \<noteq> [] \<and> i \<notin> set known then known @ [i] else known)
       in bnd (find_artifacts (n_run_id node) artifact_ids) (\<lambda>arts.
          bnd (asks repr_of) (\<lambda>rp.
          bnd (lift_result (limited 1000 input_summary)) (\<lambda>summary.
            let metadata = foldl (\<lambda>d a. dict_update d (a_metadata a))
                             [(''required_tools'', strs (n_required_tools node))] arts;
                types = sort (remdups (map (\<lambda>a. artifact_type_value (a_type a)) arts));
                connector = first_truthy ''connector_id'' arts;
                credential = first_truthy ''credential_profile_id'' arts
            in ret \<lparr>pc_input_summary = summary, pc_approved = approved,
                    pc_agent_type = Some (n_agent_type node), pc_node_id = Some (n_id node),
                    pc_run_id = Some (n_run_id node),
                    pc_connector_id = (if truthy connector then Some (py_str rp connector) else None),
                    pc_credential_profile_id =
                      (if truthy credential then Some (py_str rp credential) else None),
                    pc_artifact_type = (if types = [] then None else Some (join '','' types)),
                    pc_artifact_sensitive = list_ex (\<lambda>a. metadata_is_sensitive (a_metadata a)) arts,
                    pc_destination = None, pc_metadata = metadata\<rparr>)))))"

definition policy_metrics :: "ToolPolicyDecision list \<Rightarrow> (string, pyval) dict" where
  "policy_metrics decisions = [(''tool_policy_decisions'', PList (map decision_to_py decisions))]"

definition reason_line :: "ToolPolicyDecision \<Rightarrow> string" where
  "reason_line d = td_tool d @ '': '' @ td_reason d"

definition nonempty :: "string option list \<Rightarrow> string list" where
  "nonempty xs = filter (\<lambda>s. s \<noteq> []) (List.map_filter (\<lambda>x. x) xs)"

text \<open>What the decisions on the required tools of a node mean for it; None lets it run.\<close>

definition security_output :: "ToolPolicyDecision list \<Rightarrow> AgentOutput option" where
  "security_output decisions =
     (let blocked = filter (\<lambda>d. td_decision d = BLOCK) decisions;
          approval_required = filter (\<lambda>d. td_decision d \<in> {APPROVAL_REQUIRED, ESCALATE}) decisions;
          escalations = filter (\<lambda>d. td_decision d = ESCALATE) approval_required;
          retry_required = filter (\<lambda>d. td_decision d = RETRY) decisions in
      if blocked \<noteq> [] then Some
        \<lparr>ao_status = ''failed'', ao_summary = ''Security policy blocked one or more required tools.'',
         ao_artifacts = [], ao_events = [], ao_metrics = policy_metrics decisions,
         ao_errors = map reason_line blocked\<rparr>
      else if approval_required \<noteq> [] then Some
        \<lparr>ao_status = ''waiting_for_approval'',
         ao_summary = (if escalations \<noteq> [] then ''Security escalation is required for governed tool calls.''
                       else ''Security approval is required for high-risk tool calls.''),
         ao_artifacts = [],
         ao_events =
           [[(''event_type'', PStr (event_type_value EvApprovalRequest)),
             (''message'', PStr (if escalations \<noteq> [] then ''Tool permission policy requires escalation.''
                               else ''Tool permission policy requires approval.'')),
             (''tools'', strs (map td_tool approval_required)),
             (''policy_rule_ids'', strs (nonempty (map td_policy_rule_id approval_required))),
             (''escalation_targets'', strs (nonempty (map td_escalation_target approval_required)))]],
         ao_metrics = policy_metrics decisions, ao_errors = []\<rparr>
      else if retry_required \<noteq> [] then Some
        \<lparr>ao_status = ''failed'',
         ao_summary = ''Security policy requested retry before executing one or more tools.'',
         ao_artifacts = [], ao_events = [], ao_metrics = policy_metrics decisions,
         ao_errors = map reason_line retry_required\<rparr>
      else None)"

definition authorize_node_tools ::
    "'z orchestrator \<Rightarrow> GraphNodeRecord \<Rightarrow> run_state \<Rightarrow> ('z repo_scheme, AgentOutput option) py" where
  "authorize_node_tools orch node state =
     (if n_required_tools node = [] then ret None
      else
        let approved = (dict_get (s_approvals state) (n_id node) = Some (PStr ''approved'')) in
        bnd (lift_result (plan_item state (n_id node))) (\<lambda>item.
          let input_summary = summarize_tool_input node (en_task item) in
          bnd (map_each (n_required_tools node) (\<lambda>tool.
                 bnd (policy_context_for_tool tool node state input_summary approved) (\<lambda>context.
                   lift_result (evaluate (o_tools orch) tool input_summary approved (model_payload context)))))
            (\<lambda>decisions.
             seq (for_each decisions (record_tool_audit_event node))
                 (ret (security_output decisions)))))"

section \<open>Executing one node\<close>

definition call_agent ::
    "'z orchestrator \<Rightarrow> GraphNodeRecord \<Rightarrow> run_state \<Rightarrow> ('z repo_scheme, AgentOutput) py" where
  "call_agent orch node state =
     (case dict_get (o_agents orch) (n_agent_type node) of
        None \<Rightarrow> raise (KeyError (n_agent_type node))
      | Some execute \<Rightarrow>
          bnd (lift_result (plan_item state (n_id node))) (\<lambda>item.
          bnd (lift_result (known_artifacts state)) (\<lambda>known.
          bnd (asks repr_of) (\<lambda>rp.
            let approval = pget (s_approvals state) (n_id node);
                agent_input = \<lparr>ai_run_id = n_run_id node, ai_node_id = n_id node, ai_task = en_task item,
                  ai_context = [(''state'', state_to_py state)], ai_artifacts = known,
                  ai_approvals = (if truthy approval then [py_str rp approval] else [])\<rparr>
            in try_catch (execute agent_input) (\<lambda>e.
                 ret \<lparr>ao_status = ''failed'',
                      ao_summary = ''Agent raised '' @ exn_class e @ '': '' @ exn_str rp e,
                      ao_artifacts = [], ao_events = [], ao_metrics = [],
                      ao_errors = [exn_str rp e]\<rparr>)))))"

definition upsert :: "GraphNodeRecord \<Rightarrow> ('z repo_scheme, unit) py" where
  "upsert node = bnd (upsert_graph_node node) (\<lambda>_. ret ())"

definition complete_node ::
    "GraphNodeRecord \<Rightarrow> run_state \<Rightarrow> AgentOutput \<Rightarrow> ('z repo_scheme, GraphNodeStatus) py" where
  "complete_node node state output =
     bnd utc_now (\<lambda>finished.
     bnd utc_now (\<lambda>updated.
       let completed = node\<lparr>n_status := NodeCompleted, n_finished_at := Some finished,
                            n_updated_at := updated\<rparr>;
           state' = state\<lparr>
             s_agent_outputs := dict_set (n_id node) (output_to_state output) (s_agent_outputs state),
             s_artifacts := dict_set (n_id node) (strs (ao_artifacts output)) (s_artifacts state),
             s_errors := dict_pop (n_id node) (s_errors state)\<rparr>
       in seq (upsert completed)
          (bnd (node_duration_ms node) (\<lambda>duration.
           bnd utc_now (\<lambda>now.
           seq (record_event (n_run_id node) (n_id node) (event_type_value EvLog)
                  [(''agent'', PStr (n_agent_type node)), (''message'', PStr ''Node execution completed.''),
                   (''summary'', PStr (ao_summary output)),
                   (''status'', PStr (node_status_value NodeCompleted)),
                   (''artifacts'', strs (ao_artifacts output)), (''duration_ms'', duration),
                   (''timestamp'', PStr (isoformat now))])
           (seq (refresh_and_save (n_run_id node) state') (ret NodeCompleted)))))))"

definition pause_for_approval ::
    "GraphNodeRecord \<Rightarrow> run_state \<Rightarrow> AgentOutput \<Rightarrow> ('z repo_scheme, GraphNodeStatus) py" where
  "pause_for_approval node state output =
     bnd utc_now (\<lambda>updated.
       let waiting = node\<lparr>n_status := NodeWaitingForApproval, n_updated_at := updated\<rparr>;
           state' = state\<lparr>
             s_agent_outputs := dict_set (n_id node) (output_to_state output) (s_agent_outputs state),
             s_waiting_for_approval_node_id := Some (n_id node)\<rparr>
       in seq (upsert waiting)
          (bnd (node_duration_ms node) (\<lambda>duration.
           bnd utc_now (\<lambda>now.
           seq (record_event (n_run_id node) (n_id node) (event_type_value EvApprovalRequest)
                  [(''agent'', PStr (n_agent_type node)), (''summary'', PStr (ao_summary output)),
                   (''errors'', strs (ao_errors output)),
                   (''status'', PStr (node_status_value NodeWaitingForApproval)),
                   (''duration_ms'', duration), (''timestamp'', PStr (isoformat now))])
           (seq (refresh_and_save (n_run_id node) state') (ret NodeWaitingForApproval))))))"

text \<open>
  state["errors"].setdefault(node.id, []).extend(...): a list grows; the placeholder that
  redaction puts under a sensitive key is a string and has no extend.
\<close>

definition extend_errors :: "string \<Rightarrow> string list \<Rightarrow> (string, pyval) dict \<Rightarrow> (string, pyval) dict result" where
  "extend_errors node_id errs errors =
     (case dict_get errors node_id of
        None \<Rightarrow> Inr (dict_set node_id (strs errs) errors)
      | Some (PList xs) \<Rightarrow> Inr (dict_set node_id (PList (xs @ map PStr errs)) errors)
      | Some _ \<Rightarrow> Inl (AttributeError ''extend''))"

definition fail_node ::
    "'z orchestrator \<Rightarrow> GraphNodeRecord \<Rightarrow> run_state \<Rightarrow> AgentOutput \<Rightarrow> ('z repo_scheme, GraphNodeStatus) py" where
  "fail_node orch node state output =
     (let retry_count = n_retry_count node + 1;
          retryable = (retry_count < o_max_attempts orch);
          status = (if retryable then NodePending else NodeFailed) in
      bnd (if retryable then ret None else bnd utc_now (\<lambda>t. ret (Some t))) (\<lambda>finished.
      bnd utc_now (\<lambda>updated.
        let failed = node\<lparr>n_status := status, n_retry_count := retry_count,
                          n_finished_at := finished, n_updated_at := updated\<rparr>
        in bnd (lift_result (extend_errors (n_id node)
                  (if ao_errors output = [] then [ao_summary output] else ao_errors output)
                  (s_errors state))) (\<lambda>errs.
           let state' = state\<lparr>
                 s_agent_outputs := dict_set (n_id node) (output_to_state output) (s_agent_outputs state),
                 s_errors := errs\<rparr>
           in seq (upsert failed)
              (bnd (node_duration_ms node) (\<lambda>duration.
               bnd utc_now (\<lambda>now.
               seq (record_event (n_run_id node) (n_id node) (event_type_value EvError)
                      [(''agent'', PStr (n_agent_type node)), (''summary'', PStr (ao_summary output)),
                       (''errors'', strs (ao_errors output)), (''status'', PStr (node_status_value status)),
                       (''retryable'', PBool retryable), (''retry_count'', PInt retry_count),
                       (''duration_ms'', duration), (''timestamp'', PStr (isoformat now))])
               (seq (refresh_and_save (n_run_id node) state') (ret status)))))))))"

definition execute_node ::
    "'z orchestrator \<Rightarrow> GraphNodeRecord \<Rightarrow> run_state \<Rightarrow> ('z repo_scheme, GraphNodeStatus) py" where
  "execute_node orch node state =
     bnd utc_now (\<lambda>started.
     bnd (get_run (n_run_id node)) (\<lambda>_.
       let running = node\<lparr>n_status := NodeRunning,
             n_started_at := (case n_started_at node of None \<Rightarrow> Some started | Some t \<Rightarrow> Some t),
             n_updated_at := started\<rparr>
       in seq (upsert running)
          (bnd utc_now (\<lambda>now.
           seq (record_event (n_run_id node) (n_id node) (event_type_value EvLog)
                  [(''agent'', PStr (n_agent_type node)), (''message'', PStr ''Node execution started.''),
                   (''attempt'', PInt (n_retry_count node + 1)),
                   (''status'', PStr (node_status_value NodeRunning)), (''timestamp'', PStr (isoformat now))])
           (seq (refresh_and_save (n_run_id node) state)
           (bnd (authorize_node_tools orch running state) (\<lambda>security.
              case security of
                Some output \<Rightarrow>
                  seq (for_each (ao_events output) (record_output_event (n_run_id node) (n_id node)))
                      (if ao_status output = ''waiting_for_approval''
                       then pause_for_approval running state output
                       else fail_node orch running state output)
              | None \<Rightarrow>
                  bnd (call_agent orch running state) (\<lambda>output.
                  seq (for_each (ao_events output) (record_output_event (n_run_id node) (n_id node)))
                      (if ao_status output = ''succeeded'' then complete_node running state output
                       else if ao_status output = ''waiting_for_approval''
                         then pause_for_approval running state output
                       else fail_node orch running state output)))))))))"

section \<open>The run loop\<close>

definition set_status :: "string \<Rightarrow> RunStatus \<Rightarrow> string option \<Rightarrow> ('z repo_scheme, unit) py" where
  "set_status run_id status summary = bnd (update_status run_id status summary) (\<lambda>_. ret ())"

text \<open>The list comprehension of the ready nodes, with its short-circuit conditions.\<close>

fun ready_among ::
    "'z orchestrator \<Rightarrow> GraphNodeRecord list \<Rightarrow> GraphNodeRecord list \<Rightarrow> GraphNodeRecord list result" where
  "ready_among orch all_nodes [] = Inr []"
| "ready_among orch all_nodes (node # rest) =
     (if n_status node \<in> {NodePending, NodeFailed} \<and> n_retry_count node < o_max_attempts orch then
        (case dependencies_completed node all_nodes of
           Inl e \<Rightarrow> Inl e
         | Inr b \<Rightarrow>
             (case ready_among orch all_nodes rest of
                Inl e \<Rightarrow> Inl e | Inr ready \<Rightarrow> Inr (if b then node # ready else ready)))
      else ready_among orch all_nodes rest)"

text \<open>
  The inner loop over the ready nodes. It ends with the state to go on with, or with the
  result of a run that waits for an approval.
\<close>

fun run_ready ::
    "'z orchestrator \<Rightarrow> string \<Rightarrow> GraphNodeRecord list \<Rightarrow> run_state \<Rightarrow>
     ('z repo_scheme, OrchestrationResult + run_state) py" where
  "run_ready orch run_id [] state = ret (Inr state)"
| "run_ready orch run_id (node # rest) state =
     bnd (execute_node orch node state) (\<lambda>outcome.
     bnd (load_state run_id) (\<lambda>state'.
       if outcome = NodeWaitingForApproval then
         seq (set_status run_id RunWaitingForApproval None)
         (bnd (result_of run_id RunWaitingForApproval state') (\<lambda>r. ret (Inl r)))
       else if outcome = NodeFailed then ret (Inr state')
       else run_ready orch run_id rest state'))"

text \<open>A status update, a checkpoint and the result, as three branches of the loop end.\<close>

definition finish_run ::
    "string \<Rightarrow> RunStatus \<Rightarrow> string option \<Rightarrow> run_state \<Rightarrow> ('z repo_scheme, OrchestrationResult) py" where
  "finish_run run_id status summary state =
     seq (set_status run_id status summary)
     (seq (save_state run_id state)
          (result_of run_id status state))"

fun resume_loop ::
    "nat \<Rightarrow> 'z orchestrator \<Rightarrow> string \<Rightarrow> run_state \<Rightarrow> ('z repo_scheme, OrchestrationResult option) py" where
  "resume_loop 0 orch run_id state0 = ret None"
| "resume_loop (Suc fuel) orch run_id state0 =
     bnd (refresh_state_from_nodes run_id state0) (\<lambda>state.
       if (case s_waiting_for_approval_node_id state of None \<Rightarrow> False | Some i \<Rightarrow> i \<noteq> []) then
         bnd (finish_run run_id RunWaitingForApproval None state) (\<lambda>r. ret (Some r))
       else
         bnd (ordered_nodes run_id state) (\<lambda>nodes.
           let terminal_failures = filter (\<lambda>node. n_status node = NodeFailed
                                       \<and> o_max_attempts orch \<le> n_retry_count node) nodes in
           if nodes \<noteq> [] \<and> list_all (\<lambda>node. n_status node = NodeCompleted) nodes then
             bnd (finish_run run_id RunCompleted None state) (\<lambda>r. ret (Some r))
           else if terminal_failures \<noteq> [] then
             bnd (finish_run run_id RunFailed
                    (Some (''Failed graph nodes: '' @ join ''; '' (map n_id terminal_failures))) state)
               (\<lambda>r. ret (Some r))
           else
             bnd (lift_result (ready_among orch nodes nodes)) (\<lambda>ready.
               if ready = [] then
                 bnd (finish_run run_id RunFailed (Some ''No executable graph nodes remain.'') state)
                   (\<lambda>r. ret (Some r))
               else
                 bnd (run_ready orch run_id ready state) (\<lambda>x. case x of
                   Inl r \<Rightarrow> ret (Some r)
                 | Inr state' \<Rightarrow> resume_loop fuel orch run_id state'))))"

definition resume_run ::
    "nat \<Rightarrow> 'z orchestrator \<Rightarrow> string \<Rightarrow> ('z repo_scheme, OrchestrationResult option) py" where
  "resume_run fuel orch run_id =
     bnd (get_run run_id) (\<lambda>_.
     bnd (load_state run_id) (\<lambda>state.
     seq (set_status run_id RunRunning None)
         (resume_loop fuel orch run_id state)))"

section \<open>Starting, approving and retrying\<close>

definition assert_agents_available :: "'z orchestrator \<Rightarrow> ExecutionGraph \<Rightarrow> unit result" where
  "assert_agents_available orch graph =
     (let missing = filter (\<lambda>a. dict_get (o_agents orch) a = None) (map en_agent (eg_nodes graph)) in
      if missing \<noteq> [] then
        Inl (OrchestrationError (''No executable agent registered for: '' @ sorted_list missing))
      else Inr ())"

definition node_record :: "string \<Rightarrow> int \<Rightarrow> ExecutionNode \<Rightarrow> GraphNodeRecord" where
  "node_record run_id now node =
     \<lparr>n_id = en_id node, n_run_id = run_id, n_agent_type = en_agent node, n_status = NodePending,
      n_depends_on = en_depends_on node, n_required_tools = en_required_tools node,
      n_expected_artifacts = en_expected_artifacts node, n_retry_count = 0, n_created_at = now,
      n_updated_at = now, n_started_at = None, n_finished_at = None\<rparr>"

definition execute_run ::
    "nat \<Rightarrow> 'z orchestrator \<Rightarrow> string \<Rightarrow> ExecutionGraph \<Rightarrow> ('z repo_scheme, OrchestrationResult option) py" where
  "execute_run fuel orch run_id graph =
     bnd (get_run run_id) (\<lambda>run.
     seq (lift_result (validate_graph graph (list_agent_types (o_registry orch))))
     (seq (lift_result (assert_agents_available orch graph))
     (bnd utc_now (\<lambda>now.
      seq (for_each (eg_nodes graph) (\<lambda>node. upsert (node_record (r_id run) now node)))
      (seq (save_state (r_id run) (build_initial_state run graph))
      (seq (set_status (r_id run) RunRunning None)
           (resume_run fuel orch (r_id run))))))))"

definition approve_node ::
    "nat \<Rightarrow> 'z orchestrator \<Rightarrow> string \<Rightarrow> string \<Rightarrow> bool \<Rightarrow> string option \<Rightarrow>
     ('z repo_scheme, OrchestrationResult option) py" where
  "approve_node fuel orch run_id node_id approved comment =
     bnd (load_state run_id) (\<lambda>state0.
     bnd (get_graph_node run_id node_id) (\<lambda>node.
     seq (guard (n_status node = NodeWaitingForApproval)
            (OrchestrationError (''Graph node is not waiting for approval: '' @ node_id)))
     (let decision = (if approved then ''approved'' else ''denied'');
          state = state0\<lparr>s_approvals := dict_set node_id (PStr decision) (s_approvals state0),
                         s_waiting_for_approval_node_id := None\<rparr> in
      bnd utc_now (\<lambda>t.
      seq (record_event run_id node_id (event_type_value EvApprovalDecision)
             [(''agent'', PStr (n_agent_type node)), (''approved'', PBool approved),
              (''comment'', opt_str comment), (''decision'', PStr decision),
              (''timestamp'', PStr (isoformat t))])
      (if \<not> approved then
         bnd utc_now (\<lambda>finished.
         bnd utc_now (\<lambda>updated.
         seq (upsert (node\<lparr>n_status := NodeFailed, n_finished_at := Some finished,
                           n_updated_at := updated\<rparr>))
         (bnd (refresh_state_from_nodes run_id state) (\<lambda>refreshed.
          seq (save_state run_id refreshed)
          (seq (set_status run_id RunFailed (Some (''Approval denied for node: '' @ node_id)))
          (bnd (result_of run_id RunFailed refreshed) (\<lambda>r. ret (Some r))))))))
       else
         bnd utc_now (\<lambda>updated.
         seq (upsert (node\<lparr>n_status := NodePending, n_updated_at := updated\<rparr>))
         (bnd (refresh_state_from_nodes run_id state) (\<lambda>refreshed.
          seq (save_state run_id refreshed)
              (resume_run fuel orch run_id)))))))))"

definition retry_failed_node ::
    "nat \<Rightarrow> 'z orchestrator \<Rightarrow> string \<Rightarrow> string \<Rightarrow> ('z repo_scheme, OrchestrationResult option) py" where
  "retry_failed_node fuel orch run_id node_id =
     bnd (load_state run_id) (\<lambda>state.
     bnd (get_graph_node run_id node_id) (\<lambda>node.
     seq (guard (n_status node = NodeFailed)
            (OrchestrationError (''Graph node is not failed: '' @ node_id)))
     (bnd utc_now (\<lambda>updated.
      seq (upsert (node\<lparr>n_status := NodePending, n_retry_count := 0, n_finished_at := None,
                        n_updated_at := updated\<rparr>))
      (bnd (refresh_state_from_nodes run_id state) (\<lambda>refreshed.
       seq (save_state run_id refreshed)
           (resume_run fuel orch run_id)))))))"

end
