(* ===== verification/Orchestrator_Frame.thy ===== *)
theory Orchestrator_Frame
  imports Orchestrator
begin

text \<open>
  What the steps of the orchestrator do to the graph nodes of a run. Everything but the
  node updates leaves them alone; executing a node replaces that node's record and nothing
  else. The agents are asked not to write graph nodes themselves.
\<close>

section \<open>Steps that do not write nodes\<close>

abbreviation has_nodes :: "(string, GraphNodeRecord list) dict \<Rightarrow> 'z repo_scheme \<Rightarrow> bool" where
  "has_nodes g \<equiv> \<lambda>s. graph_nodes s = g"

named_theorems node_frame \<open>steps that keep the graph nodes\<close>

lemma nodes_utc_now [node_frame]: "keeps (has_nodes g) utc_now"
  by (simp add: keeps_def py_simps)

lemma nodes_uuid4 [node_frame]: "keeps (has_nodes g) uuid4_hex"
  by (simp add: keeps_def py_simps)

lemma nodes_get_run [node_frame]: "keeps (has_nodes g) (get_run i)"
  by (simp add: keeps_def py_simps split: option.splits)

lemma nodes_index [node_frame]: "keeps (has_nodes g) (index f k)"
  by (simp add: keeps_def py_simps split: option.splits)

lemma nodes_append_event [node_frame]: "keeps (has_nodes g) (append_event i ev)"
  unfolding append_event_def by (intro keeps_intros node_frame keeps_modify) simp

lemma nodes_add_event [node_frame]: "keeps (has_nodes g) (add_event ev)"
  unfolding add_event_def Let_def by (intro keeps_intros node_frame)

lemma nodes_save_checkpoint [node_frame]: "keeps (has_nodes g) (save_checkpoint i st)"
  unfolding save_checkpoint_def Let_def by (intro keeps_intros node_frame keeps_modify) simp

lemma nodes_get_checkpoint [node_frame]: "keeps (has_nodes g) (get_checkpoint i)"
  unfolding get_checkpoint_def by (intro keeps_intros node_frame)

lemma nodes_put_run [node_frame]: "keeps (has_nodes g) (put_run i r)"
  by (simp add: keeps_def py_simps)

lemma nodes_update_status [node_frame]: "keeps (has_nodes g) (update_status i st e)"
  unfolding update_status_def Let_def by (intro keeps_intros node_frame)

lemma nodes_list_graph_nodes [node_frame]: "keeps (has_nodes g) (list_graph_nodes i)"
  unfolding list_graph_nodes_def by (intro keeps_intros node_frame)

lemma nodes_get_artifact [node_frame]: "keeps (has_nodes g) (get_artifact i a)"
  unfolding get_artifact_def list_artifacts_def by (intro keeps_intros node_frame)

lemma nodes_ordered [node_frame]: "keeps (has_nodes g) (ordered_nodes i st)"
  unfolding ordered_nodes_def by (intro keeps_intros node_frame)

lemma nodes_refresh [node_frame]: "keeps (has_nodes g) (refresh_state_from_nodes i st)"
  unfolding refresh_state_from_nodes_def by (intro keeps_intros node_frame)

lemma keeps_case_exn:
  "keeps I (h e) \<Longrightarrow> (\<And>m. keeps I (n m)) \<Longrightarrow>
     keeps I (case e of RunCheckpointNotFoundError m \<Rightarrow> n m | _ \<Rightarrow> h e)"
  "keeps I (h e) \<Longrightarrow> (\<And>m. keeps I (n m)) \<Longrightarrow>
     keeps I (case e of ArtifactNotFoundError m \<Rightarrow> n m | _ \<Rightarrow> h e)"
  by (cases e; simp)+

lemma nodes_load [node_frame]: "keeps (has_nodes g) (load_state i)"
  unfolding load_state_def by (intro keeps_intros node_frame keeps_case_exn)

lemma nodes_save [node_frame]: "keeps (has_nodes g) (save_state i st)"
  unfolding save_state_def by (intro keeps_intros node_frame)

lemma nodes_refresh_and_save [node_frame]: "keeps (has_nodes g) (refresh_and_save i st)"
  unfolding refresh_and_save_def by (intro keeps_intros node_frame)

lemma nodes_result_of [node_frame]: "keeps (has_nodes g) (result_of i stt st)"
  unfolding result_of_def by (intro keeps_intros node_frame)

lemma nodes_set_status [node_frame]: "keeps (has_nodes g) (set_status i st e)"
  unfolding set_status_def by (intro keeps_intros node_frame)

lemma nodes_record_event [node_frame]: "keeps (has_nodes g) (record_event i n t p)"
  unfolding record_event_def Let_def by (intro keeps_intros node_frame)

lemma nodes_record_output_event [node_frame]: "keeps (has_nodes g) (record_output_event i n ev)"
  unfolding record_output_event_def by (intro keeps_intros node_frame)

lemma nodes_duration [node_frame]: "keeps (has_nodes g) (node_duration_ms n)"
  unfolding node_duration_ms_def by (intro keeps_intros node_frame)

lemma nodes_audit [node_frame]: "keeps (has_nodes g) (record_tool_audit_event n d)"
  unfolding record_tool_audit_event_def by (intro keeps_intros node_frame)

lemma nodes_find_artifacts [node_frame]: "keeps (has_nodes g) (find_artifacts i ids)"
  unfolding find_artifacts_def by (intro keeps_intros node_frame keeps_case_exn)

lemma nodes_policy_context [node_frame]: "keeps (has_nodes g) (policy_context_for_tool t n st inp a)"
  unfolding policy_context_for_tool_def Let_def by (intro keeps_intros node_frame)

lemma nodes_authorize [node_frame]: "keeps (has_nodes g) (authorize_node_tools orch n st)"
  unfolding authorize_node_tools_def Let_def by (intro keeps_intros node_frame)

lemma nodes_finish_run [node_frame]: "keeps (has_nodes g) (finish_run i stt e st)"
  unfolding finish_run_def by (intro keeps_intros node_frame)

section \<open>Agents that leave the graph alone\<close>

definition agents_keep_nodes :: "'z orchestrator \<Rightarrow> bool" where
  "agents_keep_nodes orch \<longleftrightarrow>
     (\<forall>(t, execute) \<in> set (o_agents orch). \<forall>inp g. keeps (has_nodes g) (execute inp))"

lemma nodes_call_agent:
  assumes "agents_keep_nodes orch"
  shows "keeps (has_nodes g) (call_agent orch n st)"
proof -
  have "keeps (has_nodes g) (execute inp)" if "dict_get (o_agents orch) t = Some execute" for t execute inp
    using assms map_of_SomeD [OF that] by (auto simp: agents_keep_nodes_def)
  then show ?thesis
    unfolding call_agent_def Let_def by (intro keeps_intros node_frame) blast
qed

section \<open>Writing a node\<close>

definition put_node ::
    "(string, GraphNodeRecord list) dict \<Rightarrow> GraphNodeRecord \<Rightarrow> (string, GraphNodeRecord list) dict" where
  "put_node g n = dict_set (n_run_id n) (upsert_node n (the (dict_get g (n_run_id n)))) g"

lemma upsert_effect: "ensures (has_nodes g) (upsert n) (\<lambda>x. has_nodes (put_node g n))"
  by (auto simp: ensures_def upsert_def upsert_graph_node_def py_simps put_node_def split: option.splits)

lemma upsert_upsert: "n_id a = n_id b \<Longrightarrow> upsert_node a (upsert_node b L) = upsert_node a L"
  by (induction L) auto

lemma put_put:
  assumes "n_id a = n_id b" and "n_run_id a = n_run_id b"
  shows "put_node (put_node g b) a = put_node g a"
proof -
  have "dict_set k v (dict_set k w d) = dict_set k v d" for k :: string and v w :: "GraphNodeRecord list" and d
    by (induction d) auto
  with assms show ?thesis by (simp add: put_node_def upsert_upsert)
qed

text \<open>
  node_step orch n n' r: executing n can leave n' with the outcome r. Failing costs an
  attempt and leaves the node pending while another is left; the identity of the node, its
  dependencies and its tools stay.
\<close>

definition node_step ::
    "'z orchestrator \<Rightarrow> GraphNodeRecord \<Rightarrow> GraphNodeRecord \<Rightarrow> GraphNodeStatus \<Rightarrow> bool" where
  "node_step orch n n' r \<longleftrightarrow>
     n_id n' = n_id n \<and> n_run_id n' = n_run_id n \<and> n_depends_on n' = n_depends_on n
     \<and> n_required_tools n' = n_required_tools n \<and> n_status n' = r
     \<and> (r \<in> {NodeCompleted, NodeWaitingForApproval} \<and> n_retry_count n' = n_retry_count n
        \<or> r = (if n_retry_count n + 1 < o_max_attempts orch then NodePending else NodeFailed)
          \<and> n_retry_count n' = n_retry_count n + 1)"

definition stepped ::
    "'z orchestrator \<Rightarrow> (string, GraphNodeRecord list) dict \<Rightarrow> GraphNodeRecord \<Rightarrow> GraphNodeStatus \<Rightarrow>
     'z repo_scheme \<Rightarrow> bool" where
  "stepped orch g n r s \<longleftrightarrow> (\<exists>n'. node_step orch n n' r \<and> has_nodes (put_node g n') s)"

lemma steppedI: "has_nodes (put_node g n') s \<Longrightarrow> node_step orch n n' r \<Longrightarrow> stepped orch g n r s"
  by (auto simp: stepped_def)

lemma complete_node_effect:
  "ensures (has_nodes g) (complete_node n st out) (\<lambda>r s. r = NodeCompleted \<and> stepped orch g n r s)"
  unfolding complete_node_def Let_def
  by (intro ensures_skip [OF nodes_utc_now] ensures_bnd [OF upsert_effect]
        ensures_skip [OF nodes_duration] ensures_skip [OF nodes_record_event]
        ensures_skip [OF nodes_refresh_and_save] ensures_ret)
    (auto intro!: steppedI simp: node_step_def)

lemma pause_for_approval_effect:
  "ensures (has_nodes g) (pause_for_approval n st out)
     (\<lambda>r s. r = NodeWaitingForApproval \<and> stepped orch g n r s)"
  unfolding pause_for_approval_def Let_def
  by (intro ensures_skip [OF nodes_utc_now] ensures_bnd [OF upsert_effect]
        ensures_skip [OF nodes_duration] ensures_skip [OF nodes_record_event]
        ensures_skip [OF nodes_refresh_and_save] ensures_ret)
    (auto intro!: steppedI simp: node_step_def)

lemma keeps_finished: "keeps (has_nodes g) (if b then ret None else bnd utc_now (\<lambda>t. ret (Some t)))"
  by (intro keeps_intros node_frame)

lemma fail_node_effect:
  "ensures (has_nodes g) (fail_node orch n st out)
     (\<lambda>r s. r \<in> {NodePending, NodeFailed} \<and> stepped orch g n r s)"
  unfolding fail_node_def Let_def
  by (intro ensures_skip [OF keeps_finished] ensures_skip [OF nodes_utc_now]
        ensures_skip [OF keeps_lift_result] ensures_bnd [OF upsert_effect]
        ensures_skip [OF nodes_duration] ensures_skip [OF nodes_record_event]
        ensures_skip [OF nodes_refresh_and_save] ensures_ret)
    (auto intro!: steppedI simp: node_step_def)

lemma stepped_after_put:
  assumes "n_id m = n_id n" "n_run_id m = n_run_id n" "n_depends_on m = n_depends_on n"
    "n_required_tools m = n_required_tools n" "n_retry_count m = n_retry_count n"
    and "stepped orch (put_node g m) m r s"
  shows "stepped orch g n r s"
proof -
  from assms(6) obtain n' where n': "node_step orch m n' r" "has_nodes (put_node (put_node g m) n') s"
    by (auto simp: stepped_def)
  then have "n_id n' = n_id m" "n_run_id n' = n_run_id m" by (auto simp: node_step_def)
  with n' put_put [of n' m g] have "has_nodes (put_node g n') s" by simp
  moreover have "node_step orch n n' r" using n'(1) assms(1-5) by (auto simp: node_step_def)
  ultimately show ?thesis by (auto simp: stepped_def)
qed

lemma ensures_stepped:
  "n_id m = n_id n \<Longrightarrow> n_run_id m = n_run_id n \<Longrightarrow> n_depends_on m = n_depends_on n \<Longrightarrow>
   n_required_tools m = n_required_tools n \<Longrightarrow> n_retry_count m = n_retry_count n \<Longrightarrow>
   ensures (has_nodes (put_node g m)) x (\<lambda>r s. R r \<and> stepped orch (put_node g m) m r s) \<Longrightarrow>
   ensures (has_nodes (put_node g m)) x (stepped orch g n)"
  by (erule ensures_weaken) (auto intro: stepped_after_put)

lemma keeps_output_events: "keeps (has_nodes g) (for_each evs (record_output_event i n))"
  by (intro keeps_intros node_frame)

text \<open>Executing a node replaces its record by a step of it.\<close>

lemma execute_node_effect:
  assumes "agents_keep_nodes orch"
  shows "ensures (has_nodes g) (execute_node orch n st) (stepped orch g n)"
  unfolding execute_node_def Let_def
  apply (rule ensures_skip [OF nodes_utc_now])
  apply (rule ensures_skip [OF nodes_get_run])
  apply (rule ensures_bnd [OF upsert_effect])
  apply (rule ensures_skip [OF nodes_utc_now])
  apply (rule ensures_skip [OF nodes_record_event])
  apply (rule ensures_skip [OF nodes_refresh_and_save])
  apply (rule ensures_skip [OF nodes_authorize])
  subgoal for started run x now y z security
  proof (cases security)
    case None
    then show ?thesis
      by (simp only: option.case)
        (rule ensures_skip [OF nodes_call_agent [OF assms]], rule ensures_skip [OF keeps_output_events],
         intro ensures_if; rule ensures_stepped,
         (simp; fail)+, rule complete_node_effect pause_for_approval_effect fail_node_effect)
  next
    case (Some out)
    then show ?thesis
      by (simp only: option.case)
        (rule ensures_skip [OF keeps_output_events], intro ensures_if; rule ensures_stepped,
         (simp; fail)+, rule pause_for_approval_effect fail_node_effect)
  qed
  done

end
