(* ===== verification/Orchestrator_Properties.thy ===== *)
theory Orchestrator_Properties
  imports Orchestrator_Frame Policy_Properties
begin

text \<open>
  The properties of the orchestrator: resume_run ends, its result agrees with the stored
  run, only ready nodes run, nodes whose tools the policy gates never reach their agent
  without an approval, and what a checkpoint preserves.
\<close>

section \<open>Ready nodes\<close>

lemma all_completed_iff:
  "all_completed statuses ds = Inr b \<Longrightarrow> b \<longleftrightarrow> (\<forall>d \<in> set ds. dict_get statuses d = Some NodeCompleted)"
  by (induction ds) (auto split: option.splits if_splits)

definition node_ready :: "'z orchestrator \<Rightarrow> GraphNodeRecord list \<Rightarrow> GraphNodeRecord \<Rightarrow> bool" where
  "node_ready orch nodes n \<longleftrightarrow>
     n_status n \<in> {NodePending, NodeFailed} \<and> n_retry_count n < o_max_attempts orch
     \<and> (\<forall>d \<in> set (n_depends_on n). dict_get (statuses_of nodes) d = Some NodeCompleted)"

lemma ready_among_filter: "ready_among orch nodes ns = Inr ready \<Longrightarrow> ready = filter (node_ready orch nodes) ns"
proof (induction ns arbitrary: ready)
  case (Cons n ns)
  show ?case
  proof (cases "n_status n \<in> {NodePending, NodeFailed} \<and> n_retry_count n < o_max_attempts orch")
    case True
    with Cons.prems obtain b rest where b: "dependencies_completed n nodes = Inr b"
        "ready_among orch nodes ns = Inr rest" "ready = (if b then n # rest else rest)"
      by (auto split: sum.splits)
    with Cons.IH all_completed_iff [of "statuses_of nodes" "n_depends_on n" b] True show ?thesis
      by (auto simp: node_ready_def dependencies_completed_def)
  next
    case False
    with Cons.prems have "ready_among orch nodes ns = Inr ready" by (auto simp del: ready_among.simps simp: ready_among.simps(2) split: if_splits)
    moreover have "\<not> node_ready orch nodes n" using False by (auto simp: node_ready_def)
    ultimately show ?thesis using Cons.IH by simp
  qed
qed simp

lemma foldl_table_mem:
  "dict_get (foldl (\<lambda>d node. dict_set (n_id node) node d) acc xs) i = Some n \<Longrightarrow>
     n \<in> set xs \<or> dict_get acc i = Some n"
proof (induction xs arbitrary: acc)
  case (Cons x xs)
  from Cons.IH [of "dict_set (n_id x) x acc"] Cons.prems show ?case
    by (auto simp: dict_get_set split: if_splits)
qed simp

lemma nodes_table_mem: "dict_get (nodes_table xs) i = Some n \<Longrightarrow> n \<in> set xs"
  using foldl_table_mem [of "[]" xs i n] by (simp add: nodes_table_def)

lemma ordered_nodes_run:
  "dict_get (graph_nodes s) run_id = Some L \<Longrightarrow> ordered_nodes run_id st s = (Inr nodes, s') \<Longrightarrow>
     nodes = List.map_filter (\<lambda>item. dict_get (nodes_table L) (en_id item)) (s_plan st) \<and> s' = s"
  by (auto simp: ordered_nodes_def list_graph_nodes_def py_simps split: option.splits)

lemma ordered_nodes_subset:
  assumes "ordered_nodes run_id st s = (Inr nodes, s')" and "dict_get (graph_nodes s) run_id = Some L"
  shows "set nodes \<subseteq> set L"
proof
  fix n assume "n \<in> set nodes"
  with ordered_nodes_run [OF assms(2,1)] obtain item :: ExecutionNode
    where "dict_get (nodes_table L) (en_id item) = Some n"
    by (auto simp: List.map_filter_def)
  then show "n \<in> set L" by (rule nodes_table_mem)
qed

section \<open>The loop ends\<close>

text \<open>The attempts a node has left, and those of a list of nodes.\<close>

definition node_work :: "'z orchestrator \<Rightarrow> GraphNodeRecord \<Rightarrow> nat" where
  "node_work orch n = (if n_status n = NodeCompleted then 0 else nat (o_max_attempts orch - n_retry_count n))"

definition work :: "'z orchestrator \<Rightarrow> GraphNodeRecord list \<Rightarrow> nat" where
  "work orch L = sum_list (map (node_work orch) L)"

definition moved :: "'z orchestrator \<Rightarrow> GraphNodeRecord \<Rightarrow> GraphNodeRecord \<Rightarrow> bool" where
  "moved orch n n' \<longleftrightarrow>
     n_status n \<noteq> NodeCompleted \<and> n_retry_count n < o_max_attempts orch
     \<and> (\<exists>r. r \<noteq> NodeWaitingForApproval \<and> node_step orch n n' r)"

lemma moved_work: "moved orch n n' \<Longrightarrow> node_work orch n' < node_work orch n"
  by (auto simp: moved_def node_step_def node_work_def)

lemma moved_id: "moved orch n n' \<Longrightarrow> n_id n' = n_id n \<and> n_run_id n' = n_run_id n"
  by (auto simp: moved_def node_step_def)

text \<open>The node list L0 at the start of an iteration, and L after some of its nodes ran.\<close>

definition advanced :: "'z orchestrator \<Rightarrow> GraphNodeRecord list \<Rightarrow> GraphNodeRecord list \<Rightarrow> bool" where
  "advanced orch L0 L \<longleftrightarrow> list_all2 (\<lambda>n n'. n' = n \<or> moved orch n n') L0 L"

lemma advanced_refl: "advanced orch L L"
  by (simp add: advanced_def list_all2_refl)

lemma advanced_ids: "advanced orch L0 L \<Longrightarrow> map n_id L = map n_id L0 \<and> map n_run_id L = map n_run_id L0"
  unfolding advanced_def by (induction rule: list_all2_induct) (auto dest: moved_id)

lemma advanced_work: "advanced orch L0 L \<Longrightarrow> work orch L \<le> work orch L0"
  unfolding advanced_def work_def
  by (induction rule: list_all2_induct) (auto dest!: moved_work)

lemma advanced_upsert:
  assumes "advanced orch L0 L" and "n \<in> set L0" and "distinct (map n_id L0)" and mv: "moved orch n n'"
  shows "advanced orch L0 (upsert_node n' L) \<and> work orch (upsert_node n' L) < work orch L0"
  using assms(1-3) unfolding advanced_def
proof (induction rule: list_all2_induct)
  case (Cons m L0 m' L)
  have w: "work orch L \<le> work orch L0"
    using Cons.hyps(2) advanced_work by (simp add: advanced_def)
  have m: "n_id m' = n_id m" "node_work orch m' \<le> node_work orch m"
    using Cons.hyps(1) moved_id moved_work by (force, fastforce)
  show ?case
  proof (cases "n_id m = n_id n")
    case True
    with Cons.prems have "n = m" by auto
    with Cons.hyps(2) mv m(1) w moved_work [OF mv] moved_id [OF mv] show ?thesis
      by (simp add: work_def)
  next
    case False
    with Cons.prems have "n \<in> set L0" "distinct (map n_id L0)" by auto
    with Cons.IH have "list_all2 (\<lambda>n n'. n' = n \<or> moved orch n n') L0 (upsert_node n' L)"
        "work orch (upsert_node n' L) < work orch L0" by auto
    with False Cons.hyps(1) m moved_id [OF mv] show ?thesis by (simp add: work_def)
  qed
qed simp

text \<open>
  The state of the repository in the middle of an iteration; b says whether a node ran.
\<close>

definition mid_run ::
    "'z orchestrator \<Rightarrow> string \<Rightarrow> GraphNodeRecord list \<Rightarrow> bool \<Rightarrow> 'z repo_scheme \<Rightarrow> bool" where
  "mid_run orch run_id L0 b s \<longleftrightarrow>
     (\<exists>L. dict_get (graph_nodes s) run_id = Some L \<and> advanced orch L0 L
        \<and> (b \<longrightarrow> work orch L < work orch L0))"

lemma keeps_mid_run: "(\<And>g. keeps (has_nodes g) m) \<Longrightarrow> keeps (mid_run orch run_id L0 b) m"
  by (fastforce simp: keeps_def mid_run_def)

lemma execute_in_run:
  assumes "agents_keep_nodes orch" and "n \<in> set L0" and "distinct (map n_id L0)" and "n_run_id n = run_id"
    and "n_status n \<noteq> NodeCompleted" and "n_retry_count n < o_max_attempts orch"
  shows "ensures (mid_run orch run_id L0 b) (execute_node orch n st)
           (\<lambda>r s. r = NodeWaitingForApproval \<or> mid_run orch run_id L0 True s)"
proof (rule ensuresI)
  fix s r s' assume mid: "mid_run orch run_id L0 b s" and run: "execute_node orch n st s = (Inr r, s')"
  from mid obtain L where L: "dict_get (graph_nodes s) run_id = Some L" "advanced orch L0 L"
    by (auto simp: mid_run_def)
  from ensuresD [OF execute_node_effect [OF assms(1)] run refl] obtain n' where
    n': "node_step orch n n' r" "graph_nodes s' = put_node (graph_nodes s) n'"
    by (auto simp: stepped_def)
  show "r = NodeWaitingForApproval \<or> mid_run orch run_id L0 True s'"
  proof (rule disjCI)
    assume "\<not> mid_run orch run_id L0 True s'"
    show "r = NodeWaitingForApproval"
    proof (rule ccontr)
      assume "r \<noteq> NodeWaitingForApproval"
      with n'(1) assms(5,6) have "moved orch n n'" by (auto simp: moved_def)
      from advanced_upsert [OF L(2) assms(2,3) this] n' L(1) assms(4)
      have "mid_run orch run_id L0 True s'"
        by (auto simp: mid_run_def put_node_def node_step_def)
      with \<open>\<not> mid_run orch run_id L0 True s'\<close> show False by simp
    qed
  qed
qed

lemma run_ready_advances:
  assumes "agents_keep_nodes orch" and "distinct (map n_id L0)" and "\<forall>n \<in> set L0. n_run_id n = run_id"
    and "set ready \<subseteq> set L0"
    and "\<forall>n \<in> set ready. n_status n \<noteq> NodeCompleted \<and> n_retry_count n < o_max_attempts orch"
  shows "ensures (mid_run orch run_id L0 b) (run_ready orch run_id ready st)
           (\<lambda>x s. case x of Inl r \<Rightarrow> True | Inr st' \<Rightarrow> mid_run orch run_id L0 (b \<or> ready \<noteq> []) s)"
  using assms(4,5)
proof (induction ready arbitrary: b st)
  case Nil
  then show ?case by (auto intro: ensures_ret)
next
  case (Cons n rest)
  have n: "n \<in> set L0" "n_run_id n = run_id" "n_status n \<noteq> NodeCompleted"
      "n_retry_count n < o_max_attempts orch"
    using Cons.prems assms(3) by auto
  show ?case
    unfolding run_ready.simps
  proof (rule ensures_bnd [OF execute_in_run [OF assms(1) n(1) assms(2) n(2-4)]])
    fix r
    show "ensures (\<lambda>s. r = NodeWaitingForApproval \<or> mid_run orch run_id L0 True s)
        (bnd (load_state run_id) (\<lambda>state'.
           if r = NodeWaitingForApproval then
             seq (set_status run_id RunWaitingForApproval None)
             (bnd (result_of run_id RunWaitingForApproval state') (\<lambda>r. ret (Inl r)))
           else if r = NodeFailed then ret (Inr state')
           else run_ready orch run_id rest state'))
        (\<lambda>x s. case x of Inl r \<Rightarrow> True | Inr st' \<Rightarrow> mid_run orch run_id L0 (b \<or> n # rest \<noteq> []) s)"
    proof (cases "r = NodeWaitingForApproval")
      case True
      then show ?thesis by (auto simp: ensures_def ret_run elim!: bnd_InrE)
    next
      case False
      have IH: "ensures (mid_run orch run_id L0 True) (run_ready orch run_id rest st')
          (\<lambda>x s. case x of Inl r \<Rightarrow> True | Inr st' \<Rightarrow> mid_run orch run_id L0 True s)" for st'
        using Cons.IH [of True st'] Cons.prems by (simp cong del: sum.case_cong_weak)
      have "ensures (mid_run orch run_id L0 True)
          (bnd (load_state run_id) (\<lambda>state'.
             if r = NodeFailed then ret (Inr state') else run_ready orch run_id rest state'))
          (\<lambda>x s. case x of Inl r \<Rightarrow> True | Inr st' \<Rightarrow> mid_run orch run_id L0 True s)"
        by (rule ensures_skip [OF keeps_mid_run [OF nodes_load]]) (auto intro: ensures_ret IH)
      with False show ?thesis by (simp cong del: sum.case_cong_weak)
    qed
  qed
qed

lemma finish_not_None: "fst (bnd (finish_run i stt e st) (\<lambda>r. ret (Some r)) s) \<noteq> Inr None"
  by (auto simp: bnd_run ret_run split: prod.splits sum.splits)

text \<open>
  With more fuel than the run has attempts left, the loop does not run out of it.
\<close>

lemma resume_loop_ends:
  assumes "agents_keep_nodes orch"
  shows "dict_get (graph_nodes s) run_id = Some L \<Longrightarrow> distinct (map n_id L) \<Longrightarrow>
     \<forall>n \<in> set L. n_run_id n = run_id \<Longrightarrow> work orch L < fuel \<Longrightarrow>
     fst (resume_loop fuel orch run_id st s) \<noteq> Inr None"
proof (induction fuel arbitrary: s st L)
  case (Suc fuel)
  obtain x s1 where ref: "refresh_state_from_nodes run_id st s = (x, s1)" by fastforce
  have g1: "graph_nodes s1 = graph_nodes s" using keepsD [OF nodes_refresh refl ref] .
  show ?case
  proof (cases x)
    case (Inl e)
    with ref show ?thesis by (simp add: bnd_run)
  next
    case (Inr state)
    obtain y s2 where ord: "ordered_nodes run_id state s1 = (y, s2)" by fastforce
    have g2: "graph_nodes s2 = graph_nodes s" using keepsD [OF nodes_ordered refl ord] g1 by simp
    show ?thesis
    proof (cases y)
      case (Inl e)
      with ref Inr ord show ?thesis
        by (simp add: finish_not_None bnd_run [of "refresh_state_from_nodes run_id st"]
            bnd_run [of "ordered_nodes run_id state"])
    next
      case nodes: (Inr nodes)
      let ?rest = "bnd (lift_result (ready_among orch nodes nodes)) (\<lambda>ready.
           if ready = [] then
             bnd (finish_run run_id RunFailed (Some ''No executable graph nodes remain.'') state)
               (\<lambda>r. ret (Some r))
           else bnd (run_ready orch run_id ready state) (\<lambda>x. case x of
               Inl r \<Rightarrow> ret (Some r) | Inr state' \<Rightarrow> resume_loop fuel orch run_id state'))"
      have rest: "fst (?rest s2) \<noteq> Inr None"
      proof (cases "ready_among orch nodes nodes")
        case (Inl e)
        then show ?thesis by (simp add: bnd_run lift_result_run)
      next
        case (Inr ready)
        note ready = ready_among_filter [OF Inr]
        have sub: "set ready \<subseteq> set L"
          using ready ordered_nodes_subset [OF ord [unfolded nodes]] Suc.prems(1) g1 by auto
        have todo: "\<forall>n \<in> set ready. n_status n \<noteq> NodeCompleted \<and> n_retry_count n < o_max_attempts orch"
          using ready by (auto simp: node_ready_def)
        show ?thesis
        proof (cases "ready = []")
          case True
          with Inr show ?thesis by (simp add: finish_not_None bnd_run [of "lift_result z" for z] lift_result_run)
        next
          case False
          obtain z s3 where run: "run_ready orch run_id ready state s2 = (z, s3)" by fastforce
          have "fst (bnd (run_ready orch run_id ready state) (\<lambda>x. case x of
               Inl r \<Rightarrow> ret (Some r) | Inr state' \<Rightarrow> resume_loop fuel orch run_id state') s2) \<noteq> Inr None"
          proof (cases "\<exists>st'. z = Inr (Inr st')")
            case True
            then obtain st' where st': "z = Inr (Inr st')" by blast
            have "mid_run orch run_id L False s2"
              using Suc.prems(1) g2 advanced_refl by (auto simp: mid_run_def)
            from ensuresD [OF run_ready_advances [OF assms Suc.prems(2,3) sub todo] run [unfolded st'] this]
            obtain L' where L': "dict_get (graph_nodes s3) run_id = Some L'" "advanced orch L L'"
                "work orch L' < work orch L"
              using False by (auto simp: mid_run_def)
            have "distinct (map n_id L')" "\<forall>n \<in> set L'. n_run_id n = run_id"
              using advanced_ids [OF L'(2)] Suc.prems(2,3) by (simp, metis (mono_tags) image_eqI imageE list.set_map)
            with Suc.IH [OF L'(1)] L'(3) Suc.prems(4) run st' show ?thesis by (simp add: bnd_run)
          next
            case False
            with run show ?thesis by (auto simp: bnd_run ret_run split: sum.splits)
          qed
          with Inr False show ?thesis by (simp add: bnd_run [of "lift_result z" for z] lift_result_run)
        qed
      qed
      have loop: "resume_loop (Suc fuel) orch run_id st s =
          (if case s_waiting_for_approval_node_id state of None \<Rightarrow> False | Some i \<Rightarrow> i \<noteq> [] then
             bnd (finish_run run_id RunWaitingForApproval None state) (\<lambda>r. ret (Some r)) s1
           else if nodes \<noteq> [] \<and> list_all (\<lambda>node. n_status node = NodeCompleted) nodes then
             bnd (finish_run run_id RunCompleted None state) (\<lambda>r. ret (Some r)) s2
           else if filter (\<lambda>node. n_status node = NodeFailed \<and> o_max_attempts orch \<le> n_retry_count node) nodes \<noteq> [] then
             bnd (finish_run run_id RunFailed (Some (''Failed graph nodes: '' @ join ''; ''
               (map n_id (filter (\<lambda>node. n_status node = NodeFailed \<and> o_max_attempts orch \<le> n_retry_count node) nodes)))) state)
               (\<lambda>r. ret (Some r)) s2
           else ?rest s2)"
        using ref Inr ord nodes
        by (simp only: resume_loop.simps Let_def bnd_run [of "refresh_state_from_nodes run_id st"]
            bnd_run [of "ordered_nodes run_id state"] prod.case sum.case split: if_split) simp
      show ?thesis
        unfolding loop using rest by (simp only: finish_not_None simp_thms split: if_split)
    qed
  qed
qed simp

text \<open>
  C12: When the agents leave the graph nodes alone and the node ids of a run are distinct,
  resume_run ends: each round completes a node or uses up one of its attempts, so one more round
  than the attempts left is enough.
\<close>

theorem resume_run_ends:
  assumes "agents_keep_nodes orch" and "dict_get (graph_nodes s) run_id = Some L"
    and "distinct (map n_id L)" and "\<forall>n \<in> set L. n_run_id n = run_id"
    and "work orch L < fuel"
  shows "fst (resume_run fuel orch run_id s) \<noteq> Inr None"
proof -
  have frame: "keeps (has_nodes (graph_nodes s)) (bnd (get_run run_id) (\<lambda>_. bnd (load_state run_id) (\<lambda>state.
      seq (set_status run_id RunRunning None) (ret state))))"
    by (intro keeps_intros node_frame)
  obtain x s1 where pre: "bnd (get_run run_id) (\<lambda>_. bnd (load_state run_id) (\<lambda>state.
      seq (set_status run_id RunRunning None) (ret state))) s = (x, s1)" by fastforce
  have g: "graph_nodes s1 = graph_nodes s" using keepsD [OF frame refl pre] .
  have "resume_run fuel orch run_id = bnd (bnd (get_run run_id) (\<lambda>_. bnd (load_state run_id) (\<lambda>state.
      seq (set_status run_id RunRunning None) (ret state)))) (resume_loop fuel orch run_id)"
    by (simp add: resume_run_def bnd_assoc)
  with pre resume_loop_ends [OF assms(1) _ assms(3-5), of s1] g assms(2) show ?thesis
    by (cases x) (simp_all add: bnd_run [of "bnd (get_run run_id) f" for f])
qed

section \<open>What a result says\<close>

abbreviation has_runs :: "(string, RunRecord) dict \<Rightarrow> 'z repo_scheme \<Rightarrow> bool" where
  "has_runs r \<equiv> \<lambda>s. runs s = r"

lemma runs_save_state: "keeps (has_runs r) (save_state i st)"
  by (auto simp: keeps_def save_state_def save_checkpoint_def py_simps Let_def split: option.splits)

lemma refresh_run:
  "refresh_state_from_nodes i st s = (x, s') \<Longrightarrow>
     s' = s \<and> (\<forall>st'. x = Inr st' \<longrightarrow> (\<exists>nodes. ordered_nodes i st s = (Inr nodes, s)
        \<and> st' = sync_state_from_node_statuses st (statuses_of nodes)))"
  by (auto simp: refresh_state_from_nodes_def ordered_nodes_def list_graph_nodes_def py_simps split: option.splits)

definition stored_status :: "string \<Rightarrow> RunStatus \<Rightarrow> 'z repo_scheme \<Rightarrow> bool" where
  "stored_status run_id st s \<longleftrightarrow> (\<exists>run. dict_get (runs s) run_id = Some run \<and> r_status run = st)"

lemma set_status_effect: "ensures (\<lambda>s. True) (set_status i st e) (\<lambda>x. stored_status i st)"
  by (auto simp: ensures_def set_status_def update_status_def py_simps Let_def stored_status_def split: option.splits)

lemma keeps_stored: "(\<And>r. keeps (has_runs r) m) \<Longrightarrow> keeps (stored_status i st) m"
  by (fastforce simp: keeps_def stored_status_def)

lemma result_of_effect:
  "result_of i stt st s = (Inr x, s') \<Longrightarrow> s' = s \<and> or_run_id x = i \<and> or_status x = stt
     \<and> (\<exists>nodes. ordered_nodes i st s = (Inr nodes, s)
          \<and> or_state x = sync_state_from_node_statuses st (statuses_of nodes)
          \<and> or_completed_node_ids x = s_completed_node_ids (or_state x)
          \<and> or_failed_node_ids x = s_failed_node_ids (or_state x)
          \<and> or_waiting_for_approval_node_id x = s_waiting_for_approval_node_id (or_state x))"
  unfolding result_of_def by (elim bnd_InrE) (auto simp: ret_run dest!: refresh_run)

lemma finish_run_effect:
  assumes "finish_run i stt e st s = (Inr x, s')"
  shows "or_status x = stt \<and> stored_status i stt s' \<and> graph_nodes s' = graph_nodes s
     \<and> (\<exists>nodes. ordered_nodes i st s' = (Inr nodes, s')
          \<and> or_state x = sync_state_from_node_statuses st (statuses_of nodes)
          \<and> or_failed_node_ids x = s_failed_node_ids (or_state x)
          \<and> or_waiting_for_approval_node_id x = s_waiting_for_approval_node_id (or_state x))"
proof -
  from assms obtain u1 s1 u2 s2 where
    1: "set_status i stt e s = (Inr u1, s1)" and 2: "save_state i st s1 = (Inr u2, s2)"
    and 3: "result_of i stt st s2 = (Inr x, s')"
    unfolding finish_run_def by (elim bnd_InrE)
  have "stored_status i stt s1" using ensuresD [OF set_status_effect 1] by simp
  then have "stored_status i stt s2" using keepsD [OF keeps_stored [OF runs_save_state] _ 2] by simp
  moreover have "graph_nodes s1 = graph_nodes s" using keepsD [OF nodes_set_status refl 1] .
  moreover have "graph_nodes s2 = graph_nodes s1" using keepsD [OF nodes_save refl 2] .
  ultimately show ?thesis using result_of_effect [OF 3] by auto
qed

text \<open>Every node of the plan that the repository has is completed, and there is one.\<close>

definition all_done :: "string \<Rightarrow> run_state \<Rightarrow> 'z repo_scheme \<Rightarrow> bool" where
  "all_done run_id st s \<longleftrightarrow>
     (\<exists>nodes. ordered_nodes run_id st s = (Inr nodes, s) \<and> nodes \<noteq> []
        \<and> (\<forall>n \<in> set nodes. n_status n = NodeCompleted))"

definition faithful_result :: "string \<Rightarrow> OrchestrationResult \<Rightarrow> 'z repo_scheme \<Rightarrow> bool" where
  "faithful_result run_id x s \<longleftrightarrow>
     stored_status run_id (or_status x) s
     \<and> (or_status x = RunCompleted \<longrightarrow> all_done run_id (or_state x) s
          \<and> or_failed_node_ids x = [] \<and> or_waiting_for_approval_node_id x = None)"

lemma ordered_nodes_cong:
  assumes "s_plan st' = s_plan st" and "graph_nodes s' = graph_nodes s"
    and "ordered_nodes i st s = (Inr nodes, s1)" and "ordered_nodes i st' s' = (Inr nodes', s2)"
  shows "nodes' = nodes"
  using assms by (auto simp: ordered_nodes_def list_graph_nodes_def py_simps split: option.splits)

lemma sync_plan [simp]: "s_plan (sync_state_from_node_statuses st sts) = s_plan st"
  by (simp add: sync_state_from_node_statuses_def)

lemma statuses_all:
  assumes "\<forall>n \<in> set nodes. n_status n = NodeCompleted" and "st \<noteq> NodeCompleted"
  shows "ids_with st (statuses_of nodes) = []"
proof -
  have "\<forall>(i, x) \<in> set (foldl (\<lambda>d node. dict_set (n_id node) (n_status node) d) acc nodes). x = NodeCompleted"
    if "\<forall>(i, x) \<in> set acc. x = NodeCompleted" for acc
    using assms(1) that
  proof (induction nodes arbitrary: acc)
    case (Cons n nodes)
    have "\<forall>(i, x) \<in> set (dict_set (n_id n) (n_status n) acc). x = NodeCompleted"
      using Cons.prems by (auto dest!: mem_dict_set)
    with Cons show ?case by simp
  qed simp
  from this [of "[]"] assms(2) show ?thesis by (auto simp: ids_with_def statuses_of_def filter_empty_conv)
qed

lemma run_ready_waiting:
  "run_ready orch i ready st s = (Inr (Inl x), s') \<Longrightarrow>
     or_status x = RunWaitingForApproval \<and> stored_status i RunWaitingForApproval s'"
proof (induction ready arbitrary: st s)
  case Nil
  then show ?case by (simp add: ret_run)
next
  case (Cons n rest)
  from Cons.prems obtain r s1 st' s2 where
    1: "execute_node orch n st s = (Inr r, s1)" and 2: "load_state i s1 = (Inr st', s2)"
    and 3: "(if r = NodeWaitingForApproval then
         seq (set_status i RunWaitingForApproval None)
         (bnd (result_of i RunWaitingForApproval st') (\<lambda>r. ret (Inl r)))
       else if r = NodeFailed then ret (Inr st')
       else run_ready orch i rest st') s2 = (Inr (Inl x), s')"
    by (auto elim!: bnd_InrE)
  show ?case
  proof (cases "r = NodeWaitingForApproval")
    case True
    with 3 obtain u s3 where 4: "set_status i RunWaitingForApproval None s2 = (Inr u, s3)"
        "result_of i RunWaitingForApproval st' s3 = (Inr x, s')"
      by (auto elim!: bnd_InrE simp: ret_run)
    with ensuresD [OF set_status_effect 4(1)] result_of_effect [OF 4(2)] show ?thesis by simp
  next
    case False
    with 3 Cons.IH show ?thesis by (auto simp: ret_run split: if_splits)
  qed
qed

lemma finish_faithful:
  assumes "bnd (finish_run i stt e st) (\<lambda>r. ret (Some r)) s = (Inr (Some x), s')"
    and "stt = RunCompleted \<Longrightarrow> \<exists>nodes. ordered_nodes i st s = (Inr nodes, s) \<and> nodes \<noteq> []
           \<and> (\<forall>n \<in> set nodes. n_status n = NodeCompleted)"
  shows "faithful_result i x s'"
proof -
  from assms(1) have "finish_run i stt e st s = (Inr x, s')" by (auto elim!: bnd_InrE simp: ret_run)
  note f = finish_run_effect [OF this]
  then obtain nodes where nodes: "ordered_nodes i st s' = (Inr nodes, s')"
      "or_state x = sync_state_from_node_statuses st (statuses_of nodes)"
      "or_failed_node_ids x = s_failed_node_ids (or_state x)"
      "or_waiting_for_approval_node_id x = s_waiting_for_approval_node_id (or_state x)" by blast
  show ?thesis
  proof (cases "stt = RunCompleted")
    case False
    with f show ?thesis by (simp add: faithful_result_def)
  next
    case True
    with assms(2) obtain nodes0 where n0: "ordered_nodes i st s = (Inr nodes0, s)" "nodes0 \<noteq> []"
        "\<forall>n \<in> set nodes0. n_status n = NodeCompleted" by blast
    have same: "nodes = nodes0" using ordered_nodes_cong [OF refl _ n0(1) nodes(1)] f by simp
    obtain z s1 where "ordered_nodes i (or_state x) s' = (z, s1)" by fastforce
    moreover have "ordered_nodes i (or_state x) s' = ordered_nodes i st s'"
      by (simp add: ordered_nodes_def nodes(2))
    ultimately have "all_done i (or_state x) s'" using nodes(1) n0 same by (auto simp: all_done_def)
    moreover have "or_failed_node_ids x = []" "or_waiting_for_approval_node_id x = None"
      using statuses_all [of nodes] n0(3) same nodes(2-4)
      by (simp_all add: sync_state_from_node_statuses_def)
    ultimately show ?thesis using f by (simp add: faithful_result_def)
  qed
qed

lemma resume_loop_faithful:
  "resume_loop fuel orch i st s = (Inr (Some x), s') \<Longrightarrow> faithful_result i x s'"
proof (induction fuel arbitrary: st s)
  case 0
  then show ?case by (simp add: ret_run)
next
  case (Suc fuel)
  from Suc.prems obtain state s1 where ref: "refresh_state_from_nodes i st s = (Inr state, s1)"
    and more: "(if (case s_waiting_for_approval_node_id state of None \<Rightarrow> False | Some i \<Rightarrow> i \<noteq> []) then
         bnd (finish_run i RunWaitingForApproval None state) (\<lambda>r. ret (Some r))
       else
         bnd (ordered_nodes i state) (\<lambda>nodes.
           let terminal_failures = filter (\<lambda>node. n_status node = NodeFailed
                                       \<and> o_max_attempts orch \<le> n_retry_count node) nodes in
           if nodes \<noteq> [] \<and> list_all (\<lambda>node. n_status node = NodeCompleted) nodes then
             bnd (finish_run i RunCompleted None state) (\<lambda>r. ret (Some r))
           else if terminal_failures \<noteq> [] then
             bnd (finish_run i RunFailed
                    (Some (''Failed graph nodes: '' @ join ''; '' (map n_id terminal_failures))) state)
               (\<lambda>r. ret (Some r))
           else
             bnd (lift_result (ready_among orch nodes nodes)) (\<lambda>ready.
               if ready = [] then
                 bnd (finish_run i RunFailed (Some ''No executable graph nodes remain.'') state)
                   (\<lambda>r. ret (Some r))
               else
                 bnd (run_ready orch i ready state) (\<lambda>x. case x of
                   Inl r \<Rightarrow> ret (Some r)
                 | Inr state' \<Rightarrow> resume_loop fuel orch i state')))) s1 = (Inr (Some x), s')"
    by (auto simp only: resume_loop.simps elim!: bnd_InrE)
  show ?case
  proof (cases "case s_waiting_for_approval_node_id state of None \<Rightarrow> False | Some i \<Rightarrow> i \<noteq> []")
    case True
    with more have "bnd (finish_run i RunWaitingForApproval None state) (\<lambda>r. ret (Some r)) s1 = (Inr (Some x), s')"
      by simp
    then show ?thesis by (rule finish_faithful) simp
  next
    case False
    with more obtain nodes s2 where ord: "ordered_nodes i state s1 = (Inr nodes, s2)"
      and rest: "(let terminal_failures = filter (\<lambda>node. n_status node = NodeFailed
                                       \<and> o_max_attempts orch \<le> n_retry_count node) nodes in
           if nodes \<noteq> [] \<and> list_all (\<lambda>node. n_status node = NodeCompleted) nodes then
             bnd (finish_run i RunCompleted None state) (\<lambda>r. ret (Some r))
           else if terminal_failures \<noteq> [] then
             bnd (finish_run i RunFailed
                    (Some (''Failed graph nodes: '' @ join ''; '' (map n_id terminal_failures))) state)
               (\<lambda>r. ret (Some r))
           else
             bnd (lift_result (ready_among orch nodes nodes)) (\<lambda>ready.
               if ready = [] then
                 bnd (finish_run i RunFailed (Some ''No executable graph nodes remain.'') state)
                   (\<lambda>r. ret (Some r))
               else
                 bnd (run_ready orch i ready state) (\<lambda>x. case x of
                   Inl r \<Rightarrow> ret (Some r)
                 | Inr state' \<Rightarrow> resume_loop fuel orch i state'))) s2 = (Inr (Some x), s')"
      by (simp only: if_False) (elim bnd_InrE, blast)
    have "s2 = s1" using ord
      by (auto simp: ordered_nodes_def list_graph_nodes_def py_simps split: option.splits)
    with ord have ord2: "ordered_nodes i state s2 = (Inr nodes, s2)" by simp
    let ?tf = "filter (\<lambda>node. n_status node = NodeFailed \<and> o_max_attempts orch \<le> n_retry_count node) nodes"
    consider (finished) "nodes \<noteq> [] \<and> list_all (\<lambda>node. n_status node = NodeCompleted) nodes"
      | (failed) "\<not> (nodes \<noteq> [] \<and> list_all (\<lambda>node. n_status node = NodeCompleted) nodes)" "?tf \<noteq> []"
      | (go_on) "\<not> (nodes \<noteq> [] \<and> list_all (\<lambda>node. n_status node = NodeCompleted) nodes)" "?tf = []"
      by blast
    then show ?thesis
    proof cases
      case finished
      with rest have "bnd (finish_run i RunCompleted None state) (\<lambda>r. ret (Some r)) s2 = (Inr (Some x), s')"
        by (simp add: Let_def)
      then show ?thesis by (rule finish_faithful) (use ord2 finished in \<open>auto simp: list_all_iff\<close>)
    next
      case failed
      with rest obtain e where "bnd (finish_run i RunFailed e state) (\<lambda>r. ret (Some r)) s2 = (Inr (Some x), s')"
        by (simp only: Let_def if_False if_True not_False_eq_True)
      then show ?thesis by (rule finish_faithful) simp
    next
      case go_on
      with rest obtain ready s3 where r3: "(if ready = [] then
                 bnd (finish_run i RunFailed (Some ''No executable graph nodes remain.'') state)
                   (\<lambda>r. ret (Some r))
               else
                 bnd (run_ready orch i ready state) (\<lambda>x. case x of
                   Inl r \<Rightarrow> ret (Some r)
                 | Inr state' \<Rightarrow> resume_loop fuel orch i state')) s3 = (Inr (Some x), s')"
        by (simp only: Let_def if_False not_True_eq_False simp_thms) (elim bnd_InrE, blast)
      show ?thesis
      proof (cases "ready = []")
        case True
        with r3 have "bnd (finish_run i RunFailed (Some ''No executable graph nodes remain.'') state)
            (\<lambda>r. ret (Some r)) s3 = (Inr (Some x), s')" by simp
        then show ?thesis by (rule finish_faithful) simp
      next
        case False
        with r3 obtain z s4 where z: "run_ready orch i ready state s3 = (Inr z, s4)"
            "(case z of Inl r \<Rightarrow> ret (Some r) | Inr state' \<Rightarrow> resume_loop fuel orch i state') s4 = (Inr (Some x), s')"
          by (simp only: if_False) (elim bnd_InrE, blast)
        show ?thesis
        proof (cases z)
          case (Inl r)
          with z have "r = x" "s4 = s'" by (simp_all add: ret_run)
          with run_ready_waiting [OF z(1) [unfolded Inl]] show ?thesis by (simp add: faithful_result_def)
        next
          case (Inr st')
          with z(2) Suc.IH show ?thesis by simp
        qed
      qed
    qed
  qed
qed

text \<open>
  C13: The status resume_run reports is the status stored for the run, whatever the agents did;
  a completed run has at least one node, every planned node in the repository completed, no
  failed node and none waiting for approval.
\<close>

theorem resume_run_faithful:
  assumes "resume_run fuel orch run_id s = (Inr (Some x), s')"
  shows "stored_status run_id (or_status x) s'
     \<and> (or_status x = RunCompleted \<longrightarrow> all_done run_id (or_state x) s'
          \<and> or_failed_node_ids x = [] \<and> or_waiting_for_approval_node_id x = None)"
proof -
  from assms obtain st s1 where "resume_loop fuel orch run_id st s1 = (Inr (Some x), s')"
    unfolding resume_run_def by (elim bnd_InrE)
  from resume_loop_faithful [OF this] show ?thesis by (simp add: faithful_result_def)
qed

section \<open>Gated tools\<close>

lemma map_each_mem:
  "map_each xs f s = (Inr ys, s') \<Longrightarrow> x \<in> set xs \<Longrightarrow> \<exists>y \<in> set ys. \<exists>s1 s2. f x s1 = (Inr y, s2)"
proof (induction xs arbitrary: ys s)
  case (Cons a xs)
  from Cons.prems(1) obtain y s1 zs where *: "f a s = (Inr y, s1)" "map_each xs f s1 = (Inr zs, s')" "ys = y # zs"
    by (auto elim!: bnd_InrE simp: ret_run)
  with Cons.IH [OF *(2)] Cons.prems(2) show ?case by auto
qed simp

lemma security_output_None: "security_output ds = None \<longleftrightarrow> (\<forall>d \<in> set ds. td_decision d = ALLOW)"
proof -
  have "td_decision d = ALLOW \<longleftrightarrow> td_decision d \<noteq> BLOCK \<and> td_decision d \<notin> {APPROVAL_REQUIRED, ESCALATE} \<and> td_decision d \<noteq> RETRY"
    for d by (cases "td_decision d") auto
  then show ?thesis by (auto simp: security_output_def Let_def filter_empty_conv)
qed

lemma evaluate_context:
  assumes "evaluate reg tool summary approved payload = Inr d"
  shows "build_context summary approved payload = Inr (td_context d)"
  using assms
  by (auto simp: evaluate_def decision_from_rule_def plain_decision_def Let_def
      split: sum.splits option.splits if_splits)

text \<open>A tool the default policy does not simply allow.\<close>

definition gated_tool :: "string \<Rightarrow> bool" where
  "gated_tool tool \<longleftrightarrow>
     (case get_permission default_reg tool of
        None \<Rightarrow> True
      | Some p \<Rightarrow> tp_risk p = RiskHigh \<or> tp_destructive p \<or> tp_blocked p)"

lemma gated_not_allowed:
  assumes "gated_tool tool" and "evaluate default_reg tool summary False (model_payload c) = Inr d"
    and "\<not> pc_approved c"
  shows "td_decision d \<noteq> ALLOW"
proof
  assume "td_decision d = ALLOW"
  from default_allow_is_safe [OF assms(2) this] obtain p where
    p: "get_permission default_reg tool = Some p" "\<not> tp_destructive p" "\<not> tp_blocked p"
      "tp_risk p = RiskHigh \<longrightarrow> pc_approved (td_context d)" by blast
  have "\<not> pc_approved (td_context d)"
    using evaluate_context [OF assms(2)] assms(3)
    by (auto simp: build_context_def model_payload_def Let_def split: sum.splits
        dest: arg_cong [where f = pc_approved])
  with p assms(1) show False by (simp add: gated_tool_def)
qed

lemma gated_authorize:
  fixes orch :: "'z orchestrator" and s s' :: "'z repo_scheme"
  assumes "o_tools orch = default_reg" and "tool \<in> set (n_required_tools node)" and "gated_tool tool"
    and "dict_get (s_approvals st) (n_id node) \<noteq> Some (PStr ''approved'')"
    and "authorize_node_tools orch node st s = (Inr x, s')"
  shows "x \<noteq> None"
proof -
  have "n_required_tools node \<noteq> []" using assms(2) by auto
  with assms(4,5) obtain item summary decisions s1 s2 where
    dec: "map_each (n_required_tools node) (\<lambda>tool.
           bnd (policy_context_for_tool tool node st summary False) (\<lambda>context.
             lift_result (evaluate (o_tools orch) tool summary False (model_payload context)))) s1
        = (Inr decisions, s2)" and x: "x = security_output decisions"
    and "for_each decisions (record_tool_audit_event node) s2 = (Inr (), s')"
    unfolding authorize_node_tools_def Let_def
    by (auto elim!: bnd_InrE simp: ret_run)
  from map_each_mem [OF dec assms(2)] obtain d and s3 s4 :: "'z repo_scheme" where
    d: "d \<in> set decisions" "bnd (policy_context_for_tool tool node st summary False) (\<lambda>context.
             lift_result (evaluate default_reg tool summary False (model_payload context))) s3 = (Inr d, s4)"
    using assms(1) by auto
  then obtain c s5 where c: "policy_context_for_tool tool node st summary False s3 = (Inr c, s5)"
      "evaluate default_reg tool summary False (model_payload c) = Inr d"
    by (auto elim!: bnd_InrE simp: lift_result_run)
  from c(1) have "\<not> pc_approved c"
    unfolding policy_context_for_tool_def Let_def by (auto elim!: bnd_InrE simp: ret_run)
  from gated_not_allowed [OF assms(3) c(2) this] d(1) x show ?thesis
    by (auto simp: security_output_None)
qed

lemma keeps_True: "keeps (\<lambda>s. True) m"
  by (simp add: keeps_def)

lemma bnd_cong_Inr:
  "(\<And>x s'. m s = (Inr x, s') \<Longrightarrow> f x s' = g x s') \<Longrightarrow> bnd m f s = bnd m g s"
  by (auto simp: bnd_run split: prod.splits sum.splits)

lemma authorize_agents [simp]:
  "authorize_node_tools (orch\<lparr>o_agents := a\<rparr>) node st = authorize_node_tools orch node st"
  by (simp add: authorize_node_tools_def)

lemma fail_agents [simp]: "fail_node (orch\<lparr>o_agents := a\<rparr>) node st out = fail_node orch node st out"
  by (simp add: fail_node_def)

lemma gated_running:
  assumes "o_tools orch = default_reg" and "tool \<in> set (n_required_tools node)" and "gated_tool tool"
    and "dict_get (s_approvals st) (n_id node) \<noteq> Some (PStr ''approved'')"
    and "authorize_node_tools orch (node\<lparr>n_status := NodeRunning, n_started_at := t, n_updated_at := u\<rparr>) st s1 = (Inr x, s2)"
  shows "x \<noteq> None"
  by (rule gated_authorize [OF assms(1) _ assms(3) _ assms(5)]) (use assms(2,4) in simp_all)

lemma gated_not_completed:
  assumes "o_tools orch = default_reg" and "tool \<in> set (n_required_tools node)" and "gated_tool tool"
    and "dict_get (s_approvals st) (n_id node) \<noteq> Some (PStr ''approved'')"
  shows "ensures (\<lambda>s. True) (execute_node orch node st) (\<lambda>r s. r \<noteq> NodeCompleted)"
  unfolding execute_node_def Let_def
proof (rule ensures_skip [OF keeps_True], rule ensures_skip [OF keeps_True],
    rule ensures_skip [OF keeps_True], rule ensures_skip [OF keeps_True],
    rule ensures_skip [OF keeps_True], rule ensures_skip [OF keeps_True])
  fix t and u v w x y
  let ?n = "node\<lparr>n_status := NodeRunning,
      n_started_at := case n_started_at node of None \<Rightarrow> Some t | Some x \<Rightarrow> Some x, n_updated_at := t\<rparr>"
  show "ensures (\<lambda>s. True) (bnd (authorize_node_tools orch ?n st) (\<lambda>security. case security of
        None \<Rightarrow> bnd (call_agent orch ?n st) (\<lambda>output.
          seq (for_each (ao_events output) (record_output_event (n_run_id node) (n_id node)))
            (if ao_status output = ''succeeded'' then complete_node ?n st output
             else if ao_status output = ''waiting_for_approval'' then pause_for_approval ?n st output
             else fail_node orch ?n st output))
      | Some output \<Rightarrow>
          seq (for_each (ao_events output) (record_output_event (n_run_id node) (n_id node)))
            (if ao_status output = ''waiting_for_approval'' then pause_for_approval ?n st output
             else fail_node orch ?n st output))) (\<lambda>r s. r \<noteq> NodeCompleted)"
  proof (rule ensures_bnd [where R = "\<lambda>x s. x \<noteq> None"])
    show "ensures (\<lambda>s. True) (authorize_node_tools orch ?n st) (\<lambda>x s. x \<noteq> None)"
      using gated_running [OF assms] by (auto simp: ensures_def)
    have paused: "ensures (\<lambda>s. True) (pause_for_approval ?n st out) (\<lambda>r s. r \<noteq> NodeCompleted)" for out
      using ensuresD [OF pause_for_approval_effect _ refl] by (fastforce simp: ensures_def)
    have failed: "ensures (\<lambda>s. True) (fail_node orch ?n st out) (\<lambda>r s. r \<noteq> NodeCompleted)" for out
      using ensuresD [OF fail_node_effect _ refl] by (fastforce simp: ensures_def)
    fix z :: "AgentOutput option"
    show "ensures (\<lambda>s. z \<noteq> None) (case z of
        None \<Rightarrow> bnd (call_agent orch ?n st) (\<lambda>output.
          seq (for_each (ao_events output) (record_output_event (n_run_id node) (n_id node)))
            (if ao_status output = ''succeeded'' then complete_node ?n st output
             else if ao_status output = ''waiting_for_approval'' then pause_for_approval ?n st output
             else fail_node orch ?n st output))
      | Some output \<Rightarrow>
          seq (for_each (ao_events output) (record_output_event (n_run_id node) (n_id node)))
            (if ao_status output = ''waiting_for_approval'' then pause_for_approval ?n st output
             else fail_node orch ?n st output)) (\<lambda>r s. r \<noteq> NodeCompleted)"
      by (cases z) (simp add: ensures_def, simp add: ensures_skip [OF keeps_True] paused failed)
  qed
qed

text \<open>
  C14: Under the default policy a node that requires an unregistered, destructive, blocked or
  high risk tool and is not approved in the run state never reaches its agent (the execution is
  the same as with no agent at all) and does not complete.
\<close>

theorem gated_node_needs_approval:
  assumes "o_tools orch = default_reg" and "tool \<in> set (n_required_tools node)" and "gated_tool tool"
    and "dict_get (s_approvals st) (n_id node) \<noteq> Some (PStr ''approved'')"
  shows "execute_node orch node st s = execute_node (orch\<lparr>o_agents := []\<rparr>) node st s
     \<and> fst (execute_node orch node st s) \<noteq> Inr NodeCompleted"
proof
  show "execute_node orch node st s = execute_node (orch\<lparr>o_agents := []\<rparr>) node st s"
    unfolding execute_node_def Let_def authorize_agents fail_agents
    by (intro bnd_cong_Inr) (auto dest!: gated_running [OF assms] split: option.split)
  show "fst (execute_node orch node st s) \<noteq> Inr NodeCompleted"
    using gated_not_completed [OF assms]
    by (cases "execute_node orch node st s") (auto simp: ensures_def)
qed

section \<open>Checkpoints\<close>

lemma saved_checkpoint:
  assumes "save_state run_id st s = (Inr u, s')"
  shows "load_state run_id s' = (Inr (redact_state (uri_redactor s) st), s')"
  using assms
  by (auto simp: save_state_def save_checkpoint_def load_state_def get_checkpoint_def py_simps Let_def
      checkpoint_reads_back split: option.splits)

text \<open>
  C15: A state that is saved as the checkpoint of a run and loaded again is the saved state with
  its strings and sensitive entries redacted, field by field.
\<close>

theorem checkpoint_roundtrip:
  assumes "save_state run_id st s = (Inr u, s')"
  shows "load_state run_id s' = (Inr (redact_state (uri_redactor s) st), s')"
  by (rule saved_checkpoint [OF assms])


section \<open>Concrete runs\<close>

definition demo_node :: GraphNodeRecord where
  "demo_node = \<lparr>n_id = ''a'', n_run_id = ''r'', n_agent_type = ''report'', n_status = NodePending,
     n_depends_on = [], n_required_tools = [''shell_exec''], n_expected_artifacts = [],
     n_retry_count = 0, n_created_at = 0, n_updated_at = 0, n_started_at = None, n_finished_at = None\<rparr>"

definition demo_state :: run_state where
  "demo_state = \<lparr>s_run_id = ''r'', s_task = ''t'', s_plan = [sample_node ''a'' []],
     s_pending_node_ids = [''a''], s_completed_node_ids = [], s_failed_node_ids = [],
     s_waiting_for_approval_node_id = None, s_agent_outputs = [], s_artifacts = [],
     s_approvals = [(''auth_token_check'', PStr ''approved'')], s_evaluation_results = [], s_errors = []\<rparr>"

definition demo_run :: RunRecord where
  "demo_run = \<lparr>r_id = ''r'', r_task = ''t'', r_status = RunPending, r_metadata = [], r_created_at = 0,
     r_updated_at = 0, r_dataset_artifact_id = None, r_trace_id = None, r_error_summary = None\<rparr>"

definition demo_env :: env where
  "demo_env = \<lparr>clock = int, ticks = 0, uuids = nat_str, uuid_ix = 0, uri_redactor = (\<lambda>u. u),
     repr_of = (\<lambda>v. ''?''), active_trace = None, mlflow_log = (\<lambda>r v. (''off'', None)),
     langsmith_log = (\<lambda>r v. (''off'', None))\<rparr>"

definition demo_repo :: "GraphNodeRecord list \<Rightarrow> repo" where
  "demo_repo nodes = (empty_repo demo_env)
     \<lparr>runs := [(''r'', demo_run)], artifacts := [(''r'', [])], graph_nodes := [(''r'', nodes)],
      events := [(''r'', [])], evaluations := [(''r'', [])],
      checkpoints := [(''r'', \<lparr>c_run_id = ''r'', c_state = state_to_py demo_state, c_version = 1,
        c_created_at = 0, c_updated_at = 0\<rparr>)]\<rparr>"

definition demo_orch :: "unit orchestrator" where
  "demo_orch = \<lparr>o_registry = [],
     o_agents = [(''report'', \<lambda>inp. ret \<lparr>ao_status = ''succeeded'', ao_summary = ''ok'',
        ao_artifacts = [], ao_events = [], ao_metrics = [], ao_errors = []\<rparr>)],
     o_max_attempts = 2, o_tools = default_reg\<rparr>"

lemma demo_agents: "agents_keep_nodes demo_orch"
  unfolding agents_keep_nodes_def demo_orch_def by (simp add: keeps_ret)

theorem resume_run_ends_witness:
  "fst (resume_run 3 demo_orch ''r'' (demo_repo [demo_node])) \<noteq> Inr None"
  by (rule resume_run_ends [OF demo_agents, where L = "[demo_node]"])
    (simp_all add: demo_repo_def demo_node_def work_def node_work_def demo_orch_def)

theorem gated_node_needs_approval_witness:
  "fst (execute_node demo_orch demo_node demo_state (demo_repo [demo_node])) \<noteq> Inr NodeCompleted"
proof -
  have "gated_tool ''shell_exec''" by code_simp
  moreover have "o_tools demo_orch = default_reg" by (simp add: demo_orch_def)
  moreover have "''shell_exec'' \<in> set (n_required_tools demo_node)" by (simp add: demo_node_def)
  moreover have "dict_get (s_approvals demo_state) (n_id demo_node) \<noteq> Some (PStr ''approved'')"
    by (simp add: demo_state_def demo_node_def)
  ultimately show ?thesis using gated_node_needs_approval by blast
qed

lemma demo_saves: "\<exists>s'. save_state ''r'' demo_state (demo_repo []) = (Inr (), s')"
  by (simp add: save_state_def save_checkpoint_def py_simps Let_def demo_repo_def)

theorem checkpoint_roundtrip_witness:
  "\<exists>s' :: repo. load_state ''r'' s' = (Inr (redact_state (uri_redactor (demo_repo [])) demo_state), s')"
  using demo_saves checkpoint_roundtrip by blast


theorem resume_run_faithful_witness:
  "\<exists>x s'. resume_run 1 demo_orch ''r'' (demo_repo [demo_node\<lparr>n_status := NodeCompleted\<rparr>]) = (Inr (Some x), s')
     \<and> or_status x = RunCompleted \<and> all_done ''r'' (or_state x) s'"
proof -
  have "case fst (resume_run 1 demo_orch ''r'' (demo_repo [demo_node\<lparr>n_status := NodeCompleted\<rparr>])) of
      Inr (Some x) \<Rightarrow> or_status x = RunCompleted | _ \<Rightarrow> False"
    by code_simp
  then obtain x s' where
    "resume_run 1 demo_orch ''r'' (demo_repo [demo_node\<lparr>n_status := NodeCompleted\<rparr>]) = (Inr (Some x), s')"
    "or_status x = RunCompleted"
    by (cases "resume_run 1 demo_orch ''r'' (demo_repo [demo_node\<lparr>n_status := NodeCompleted\<rparr>])")
      (auto split: sum.splits option.splits)
  with resume_run_faithful [OF this(1)] show ?thesis by blast
qed

end
