(* ===== verification/Workflow_Queue.thy ===== *)
theory Workflow_Queue
  imports Job_History
begin

text \<open>
  workflows/queue.py: the queue contract between the API, the workers and the repository.
  The protocol class is the record WorkflowQueueBackend of its operations; the locale
  workflow_queue states what every backend promises, and the theory interprets it for the
  repository backend and for the Redis backend.

  Redis itself is not part of the repository: its client is a record of two operations on
  a database of unspecified type, which may answer anything and may raise.
\<close>

section \<open>The backend protocol\<close>

record 's WorkflowQueueBackend =
  q_enqueue :: "string \<Rightarrow> string \<Rightarrow> (string, pyval) dict \<Rightarrow> int \<Rightarrow> ('s, WorkflowJobRecord) py"
  q_claim_next :: "string \<Rightarrow> string option \<Rightarrow> int option \<Rightarrow> ('s, WorkflowJobRecord option) py"
  q_heartbeat :: "string \<Rightarrow> string \<Rightarrow> ('s, WorkflowJobRecord) py"
  q_complete :: "string \<Rightarrow> string \<Rightarrow> ('s, WorkflowJobRecord) py"
  q_fail :: "string \<Rightarrow> string \<Rightarrow> string \<Rightarrow> bool \<Rightarrow> ('s, WorkflowJobRecord) py"
  q_recover_timed_out :: "int \<Rightarrow> string option \<Rightarrow> ('s, WorkflowJobRecord list) py"
  q_retry_dead_letter :: "string \<Rightarrow> string option \<Rightarrow> ('s, WorkflowJobRecord) py"
  q_dismiss_dead_letter :: "string \<Rightarrow> string option \<Rightarrow> ('s, WorkflowJobRecord) py"

definition RepositoryWorkflowQueue :: "'z repo_scheme WorkflowQueueBackend" where
  "RepositoryWorkflowQueue =
     \<lparr>q_enqueue = (\<lambda>run_id name payload m. enqueue_workflow_job run_id name payload m None JobQueued),
      q_claim_next = claim_next_workflow_job,
      q_heartbeat = heartbeat_workflow_job,
      q_complete = (\<lambda>job_id w. complete_workflow_job job_id (Some w)),
      q_fail = (\<lambda>job_id w e again. fail_workflow_job job_id e again (Some w)),
      q_recover_timed_out = (\<lambda>t name. recover_timed_out_workflow_jobs t name None),
      q_retry_dead_letter = retry_dead_letter_workflow_job,
      q_dismiss_dead_letter = dismiss_dead_letter_workflow_job\<rparr>"

section \<open>The Redis backend\<close>

record 'r redis_client =
  rc_rpush :: "string \<Rightarrow> string \<Rightarrow> 'r \<Rightarrow> unit result \<times> 'r"
  rc_lpop :: "string \<Rightarrow> 'r \<Rightarrow> string option result \<times> 'r"

record 'r redis_repo = repo +
  redis_db :: 'r

definition on_redis :: "('r \<Rightarrow> 'a result \<times> 'r) \<Rightarrow> (('r, 'z) redis_repo_scheme, 'a) py" where
  "on_redis f = (\<lambda>s. case f (redis_db s) of (x, d) \<Rightarrow> (x, s\<lparr>redis_db := d\<rparr>))"

record 'r RedisWorkflowQueue =
  rq_redis :: "'r redis_client"
  rq_key_prefix :: string
  rq_max_pop_attempts :: int

text \<open>str.strip with an explicit character, and the constructor.\<close>

definition strip_char :: "char \<Rightarrow> string \<Rightarrow> string" where
  "strip_char c s = rev (dropWhile (\<lambda>x. x = c) (rev (dropWhile (\<lambda>x. x = c) s)))"

definition new_redis_queue :: "'r redis_client \<Rightarrow> string \<Rightarrow> int \<Rightarrow> 'r RedisWorkflowQueue" where
  "new_redis_queue client key_prefix max_pop_attempts =
     (let stripped = strip_char (CHR '':'') key_prefix in
      \<lparr>rq_redis = client,
       rq_key_prefix = (if stripped = [] then ''aeai:workflow'' else stripped),
       rq_max_pop_attempts = max_pop_attempts\<rparr>)"

definition queue_key :: "'r RedisWorkflowQueue \<Rightarrow> string \<Rightarrow> string" where
  "queue_key rq workflow_name = rq_key_prefix rq @ '':queue:'' @ workflow_name"

definition push_job :: "'r RedisWorkflowQueue \<Rightarrow> WorkflowJobRecord \<Rightarrow> (('r, 'z) redis_repo_scheme, unit) py" where
  "push_job rq job = on_redis (rc_rpush (rq_redis rq) (queue_key rq (j_workflow_name job)) (j_id job))"

definition push_if_queued ::
    "'r RedisWorkflowQueue \<Rightarrow> WorkflowJobRecord \<Rightarrow> (('r, 'z) redis_repo_scheme, unit) py" where
  "push_if_queued rq job = (if j_status job = JobQueued then push_job rq job else ret ())"

definition redis_enqueue ::
    "'r RedisWorkflowQueue \<Rightarrow> string \<Rightarrow> string \<Rightarrow> (string, pyval) dict \<Rightarrow> int \<Rightarrow>
     (('r, 'z) redis_repo_scheme, WorkflowJobRecord) py" where
  "redis_enqueue rq run_id workflow_name payload max_attempts =
     bnd (enqueue_workflow_job run_id workflow_name payload max_attempts None JobQueued) (\<lambda>job.
     seq (push_job rq job) (ret job))"

definition redis_recover_timed_out ::
    "'r RedisWorkflowQueue \<Rightarrow> int \<Rightarrow> string option \<Rightarrow>
     (('r, 'z) redis_repo_scheme, WorkflowJobRecord list) py" where
  "redis_recover_timed_out rq timeout_seconds workflow_name =
     bnd (recover_timed_out_workflow_jobs timeout_seconds workflow_name None) (\<lambda>recovered.
     seq (for_each recovered (push_if_queued rq)) (ret recovered))"

text \<open>
  The loop of claim_next: pop an id and try to claim it, until a claim succeeds, the list
  is empty or the attempts are used up. An id the repository does not know is skipped.
\<close>

fun pop_and_claim ::
    "'r RedisWorkflowQueue \<Rightarrow> string \<Rightarrow> string \<Rightarrow> nat \<Rightarrow>
     (('r, 'z) redis_repo_scheme, WorkflowJobRecord option) py" where
  "pop_and_claim rq worker_id workflow_name 0 = ret None"
| "pop_and_claim rq worker_id workflow_name (Suc n) =
     bnd (on_redis (rc_lpop (rq_redis rq) (queue_key rq workflow_name))) (\<lambda>popped.
       case popped of
         None \<Rightarrow> ret None
       | Some job_id \<Rightarrow>
           bnd (try_catch (claim_workflow_job job_id worker_id None) (\<lambda>e. case e of
                  WorkflowJobNotFoundError m \<Rightarrow> ret None | _ \<Rightarrow> raise e)) (\<lambda>job.
             case job of
               Some j \<Rightarrow> ret (Some j)
             | None \<Rightarrow> pop_and_claim rq worker_id workflow_name n))"

definition redis_claim_next ::
    "'r RedisWorkflowQueue \<Rightarrow> string \<Rightarrow> string option \<Rightarrow> int option \<Rightarrow>
     (('r, 'z) redis_repo_scheme, WorkflowJobRecord option) py" where
  "redis_claim_next rq worker_id workflow_name stale_after_seconds =
     seq (case stale_after_seconds of None \<Rightarrow> ret ()
          | Some t \<Rightarrow> bnd (redis_recover_timed_out rq t workflow_name) (\<lambda>_. ret ()))
     (bnd (case workflow_name of None \<Rightarrow> ret None
           | Some n \<Rightarrow> if n = [] then ret None
                      else pop_and_claim rq worker_id n (nat (rq_max_pop_attempts rq))) (\<lambda>popped.
        case popped of
          Some job \<Rightarrow> ret (Some job)
        | None \<Rightarrow> claim_next_workflow_job worker_id workflow_name None))"

definition redis_fail ::
    "'r RedisWorkflowQueue \<Rightarrow> string \<Rightarrow> string \<Rightarrow> string \<Rightarrow> bool \<Rightarrow>
     (('r, 'z) redis_repo_scheme, WorkflowJobRecord) py" where
  "redis_fail rq job_id worker_id error_summary again =
     bnd (fail_workflow_job job_id error_summary again (Some worker_id)) (\<lambda>job.
     seq (push_if_queued rq job) (ret job))"

definition redis_retry_dead_letter ::
    "'r RedisWorkflowQueue \<Rightarrow> string \<Rightarrow> string option \<Rightarrow> (('r, 'z) redis_repo_scheme, WorkflowJobRecord) py" where
  "redis_retry_dead_letter rq job_id reason =
     bnd (retry_dead_letter_workflow_job job_id reason) (\<lambda>job. seq (push_job rq job) (ret job))"

definition redis_backend :: "'r RedisWorkflowQueue \<Rightarrow> ('r, 'z) redis_repo_scheme WorkflowQueueBackend" where
  "redis_backend rq = RepositoryWorkflowQueue
     \<lparr>q_enqueue := redis_enqueue rq, q_claim_next := redis_claim_next rq, q_fail := redis_fail rq,
      q_recover_timed_out := redis_recover_timed_out rq,
      q_retry_dead_letter := redis_retry_dead_letter rq\<rparr>"

text \<open>
  build_workflow_queue: the backend the settings name. redis_from_url is the client the
  redis package connects to the configured url.
\<close>

definition build_workflow_queue ::
    "(string \<Rightarrow> 'r redis_client) \<Rightarrow> string \<Rightarrow> string \<Rightarrow> string \<Rightarrow>
     ('r, 'z) redis_repo_scheme WorkflowQueueBackend result" where
  "build_workflow_queue redis_from_url workflow_queue_backend redis_url workflow_queue_key_prefix =
     (let backend = lower (strip workflow_queue_backend) in
      if backend \<in> {''repository'', ''local'', ''memory''} then Inr RepositoryWorkflowQueue
      else if backend = ''redis'' then
        Inr (redis_backend (new_redis_queue (redis_from_url redis_url) workflow_queue_key_prefix 100))
      else if backend = ''kafka'' then
        Inl (ValueError ''Kafka workflow queue backend is not implemented yet; use redis.'')
      else Inl (ValueError (''Unsupported workflow queue backend: '' @ workflow_queue_backend)))"

section \<open>Redis changes no table\<close>

definition same_tables :: "'z repo_scheme \<Rightarrow> 'z repo_scheme \<Rightarrow> bool" where
  "same_tables s s' \<longleftrightarrow>
     workflow_jobs s' = workflow_jobs s \<and> workflow_job_order s' = workflow_job_order s \<and> runs s' = runs s"

lemma same_tables_refl [simp]: "same_tables s s"
  by (simp add: same_tables_def)

lemma same_tables_evolve: "same_tables s s' \<Longrightarrow> jobs_evolve adm s s'"
  by (simp add: same_tables_def jobs_evolve_same)

lemma same_tables_quiet: "same_tables s s' \<Longrightarrow> quiet s s'"
  by (simp add: same_tables_def quiet_same)

lemma on_redis_tables: "on_redis f s = (r, s') \<Longrightarrow> same_tables s s'"
  by (auto simp: on_redis_def same_tables_def split: prod.splits)

lemma evolves_on_redis: "evolves (jobs_evolve adm) (on_redis f)"
  unfolding evolves_def by (metis on_redis_tables prod.collapse same_tables_evolve)

lemma quiet_on_redis: "evolves quiet (on_redis f)"
  unfolding evolves_def by (metis on_redis_tables prod.collapse same_tables_quiet)

lemma claim_effect_cong:
  "workflow_jobs s1 = workflow_jobs s \<Longrightarrow> claim_effect w s1 job s' = claim_effect w s job s'"
  by (simp add: claim_effect_def)

lemma claim_now_cases:
  assumes "claim_workflow_job i w None s = (r, s')"
  shows "case r of Inr (Some job) \<Rightarrow> claim_effect w s job s' | _ \<Rightarrow> same_tables s s'"
  using assms unfolding claim_workflow_job_def
  by (auto simp: py_simps intro!: claim_effectI split: option.splits if_splits)

lemma pop_and_claim_cases:
  "pop_and_claim rq w n k s = (r, s') \<Longrightarrow>
     (case r of Inr (Some job) \<Rightarrow> claim_effect w s job s' | _ \<Rightarrow> same_tables s s')"
proof (induction k arbitrary: s)
  case 0
  then show ?case by (auto simp: py_simps)
next
  case (Suc k)
  obtain x s1 where pop: "on_redis (rc_lpop (rq_redis rq) (queue_key rq n)) s = (x, s1)" by fastforce
  note same = on_redis_tables [OF pop]
  show ?case
  proof (cases "\<exists>i. x = Inr (Some i)")
    case False
    with Suc.prems pop same show ?thesis by (auto simp: py_simps split: sum.splits option.splits)
  next
    case True
    then obtain i where x: "x = Inr (Some i)" by blast
    obtain y s2 where claim: "claim_workflow_job i w None s1 = (y, s2)" by fastforce
    note c = claim_now_cases [OF claim]
    show ?thesis
    proof (cases "\<exists>job. y = Inr (Some job)")
      case True
      with Suc.prems pop x claim c same show ?thesis
        by (auto simp: py_simps same_tables_def cong: claim_effect_cong)
    next
      case False
      with c have s2: "same_tables s1 s2" by (auto split: sum.splits option.splits)
      with same have t: "same_tables s s2" by (auto simp: same_tables_def)
      show ?thesis
      proof (cases "pop_and_claim rq w n k s2 = (r, s')")
        case True
        from Suc.IH [OF this] t show ?thesis
          by (auto simp: same_tables_def claim_effect_def split: sum.splits option.splits)
      next
        case other: False
        with Suc.prems pop x claim False t show ?thesis
          by (auto simp: py_simps split: sum.splits option.splits exn.splits)
      qed
    qed
  qed
qed

lemma evolves_pop_and_claim: "keeps (jobs_evolve adm s0) (pop_and_claim rq w n k)"
proof (induction k)
  case (Suc k)
  note of_evolves = keeps_of_evolves [OF jobs_evolve_trans]
  from Suc show ?case
    by (auto intro!: keeps_intros of_evolves [OF evolves_on_redis] of_evolves [OF evolves_claim]
        split: exn.splits)
qed (simp add: keeps_intros)

lemma keeps_push: "keeps (jobs_evolve adm s0) (push_if_queued rq job)"
    "keeps (jobs_evolve adm s0) (push_job rq job)"
  unfolding push_if_queued_def push_job_def
  by (intro keeps_intros keeps_of_evolves [OF jobs_evolve_trans evolves_on_redis])+

lemma keeps_quiet_push: "keeps (quiet s0) (push_if_queued rq job)" "keeps (quiet s0) (push_job rq job)"
  unfolding push_if_queued_def push_job_def
  by (intro keeps_intros keeps_of_evolves [OF quiet_trans quiet_on_redis])+

lemma tables_on_redis: "keeps (same_tables s0) (on_redis f)"
  by (rule keepsI) (metis on_redis_tables prod.collapse same_tables_def)

lemma tables_push: "keeps (same_tables s0) (push_if_queued rq job)" "keeps (same_tables s0) (push_job rq job)"
  unfolding push_if_queued_def push_job_def by (intro keeps_intros tables_on_redis)+

lemma evolves_redis_recover: "evolves (jobs_evolve adm) (redis_recover_timed_out rq t n)"
  unfolding redis_recover_timed_out_def
  by (rule evolves_by_keeps [OF jobs_evolve_refl])
    (intro keeps_intros keeps_push keeps_of_evolves [OF jobs_evolve_trans evolves_recover])

lemma quiet_redis_recover: "evolves quiet (redis_recover_timed_out rq t n)"
  unfolding redis_recover_timed_out_def
  by (rule evolves_by_keeps [OF quiet_refl])
    (intro keeps_intros keeps_quiet_push keeps_of_evolves [OF quiet_trans quiet_recover])

lemma evolves_redis_claim_next: "evolves (jobs_evolve adm) (redis_claim_next rq w n stale)"
  unfolding redis_claim_next_def
  by (rule evolves_by_keeps [OF jobs_evolve_refl])
    (intro keeps_intros evolves_pop_and_claim keeps_of_evolves [OF jobs_evolve_trans evolves_claim_next]
      keeps_of_evolves [OF jobs_evolve_trans evolves_redis_recover])

lemma evolves_redis_fail: "evolves (jobs_evolve adm) (redis_fail rq i w e again)"
  unfolding redis_fail_def
  by (rule evolves_by_keeps [OF jobs_evolve_refl])
    (intro keeps_intros keeps_push keeps_of_evolves [OF jobs_evolve_trans evolves_fail]; simp)

lemma evolves_redis_retry: "evolves (jobs_evolve adm) (redis_retry_dead_letter rq i why)"
  unfolding redis_retry_dead_letter_def
  by (rule evolves_by_keeps [OF jobs_evolve_refl])
    (intro keeps_intros keeps_push keeps_of_evolves [OF jobs_evolve_trans evolves_retry])

section \<open>What a claim does\<close>

text \<open>The part of claim_next after the recovery: the pops, then the scan of the repository.\<close>

definition redis_pick ::
    "'r RedisWorkflowQueue \<Rightarrow> string \<Rightarrow> string option \<Rightarrow> (('r, 'z) redis_repo_scheme, WorkflowJobRecord option) py" where
  "redis_pick rq w n =
     (case n of None \<Rightarrow> ret None
      | Some n \<Rightarrow> if n = [] then ret None else pop_and_claim rq w n (nat (rq_max_pop_attempts rq)))"

lemma redis_claim_next_alt:
  "redis_claim_next rq w n stale =
     seq (case stale of None \<Rightarrow> ret () | Some t \<Rightarrow> bnd (redis_recover_timed_out rq t n) (\<lambda>_. ret ()))
     (bnd (redis_pick rq w n) (\<lambda>popped. case popped of Some job \<Rightarrow> ret (Some job)
        | None \<Rightarrow> claim_next_workflow_job w n None))"
  by (simp add: redis_claim_next_def redis_pick_def)

lemma redis_pick_cases:
  "redis_pick rq w n s = (r, s') \<Longrightarrow>
     (case r of Inr (Some job) \<Rightarrow> claim_effect w s job s' | _ \<Rightarrow> same_tables s s')"
proof -
  assume run: "redis_pick rq w n s = (r, s')"
  show ?thesis
  proof (cases "n = None \<or> n = Some []")
    case True
    with run show ?thesis by (auto simp: redis_pick_def py_simps)
  next
    case False
    then obtain m where "n = Some m" "m \<noteq> []" by auto
    with run show ?thesis by (simp add: redis_pick_def pop_and_claim_cases)
  qed
qed

lemma claim_next_now:
  assumes "claim_next_workflow_job w n None s = (r, s')"
  shows "case r of Inr (Some job) \<Rightarrow> claim_effect w s job s' | _ \<Rightarrow> same_tables s s'"
  using assms claim_scan_cases [of w "normalize_workflow n" "workflow_job_order s" s r s']
  by (auto simp: claim_next_workflow_job_def Let_def py_simps split: sum.splits option.splits)

lemma claim_next_none:
  assumes "jobs_ok s" and "claim_next_workflow_job w n None s = (Inr None, s')"
  shows "\<not> claimable (normalize_workflow n) s i"
proof
  assume c: "claimable (normalize_workflow n) s i"
  then have "i \<in> set (dict_keys (workflow_jobs s))"
    by (cases "dict_get (workflow_jobs s) i") (auto simp: claimable_def intro: fst_mem dest: map_of_SomeD)
  with assms(1) have "i \<in> set (workflow_job_order s)" by (simp add: jobs_ok_def)
  with c have "find (claimable (normalize_workflow n) s) (workflow_job_order s) \<noteq> None"
    by (auto simp: find_None_iff)
  with assms claim_scan_find [of "workflow_job_order s" s w "normalize_workflow n"] show False
    by (auto simp: claim_next_workflow_job_def Let_def py_simps jobs_ok_def claim_at_def
        split: option.splits)
qed

lemma redis_claim_now_cases:
  assumes "bnd (redis_pick rq w n) (\<lambda>popped. case popped of Some job \<Rightarrow> ret (Some job)
        | None \<Rightarrow> claim_next_workflow_job w n None) s = (r, s')"
  shows "(case r of Inr (Some job) \<Rightarrow> claim_effect w s job s' | _ \<Rightarrow> same_tables s s')
     \<and> (r = Inr None \<longrightarrow> jobs_ok s \<longrightarrow> (\<forall>i. \<not> claimable (normalize_workflow n) s i))"
proof -
  obtain x s1 where pick: "redis_pick rq w n s = (x, s1)" by fastforce
  note p = redis_pick_cases [OF pick]
  consider (claimed) job where "x = Inr (Some job)" | (failed) e where "x = Inl e" | (scan) "x = Inr None"
    by (metis not_None_eq obj_sumE)
  then show ?thesis
  proof cases
    case scan
    with p have t: "same_tables s s1" by simp
    with scan assms pick have scan_run: "claim_next_workflow_job w n None s1 = (r, s')"
      by (simp add: bnd_run)
    have "jobs_ok s1" if "jobs_ok s"
      using that t by (auto simp: same_tables_def intro: jobs_ok_same)
    moreover have "claimable m s1 i = claimable m s i" for m i
      using t by (simp add: claimable_def same_tables_def)
    ultimately show ?thesis
      using claim_next_now [OF scan_run] claim_next_none [of s1 w n s'] scan_run t
      by (auto simp: same_tables_def claim_effect_def split: sum.splits option.splits)
  qed (use assms pick p in \<open>auto simp: py_simps\<close>)
qed

lemma redis_claim_outcome:
  assumes "redis_claim_next rq w n stale s = (r, s')"
  shows "claim_outcome w s r s'"
proof -
  obtain x s1 where rec: "(case stale of None \<Rightarrow> ret ()
      | Some t \<Rightarrow> bnd (redis_recover_timed_out rq t n) (\<lambda>_. ret ())) s = (x, s1)" by fastforce
  have q: "quiet s s1"
  proof (cases stale)
    case None
    with rec show ?thesis by (simp add: py_simps quiet_same)
  next
    case (Some t)
    with rec evolvesD [OF quiet_redis_recover] show ?thesis
      by (auto simp: py_simps split: prod.splits sum.splits)
  qed
  show ?thesis
  proof (cases x)
    case (Inl e)
    with assms rec q show ?thesis by (auto simp: redis_claim_next_alt bnd_run claim_outcome_def)
  next
    case (Inr u)
    with assms rec have "bnd (redis_pick rq w n) (\<lambda>popped. case popped of Some job \<Rightarrow> ret (Some job)
        | None \<Rightarrow> claim_next_workflow_job w n None) s1 = (r, s')"
      by (simp add: redis_claim_next_alt bnd_run)
    from redis_claim_now_cases [OF this] q show ?thesis
      using transpD [OF quiet_trans q same_tables_quiet]
      by (fastforce simp: claim_outcome_def split: sum.splits option.splits)
  qed
qed

lemma redis_claim_now:
  assumes "redis_claim_next rq w n None s = (r, s')"
  shows "(case r of Inr (Some job) \<Rightarrow> claim_effect w s job s' | _ \<Rightarrow> same_tables s s')
     \<and> (r = Inr None \<longrightarrow> jobs_ok s \<longrightarrow> (\<forall>i. \<not> claimable (normalize_workflow n) s i))"
  using assms redis_claim_now_cases [of rq w n s r s'] by (simp add: redis_claim_next_alt py_simps)

end
