(* ===== verification/Queue_Contract.thy ===== *)
theory Queue_Contract
  imports Workflow_Queue
begin

text \<open>
  The contract of workflow queues as a locale, the lemmas its clients share, and its
  interpretation by the two backends of workflows/queue.py.
\<close>

section \<open>The contract\<close>

text \<open>The record a job has after enqueue.\<close>

definition freshly_queued ::
    "string \<Rightarrow> string \<Rightarrow> int \<Rightarrow> 'z repo_scheme \<Rightarrow> WorkflowJobRecord \<Rightarrow> 'z repo_scheme \<Rightarrow> bool" where
  "freshly_queued run_id name m s job s' \<longleftrightarrow>
     j_id job = enqueue_id None s \<and> j_run_id job = run_id \<and> j_workflow_name job = strip name
     \<and> j_status job = JobQueued \<and> j_attempt_count job = 0 \<and> j_max_attempts job = m
     \<and> workflow_jobs s' = dict_set (j_id job) job (workflow_jobs s)
     \<and> workflow_job_order s' = workflow_job_order s @ [j_id job] \<and> runs s' = runs s
     \<and> run_id \<in> set (dict_keys (runs s))"

text \<open>A job is running for a worker.\<close>

definition runs_for :: "string \<Rightarrow> string \<Rightarrow> 'z repo_scheme \<Rightarrow> WorkflowJobRecord \<Rightarrow> bool" where
  "runs_for w i s job \<longleftrightarrow>
     dict_get (workflow_jobs s) i = Some job \<and> j_status job = JobRunning \<and> j_worker_id job = Some w"

definition same_work :: "WorkflowJobRecord \<Rightarrow> WorkflowJobRecord \<Rightarrow> bool" where
  "same_work job job' \<longleftrightarrow>
     job_identity job' = job_identity job \<and> j_attempt_count job' = j_attempt_count job
     \<and> j_max_attempts job' = j_max_attempts job"

definition failed_as ::
    "bool \<Rightarrow> WorkflowJobRecord \<Rightarrow> 'z repo_scheme \<Rightarrow> WorkflowJobRecord \<Rightarrow> 'z repo_scheme \<Rightarrow> bool" where
  "failed_as again job s job' s' \<longleftrightarrow>
     same_work job job' \<and> dict_get (workflow_jobs s') (j_id job) = Some job'
     \<and> (if again \<and> j_attempt_count job < j_max_attempts job
        then j_status job' = JobQueued \<and> j_worker_id job' = None \<and> runs s' = runs s
        else j_status job' = JobDeadLetter
             \<and> (\<exists>run. dict_get (runs s') (j_run_id job) = Some run \<and> r_status run = RunFailed))"

locale workflow_queue =
  fixes q :: "'z repo_scheme WorkflowQueueBackend"
  assumes claim_moves: "evolves (jobs_evolve False) (q_claim_next q w n stale)"
    and claim_law: "q_claim_next q w n stale s = (r, s') \<Longrightarrow> claim_outcome w s r s'"
    and claim_now_law: "q_claim_next q w n None s = (Inr (Some job), s') \<Longrightarrow> claim_effect w s job s'"
    and claim_none_law: "q_claim_next q w n None s = (Inr None, s') \<Longrightarrow> jobs_ok s \<Longrightarrow>
      same_tables s s' \<and> \<not> claimable (normalize_workflow n) s i"
    and report_moves: "evolves (jobs_evolve False) (q_heartbeat q i w)"
      "evolves (jobs_evolve False) (q_complete q i w)"
      "evolves (jobs_evolve False) (q_fail q i w e again)"
      "evolves (jobs_evolve False) (q_recover_timed_out q t n)"
      "evolves (jobs_evolve False) (q_retry_dead_letter q i why)"
      "evolves (jobs_evolve False) (q_dismiss_dead_letter q i why)"
    and enqueue_law: "q_enqueue q run_id name p m s = (en, s') \<Longrightarrow>
      same_tables s s' \<or> (\<exists>job. freshly_queued run_id name m s job s' \<and> job_ok job)"
    and enqueue_returns: "q_enqueue q run_id name p m s = (Inr job, s') \<Longrightarrow> freshly_queued run_id name m s job s'"
    and heartbeat_law: "runs_for w i s job \<Longrightarrow>
      \<exists>job' s'. q_heartbeat q i w s = (Inr job', s') \<and> runs_for w i s' job' \<and> same_work job job' \<and> runs s' = runs s"
    and complete_law: "runs_for w i s job \<Longrightarrow>
      \<exists>job' s'. q_complete q i w s = (Inr job', s') \<and> dict_get (workflow_jobs s') i = Some job'
        \<and> j_status job' = JobCompleted \<and> same_work job job' \<and> runs s' = runs s"
    and fail_law: "q_fail q i w e again s = (Inr job', s') \<Longrightarrow> jobs_ok s \<Longrightarrow>
      \<exists>job. runs_for w i s job \<and> failed_as again job s job' s'"
begin

lemma claim_keeps_ok: "jobs_ok s \<Longrightarrow> q_claim_next q w n stale s = (r, s') \<Longrightarrow> jobs_ok s'"
  using jobs_ok_evolve evolvesD [OF claim_moves] by blast

lemma claimed_job:
  assumes "jobs_ok s" and "q_claim_next q w n stale s = (Inr (Some job), s')"
  shows "runs_for w (j_id job) s' job \<and> 1 \<le> j_attempt_count job \<and> j_attempt_count job \<le> j_max_attempts job"
proof -
  from claim_law [OF assms(2)] obtain s1 :: "'z repo_scheme" and i old now
    where "dict_get (workflow_jobs s1) i = Some old" "job = claimed w now old"
      "workflow_jobs s' = dict_set i job (workflow_jobs s1)"
    unfolding claim_outcome_def claim_effect_def sum.case option.case by blast
  then have "dict_get (workflow_jobs s') i = Some job" and run: "j_status job = JobRunning" "j_worker_id job = Some w"
    by simp_all
  moreover from claim_keeps_ok [OF assms] this have "j_id job = i" "job_ok job" by (simp_all add: jobs_ok_def)
  ultimately show ?thesis by (auto simp: runs_for_def job_ok_def)
qed

text \<open>
  After a claim, no claim without a timeout hands out the same job, also when the state
  outside the tables was changed in between.
\<close>

lemma no_double_claim:
  assumes "jobs_ok s" and "q_claim_next q w n stale s = (Inr (Some job), s1)"
    and "same_tables s1 t" and "q_claim_next q w' n' None t = (Inr (Some job'), t')"
  shows "j_id job' \<noteq> j_id job"
proof
  assume same: "j_id job' = j_id job"
  have run: "runs_for w (j_id job) s1 job" using claimed_job [OF assms(1,2)] by blast
  have "jobs_ok t"
    using claim_keeps_ok [OF assms(1,2)] assms(3) by (auto simp: same_tables_def intro: jobs_ok_same)
  moreover from claim_now_law [OF assms(4)] obtain i old now
    where "dict_get (workflow_jobs t) i = Some old" "j_status old = JobQueued" "job' = claimed w' now old"
    by (auto simp: claim_effect_def)
  ultimately have "dict_get (workflow_jobs t) (j_id job') = Some old" "j_status old = JobQueued"
    by (auto simp: jobs_ok_def)
  with run same assms(3) show False by (simp add: runs_for_def same_tables_def)
qed

text \<open>A job runs after a claim only if it did before for that worker, or it is the one returned.\<close>

lemma running_after_claim:
  assumes "jobs_ok s" and "q_claim_next q w n stale s = (r, s')" and "runs_for v i s' job'"
  shows "(\<exists>job. runs_for v i s job \<and> j_attempt_count job' = j_attempt_count job)
     \<or> (r = Inr (Some job') \<and> v = w)"
proof -
  have before: "\<exists>job. runs_for v i s job \<and> j_attempt_count j1 = j_attempt_count job"
    if "quiet s s1" and "runs_for v i s1 j1" for s1 :: "'z repo_scheme" and j1
  proof -
    from that have "rel_option quiet_job (dict_get (workflow_jobs s) i) (dict_get (workflow_jobs s1) i)"
      by (simp add: quiet_def)
    with that(2) show ?thesis
      by (auto simp: runs_for_def quiet_job_def elim!: option.rel_cases)
  qed
  show ?thesis
  proof (cases "\<exists>job. r = Inr (Some job)")
    case False
    with claim_law [OF assms(2)] have "quiet s s'"
      by (auto simp: claim_outcome_def split: sum.splits option.splits)
    with before assms(3) show ?thesis by blast
  next
    case True
    then obtain job where r: "r = Inr (Some job)" by blast
    with claim_law [OF assms(2)] obtain s1 where s1: "quiet s s1" "claim_effect w s1 job s'"
      by (auto simp: claim_outcome_def)
    from s1(2) obtain k old now where c: "job = claimed w now old"
      "workflow_jobs s' = dict_set k job (workflow_jobs s1)"
      unfolding claim_effect_def by blast
    show ?thesis
    proof (cases "k = i")
      case True
      with c assms(3) r show ?thesis by (auto simp: runs_for_def)
    next
      case False
      with c assms(3) have "runs_for v i s1 job'" by (simp add: runs_for_def)
      with before [OF s1(1)] show ?thesis by blast
    qed
  qed
qed

lemma enqueue_keeps_ok:
  assumes "jobs_ok s" and "enqueue_id None s \<notin> set (dict_keys (workflow_jobs s))"
    and "q_enqueue q run_id name p m s = (r, s')"
  shows "jobs_ok s'"
  using enqueue_law [OF assms(3)]
proof (elim disjE exE)
  assume "same_tables s s'"
  with assms(1) show ?thesis by (auto simp: same_tables_def intro: jobs_ok_same)
next
  fix job
  assume new: "freshly_queued run_id name m s job s' \<and> job_ok job"
  show ?thesis
    by (rule jobs_ok_new [of s job]) (use new assms in \<open>auto simp: freshly_queued_def\<close>)
qed

end

section \<open>The repository backend\<close>

lemma freshly_queued_enqueue:
  "enqueue_workflow_job run_id name p m None JobQueued s = (Inr job, s') \<Longrightarrow>
     freshly_queued run_id name m s job s' \<and> job_ok job"
  by (auto simp: enqueue_workflow_job_def Let_def py_simps job_ok_def freshly_queued_def enqueue_id_def
      dest: dict_get_mem split: option.splits if_splits)

lemma enqueue_raises: "enqueue_workflow_job run_id name p m None JobQueued s = (Inl e, s') \<Longrightarrow> s' = s"
  by (auto simp: enqueue_workflow_job_def Let_def py_simps split: option.splits if_splits)

lemma heartbeat_effect:
  assumes "runs_for w i s job"
  shows "\<exists>job' s'. heartbeat_workflow_job i w s = (Inr job', s') \<and> runs_for w i s' job'
     \<and> same_work job job' \<and> runs s' = runs s"
  using assms
  by (simp add: runs_for_def heartbeat_workflow_job_def py_simps same_work_def job_identity_def Let_def)

lemma complete_effect:
  assumes "runs_for w i s job"
  shows "\<exists>job' s'. complete_workflow_job i (Some w) s = (Inr job', s')
     \<and> dict_get (workflow_jobs s') i = Some job' \<and> j_status job' = JobCompleted \<and> same_work job job'
     \<and> runs s' = runs s"
  using assms
  by (simp add: runs_for_def complete_workflow_job_def py_simps same_work_def job_identity_def Let_def)

lemma fail_effect:
  assumes "fail_workflow_job i e again (Some w) s = (Inr job', s')" and "jobs_ok s"
  shows "\<exists>job. runs_for w i s job \<and> failed_as again job s job' s'"
proof (cases "dict_get (workflow_jobs s) i")
  case None
  with assms show ?thesis by (simp add: fail_workflow_job_def py_simps)
next
  case (Some job)
  with assms(2) have id: "j_id job = i" by (simp add: jobs_ok_def)
  from assms Some have run: "j_status job = JobRunning" "j_worker_id job = Some w"
    by (auto simp: fail_workflow_job_def py_simps split: if_splits)
  from assms(1) Some id run have "failed_as again job s job' s'"
    by (auto simp: fail_workflow_job_def py_simps Let_def failed_as_def same_work_def job_identity_def
        split: sum.splits option.splits if_splits)
  with Some run show ?thesis by (auto simp: runs_for_def)
qed

lemma enqueue_effect:
  assumes "enqueue_workflow_job run_id name p m None JobQueued s = (r, s')"
  shows "same_tables s s' \<or> (\<exists>job. freshly_queued run_id name m s job s' \<and> job_ok job)"
proof (cases r)
  case (Inl e)
  with assms enqueue_raises have "s' = s" by blast
  then show ?thesis by simp
next
  case (Inr job)
  with assms freshly_queued_enqueue show ?thesis by blast
qed

lemma repository_ops [simp]:
  "q_enqueue RepositoryWorkflowQueue run_id name p m = enqueue_workflow_job run_id name p m None JobQueued"
  "q_claim_next RepositoryWorkflowQueue = claim_next_workflow_job"
  "q_heartbeat RepositoryWorkflowQueue = heartbeat_workflow_job"
  "q_complete RepositoryWorkflowQueue i w = complete_workflow_job i (Some w)"
  "q_fail RepositoryWorkflowQueue i w e again = fail_workflow_job i e again (Some w)"
  "q_recover_timed_out RepositoryWorkflowQueue t n = recover_timed_out_workflow_jobs t n None"
  "q_retry_dead_letter RepositoryWorkflowQueue = retry_dead_letter_workflow_job"
  "q_dismiss_dead_letter RepositoryWorkflowQueue = dismiss_dead_letter_workflow_job"
  by (simp_all add: RepositoryWorkflowQueue_def)

lemma evolves_worker_reports:
  "evolves (jobs_evolve adm) (complete_workflow_job i (Some w))"
  "evolves (jobs_evolve adm) (fail_workflow_job i e again (Some w))"
  by (rule evolves_complete, simp) (rule evolves_fail, simp)

lemma claim_next_effect:
  assumes "claim_next_workflow_job w n None s = (Inr (Some job), s')"
  shows "claim_effect w s job s'"
  using claim_next_now [OF assms] by simp

lemma claim_next_none_effect:
  assumes "claim_next_workflow_job w n None s = (Inr None, s')" and "jobs_ok s"
  shows "same_tables s s' \<and> \<not> claimable (normalize_workflow n) s i"
  using claim_next_now [OF assms(1)] claim_next_none [OF assms(2,1)] by simp

interpretation repository_queue: workflow_queue RepositoryWorkflowQueue
  by unfold_locales
    (simp_all add: claim_next_outcome claim_next_effect claim_next_none_effect evolves_claim_next
      evolves_heartbeat evolves_worker_reports evolves_recover evolves_retry evolves_dismiss
      enqueue_effect freshly_queued_enqueue heartbeat_effect complete_effect fail_effect)

section \<open>The Redis backend\<close>

lemma redis_ops [simp]:
  "q_enqueue (redis_backend rq) = redis_enqueue rq"
  "q_claim_next (redis_backend rq) = redis_claim_next rq"
  "q_heartbeat (redis_backend rq) = heartbeat_workflow_job"
  "q_complete (redis_backend rq) i w = complete_workflow_job i (Some w)"
  "q_fail (redis_backend rq) = redis_fail rq"
  "q_recover_timed_out (redis_backend rq) = redis_recover_timed_out rq"
  "q_retry_dead_letter (redis_backend rq) = redis_retry_dead_letter rq"
  "q_dismiss_dead_letter (redis_backend rq) = dismiss_dead_letter_workflow_job"
  by (simp_all add: redis_backend_def)

lemma push_tables: "push_job rq job s = (r, s') \<Longrightarrow> same_tables s s'"
    "push_if_queued rq job s = (r', s') \<Longrightarrow> same_tables s s'"
  using keepsD [OF tables_push(2) same_tables_refl] keepsD [OF tables_push(1) same_tables_refl] by blast+

lemma freshly_queued_same:
  "freshly_queued run_id name m s job s1 \<Longrightarrow> same_tables s1 s' \<Longrightarrow> freshly_queued run_id name m s job s'"
  by (simp add: freshly_queued_def same_tables_def)

lemma redis_enqueue_effect:
  assumes "redis_enqueue rq run_id name p m s = (r, s')"
  shows "(same_tables s s' \<or> (\<exists>job. freshly_queued run_id name m s job s' \<and> job_ok job))
     \<and> (\<forall>job. r = Inr job \<longrightarrow> freshly_queued run_id name m s job s')"
proof -
  obtain x s1 where enq: "enqueue_workflow_job run_id name p m None JobQueued s = (x, s1)" by fastforce
  show ?thesis
  proof (cases x)
    case (Inl e)
    with enq enqueue_raises [of run_id name p m s e s1] assms show ?thesis
      by (auto simp: redis_enqueue_def bnd_run)
  next
    case (Inr job)
    obtain y s2 where push: "push_job rq job s1 = (y, s2)" by fastforce
    with enq Inr assms have "s' = s2" "r = Inr j \<Longrightarrow> j = job" for j
      by (auto simp: redis_enqueue_def bnd_run ret_run split: sum.splits)
    with push_tables(1) [OF push] freshly_queued_enqueue [of run_id name p m s job s1] enq Inr
    show ?thesis by (auto intro: freshly_queued_same)
  qed
qed

lemma redis_fail_effect:
  assumes "redis_fail rq i w e again s = (Inr job', s')" and "jobs_ok s"
  shows "\<exists>job. runs_for w i s job \<and> failed_as again job s job' s'"
proof -
  from assms(1) obtain s1 where failed: "fail_workflow_job i e again (Some w) s = (Inr job', s1)"
    and push: "\<exists>u. push_if_queued rq job' s1 = (u, s')"
    by (auto simp: redis_fail_def ret_run elim!: bnd_InrE)
  from push push_tables(2) have "same_tables s1 s'" by blast
  with fail_effect [OF failed assms(2)] show ?thesis
    by (auto simp: failed_as_def same_tables_def)
qed

lemma redis_claim_effect:
  assumes "redis_claim_next rq w n None s = (Inr (Some job), s')"
  shows "claim_effect w s job s'"
  using redis_claim_now [OF assms] by simp

lemma redis_claim_none_effect:
  assumes "redis_claim_next rq w n None s = (Inr None, s')" and "jobs_ok s"
  shows "same_tables s s' \<and> \<not> claimable (normalize_workflow n) s i"
  using redis_claim_now [OF assms(1)] assms(2) by simp

interpretation redis_queue: workflow_queue "redis_backend rq" for rq
  by unfold_locales
    (simp_all add: redis_claim_outcome redis_claim_effect redis_claim_none_effect evolves_redis_claim_next
      evolves_heartbeat evolves_worker_reports evolves_redis_fail evolves_redis_recover evolves_redis_retry
      evolves_dismiss redis_enqueue_effect heartbeat_effect complete_effect redis_fail_effect)

text \<open>Every backend the settings can name keeps the contract.\<close>

lemma built_queue_contract:
  "build_workflow_queue from_url backend url prefix = Inr q \<Longrightarrow> workflow_queue q"
  by (auto simp: build_workflow_queue_def Let_def repository_queue.workflow_queue_axioms
      redis_queue.workflow_queue_axioms split: if_splits)

end
