(* ===== verification/Workflow_Worker.thy ===== *)
theory Workflow_Worker
  imports Queue_Contract Orchestrator
begin

text \<open>
  workflows/worker.py: submitting a run for asynchronous execution, and the worker that
  claims jobs, executes their workflow and reports the result to the queue. The two
  workflows and the post-run audit (verify_run) are programs the worker is given. The spans
  and the trace context have no effect on the state.
\<close>

section \<open>Submitting a run\<close>

definition PROCUREMENT_WORKFLOW_NAME :: string where
  "PROCUREMENT_WORKFLOW_NAME = ''procurement''"

definition DYNAMIC_WORKFLOW_NAME :: string where
  "DYNAMIC_WORKFLOW_NAME = ''dynamic_analysis''"

definition enqueue_procurement_workflow ::
    "'z repo_scheme WorkflowQueueBackend \<Rightarrow> string \<Rightarrow> int \<Rightarrow> ('z repo_scheme, WorkflowJobRecord) py" where
  "enqueue_procurement_workflow queue run_id max_attempts =
     bnd (get_run run_id) (\<lambda>run.
       q_enqueue queue run_id PROCUREMENT_WORKFLOW_NAME
         [(''workflow'', PStr PROCUREMENT_WORKFLOW_NAME)] max_attempts)"

definition active_job :: "WorkflowJobRecord \<Rightarrow> bool" where
  "active_job job \<longleftrightarrow> j_status job \<in> {JobQueued, JobRunning}"

definition enqueue_dynamic_workflow ::
    "'z repo_scheme WorkflowQueueBackend \<Rightarrow> string \<Rightarrow> ('z repo_scheme, WorkflowJobRecord) py" where
  "enqueue_dynamic_workflow queue run_id =
     bnd (get_run run_id) (\<lambda>run.
     seq (guard (r_dataset_artifact_id run \<notin> {None, Some []})
            (ValueError ''Attach a dataset before executing the workflow.''))
     (seq (guard (r_status run = RunPending)
            (ValueError ''Only a pending run may be submitted for asynchronous execution.''))
     (bnd (list_workflow_jobs (Some run_id) None) (\<lambda>jobs.
      seq (guard (\<not> list_ex active_job jobs)
            (ValueError ''This run already has an active workflow job.''))
      (bnd (q_enqueue queue run_id DYNAMIC_WORKFLOW_NAME
              [(''workflow'', PStr DYNAMIC_WORKFLOW_NAME)] 1) (\<lambda>job.
       bnd (update_status run_id RunQueued None) (\<lambda>_.
         ret job)))))))"

section \<open>The worker\<close>

record 's WorkflowWorker =
  ww_queue :: "'s WorkflowQueueBackend"
  ww_worker_id :: string
  ww_claim_timeout :: "int option"
  ww_procurement :: "string \<Rightarrow> ('s, OrchestrationResult) py"
  ww_dynamic :: "string \<Rightarrow> ('s, OrchestrationResult) py"
  ww_verify_run :: "(string \<Rightarrow> ('s, unit) py) option"

text \<open>The outcome of a program as a value: the exception it raised or its result.\<close>

definition attempt :: "('s, 'a) py \<Rightarrow> ('s, 'a result) py" where
  "attempt m = (\<lambda>s. case m s of (x, s') \<Rightarrow> (Inr x, s'))"

definition heartbeat_job :: "'s WorkflowWorker \<Rightarrow> string \<Rightarrow> ('s, WorkflowJobRecord) py" where
  "heartbeat_job wk job_id = q_heartbeat (ww_queue wk) job_id (ww_worker_id wk)"

definition retry_or_fail ::
    "'z repo_scheme WorkflowWorker \<Rightarrow> WorkflowJobRecord \<Rightarrow> string \<Rightarrow> ('z repo_scheme, WorkflowJobRecord) py" where
  "retry_or_fail wk job error_summary =
     bnd (q_fail (ww_queue wk) (j_id job) (ww_worker_id wk) error_summary True) (\<lambda>updated.
     seq (if j_status updated \<in> {JobFailed, JobDeadLetter}
          then bnd (update_status (j_run_id job) RunFailed (Some error_summary)) (\<lambda>_. ret ())
          else ret ())
         (ret updated))"

definition final_fail ::
    "'z repo_scheme WorkflowWorker \<Rightarrow> WorkflowJobRecord \<Rightarrow> string \<Rightarrow> ('z repo_scheme, WorkflowJobRecord) py" where
  "final_fail wk job error_summary =
     bnd (q_fail (ww_queue wk) (j_id job) (ww_worker_id wk) error_summary False) (\<lambda>updated.
     bnd (update_status (j_run_id job) RunFailed (Some error_summary)) (\<lambda>_.
       ret updated))"

text \<open>The audit is best effort: what it raises is logged and dropped.\<close>

definition verify_best_effort :: "'s WorkflowWorker \<Rightarrow> string \<Rightarrow> ('s, unit) py" where
  "verify_best_effort wk run_id =
     (case ww_verify_run wk of None \<Rightarrow> ret ()
      | Some verify \<Rightarrow> try_catch (verify run_id) (\<lambda>e. ret ()))"

definition after_workflow ::
    "'z repo_scheme WorkflowWorker \<Rightarrow> WorkflowJobRecord \<Rightarrow> OrchestrationResult result \<Rightarrow>
     ('z repo_scheme, WorkflowJobRecord) py" where
  "after_workflow wk job outcome =
     (case outcome of
        Inl e \<Rightarrow> bnd (asks repr_of) (\<lambda>rp. retry_or_fail wk job (exn_str rp e))
      | Inr result \<Rightarrow>
          if or_status result = RunFailed then
            bnd (get_run (j_run_id job)) (\<lambda>run.
              final_fail wk job (case r_error_summary run of
                  None \<Rightarrow> ''Workflow execution failed.''
                | Some m \<Rightarrow> if m = [] then ''Workflow execution failed.'' else m))
          else seq (verify_best_effort wk (j_run_id job))
                   (q_complete (ww_queue wk) (j_id job) (ww_worker_id wk)))"

text \<open>
  The workflow a job names. An unsupported name fails the job inside the try block, so what
  that raises reaches the same handler.
\<close>

definition process_claimed_job ::
    "'z repo_scheme WorkflowWorker \<Rightarrow> WorkflowJobRecord \<Rightarrow> ('z repo_scheme, WorkflowJobRecord) py" where
  "process_claimed_job wk job =
     bnd (get_run (j_run_id job)) (\<lambda>run.
     bnd (heartbeat_job wk (j_id job)) (\<lambda>_.
       if j_workflow_name job = PROCUREMENT_WORKFLOW_NAME then
         bnd (attempt (ww_procurement wk (j_run_id job))) (after_workflow wk job)
       else if j_workflow_name job = DYNAMIC_WORKFLOW_NAME then
         bnd (attempt (ww_dynamic wk (j_run_id job))) (after_workflow wk job)
       else try_catch (final_fail wk job (''Unsupported workflow: '' @ j_workflow_name job))
              (\<lambda>e. bnd (asks repr_of) (\<lambda>rp. retry_or_fail wk job (exn_str rp e)))))"

definition workflow_names :: "string list" where
  "workflow_names = [PROCUREMENT_WORKFLOW_NAME, DYNAMIC_WORKFLOW_NAME]"

text \<open>The names in the order a worker whose counter is ix asks the queue for them.\<close>

definition worker_order :: "int \<Rightarrow> string list" where
  "worker_order ix =
     (let n = length workflow_names; first = nat (ix mod int n)
      in map (\<lambda>offset. workflow_names ! ((first + offset) mod n)) [0..<n])"

fun claim_in_order ::
    "'z repo_scheme WorkflowWorker \<Rightarrow> string list \<Rightarrow> ('z repo_scheme, WorkflowJobRecord option) py" where
  "claim_in_order wk [] = ret None"
| "claim_in_order wk (name # names) =
     bnd (q_claim_next (ww_queue wk) (ww_worker_id wk) (Some name) (ww_claim_timeout wk)) (\<lambda>claim.
       case claim of
         None \<Rightarrow> claim_in_order wk names
       | Some job \<Rightarrow> bnd (process_claimed_job wk job) (\<lambda>processed. ret (Some processed)))"

text \<open>
  process_next_job; the state is the worker's counter (_next_workflow_index) with the
  repository, and the counter advances however the call ends.
\<close>

definition process_next_job ::
    "'z repo_scheme WorkflowWorker \<Rightarrow> (int \<times> 'z repo_scheme, WorkflowJobRecord option) py" where
  "process_next_job wk = (\<lambda>(ix, s).
     case claim_in_order wk (worker_order ix) s of (r, s') \<Rightarrow> (r, (ix + 1, s')))"

end
