(* ===== verification/Queue_Properties.thy ===== *)
theory Queue_Properties
  imports Queue_Contract Job_Properties
begin

text \<open>
  What the queue backends promise, for every backend build_workflow_queue can return, and
  whatever Redis answers. The contract of Queue_Contract carries the proofs.
\<close>

lemma queue_claim_keeps_ok:
  "build_workflow_queue from_url backend url prefix = Inr q \<Longrightarrow> jobs_ok s \<Longrightarrow>
     q_claim_next q w n stale s = (r, s') \<Longrightarrow> jobs_ok s'"
  by (rule workflow_queue.claim_keeps_ok [OF built_queue_contract])

lemma queue_claimed_job:
  "build_workflow_queue from_url backend url prefix = Inr q \<Longrightarrow> jobs_ok s \<Longrightarrow>
     q_claim_next q w n stale s = (Inr (Some job), s') \<Longrightarrow>
     runs_for w (j_id job) s' job \<and> 1 \<le> j_attempt_count job \<and> j_attempt_count job \<le> j_max_attempts job"
  by (rule workflow_queue.claimed_job [OF built_queue_contract])

lemma queue_running_after_claim:
  "build_workflow_queue from_url backend url prefix = Inr q \<Longrightarrow> jobs_ok s \<Longrightarrow>
     q_claim_next q w n stale s = (r, s') \<Longrightarrow> runs_for v i s' job' \<Longrightarrow>
     (\<exists>job. runs_for v i s job \<and> j_attempt_count job' = j_attempt_count job)
     \<or> (r = Inr (Some job') \<and> v = w)"
  by (rule workflow_queue.running_after_claim [OF built_queue_contract])

text \<open>
  C17: With any backend the settings can name, a job that was handed to a worker is not handed
  out again by a claim without a timeout, whatever happened to the Redis lists in between:
  duplicate entries and stale ids in Redis cannot make a job run twice.
\<close>

theorem queue_never_hands_out_twice:
  assumes "build_workflow_queue from_url backend url prefix = Inr q" and "jobs_ok s"
    and "q_claim_next q w n stale s = (Inr (Some job), s1)"
    and "same_tables s1 t" and "q_claim_next q w' n' None t = (Inr (Some job'), t')"
  shows "j_id job' \<noteq> j_id job"
  by (rule workflow_queue.no_double_claim [OF built_queue_contract [OF assms(1)] assms(2-5)])

text \<open>
  C18: With any backend the settings can name, a claim keeps the job tables well formed; a
  returned job is running for the claiming worker within its attempts, and every other job that
  runs afterwards ran before, for the same worker and with the same attempt count.
\<close>

theorem queue_claim_is_exclusive:
  assumes "build_workflow_queue from_url backend url prefix = Inr q" and "jobs_ok s"
    and "q_claim_next q w n stale s = (r, s')"
  shows "jobs_ok s'
     \<and> (\<forall>job. r = Inr (Some job) \<longrightarrow> runs_for w (j_id job) s' job
            \<and> 1 \<le> j_attempt_count job \<and> j_attempt_count job \<le> j_max_attempts job)
     \<and> (\<forall>v i job'. runs_for v i s' job' \<longrightarrow>
            (\<exists>job. runs_for v i s job \<and> j_attempt_count job' = j_attempt_count job)
            \<or> (r = Inr (Some job') \<and> v = w))"
  using queue_claim_keeps_ok [OF assms] queue_claimed_job [OF assms(1,2)] assms(3)
    queue_running_after_claim [OF assms]
  by blast


section \<open>A Redis database of lists\<close>

text \<open>A client over association lists, which behaves as the commands RPUSH and LPOP do.\<close>

definition list_client :: "(string, string list) dict redis_client" where
  "list_client =
     \<lparr>rc_rpush = (\<lambda>k v d. (Inr (), dict_set k ((case dict_get d k of None \<Rightarrow> [] | Some l \<Rightarrow> l) @ [v]) d)),
      rc_lpop = (\<lambda>k d. case dict_get d k of
          Some (v # l) \<Rightarrow> (Inr (Some v), dict_set k l d) | _ \<Rightarrow> (Inr None, d))\<rparr>"

end
