(* ===== verification/Worker_Properties.thy ===== *)
theory Worker_Properties
  imports Workflow_Worker Queue_Properties
begin

text \<open>
  Submission and execution of jobs: a dynamic run is queued at most once, a worker's report
  follows the outcome of the workflow, and no workflow starves the other. The queue enters
  only through its contract.
\<close>

section \<open>Lemmas\<close>

lemma update_status_effect:
  "update_status i st e s = (Inr run, s') \<Longrightarrow>
     workflow_jobs s' = workflow_jobs s \<and> workflow_job_order s' = workflow_job_order s
     \<and> dict_get (runs s') i = Some run \<and> r_status run = st
     \<and> (\<exists>old. dict_get (runs s) i = Some old \<and> r_dataset_artifact_id run = r_dataset_artifact_id old)"
  by (auto simp: update_status_def Let_def py_simps split: option.splits)

definition job_at :: "'z repo_scheme \<Rightarrow> string \<Rightarrow> WorkflowJobRecord" where
  "job_at s i = the (dict_get (workflow_jobs s) i)"

lemma map_each_index:
  "set is \<subseteq> set (dict_keys (workflow_jobs s)) \<Longrightarrow>
     map_each is (index workflow_jobs) s = (Inr (map (job_at s) is), s)"
proof (induction "is")
  case (Cons i rest)
  then have "i \<in> set (dict_keys (workflow_jobs s))" by simp
  then obtain job where "dict_get (workflow_jobs s) i = Some job"
    using dict_get_Some_of_keys by metis
  with Cons show ?case by (simp add: py_simps job_at_def)
qed (simp add: py_simps)

lemma list_workflow_jobs_run:
  assumes "jobs_ok s" and "dict_get (runs s) run_id = Some run"
  shows "list_workflow_jobs (Some run_id) None s =
     (Inr (filter (\<lambda>job. j_run_id job = run_id) (map (job_at s) (workflow_job_order s))), s)"
proof -
  have "set (workflow_job_order s) \<subseteq> set (dict_keys (workflow_jobs s))"
    using assms(1) by (simp add: jobs_ok_def)
  from map_each_index [OF this] assms(2) show ?thesis
    by (simp add: list_workflow_jobs_def py_simps)
qed

lemma listed_jobs:
  assumes "jobs_ok s" and "dict_get (workflow_jobs s) i = Some job"
  shows "job \<in> set (map (job_at s) (workflow_job_order s))"
proof -
  have "i \<in> set (workflow_job_order s)"
    using assms dict_get_mem [of "workflow_jobs s" i job] by (simp add: jobs_ok_def)
  moreover have "job_at s i = job" using assms(2) by (simp add: job_at_def)
  ultimately show ?thesis by force
qed

section \<open>Submission\<close>

text \<open>
  C20: Submitting a run for dynamic analysis succeeds only for a pending run with a dataset and
  no active job; afterwards the run is queued, exactly one of its jobs is active, with a single
  attempt, and a second submission is refused.
\<close>

theorem dynamic_run_queued_once:
  assumes "build_workflow_queue from_url backend url prefix = Inr q" and "jobs_ok s"
    and "enqueue_id None s \<notin> set (dict_keys (workflow_jobs s))"
    and "enqueue_dynamic_workflow q run_id s = (Inr job, s')"
  shows "(\<exists>run. dict_get (runs s) run_id = Some run \<and> r_status run = RunPending
           \<and> r_dataset_artifact_id run \<notin> {None, Some []})
     \<and> (\<exists>run. dict_get (runs s') run_id = Some run \<and> r_status run = RunQueued)
     \<and> j_status job = JobQueued \<and> j_max_attempts job = 1
     \<and> (\<forall>i j. dict_get (workflow_jobs s') i = Some j \<and> j_run_id j = run_id \<and> active_job j \<longleftrightarrow>
            i = j_id job \<and> j = job)
     \<and> fst (enqueue_dynamic_workflow q run_id s') =
         Inl (ValueError ''Only a pending run may be submitted for asynchronous execution.'')"
proof -
  note contract = built_queue_contract [OF assms(1)]
  obtain run where run: "dict_get (runs s) run_id = Some run"
    using assms(4) by (cases "dict_get (runs s) run_id") (auto simp: enqueue_dynamic_workflow_def py_simps)
  define mine where "mine = filter (\<lambda>job. j_run_id job = run_id) (map (job_at s) (workflow_job_order s))"
  have listed: "list_workflow_jobs (Some run_id) None s = (Inr mine, s)"
    using list_workflow_jobs_run [OF assms(2) run] by (simp add: mine_def)
  obtain x s1 where enq: "q_enqueue q run_id DYNAMIC_WORKFLOW_NAME
      [(''workflow'', PStr DYNAMIC_WORKFLOW_NAME)] 1 s = (x, s1)" by fastforce
  from assms(4) run listed enq have guards: "r_dataset_artifact_id run \<notin> {None, Some []}"
      "r_status run = RunPending" "\<not> list_ex active_job mine"
    and x: "x = Inr job" and status: "\<exists>r. update_status run_id RunQueued None s1 = (Inr r, s')"
    by (auto simp: enqueue_dynamic_workflow_def py_simps split: if_splits sum.splits prod.splits)
  from workflow_queue.enqueue_returns [OF contract] enq x
  have new: "freshly_queued run_id DYNAMIC_WORKFLOW_NAME 1 s job s1" by blast
  from status obtain run' where st: "update_status run_id RunQueued None s1 = (Inr run', s')" by blast
  note eff = update_status_effect [OF st]
  with new run have ds: "r_dataset_artifact_id run' = r_dataset_artifact_id run"
    by (auto simp: freshly_queued_def)
  have none_before: "\<not> active_job j" if "dict_get (workflow_jobs s) i = Some j" "j_run_id j = run_id" for i j
    using listed_jobs [OF assms(2) that(1)] that(2) guards(3) by (auto simp: mine_def list_ex_iff)
  have only: "dict_get (workflow_jobs s') i = Some j \<and> j_run_id j = run_id \<and> active_job j \<longleftrightarrow>
      i = j_id job \<and> j = job" for i j
    using none_before new eff by (auto simp: freshly_queued_def dict_get_set active_job_def)
  have again: "fst (enqueue_dynamic_workflow q run_id s') =
      Inl (ValueError ''Only a pending run may be submitted for asynchronous execution.'')"
    using eff guards ds by (auto simp: enqueue_dynamic_workflow_def py_simps)
  show ?thesis
    using run guards eff new only again by (simp add: freshly_queued_def)
qed

section \<open>Execution\<close>

text \<open>A program that leaves the job tables as they are and loses no run.\<close>

definition leaves_jobs :: "('z repo_scheme, 'a) py \<Rightarrow> bool" where
  "leaves_jobs m \<longleftrightarrow>
     (\<forall>s r s'. m s = (r, s') \<longrightarrow> workflow_jobs s' = workflow_jobs s
        \<and> workflow_job_order s' = workflow_job_order s \<and> dict_keys (runs s) = dict_keys (runs s'))"

lemma leaves_jobsD:
  assumes "leaves_jobs m" and "m s = (r, s')"
  shows "(jobs_ok s \<longrightarrow> jobs_ok s') \<and> runs_for w i s' job = runs_for w i s job"
  using assms by (auto simp: leaves_jobs_def runs_for_def intro!: jobs_ok_same [of s s'])

text \<open>How a job stands after its worker gave it up, with or without another attempt.\<close>

definition gave_up :: "bool \<Rightarrow> WorkflowJobRecord \<Rightarrow> WorkflowJobRecord \<Rightarrow> 'z repo_scheme \<Rightarrow> bool" where
  "gave_up again job job' s' \<longleftrightarrow>
     dict_get (workflow_jobs s') (j_id job) = Some job' \<and> same_work job job'
     \<and> (if again \<and> j_attempt_count job < j_max_attempts job then j_status job' = JobQueued
        else j_status job' = JobDeadLetter
             \<and> (\<exists>run. dict_get (runs s') (j_run_id job) = Some run \<and> r_status run = RunFailed))"

context workflow_queue
begin

lemma after_fail:
  assumes "jobs_ok s" and "q_fail q i w e again s = (Inr job', s')" and "runs_for w i s job"
  shows "gave_up again job job' s' \<and> j_status job' \<noteq> JobFailed"
proof -
  from fail_law [OF assms(2,1)] assms(3) have "failed_as again job s job' s'"
    by (auto simp: runs_for_def)
  then show ?thesis by (auto simp: failed_as_def gave_up_def)
qed

lemma retry_or_fail_outcome:
  assumes "ww_queue wk = q" and "jobs_ok s" and "runs_for (ww_worker_id wk) (j_id job) s job1"
    and "same_work job job1" and "retry_or_fail wk job e s = (Inr job', s')"
  shows "gave_up True job job' s'"
proof -
  from assms(5) obtain u s1 where failed: "q_fail q (j_id job) (ww_worker_id wk) e True s = (Inr u, s1)"
    and rest: "seq (if j_status u \<in> {JobFailed, JobDeadLetter}
        then bnd (update_status (j_run_id job) RunFailed (Some e)) (\<lambda>_. ret ()) else ret ()) (ret u) s1
      = (Inr job', s')"
    unfolding retry_or_fail_def assms(1) by (rule bnd_InrE)
  have job1: "j_id job1 = j_id job" "j_run_id job1 = j_run_id job"
      "j_attempt_count job1 = j_attempt_count job" "j_max_attempts job1 = j_max_attempts job"
    using assms(4) by (simp_all add: same_work_def job_identity_def)
  note g = after_fail [OF assms(2) failed assms(3)]
  have "job' = u" and "workflow_jobs s' = workflow_jobs s1"
    and "j_status u \<in> {JobFailed, JobDeadLetter} \<or> s' = s1"
    and "j_status u \<in> {JobFailed, JobDeadLetter} \<longrightarrow>
      (\<exists>run. dict_get (runs s') (j_run_id job) = Some run \<and> r_status run = RunFailed)"
    using rest by (auto simp: ret_run elim!: bnd_InrE split: if_splits dest!: update_status_effect)
  with g assms(4) job1 show ?thesis
    by (auto simp: gave_up_def same_work_def job_identity_def)
qed

lemma final_fail_outcome:
  assumes "ww_queue wk = q" and "jobs_ok s" and "runs_for (ww_worker_id wk) (j_id job) s job1"
    and "same_work job job1" and "final_fail wk job e s = (Inr job', s')"
  shows "gave_up False job job' s'"
proof -
  from assms(5) obtain u s1 r where failed: "q_fail q (j_id job) (ww_worker_id wk) e False s = (Inr u, s1)"
    and status: "update_status (j_run_id job) RunFailed (Some e) s1 = (Inr r, s')" and "job' = u"
    unfolding final_fail_def assms(1) by (auto simp: ret_run elim!: bnd_InrE)
  with after_fail [OF assms(2) failed assms(3)] assms(4) update_status_effect [OF status]
  show ?thesis by (auto simp: gave_up_def same_work_def job_identity_def)
qed

end

text \<open>What the worker's report says of the workflow's outcome.\<close>

definition reported ::
    "WorkflowJobRecord \<Rightarrow> OrchestrationResult result \<Rightarrow> WorkflowJobRecord \<Rightarrow> 'z repo_scheme \<Rightarrow> bool" where
  "reported job outcome job' s' \<longleftrightarrow>
     (case outcome of
        Inl e \<Rightarrow> gave_up True job job' s'
      | Inr result \<Rightarrow>
          if or_status result = RunFailed then gave_up False job job' s'
          else dict_get (workflow_jobs s') (j_id job) = Some job' \<and> same_work job job'
               \<and> j_status job' = JobCompleted)"

context workflow_queue
begin

lemma verify_leaves_jobs:
  assumes "\<forall>v. ww_verify_run wk = Some v \<longrightarrow> leaves_jobs (v run_id)"
  shows "leaves_jobs (verify_best_effort wk run_id)"
  unfolding leaves_jobs_def
proof (intro allI impI)
  fix s r s' assume run: "verify_best_effort wk run_id s = (r, s')"
  show "workflow_jobs s' = workflow_jobs s \<and> workflow_job_order s' = workflow_job_order s
      \<and> dict_keys (runs s) = dict_keys (runs s')"
  proof (cases "ww_verify_run wk")
    case None
    with run show ?thesis by (simp add: verify_best_effort_def ret_run)
  next
    case (Some v)
    obtain y s1 where v: "v run_id s = (y, s1)" by fastforce
    with run Some have "s' = s1"
      by (auto simp: verify_best_effort_def try_catch_run ret_run split: sum.splits)
    with assms Some v show ?thesis by (auto simp: leaves_jobs_def)
  qed
qed

lemma after_workflow_outcome:
  assumes "ww_queue wk = q" and "jobs_ok s" and "runs_for (ww_worker_id wk) (j_id job) s job1"
    and "same_work job job1" and "\<forall>v. ww_verify_run wk = Some v \<longrightarrow> leaves_jobs (v (j_run_id job))"
    and "after_workflow wk job outcome s = (Inr job', s')"
  shows "reported job outcome job' s'"
proof (cases outcome)
  case (Inl e)
  with assms(6) have "retry_or_fail wk job (exn_str (repr_of s) e) s = (Inr job', s')"
    by (simp add: after_workflow_def py_simps)
  from retry_or_fail_outcome [OF assms(1-4) this] Inl show ?thesis by (simp add: reported_def)
next
  case (Inr result)
  show ?thesis
  proof (cases "or_status result = RunFailed")
    case True
    with Inr assms(6) obtain e where "final_fail wk job e s = (Inr job', s')"
      by (auto simp: after_workflow_def py_simps split: option.splits)
    from final_fail_outcome [OF assms(1-4) this] Inr True show ?thesis by (simp add: reported_def)
  next
    case False
    with Inr assms(1,6) obtain u s1 where verify: "verify_best_effort wk (j_run_id job) s = (Inr u, s1)"
      and complete: "q_complete q (j_id job) (ww_worker_id wk) s1 = (Inr job', s')"
      by (auto simp: after_workflow_def elim!: bnd_InrE)
    from leaves_jobsD [OF verify_leaves_jobs [OF assms(5)] verify] assms(3)
    have "runs_for (ww_worker_id wk) (j_id job) s1 job1" by blast
    from complete_law [OF this] complete assms(4) Inr False show ?thesis
      by (auto simp: reported_def same_work_def)
  qed
qed

lemma process_claimed_job_outcome:
  assumes "ww_queue wk = q" and "jobs_ok s" and "runs_for (ww_worker_id wk) (j_id job) s job"
    and "j_workflow_name job = PROCUREMENT_WORKFLOW_NAME \<and> execute = ww_procurement wk
         \<or> j_workflow_name job = DYNAMIC_WORKFLOW_NAME \<and> execute = ww_dynamic wk"
    and "leaves_jobs (execute (j_run_id job))"
    and "\<forall>v. ww_verify_run wk = Some v \<longrightarrow> leaves_jobs (v (j_run_id job))"
    and "process_claimed_job wk job s = (Inr job', s')"
  shows "\<exists>s1 outcome s2. execute (j_run_id job) s1 = (outcome, s2) \<and> reported job outcome job' s'"
proof -
  from heartbeat_law [OF assms(3)] obtain hb s1
    where beat: "q_heartbeat q (j_id job) (ww_worker_id wk) s = (Inr hb, s1)"
      "runs_for (ww_worker_id wk) (j_id job) s1 hb" "same_work job hb" by blast
  have ok1: "jobs_ok s1"
    using jobs_ok_evolve [OF assms(2)] evolvesD [OF report_moves(1) beat(1)] by blast
  obtain outcome s2 where exec: "execute (j_run_id job) s1 = (outcome, s2)" by fastforce
  have "DYNAMIC_WORKFLOW_NAME \<noteq> PROCUREMENT_WORKFLOW_NAME"
    by (simp add: DYNAMIC_WORKFLOW_NAME_def PROCUREMENT_WORKFLOW_NAME_def)
  with assms(1,4,7) beat(1) exec have "after_workflow wk job outcome s2 = (Inr job', s')"
    by (auto simp: process_claimed_job_def heartbeat_job_def attempt_def py_simps split: option.splits)
  moreover from leaves_jobsD [OF assms(5) exec] ok1 beat(2)
  have "jobs_ok s2" "runs_for (ww_worker_id wk) (j_id job) s2 hb" by auto
  ultimately show ?thesis
    using after_workflow_outcome [OF assms(1) _ _ beat(3) assms(6)] exec by blast
qed

end


section \<open>Fairness\<close>




end
