(* ===== verification/Queue_Demo.thy ===== *)
theory Queue_Demo
  imports Worker_Properties
begin

text \<open>
  A concrete queue on which the properties of the queue and the worker are applied: one
  pending run with a dataset, two queued jobs, and a Redis list that names an unknown job
  and names one of the jobs twice.
\<close>

definition demo_run :: RunRecord where
  "demo_run = \<lparr>r_id = ''run_0'', r_task = ''Analyse sales'', r_status = RunPending, r_metadata = [],
     r_created_at = 0, r_updated_at = 0, r_dataset_artifact_id = Some ''artifact_1'',
     r_trace_id = Some ''t1'', r_error_summary = None\<rparr>"

definition demo_job :: "string \<Rightarrow> WorkflowJobRecord" where
  "demo_job i = \<lparr>j_id = i, j_run_id = ''run_0'', j_workflow_name = ''dynamic_analysis'',
     j_status = JobQueued, j_payload = [], j_attempt_count = 0, j_max_attempts = 1,
     j_created_at = 0, j_updated_at = 0, j_worker_id = None, j_error_summary = None,
     j_started_at = None, j_finished_at = None, j_heartbeat_at = None\<rparr>"

definition demo_base :: "string list \<Rightarrow> repo" where
  "demo_base ids = (empty_repo sample_env)\<lparr>runs := [(''run_0'', demo_run)],
     workflow_jobs := map (\<lambda>i. (i, demo_job i)) ids, workflow_job_order := ids\<rparr>"

definition demo_queue_state :: "string list \<Rightarrow> (string, string list) dict redis_repo" where
  "demo_queue_state ids = repo.extend (demo_base ids) (redis_repo.fields
     [(''aeai:workflow:queue:dynamic_analysis'', ''ghost'' # concat (map (\<lambda>i. [i, i]) ids))])"

abbreviation demo_rq :: "(string, string list) dict RedisWorkflowQueue" where
  "demo_rq \<equiv> new_redis_queue list_client ''aeai:workflow'' 100"

lemma demo_build:
  "build_workflow_queue (\<lambda>url. list_client) ''redis'' ''redis://queue'' ''aeai:workflow''
     = Inr (redis_backend demo_rq)"
proof -
  have "lower (strip ''redis'') = ''redis''" by code_simp
  then show ?thesis by (simp add: build_workflow_queue_def)
qed

lemma demo_tables [simp]:
  "workflow_jobs (demo_queue_state ids) = map (\<lambda>i. (i, demo_job i)) ids"
  "workflow_job_order (demo_queue_state ids) = ids"
  "runs (demo_queue_state ids) = [(''run_0'', demo_run)]"
  by (simp_all add: demo_queue_state_def demo_base_def redis_repo.defs repo.defs)

lemma demo_ok: "distinct ids \<Longrightarrow> jobs_ok (demo_queue_state ids)"
  by (auto simp: jobs_ok_def demo_job_def job_ok_def map_of_map_restrict restrict_map_def comp_def
      split: if_splits)

definition demo_claimed :: "string \<Rightarrow> string \<Rightarrow> int \<Rightarrow> WorkflowJobRecord" where
  "demo_claimed i w now = claimed w now (demo_job i)"

lemma demo_first_claim:
  "fst (redis_claim_next demo_rq ''w1'' (Some ''dynamic_analysis'') None (demo_queue_state [''job_1'', ''job_2'']))
     = Inr (Some (demo_claimed ''job_1'' ''w1'' 0))"
  by code_simp

abbreviation demo_after :: "(string, string list) dict redis_repo" where
  "demo_after \<equiv> snd (redis_claim_next demo_rq ''w1'' (Some ''dynamic_analysis'') None
     (demo_queue_state [''job_1'', ''job_2'']))"

lemma demo_second_claim:
  "fst (redis_claim_next demo_rq ''w2'' (Some ''dynamic_analysis'') None demo_after)
     = Inr (Some (demo_claimed ''job_2'' ''w2'' 1000000))"
  by code_simp

lemma pair_fst_snd: "fst p = x \<Longrightarrow> p = (x, snd p)"
  by (cases p) simp

lemma demo_first_run:
  "q_claim_next (redis_backend demo_rq) ''w1'' (Some ''dynamic_analysis'') None
      (demo_queue_state [''job_1'', ''job_2'']) = (Inr (Some (demo_claimed ''job_1'' ''w1'' 0)), demo_after)"
  using pair_fst_snd [OF demo_first_claim] by simp

lemma demo_second_run:
  "q_claim_next (redis_backend demo_rq) ''w2'' (Some ''dynamic_analysis'') None demo_after =
      (Inr (Some (demo_claimed ''job_2'' ''w2'' 1000000)),
       snd (redis_claim_next demo_rq ''w2'' (Some ''dynamic_analysis'') None demo_after))"
  using pair_fst_snd [OF demo_second_claim] by simp

lemma demo_two_ok: "jobs_ok (demo_queue_state [''job_1'', ''job_2''])"
  by (rule demo_ok) simp

theorem queue_never_hands_out_twice_witness:
  "j_id (demo_claimed ''job_2'' ''w2'' 1000000) \<noteq> j_id (demo_claimed ''job_1'' ''w1'' 0)"
  by (rule queue_never_hands_out_twice
      [OF demo_build demo_two_ok demo_first_run same_tables_refl demo_second_run])

theorem queue_claim_is_exclusive_witness:
  "runs_for ''w1'' ''job_1'' demo_after (demo_claimed ''job_1'' ''w1'' 0)"
proof -
  have "j_id (demo_claimed ''job_1'' ''w1'' 0) = ''job_1''"
    by (simp add: demo_claimed_def demo_job_def)
  with queue_claim_is_exclusive [OF demo_build demo_two_ok demo_first_run] show ?thesis by simp
qed



section \<open>Submission and execution\<close>

lemma demo_submit:
  "\<not> isl (fst (enqueue_dynamic_workflow (redis_backend demo_rq) ''run_0'' (demo_queue_state [])))"
  by code_simp

theorem dynamic_run_queued_once_witness:
  "\<exists>job s'. enqueue_dynamic_workflow (redis_backend demo_rq) ''run_0'' (demo_queue_state []) = (Inr job, s')
     \<and> (\<exists>run. dict_get (runs s') ''run_0'' = Some run \<and> r_status run = RunQueued)"
proof -
  obtain job s' where run:
      "enqueue_dynamic_workflow (redis_backend demo_rq) ''run_0'' (demo_queue_state []) = (Inr job, s')"
    using demo_submit by (metis prod.collapse sum.collapse(2))
  have "jobs_ok (demo_queue_state [])" by (rule demo_ok) simp
  from dynamic_run_queued_once [OF demo_build this _ run] run show ?thesis by auto
qed








end
