(* ===== verification/Deployment.thy ===== *)
theory Deployment
  imports Orchestrator
begin

text \<open>
  deployments/approvals.py: a deployment is requested as a workflow job that waits for
  approval, and decided once. The policy registry is evaluated before the request is made.
\<close>

section \<open>Helpers\<close>

definition DEPLOYMENT_WORKFLOW_NAME :: string where
  "DEPLOYMENT_WORKFLOW_NAME = ''deployment''"

definition DEPLOYMENT_NODE_ID :: string where
  "DEPLOYMENT_NODE_ID = ''deployment''"

record DeploymentDecisionResult =
  dr_job :: WorkflowJobRecord
  dr_deployment_artifact :: "ArtifactRecord option"

definition deployment_required :: "string \<Rightarrow> string \<Rightarrow> string result" where
  "deployment_required text_value message =
     (let normalized = strip text_value in
      if normalized = [] then Inl (DeploymentApprovalError message) else Inr normalized)"

definition normalize_optional :: "string option \<Rightarrow> string option" where
  "normalize_optional v =
     (case v of None \<Rightarrow> None
      | Some t \<Rightarrow> (let normalized = strip t in if normalized = [] then None else Some normalized))"

definition artifact_is_sensitive :: "ArtifactRecord \<Rightarrow> bool" where
  "artifact_is_sensitive artifact =
     list_ex (\<lambda>k. case pget (a_metadata artifact) k of
         PBool b \<Rightarrow> b
       | PStr s \<Rightarrow> lower (strip s) \<in> {''1'', ''true'', ''yes''}
       | _ \<Rightarrow> False)
       [''sensitive'', ''pii'', ''contains_pii'', ''secret'', ''credential_profile_id'']"

text \<open>
  The loop of _validate_artifact_ids; seen holds the same ids as the list that is built.
\<close>

fun collect_artifact_ids :: "string \<Rightarrow> string list \<Rightarrow> string list \<Rightarrow> ('z repo_scheme, string list) py" where
  "collect_artifact_ids run_id normalized_ids [] = ret normalized_ids"
| "collect_artifact_ids run_id normalized_ids (artifact_id # rest) =
     (let normalized = strip artifact_id in
      if normalized = [] \<or> normalized \<in> set normalized_ids
      then collect_artifact_ids run_id normalized_ids rest
      else bnd (get_artifact run_id normalized) (\<lambda>_.
             collect_artifact_ids run_id (normalized_ids @ [normalized]) rest))"

definition validate_artifact_ids :: "string \<Rightarrow> string list \<Rightarrow> ('z repo_scheme, string list) py" where
  "validate_artifact_ids run_id artifact_ids =
     bnd (collect_artifact_ids run_id [] artifact_ids) (\<lambda>ids.
     seq (guard (ids \<noteq> []) (DeploymentApprovalError ''At least one artifact is required for deployment.''))
         (ret ids))"

definition requester :: "string option \<Rightarrow> string" where
  "requester requested_by = (case normalize_optional requested_by of None \<Rightarrow> ''system'' | Some u \<Rightarrow> u)"

definition evaluate_deployment_policy ::
    "string \<Rightarrow> string list \<Rightarrow> string \<Rightarrow> string option \<Rightarrow> ToolPermissionRegistry \<Rightarrow>
     ('z repo_scheme, ToolPolicyDecision) py" where
  "evaluate_deployment_policy run_id artifact_ids destination requested_by policy_registry =
     bnd (map_each artifact_ids (get_artifact run_id)) (\<lambda>arts.
       let types = map (\<lambda>a. artifact_type_value (a_type a)) arts;
           sensitive = list_ex artifact_is_sensitive arts;
           metadata = [(''artifact_ids'', strs artifact_ids), (''artifact_types'', strs types),
                       (''requested_by'', PStr (requester requested_by)), (''sensitive'', PBool sensitive)];
           input_summary = ''deploy '' @ nat_str (length artifact_ids) @ '' artifact(s) to '' @ destination
             @ ''; requested_by='' @ requester requested_by
       in bnd (lift_result (limited 1000 input_summary)) (\<lambda>summary.
          lift_result (evaluate policy_registry ''deploy_artifact'' input_summary False
            (model_payload \<lparr>pc_input_summary = summary, pc_approved = False, pc_agent_type = None,
               pc_node_id = None, pc_run_id = Some run_id, pc_connector_id = None,
               pc_credential_profile_id = None,
               pc_artifact_type = Some (join '','' (sort (remdups types))),
               pc_artifact_sensitive = sensitive, pc_destination = Some destination,
               pc_metadata = metadata\<rparr>))))"

definition assert_deployment_job :: "WorkflowJobRecord \<Rightarrow> string \<Rightarrow> ('s, unit) py" where
  "assert_deployment_job job run_id =
     seq (guard (j_run_id job = run_id)
            (DeploymentApprovalError (''Deployment job not found for run: '' @ j_id job)))
     (seq (guard (j_workflow_name job = DEPLOYMENT_WORKFLOW_NAME)
            (DeploymentApprovalError (''Workflow job is not a deployment request: '' @ j_id job)))
          (guard (pget (j_payload job) ''request_type'' = PStr ''deployment_approval'')
            (DeploymentApprovalError (''Workflow job is missing deployment approval payload: '' @ j_id job))))"

section \<open>Requesting\<close>

definition request_payload ::
    "string list \<Rightarrow> string \<Rightarrow> string option \<Rightarrow> string option \<Rightarrow> int \<Rightarrow> (string, pyval) dict \<Rightarrow>
     ToolPolicyDecision \<Rightarrow> (string, pyval) dict" where
  "request_payload ids destination requested_by rationale now metadata decision =
     [(''workflow'', PStr DEPLOYMENT_WORKFLOW_NAME), (''request_type'', PStr ''deployment_approval''),
      (''deployment_status'', PStr (job_status_value JobWaitingForApproval)),
      (''artifact_ids'', strs ids), (''destination'', PStr destination),
      (''requested_by'', PStr (requester requested_by)),
      (''request_rationale'', opt_str (normalize_optional rationale)),
      (''requested_at'', PStr (isoformat now)), (''metadata'', PDict metadata),
      (''policy_decision'', decision_to_py decision)]"

definition request_event ::
    "string \<Rightarrow> WorkflowJobRecord \<Rightarrow> string list \<Rightarrow> string \<Rightarrow> string option \<Rightarrow> string option \<Rightarrow> int \<Rightarrow>
     ToolPolicyDecision \<Rightarrow> string \<Rightarrow> AgentEventRecord" where
  "request_event run_id job ids destination requested_by rationale now decision u =
     \<lparr>e_id = ''event_'' @ u, e_run_id = run_id, e_node_id = DEPLOYMENT_NODE_ID,
      e_event_type = event_type_value EvApprovalRequest,
      e_payload =
        [(''message'', PStr ''Deployment approval requested.''),
         (''workflow_job_id'', PStr (j_id job)), (''deployment_job_id'', PStr (j_id job)),
         (''artifact_ids'', strs ids), (''destination'', PStr destination),
         (''requested_by'', PStr (requester requested_by)),
         (''rationale'', opt_str (normalize_optional rationale)), (''decision'', PStr ''pending''),
         (''policy_decision'', decision_to_py decision),
         (''policy_rule_id'', opt_str (td_policy_rule_id decision)),
         (''escalation_target'', opt_str (td_escalation_target decision)),
         (''timestamp'', PStr (isoformat now))],
      e_created_at = now\<rparr>"

definition request_deployment_approval ::
    "string \<Rightarrow> string list \<Rightarrow> string \<Rightarrow> string option \<Rightarrow> string option \<Rightarrow> (string, pyval) dict \<Rightarrow>
     ToolPermissionRegistry option \<Rightarrow> ('z repo_scheme, WorkflowJobRecord) py" where
  "request_deployment_approval run_id artifact_ids destination requested_by rationale metadata policy_registry =
     bnd (get_run run_id) (\<lambda>run.
     seq (guard (r_status run \<noteq> RunFailed)
            (DeploymentApprovalError ''Cannot request deployment approval for a failed run.''))
     (bnd (validate_artifact_ids run_id artifact_ids) (\<lambda>ids.
      bnd (lift_result (deployment_required destination ''Deployment destination is required.'')) (\<lambda>dest.
      bnd (case policy_registry of Some reg \<Rightarrow> ret reg
           | None \<Rightarrow> lift_result default_tool_permission_registry) (\<lambda>reg.
      bnd (evaluate_deployment_policy run_id ids dest requested_by reg) (\<lambda>decision.
      seq (guard (td_decision decision \<noteq> BLOCK) (DeploymentApprovalError (td_reason decision)))
      (bnd utc_now (\<lambda>now.
       bnd (enqueue_workflow_job run_id DEPLOYMENT_WORKFLOW_NAME
              (request_payload ids dest requested_by rationale now metadata decision) 1 None
              JobWaitingForApproval) (\<lambda>job.
       bnd (update_status run_id RunWaitingForApproval None) (\<lambda>_.
       bnd uuid4_hex (\<lambda>u.
       bnd (add_event (request_event run_id job ids dest requested_by rationale now decision u)) (\<lambda>_.
         ret job))))))))))))"

section \<open>Deciding\<close>

definition decision_word :: "bool \<Rightarrow> string" where
  "decision_word approved = (if approved then ''approved'' else ''denied'')"

definition decided_payload ::
    "(string, pyval) dict \<Rightarrow> bool \<Rightarrow> string \<Rightarrow> string option \<Rightarrow> int \<Rightarrow> (string, pyval) dict" where
  "decided_payload payload approved approver rationale now =
     dict_set ''approval''
       (PDict [(''decision'', PStr (decision_word approved)), (''approved'', PBool approved),
               (''approver'', PStr approver), (''rationale'', opt_str rationale),
               (''decided_at'', PStr (isoformat now))])
       (dict_set ''deployment_status'' (PStr (decision_word approved)) payload)"

text \<open>payload[key], and list(payload[key]) read as the list of strings it was written as.\<close>

definition payload_item :: "(string, pyval) dict \<Rightarrow> string \<Rightarrow> pyval result" where
  "payload_item payload k = (case dict_get payload k of None \<Rightarrow> Inl (KeyError k) | Some v \<Rightarrow> Inr v)"

definition payload_strings :: "(string, pyval) dict \<Rightarrow> string \<Rightarrow> string list result" where
  "payload_strings payload k =
     (case payload_item payload k of Inl e \<Rightarrow> Inl e
      | Inr v \<Rightarrow> (case py_list v of Inl e \<Rightarrow> Inl e | Inr xs \<Rightarrow> typed (as_strs_list xs)))"

definition add_deployment_artifact ::
    "string \<Rightarrow> WorkflowJobRecord \<Rightarrow> (string, pyval) dict \<Rightarrow> string \<Rightarrow> string option \<Rightarrow> int \<Rightarrow>
     ('z repo_scheme, ArtifactRecord) py" where
  "add_deployment_artifact run_id job payload approver rationale now =
     bnd (asks repr_of) (\<lambda>rp.
     bnd (lift_result (payload_item payload ''destination'')) (\<lambda>destination.
     bnd (lift_result (payload_strings payload ''artifact_ids'')) (\<lambda>ids.
       add_artifact run_id DEPLOYMENT (''deployment://'' @ py_str rp destination @ ''/'' @ j_id job)
         [(''workflow_job_id'', PStr (j_id job)), (''deployment_status'', PStr (decision_word True)),
          (''destination'', destination), (''artifact_ids'', strs ids),
          (''requested_by'', pget payload ''requested_by''),
          (''request_rationale'', pget payload ''request_rationale''),
          (''approved_by'', PStr approver), (''approval_rationale'', opt_str rationale),
          (''approved_at'', PStr (isoformat now)),
          (''metadata'', if truthy (pget payload ''metadata'') then pget payload ''metadata'' else PDict [])]
         ids (Some DEPLOYMENT_NODE_ID) None None None None None)))"

definition decision_event ::
    "string \<Rightarrow> WorkflowJobRecord \<Rightarrow> ArtifactRecord option \<Rightarrow> string list \<Rightarrow> pyval \<Rightarrow> bool \<Rightarrow> string \<Rightarrow>
     string option \<Rightarrow> int \<Rightarrow> string \<Rightarrow> AgentEventRecord" where
  "decision_event run_id job artifact ids destination approved approver rationale now u =
     \<lparr>e_id = ''event_'' @ u, e_run_id = run_id, e_node_id = DEPLOYMENT_NODE_ID,
      e_event_type = event_type_value EvApprovalDecision,
      e_payload =
        [(''message'', PStr (''Deployment '' @ decision_word approved @ ''.'')),
         (''workflow_job_id'', PStr (j_id job)), (''deployment_job_id'', PStr (j_id job)),
         (''deployment_artifact_id'', opt_str (map_option a_id artifact)),
         (''artifact_ids'', strs ids), (''destination'', destination),
         (''decision'', PStr (decision_word approved)), (''approved'', PBool approved),
         (''approver'', PStr approver), (''rationale'', opt_str rationale),
         (''timestamp'', PStr (isoformat now))],
      e_created_at = now\<rparr>"

text \<open>The branch on approved: the artifact, and the payload with its id.\<close>

definition apply_decision ::
    "string \<Rightarrow> WorkflowJobRecord \<Rightarrow> (string, pyval) dict \<Rightarrow> bool \<Rightarrow> string \<Rightarrow> string option \<Rightarrow> int \<Rightarrow>
     ('z repo_scheme, ArtifactRecord option \<times> (string, pyval) dict) py" where
  "apply_decision run_id job payload approved approver rationale now =
     (if approved then
        bnd (add_deployment_artifact run_id job payload approver rationale now) (\<lambda>artifact.
        bnd (update_status run_id RunCompleted None) (\<lambda>_.
          ret (Some artifact, dict_set ''deployment_artifact_id'' (PStr (a_id artifact)) payload)))
      else
        bnd (update_status run_id RunFailed (Some ''Deployment approval denied.'')) (\<lambda>_.
          ret (None, payload)))"

text \<open>What follows the branch: the job result and the audit event.\<close>

definition record_decision ::
    "string \<Rightarrow> WorkflowJobRecord \<Rightarrow> bool \<Rightarrow> string \<Rightarrow> string option \<Rightarrow> int \<Rightarrow>
     ArtifactRecord option \<times> (string, pyval) dict \<Rightarrow> ('z repo_scheme, DeploymentDecisionResult) py" where
  "record_decision run_id job approved approver rationale now outcome =
     (let artifact = fst outcome; final = snd outcome in
      bnd (update_workflow_job_result (j_id job) (if approved then JobCompleted else JobFailed)
             (Some final) (if approved then None else Some ''Deployment approval denied.'')) (\<lambda>updated.
      bnd uuid4_hex (\<lambda>u.
      bnd (lift_result (payload_strings final ''artifact_ids'')) (\<lambda>ids.
      bnd (lift_result (payload_item final ''destination'')) (\<lambda>destination.
      bnd (add_event (decision_event run_id job artifact ids destination approved approver rationale now u)) (\<lambda>_.
        ret \<lparr>dr_job = updated, dr_deployment_artifact = artifact\<rparr>))))))"

definition decide_deployment_approval ::
    "string \<Rightarrow> string \<Rightarrow> bool \<Rightarrow> string \<Rightarrow> string option \<Rightarrow> ('z repo_scheme, DeploymentDecisionResult) py" where
  "decide_deployment_approval run_id job_id approved approver rationale =
     bnd (get_run run_id) (\<lambda>_.
     bnd (get_workflow_job job_id) (\<lambda>job.
     seq (assert_deployment_job job run_id)
     (seq (guard (j_status job = JobWaitingForApproval)
             (DeploymentApprovalError (''Deployment job is not waiting for approval: '' @ job_id)))
     (bnd utc_now (\<lambda>now.
      bnd (lift_result (deployment_required approver ''Deployment approver is required.'')) (\<lambda>who.
        let why = normalize_optional rationale in
        bnd (apply_decision run_id job (decided_payload (j_payload job) approved who why now)
               approved who why now)
            (record_decision run_id job approved who why now)))))))"

end
