(* ===== verification/Deployment_Properties.thy ===== *)
theory Deployment_Properties
  imports Deployment Queue_Demo Policy_Properties
begin

text \<open>
  A deployment is only released by an approval of a waiting request, and a request is decided
  at most once.
\<close>

section \<open>Lemmas\<close>

text \<open>Programs that touch neither the jobs nor the runs nor the artifacts.\<close>

definition quiet_tables :: "'z repo_scheme \<Rightarrow> 'z repo_scheme \<Rightarrow> bool" where
  "quiet_tables s s' \<longleftrightarrow> same_tables s s' \<and> artifacts s' = artifacts s"

lemma quiet_tables_refl [simp]: "quiet_tables s s"
  by (simp add: quiet_tables_def)

lemma quiet_tables_trans: "quiet_tables s t \<Longrightarrow> quiet_tables t u \<Longrightarrow> quiet_tables s u"
  by (simp add: quiet_tables_def same_tables_def)

lemma add_event_quiet: "add_event e s = (r, s') \<Longrightarrow> quiet_tables s s'"
  by (auto simp: add_event_def append_event_def quiet_tables_def same_tables_def Let_def py_simps
      split: option.splits if_splits)

lemma get_artifact_run:
  "get_artifact run_id i s =
     (case dict_get (runs s) run_id of
        None \<Rightarrow> (Inl (RunNotFoundError (''Run not found: '' @ run_id)), s)
      | Some run \<Rightarrow>
          (case dict_get (artifacts s) run_id of
             None \<Rightarrow> (Inl (KeyError run_id), s)
           | Some xs \<Rightarrow>
               (case find (\<lambda>a. a_id a = i) xs of
                  None \<Rightarrow> (Inl (ArtifactNotFoundError (''Artifact not found: '' @ i)), s)
                | Some a \<Rightarrow> (Inr a, s))))"
  by (simp add: get_artifact_def list_artifacts_def py_simps split: option.splits)

lemma get_artifact_same: "get_artifact run_id i s = (r, s') \<Longrightarrow> s' = s"
  by (auto simp: get_artifact_run split: option.splits)

text \<open>The artifacts a run has.\<close>

definition has_artifact :: "string \<Rightarrow> string \<Rightarrow> 'z repo_scheme \<Rightarrow> bool" where
  "has_artifact run_id i s \<longleftrightarrow> (\<exists>xs. dict_get (artifacts s) run_id = Some xs \<and> i \<in> a_id ` set xs)"

lemma get_artifact_has: "get_artifact run_id i s = (Inr a, s') \<Longrightarrow> has_artifact run_id i s"
  by (auto simp: get_artifact_run has_artifact_def find_Some_iff split: option.splits)

lemma collect_artifact_ids_effect:
  "collect_artifact_ids run_id acc ids s = (r, s') \<Longrightarrow>
     s' = s \<and> (\<forall>out. r = Inr out \<longrightarrow> distinct acc \<longrightarrow> (\<forall>i \<in> set acc. has_artifact run_id i s) \<longrightarrow>
        distinct out \<and> (\<forall>i \<in> set out. has_artifact run_id i s)
        \<and> set out = set acc \<union> (strip ` set ids - {[]}))"
proof (induction ids arbitrary: acc r)
  case Nil
  then show ?case by (auto simp: ret_run)
next
  case (Cons x xs)
  show ?case
  proof (cases "strip x = [] \<or> strip x \<in> set acc")
    case True
    with Cons.prems have "collect_artifact_ids run_id acc xs s = (r, s')" by (auto simp: Let_def)
    from Cons.IH [OF this] True show ?thesis by auto
  next
    case False
    obtain y s1 where get: "get_artifact run_id (strip x) s = (y, s1)" by fastforce
    with get_artifact_same have "s1 = s" by blast
    show ?thesis
    proof (cases y)
      case (Inl e)
      with Cons.prems False get \<open>s1 = s\<close> show ?thesis by (auto simp: Let_def bnd_run)
    next
      case (Inr a)
      with Cons.prems False get \<open>s1 = s\<close>
      have "collect_artifact_ids run_id (acc @ [strip x]) xs s = (r, s')" by (auto simp: Let_def bnd_run)
      from Cons.IH [OF this] False get_artifact_has [of run_id "strip x" s a s] get Inr \<open>s1 = s\<close>
      show ?thesis by auto
    qed
  qed
qed

lemma validate_artifact_ids_effect:
  assumes "validate_artifact_ids run_id ids s = (r, s')"
  shows "s' = s \<and> (\<forall>out. r = Inr out \<longrightarrow>
     out \<noteq> [] \<and> distinct out \<and> set out = strip ` set ids - {[]} \<and> (\<forall>i \<in> set out. has_artifact run_id i s))"
proof -
  obtain x s1 where run: "collect_artifact_ids run_id [] ids s = (x, s1)" by fastforce
  from collect_artifact_ids_effect [OF run] assms run show ?thesis
    by (auto simp: validate_artifact_ids_def bnd_run guard_run ret_run split: sum.splits if_splits)
qed

lemma map_each_get_artifact: "map_each ids (get_artifact run_id) s = (r, s') \<Longrightarrow> s' = s"
proof (induction ids arbitrary: r)
  case (Cons i ids)
  then show ?case
    by (auto simp: bnd_run ret_run split: prod.splits sum.splits dest!: get_artifact_same)
qed (simp add: ret_run)

lemma evaluate_policy_same:
  "evaluate_deployment_policy run_id ids dest by_whom reg s = (r, s') \<Longrightarrow> s' = s"
  by (auto simp: evaluate_deployment_policy_def Let_def bnd_run lift_result_run
      split: prod.splits sum.splits dest!: map_each_get_artifact)

lemma add_artifact_effect:
  assumes "add_artifact run_id ty uri md src producer aid ct sb sk sz s = (Inr art, s')"
    and "ty \<noteq> DATASET"
  shows "a_type art = ty \<and> a_source_artifact_ids art = src \<and> a_run_id art = run_id \<and> same_tables s s'
     \<and> (\<exists>xs. dict_get (artifacts s) run_id = Some xs
            \<and> artifacts s' = dict_set run_id (xs @ [art]) (artifacts s))"
  using assms
  by (auto simp: add_artifact_def Let_def py_simps next_artifact_id_def same_tables_def
      split: option.splits if_splits)

lemma update_result_effect:
  assumes "update_workflow_job_result i st p e s = (Inr job', s')"
  shows "j_status job' = st \<and> workflow_jobs s' = dict_set i job' (workflow_jobs s)
     \<and> runs s' = runs s \<and> artifacts s' = artifacts s"
  using assms
  by (auto simp: update_workflow_job_result_def Let_def py_simps split: option.splits if_splits)

lemma update_status_artifacts: "update_status i st e s = (r, s') \<Longrightarrow> artifacts s' = artifacts s"
  by (auto simp: update_status_def Let_def py_simps split: option.splits)

section \<open>Deciding\<close>

text \<open>What a decision leaves in the artifacts of the run.\<close>

definition released ::
    "string \<Rightarrow> bool \<Rightarrow> ArtifactRecord option \<Rightarrow> 'z repo_scheme \<Rightarrow> 'z repo_scheme \<Rightarrow> bool" where
  "released run_id approved artifact s s' \<longleftrightarrow>
     (case artifact of
        None \<Rightarrow> \<not> approved \<and> artifacts s' = artifacts s
      | Some a \<Rightarrow> approved \<and> a_type a = DEPLOYMENT
          \<and> (\<exists>xs. dict_get (artifacts s) run_id = Some xs
                 \<and> artifacts s' = dict_set run_id (xs @ [a]) (artifacts s)))"

lemma apply_decision_effect:
  assumes "apply_decision run_id job payload approved who why now s = (Inr (artifact, final), s')"
  shows "released run_id approved artifact s s' \<and> workflow_jobs s' = workflow_jobs s
     \<and> (\<exists>run. dict_get (runs s') run_id = Some run
            \<and> r_status run = (if approved then RunCompleted else RunFailed))"
proof (cases approved)
  case True
  with assms obtain s1 run where add: "add_deployment_artifact run_id job payload who why now s = (Inr (the artifact), s1)"
    and st: "update_status run_id RunCompleted None s1 = (Inr run, s')" and "artifact \<noteq> None"
    by (auto simp: apply_decision_def ret_run elim!: bnd_InrE)
  from add obtain uri md src where
    "add_artifact run_id DEPLOYMENT uri md src (Some DEPLOYMENT_NODE_ID) None None None None None s
       = (Inr (the artifact), s1)"
    by (auto simp: add_deployment_artifact_def asks_run lift_result_run elim!: bnd_InrE)
  from add_artifact_effect [OF this] update_status_effect [OF st] update_status_artifacts [OF st]
  show ?thesis using True \<open>artifact \<noteq> None\<close>
    by (auto simp: released_def same_tables_def)
next
  case False
  with assms obtain run where st: "update_status run_id RunFailed (Some ''Deployment approval denied.'') s = (Inr run, s')"
    and "artifact = None"
    by (auto simp: apply_decision_def ret_run elim!: bnd_InrE)
  with update_status_effect [OF st] update_status_artifacts [OF st] False show ?thesis
    by (auto simp: released_def)
qed

lemma record_decision_effect:
  assumes "record_decision run_id job approved who why now outcome s = (Inr res, s')"
  shows "j_status (dr_job res) = (if approved then JobCompleted else JobFailed)
     \<and> workflow_jobs s' = dict_set (j_id job) (dr_job res) (workflow_jobs s)
     \<and> runs s' = runs s \<and> artifacts s' = artifacts s \<and> dr_deployment_artifact res = fst outcome"
proof -
  from assms obtain s1 s2 e r where
    upd: "update_workflow_job_result (j_id job) (if approved then JobCompleted else JobFailed)
        (Some (snd outcome)) (if approved then None else Some ''Deployment approval denied.'') s = (Inr (dr_job res), s1)"
    and s2: "s2 = s1\<lparr>uuid_ix := Suc (uuid_ix s1)\<rparr>" and ev: "add_event e s2 = (Inr r, s')"
    and art: "dr_deployment_artifact res = fst outcome"
    unfolding record_decision_def Let_def
    by (elim bnd_InrE) (auto simp: uuid4_hex_run lift_result_run ret_run)
  from update_result_effect [OF upd] add_event_quiet [OF ev] s2 art show ?thesis
    by (auto simp: quiet_tables_def same_tables_def)
qed

lemma get_workflow_job_run [py_simps]:
  "get_workflow_job i s = (case dict_get (workflow_jobs s) i of
     None \<Rightarrow> (Inl (WorkflowJobNotFoundError (''Workflow job not found: '' @ i)), s) | Some j \<Rightarrow> (Inr j, s))"
  by (simp add: get_workflow_job_def py_simps split: option.splits)

lemma decide_parts:
  assumes "decide_deployment_approval run_id job_id approved approver rationale s = (Inr res, s')"
  obtains job who now outcome s0 s1 where "dict_get (workflow_jobs s) job_id = Some job"
    and "j_run_id job = run_id" and "j_workflow_name job = DEPLOYMENT_WORKFLOW_NAME"
    and "j_status job = JobWaitingForApproval" and "quiet_tables s s0"
    and "apply_decision run_id job (decided_payload (j_payload job) approved who (normalize_optional rationale) now)
           approved who (normalize_optional rationale) now s0 = (Inr outcome, s1)"
    and "record_decision run_id job approved who (normalize_optional rationale) now outcome s1 = (Inr res, s')"
proof -
  obtain job where job: "dict_get (workflow_jobs s) job_id = Some job"
    using assms
    by (cases "dict_get (workflow_jobs s) job_id")
      (auto simp: decide_deployment_approval_def py_simps split: option.splits)
  have guards: "j_run_id job = run_id" "j_workflow_name job = DEPLOYMENT_WORKFLOW_NAME"
      "j_status job = JobWaitingForApproval"
    using assms job
    by (auto simp: decide_deployment_approval_def assert_deployment_job_def py_simps
        split: option.splits if_splits)
  let ?now = "clock s (ticks s)" and ?s0 = "s\<lparr>ticks := Suc (ticks s)\<rparr>"
  have "\<exists>who. bnd (apply_decision run_id job (decided_payload (j_payload job) approved who (normalize_optional rationale) ?now)
               approved who (normalize_optional rationale) ?now)
            (record_decision run_id job approved who (normalize_optional rationale) ?now) ?s0 = (Inr res, s')"
  proof (cases "deployment_required approver ''Deployment approver is required.''")
    case (Inl e)
    with assms job guards show ?thesis
      by (auto simp: decide_deployment_approval_def assert_deployment_job_def py_simps
          split: option.splits if_splits)
  next
    case (Inr who)
    with assms job guards show ?thesis
      by (intro exI [of _ who])
        (auto simp: decide_deployment_approval_def assert_deployment_job_def Let_def py_simps
          split: option.splits if_splits)
  qed
  then show thesis
    using that [OF job guards, of ?s0] by (auto simp: quiet_tables_def same_tables_def elim!: bnd_InrE)
qed

text \<open>
  C23: A deployment decision succeeds only for a deployment job of the run that waits for
  approval. Approval completes the job and the run and adds exactly one deployment artifact to
  the run; denial fails the job and the run and adds none.
\<close>

theorem deployment_decision_effect:
  assumes "jobs_ok s"
    and "decide_deployment_approval run_id job_id approved approver rationale s = (Inr res, s')"
  shows "(\<exists>job. dict_get (workflow_jobs s) job_id = Some job \<and> j_run_id job = run_id
            \<and> j_workflow_name job = DEPLOYMENT_WORKFLOW_NAME \<and> j_status job = JobWaitingForApproval)
     \<and> dict_get (workflow_jobs s') job_id = Some (dr_job res)
     \<and> j_status (dr_job res) = (if approved then JobCompleted else JobFailed)
     \<and> (\<exists>run. dict_get (runs s') run_id = Some run
            \<and> r_status run = (if approved then RunCompleted else RunFailed))
     \<and> released run_id approved (dr_deployment_artifact res) s s'"
proof -
  from decide_parts [OF assms(2)] obtain job who now outcome s0 s1 where
    job: "dict_get (workflow_jobs s) job_id = Some job" "j_run_id job = run_id"
      "j_workflow_name job = DEPLOYMENT_WORKFLOW_NAME" "j_status job = JobWaitingForApproval"
    and q: "quiet_tables s s0"
    and dec: "apply_decision run_id job (decided_payload (j_payload job) approved who (normalize_optional rationale) now)
           approved who (normalize_optional rationale) now s0 = (Inr outcome, s1)"
    and rec: "record_decision run_id job approved who (normalize_optional rationale) now outcome s1 = (Inr res, s')" .
  from job(1) assms(1) have "j_id job = job_id" by (simp add: jobs_ok_def)
  moreover have "apply_decision run_id job (decided_payload (j_payload job) approved who (normalize_optional rationale) now)
           approved who (normalize_optional rationale) now s0 = (Inr (fst outcome, snd outcome), s1)"
    using dec by simp
  note effect = apply_decision_effect [OF this] and recorded = record_decision_effect [OF rec]
  from effect q have "released run_id approved (fst outcome) s s1"
    by (auto simp: quiet_tables_def released_def split: option.splits)
  with recorded have "released run_id approved (dr_deployment_artifact res) s s'"
    by (auto simp: released_def split: option.splits)
  ultimately show ?thesis
    using job effect recorded by auto
qed

lemma decide_not_waiting:
  assumes "dict_get (workflow_jobs s) job_id = Some job" and "j_status job \<noteq> JobWaitingForApproval"
    and "decide_deployment_approval run_id job_id approved approver rationale s = (r, s')"
  shows "isl r \<and> s' = s"
proof (cases "fst (get_run run_id s)")
  case (Inl e)
  with assms(3) show ?thesis
    by (auto simp: decide_deployment_approval_def bnd_run get_run_run split: option.splits)
next
  case (Inr run)
  then have "get_run run_id s = (Inr run, s)" by (auto simp: get_run_run split: option.splits)
  with assms have "seq (assert_deployment_job job run_id) (raise
      (DeploymentApprovalError (''Deployment job is not waiting for approval: '' @ job_id))) s = (r, s')"
    by (simp add: decide_deployment_approval_def bnd_run get_workflow_job_run bnd_guard_False)
  then show ?thesis
    by (auto simp: assert_deployment_job_def py_simps split: if_splits)
qed

text \<open>
  C24: After a deployment job was decided, every further decision on it, by anyone and either
  way, is refused and changes no job, run or artifact.
\<close>

theorem deployment_decided_once:
  fixes s s' :: "'z repo_scheme"
  assumes "jobs_ok s"
    and "decide_deployment_approval run_id job_id approved approver rationale s = (Inr res, s')"
    and "decide_deployment_approval run_id' job_id approved' approver' rationale' s' = (r, s'')"
  shows "isl r \<and> quiet_tables s' s''"
proof -
  from decide_parts [OF assms(2)] obtain job1 who now outcome and s1 :: "'z repo_scheme" where
    rec: "record_decision run_id job1 approved who (normalize_optional rationale) now outcome s1 = (Inr res, s')"
    and job1: "dict_get (workflow_jobs s) job_id = Some job1" by metis
  with assms(1) have "j_id job1 = job_id" by (simp add: jobs_ok_def)
  with record_decision_effect [OF rec] have
    "dict_get (workflow_jobs s') job_id = Some (dr_job res)" "j_status (dr_job res) \<noteq> JobWaitingForApproval"
    by simp_all
  from decide_not_waiting [OF this assms(3)] show ?thesis by (simp add: quiet_tables_def)
qed

section \<open>Requesting\<close>

lemma request_parts:
  assumes "request_deployment_approval run_id artifact_ids destination requested_by rationale metadata reg s
     = (Inr job, s')"
  obtains run ids dest decision now s1 s2 run' e ev where
    "dict_get (runs s) run_id = Some run" and "r_status run \<noteq> RunFailed"
    and "validate_artifact_ids run_id artifact_ids s = (Inr ids, s)"
    and "deployment_required destination ''Deployment destination is required.'' = Inr dest"
    and "enqueue_workflow_job run_id DEPLOYMENT_WORKFLOW_NAME
        (request_payload ids dest requested_by rationale now metadata decision) 1 None
        JobWaitingForApproval (s\<lparr>ticks := Suc (ticks s)\<rparr>) = (Inr job, s1)"
    and "update_status run_id RunWaitingForApproval None s1 = (Inr run', s2)"
    and "add_event e (s2\<lparr>uuid_ix := Suc (uuid_ix s2)\<rparr>) = (Inr ev, s')"
proof -
  obtain run where run: "dict_get (runs s) run_id = Some run" "r_status run \<noteq> RunFailed"
    using assms
    by (cases "dict_get (runs s) run_id"; cases "r_status (the (dict_get (runs s) run_id)) = RunFailed")
      (simp_all add: request_deployment_approval_def bnd_run get_run_run guard_run)
  obtain x s0 where ids: "validate_artifact_ids run_id artifact_ids s = (x, s0)" by fastforce
  with validate_artifact_ids_effect have "s0 = s" by blast
  obtain ids where x: "x = Inr ids"
    using assms run ids
    by (cases x) (simp_all add: request_deployment_approval_def bnd_run get_run_run guard_run)
  obtain dest where dest: "deployment_required destination ''Deployment destination is required.'' = Inr dest"
    using assms run ids x
    by (cases "deployment_required destination ''Deployment destination is required.''")
      (simp_all add: request_deployment_approval_def bnd_run get_run_run guard_run lift_result_run)
  let ?reg0 = "case reg of Some preg \<Rightarrow> ret preg | None \<Rightarrow> lift_result default_tool_permission_registry"
  obtain preg where reg: "?reg0 s = (Inr preg, s)"
    by (cases reg) (simp_all add: ret_run lift_result_run default_registry_is)
  obtain y s4 where pol: "evaluate_deployment_policy run_id ids dest requested_by preg s = (y, s4)"
    by fastforce
  with evaluate_policy_same have "s4 = s" by blast
  obtain decision where y: "y = Inr decision" "td_decision decision \<noteq> BLOCK"
    using assms run ids x dest reg pol \<open>s0 = s\<close> \<open>s4 = s\<close>
    by (cases y)
      (auto simp: request_deployment_approval_def bnd_run get_run_run guard_run lift_result_run split: if_splits)
  let ?now = "clock s (ticks s)"
  obtain z s1 where enq: "enqueue_workflow_job run_id DEPLOYMENT_WORKFLOW_NAME
      (request_payload ids dest requested_by rationale ?now metadata decision) 1 None
      JobWaitingForApproval (s\<lparr>ticks := Suc (ticks s)\<rparr>) = (z, s1)" by fastforce
  have rest: "bnd (enqueue_workflow_job run_id DEPLOYMENT_WORKFLOW_NAME
      (request_payload ids dest requested_by rationale ?now metadata decision) 1 None
      JobWaitingForApproval) (\<lambda>job.
       bnd (update_status run_id RunWaitingForApproval None) (\<lambda>_.
       bnd uuid4_hex (\<lambda>u.
       bnd (add_event (request_event run_id job ids dest requested_by rationale ?now decision u)) (\<lambda>_.
         ret job)))) (s\<lparr>ticks := Suc (ticks s)\<rparr>) = (Inr job, s')"
    using assms run ids x dest reg pol y \<open>s0 = s\<close> \<open>s4 = s\<close>
    by (simp add: request_deployment_approval_def bnd_run get_run_run guard_run lift_result_run utc_now_run)
  then show thesis
    using that [OF run _ dest, of ids] ids x \<open>s0 = s\<close>
    by (auto simp: uuid4_hex_run ret_run elim!: bnd_InrE)
qed

text \<open>
  A granted deployment request names at least one artifact, each of which the run has, once
  each; the run had not failed; the new job waits for approval, cannot be claimed by any worker,
  and no artifact has been added.
\<close>

theorem deployment_request_waits:
  assumes "request_deployment_approval run_id artifact_ids destination requested_by rationale metadata reg s
     = (Inr job, s')"
  shows "j_status job = JobWaitingForApproval \<and> dict_get (workflow_jobs s') (j_id job) = Some job
     \<and> \<not> claimable name s' (j_id job) \<and> artifacts s' = artifacts s
     \<and> (\<exists>run. dict_get (runs s) run_id = Some run \<and> r_status run \<noteq> RunFailed)
     \<and> (\<exists>run. dict_get (runs s') run_id = Some run \<and> r_status run = RunWaitingForApproval)
     \<and> (\<exists>ids. ids \<noteq> [] \<and> distinct ids \<and> set ids = strip ` set artifact_ids - {[]}
          \<and> (\<forall>i \<in> set ids. has_artifact run_id i s))
     \<and> strip destination \<noteq> []"
proof -
  from request_parts [OF assms] obtain run ids dest decision now s1 s2 run' e ev where
    run: "dict_get (runs s) run_id = Some run" "r_status run \<noteq> RunFailed"
    and ids: "validate_artifact_ids run_id artifact_ids s = (Inr ids, s)"
    and dest: "deployment_required destination ''Deployment destination is required.'' = Inr dest"
    and enq: "enqueue_workflow_job run_id DEPLOYMENT_WORKFLOW_NAME
        (request_payload ids dest requested_by rationale now metadata decision) 1 None
        JobWaitingForApproval (s\<lparr>ticks := Suc (ticks s)\<rparr>) = (Inr job, s1)"
    and st: "update_status run_id RunWaitingForApproval None s1 = (Inr run', s2)"
    and ev: "add_event e (s2\<lparr>uuid_ix := Suc (uuid_ix s2)\<rparr>) = (Inr ev, s')" .
  from enq have new: "j_status job = JobWaitingForApproval" "artifacts s1 = artifacts s"
      "workflow_jobs s1 = dict_set (j_id job) job (workflow_jobs s)"
    by (auto simp: enqueue_workflow_job_def Let_def py_simps split: option.splits if_splits)
  have "strip destination \<noteq> []"
    using dest by (auto simp: deployment_required_def Let_def split: if_splits)
  with run validate_artifact_ids_effect [OF ids] new update_status_effect [OF st]
    update_status_artifacts [OF st] add_event_quiet [OF ev]
  show ?thesis
    by (auto simp: quiet_tables_def same_tables_def claimable_def)
qed

section \<open>A concrete request\<close>

definition waiting_job :: WorkflowJobRecord where
  "waiting_job = (demo_job ''job_9'')\<lparr>j_workflow_name := DEPLOYMENT_WORKFLOW_NAME,
     j_status := JobWaitingForApproval,
     j_payload := [(''request_type'', PStr ''deployment_approval''), (''artifact_ids'', PList []),
                   (''destination'', PStr ''prod'')]\<rparr>"

definition demo_artifact :: ArtifactRecord where
  "demo_artifact = \<lparr>a_id = ''artifact_1'', a_run_id = ''run_0'', a_type = REPORT, a_uri = ''u'',
     a_metadata = [], a_source_artifact_ids = [], a_created_at = 0, a_producer_node_id = None,
     a_content_type = None, a_storage_backend = None, a_storage_key = None, a_size_bytes = None\<rparr>"

definition waiting_state :: repo where
  "waiting_state = (empty_repo sample_env)\<lparr>runs := [(''run_0'', demo_run)],
     artifacts := [(''run_0'', [demo_artifact])], events := [(''run_0'', [])],
     workflow_jobs := [(''job_9'', waiting_job)], workflow_job_order := [''job_9'']\<rparr>"

lemma waiting_ok: "jobs_ok waiting_state"
  by (simp add: jobs_ok_def waiting_state_def waiting_job_def demo_job_def job_ok_def)

lemma waiting_tables [simp]:
  "runs waiting_state = [(''run_0'', demo_run)]" "workflow_jobs waiting_state = [(''job_9'', waiting_job)]"
  "events waiting_state = [(''run_0'', [])]" "artifacts waiting_state = [(''run_0'', [demo_artifact])]"
  by (simp_all add: waiting_state_def)

lemma waiting_job_simps [simp]:
  "j_id waiting_job = ''job_9''" "j_run_id waiting_job = ''run_0''"
  "j_workflow_name waiting_job = DEPLOYMENT_WORKFLOW_NAME" "j_status waiting_job = JobWaitingForApproval"
  by (simp_all add: waiting_job_def demo_job_def)

lemma demo_decided:
  "\<exists>res s'. decide_deployment_approval ''run_0'' ''job_9'' approved ''ann'' None waiting_state = (Inr res, s')"
proof -
  have "deployment_required ''ann'' m = Inr ''ann''" for m
    by (simp add: deployment_required_def strip_def py_space_def)
  moreover have "payload_strings (decided_payload (j_payload waiting_job) b w y n) ''artifact_ids'' = Inr []"
    "payload_item (decided_payload (j_payload waiting_job) b w y n) ''destination'' = Inr (PStr ''prod'')"
    "pget (j_payload waiting_job) ''request_type'' = PStr ''deployment_approval''" for b w y n
    by (simp_all add: payload_strings_def payload_item_def decided_payload_def waiting_job_def typed_def pget_def)
  ultimately show ?thesis
    by (cases approved)
      (auto simp: decide_deployment_approval_def record_decision_def apply_decision_def
      add_deployment_artifact_def assert_deployment_job_def update_status_def update_workflow_job_result_def
      add_artifact_def add_event_def append_event_def decision_event_def payload_strings_def payload_item_def
      next_artifact_id_def Let_def py_simps)
qed

lemma demo_policy:
  "case fst (evaluate_deployment_policy ''run_0'' [''artifact_1''] ''prod'' None default_reg waiting_state) of
     Inl e \<Rightarrow> False | Inr d \<Rightarrow> td_decision d = APPROVAL_REQUIRED"
  by code_simp

lemma demo_requested:
  "\<exists>job s'. request_deployment_approval ''run_0'' [''artifact_1''] ''prod'' None None [] (Some default_reg) waiting_state
     = (Inr job, s')"
proof -
  obtain x s1 where pol: "evaluate_deployment_policy ''run_0'' [''artifact_1''] ''prod'' None default_reg waiting_state
      = (x, s1)" by fastforce
  with evaluate_policy_same have "s1 = waiting_state" by blast
  moreover from pol demo_policy obtain d where "x = Inr d" "td_decision d = APPROVAL_REQUIRED"
    by (auto split: sum.splits)
  moreover have "strip ''artifact_1'' = ''artifact_1''" "strip ''prod'' = ''prod''"
      "strip DEPLOYMENT_WORKFLOW_NAME = DEPLOYMENT_WORKFLOW_NAME" "DEPLOYMENT_WORKFLOW_NAME \<noteq> []"
    by (simp_all add: strip_def py_space_def DEPLOYMENT_WORKFLOW_NAME_def)
  ultimately show ?thesis
    using pol
    by (simp add: request_deployment_approval_def validate_artifact_ids_def deployment_required_def Let_def
      get_artifact_run demo_artifact_def demo_run_def enqueue_workflow_job_def update_status_def
      add_event_def append_event_def request_event_def py_simps)
qed

theorem deployment_decision_effect_witness:
  "\<exists>res s'. decide_deployment_approval ''run_0'' ''job_9'' True ''ann'' None waiting_state = (Inr res, s')
     \<and> j_status (dr_job res) = JobCompleted
     \<and> (\<exists>a. dr_deployment_artifact res = Some a \<and> a_type a = DEPLOYMENT)"
proof -
  obtain res s' where run: "decide_deployment_approval ''run_0'' ''job_9'' True ''ann'' None waiting_state = (Inr res, s')"
    using demo_decided by blast
  from deployment_decision_effect [OF waiting_ok run] run show ?thesis
    by (auto simp: released_def split: option.splits)
qed

theorem deployment_decided_once_witness:
  "\<exists>res s'. decide_deployment_approval ''run_0'' ''job_9'' False ''ann'' None waiting_state = (Inr res, s')
     \<and> isl (fst (decide_deployment_approval ''run_0'' ''job_9'' True ''bob'' None s'))"
proof -
  obtain res s' where run: "decide_deployment_approval ''run_0'' ''job_9'' False ''ann'' None waiting_state = (Inr res, s')"
    using demo_decided by blast
  from deployment_decided_once [OF waiting_ok run] run show ?thesis by (metis prod.collapse)
qed

theorem deployment_request_waits_witness:
  "\<exists>job s'. request_deployment_approval ''run_0'' [''artifact_1''] ''prod'' None None [] (Some default_reg) waiting_state
     = (Inr job, s') \<and> j_status job = JobWaitingForApproval"
  using deployment_request_waits demo_requested by metis

end
