(* ===== verification/Lineage.thy ===== *)
theory Lineage
  imports Deployment_Properties
begin

text \<open>
  artifacts/lineage.py: the upstream artifacts of an artifact, found by a depth-first walk
  over source_artifact_ids, and the expansion of a list of ids by their upstream artifacts.
  The closure visit reads the repository only through get_artifact, so it is a function of
  that lookup; it runs on fuel, and one more than the number of artifacts is enough.
\<close>

section \<open>The walk\<close>

record ArtifactLineageEdge =
  le_source_artifact_id :: string
  le_target_artifact_id :: string

record ArtifactLineage =
  al_root_artifact :: ArtifactRecord
  al_upstream_artifacts :: "ArtifactRecord list"
  al_edges :: "ArtifactLineageEdge list"

type_synonym artifact_lookup = "string \<Rightarrow> ArtifactRecord result"
type_synonym trail = "(string, ArtifactRecord) dict \<times> ArtifactLineageEdge list"

text \<open>The loop over the sources of one target; walk is the recursive call of visit.\<close>

fun visit_sources ::
    "(ArtifactRecord \<Rightarrow> trail \<Rightarrow> trail result option) \<Rightarrow> artifact_lookup \<Rightarrow> string \<Rightarrow> string list \<Rightarrow>
     trail \<Rightarrow> trail result option" where
  "visit_sources walk get target_id [] (upstream, found) = Some (Inr (upstream, found))"
| "visit_sources walk get target_id (source_id # rest) (upstream, found) =
     (let found' = found @ [\<lparr>le_source_artifact_id = source_id, le_target_artifact_id = target_id\<rparr>] in
      if source_id \<in> set (dict_keys upstream)
      then visit_sources walk get target_id rest (upstream, found')
      else case get source_id of
             Inl e \<Rightarrow> Some (Inl e)
           | Inr source \<Rightarrow>
               (case walk source (dict_set (a_id source) source upstream, found') of
                  None \<Rightarrow> None
                | Some (Inl e) \<Rightarrow> Some (Inl e)
                | Some (Inr trail) \<Rightarrow> visit_sources walk get target_id rest trail))"

fun visit_artifact ::
    "nat \<Rightarrow> artifact_lookup \<Rightarrow> string list \<Rightarrow> ArtifactRecord \<Rightarrow> trail \<Rightarrow> trail result option" where
  "visit_artifact 0 get visiting target trail = None"
| "visit_artifact (Suc fuel) get visiting target trail =
     (if a_id target \<in> set visiting then Some (Inr trail)
      else visit_sources (visit_artifact fuel get (a_id target # visiting)) get (a_id target)
             (a_source_artifact_ids target) trail)"

definition artifact_count :: "string \<Rightarrow> 'z repo_scheme \<Rightarrow> nat" where
  "artifact_count run_id s = (case dict_get (artifacts s) run_id of None \<Rightarrow> 0 | Some xs \<Rightarrow> length xs)"

definition lookup_in :: "string \<Rightarrow> 'z repo_scheme \<Rightarrow> artifact_lookup" where
  "lookup_in run_id s = (\<lambda>i. fst (get_artifact run_id i s))"

text \<open>None stands for the fuel running out, which upstream_total excludes.\<close>

definition build_lineage :: "string \<Rightarrow> string \<Rightarrow> ('z repo_scheme, ArtifactLineage option) py" where
  "build_lineage run_id artifact_id =
     bnd (get_artifact run_id artifact_id) (\<lambda>root_artifact.
     bnd (asks (\<lambda>s. visit_artifact (Suc (artifact_count run_id s)) (lookup_in run_id s) [] root_artifact ([], [])))
       (\<lambda>outcome. case outcome of
          None \<Rightarrow> ret None
        | Some walked \<Rightarrow> bnd (lift_result walked) (\<lambda>(upstream, found).
            ret (Some \<lparr>al_root_artifact = root_artifact, al_upstream_artifacts = map snd upstream,
                       al_edges = found\<rparr>))))"

definition append_once :: "string list \<Rightarrow> string \<Rightarrow> string list" where
  "append_once ordered_ids artifact_id =
     (if artifact_id \<in> set ordered_ids then ordered_ids else ordered_ids @ [artifact_id])"

fun expand_ids :: "string \<Rightarrow> string list \<Rightarrow> string list \<Rightarrow> ('z repo_scheme, string list option) py" where
  "expand_ids run_id ordered_ids [] = ret (Some ordered_ids)"
| "expand_ids run_id ordered_ids (artifact_id # rest) =
     bnd (get_artifact run_id artifact_id) (\<lambda>_.
     bnd (build_lineage run_id artifact_id) (\<lambda>lineage.
       case lineage of
         None \<Rightarrow> ret None
       | Some l \<Rightarrow> expand_ids run_id
           (foldl append_once (append_once ordered_ids artifact_id) (map a_id (al_upstream_artifacts l)))
           rest))"

definition expand_source_artifact_ids :: "string \<Rightarrow> string list \<Rightarrow> ('z repo_scheme, string list option) py" where
  "expand_source_artifact_ids run_id artifact_ids = expand_ids run_id [] artifact_ids"

section \<open>Enough fuel\<close>

text \<open>A lookup that answers with the artifact of the asked id, for finitely many ids.\<close>

definition lookup_ok :: "string set \<Rightarrow> artifact_lookup \<Rightarrow> bool" where
  "lookup_ok ids get \<longleftrightarrow> finite ids \<and> (\<forall>i a. get i = Inr a \<longrightarrow> a_id a = i \<and> i \<in> ids)"

definition unseen :: "string set \<Rightarrow> trail \<Rightarrow> nat" where
  "unseen ids trail = card (ids - set (dict_keys (fst trail)))"

definition grows :: "trail \<Rightarrow> trail \<Rightarrow> bool" where
  "grows t t' \<longleftrightarrow> set (dict_keys (fst t)) \<subseteq> set (dict_keys (fst t')) \<and> set (snd t) \<subseteq> set (snd t')"

lemma grows_refl [simp]: "grows t t"
  by (simp add: grows_def)

lemma grows_trans: "grows t u \<Longrightarrow> grows u v \<Longrightarrow> grows t v"
  unfolding grows_def by blast

lemma grows_key: "grows t t' \<Longrightarrow> k \<in> set (dict_keys (fst t)) \<Longrightarrow> k \<in> set (dict_keys (fst t'))"
  and grows_edge: "grows t t' \<Longrightarrow> e \<in> set (snd t) \<Longrightarrow> e \<in> set (snd t')"
  unfolding grows_def by blast+

lemma grows_add: "grows (up, es) (dict_set i a up, es @ [e])" "grows (up, es) (up, es @ [e])"
  by (auto simp: grows_def)

lemma unseen_grows: "lookup_ok ids get \<Longrightarrow> grows t t' \<Longrightarrow> unseen ids t' \<le> unseen ids t"
  by (auto simp: unseen_def grows_def lookup_ok_def intro!: card_mono)

lemma unseen_add:
  assumes "lookup_ok ids get" and "get i = Inr a" and "i \<notin> set (dict_keys up)"
  shows "unseen ids (dict_set (a_id a) a up, es') < unseen ids (up, es)"
proof -
  from assms have "i \<in> ids - set (dict_keys up)" "a_id a = i" "finite ids" by (auto simp: lookup_ok_def)
  then show ?thesis
    unfolding unseen_def by (intro psubset_card_mono) auto
qed

lemma visit_sources_total:
  assumes ok: "lookup_ok ids get"
    and walk: "\<And>a t. unseen ids t < n \<Longrightarrow> \<exists>w. walk a t = Some w \<and> (\<forall>t'. w = Inr t' \<longrightarrow> grows t t')"
    and "unseen ids t \<le> n"
  shows "\<exists>w. visit_sources walk get tid is t = Some w \<and> (\<forall>t'. w = Inr t' \<longrightarrow> grows t t')"
  using assms(3)
proof (induction "is" arbitrary: t)
  case Nil
  show ?case by (cases t) simp
next
  case (Cons i rest)
  obtain up es where t: "t = (up, es)" by (cases t)
  let ?es = "es @ [\<lparr>le_source_artifact_id = i, le_target_artifact_id = tid\<rparr>]"
  show ?case
  proof (cases "i \<in> set (dict_keys up)")
    case True
    have "unseen ids (up, ?es) \<le> n" using Cons.prems t by (simp add: unseen_def)
    from Cons.IH [OF this] True t show ?thesis by (auto intro: grows_trans [OF grows_add(2)])
  next
    case False
    show ?thesis
    proof (cases "get i")
      case (Inl e)
      with False t show ?thesis by simp
    next
      case (Inr a)
      let ?t1 = "(dict_set (a_id a) a up, ?es)"
      from unseen_add [OF ok Inr False, of ?es es] Cons.prems t have less: "unseen ids ?t1 < n" by simp
      with walk obtain w where w: "walk a ?t1 = Some w" "\<forall>t'. w = Inr t' \<longrightarrow> grows ?t1 t'" by blast
      show ?thesis
      proof (cases w)
        case (Inl e)
        with False Inr t w show ?thesis by simp
      next
        case walked: (Inr t2)
        with w have g: "grows ?t1 t2" by blast
        with unseen_grows [OF ok g] less have "unseen ids t2 \<le> n" by simp
        from Cons.IH [OF this] False Inr t w walked
          grows_trans [OF grows_add(1) [of up es "a_id a" a] g] show ?thesis
          by (auto intro: grows_trans)
      qed
    qed
  qed
qed

lemma visit_artifact_total:
  "lookup_ok ids get \<Longrightarrow> unseen ids t < fuel \<Longrightarrow>
     \<exists>w. visit_artifact fuel get V a t = Some w \<and> (\<forall>t'. w = Inr t' \<longrightarrow> grows t t')"
proof (induction fuel arbitrary: V a t)
  case (Suc fuel)
  show ?case
  proof (cases "a_id a \<in> set V")
    case False
    have "\<exists>w. visit_sources (visit_artifact fuel get (a_id a # V)) get (a_id a) (a_source_artifact_ids a) t = Some w
        \<and> (\<forall>t'. w = Inr t' \<longrightarrow> grows t t')"
      by (rule visit_sources_total [OF Suc.prems(1), of fuel]) (use Suc in auto)
    with False show ?thesis by simp
  qed simp
qed simp

section \<open>The walk finds exactly the upstream artifacts\<close>

definition sources_of :: "artifact_lookup \<Rightarrow> string \<Rightarrow> string set" where
  "sources_of get i = (case get i of Inl e \<Rightarrow> {} | Inr a \<Rightarrow> set (a_source_artifact_ids a))"

definition upstream_of :: "artifact_lookup \<Rightarrow> string \<Rightarrow> string set" where
  "upstream_of get start = {j. (start, j) \<in> {(t, i). i \<in> sources_of get t}\<^sup>+}"

definition expanded :: "artifact_lookup \<Rightarrow> trail \<Rightarrow> string \<Rightarrow> bool" where
  "expanded get t k \<longleftrightarrow> (\<forall>j \<in> sources_of get k. j \<in> set (dict_keys (fst t))
     \<and> \<lparr>le_source_artifact_id = j, le_target_artifact_id = k\<rparr> \<in> set (snd t))"

definition trail_ok :: "artifact_lookup \<Rightarrow> string \<Rightarrow> string set \<Rightarrow> trail \<Rightarrow> bool" where
  "trail_ok get start V t \<longleftrightarrow>
     distinct (dict_keys (fst t))
     \<and> (\<forall>(k, a) \<in> set (fst t). get k = Inr a \<and> k \<in> upstream_of get start \<and> (k \<in> V \<or> expanded get t k))
     \<and> (\<forall>e \<in> set (snd t). le_source_artifact_id e \<in> sources_of get (le_target_artifact_id e)
          \<and> le_target_artifact_id e \<in> insert start (upstream_of get start))"

lemma expanded_grows: "expanded get t k \<Longrightarrow> grows t t' \<Longrightarrow> expanded get t' k"
  by (auto simp: expanded_def grows_def)

lemma upstream_step:
  "i \<in> sources_of get t \<Longrightarrow> t \<in> insert start (upstream_of get start) \<Longrightarrow> i \<in> upstream_of get start"
  by (auto simp: upstream_of_def intro: trancl.trancl_into_trancl)

lemma trail_ok_edge:
  assumes "trail_ok get start V (up, es)" and "i \<in> sources_of get tid"
    and "tid \<in> insert start (upstream_of get start)"
  shows "trail_ok get start V (up, es @ [\<lparr>le_source_artifact_id = i, le_target_artifact_id = tid\<rparr>])"
  using assms by (auto simp: trail_ok_def intro: expanded_grows [OF _ grows_add(2)])

lemma trail_ok_add:
  assumes "trail_ok get start V (up, es)" and "i \<in> upstream_of get start" and "get i = Inr a"
  shows "trail_ok get start (insert i V) (dict_set i a up, es)"
proof -
  have "grows (up, es) (dict_set i a up, es)" by (auto simp: grows_def)
  with assms show ?thesis
    by (auto simp: trail_ok_def dest!: mem_dict_set intro: expanded_grows)
qed

definition walks_ok :: "artifact_lookup \<Rightarrow> string \<Rightarrow> string set \<Rightarrow> (ArtifactRecord \<Rightarrow> trail \<Rightarrow> trail result option) \<Rightarrow> bool" where
  "walks_ok get start V walk \<longleftrightarrow>
     (\<forall>a t t'. get (a_id a) = Inr a \<longrightarrow> a_id a \<in> insert start (upstream_of get start) \<longrightarrow>
        trail_ok get start (insert (a_id a) V) t \<longrightarrow> walk a t = Some (Inr t') \<longrightarrow>
        grows t t' \<and> trail_ok get start V t' \<and> (a_id a \<in> V \<or> expanded get t' (a_id a)))"

lemma visit_sources_sound:
  assumes ok: "lookup_ok ids get" and walk: "walks_ok get start V walk"
    and tid: "tid \<in> insert start (upstream_of get start)"
    and "set is \<subseteq> sources_of get tid" and "trail_ok get start V t"
    and "visit_sources walk get tid is t = Some (Inr t')"
  shows "grows t t' \<and> trail_ok get start V t'
     \<and> (\<forall>j \<in> set is. j \<in> set (dict_keys (fst t'))
          \<and> \<lparr>le_source_artifact_id = j, le_target_artifact_id = tid\<rparr> \<in> set (snd t'))"
  using assms(4-6)
proof (induction "is" arbitrary: t)
  case Nil
  then show ?case by (cases t) simp
next
  case (Cons i rest)
  obtain up es where t: "t = (up, es)" by (cases t)
  let ?e = "\<lparr>le_source_artifact_id = i, le_target_artifact_id = tid\<rparr>"
  have i: "i \<in> sources_of get tid" using Cons.prems(1) by simp
  have up: "i \<in> upstream_of get start" by (rule upstream_step [OF i tid])
  have ok1: "trail_ok get start V (up, es @ [?e])"
    using trail_ok_edge [OF _ i tid] Cons.prems(2) t by simp
  show ?case
  proof (cases "i \<in> set (dict_keys up)")
    case True
    with Cons.prems(3) t have "visit_sources walk get tid rest (up, es @ [?e]) = Some (Inr t')" by simp
    from Cons.IH [OF _ ok1 this] Cons.prems(1) True t show ?thesis
      by (auto simp: grows_def)
  next
    case False
    with Cons.prems(3) t obtain a where a: "get i = Inr a" by (auto split: sum.splits)
    then have id: "a_id a = i" using ok by (auto simp: lookup_ok_def)
    let ?t1 = "(dict_set i a up, es @ [?e])"
    from Cons.prems(3) t False a id obtain t2 where w: "walk a ?t1 = Some (Inr t2)"
      and rest: "visit_sources walk get tid rest t2 = Some (Inr t')"
      by (auto split: option.splits sum.splits)
    have "trail_ok get start (insert (a_id a) V) ?t1"
      using trail_ok_add [OF ok1 up a] id by simp
    with walk w a id up have t2: "grows ?t1 t2" "trail_ok get start V t2"
      unfolding walks_ok_def by blast+
    from Cons.IH [OF _ t2(2) rest] Cons.prems(1) have ih: "grows t2 t'" "trail_ok get start V t'"
      "\<forall>j \<in> set rest. j \<in> set (dict_keys (fst t'))
          \<and> \<lparr>le_source_artifact_id = j, le_target_artifact_id = tid\<rparr> \<in> set (snd t')" by auto
    note g = grows_trans [OF t2(1) ih(1)]
    have "grows t t'" using grows_trans [OF grows_add(1) [of up es i a ?e] g] t by simp
    moreover have "i \<in> set (dict_keys (fst t'))" "?e \<in> set (snd t')"
      using grows_key [OF g, of i] grows_edge [OF g, of ?e] by simp_all
    ultimately show ?thesis using ih by simp
  qed
qed

lemma visit_artifact_sound:
  assumes ok: "lookup_ok ids get"
  shows "walks_ok get start (set V) (visit_artifact fuel get V)"
proof (induction fuel arbitrary: V)
  case 0
  show ?case by (simp add: walks_ok_def)
next
  case (Suc fuel)
  show ?case
    unfolding walks_ok_def
  proof (intro allI impI)
    fix a t t'
    assume a: "get (a_id a) = Inr a" "a_id a \<in> insert start (upstream_of get start)"
      and t: "trail_ok get start (insert (a_id a) (set V)) t"
      and run: "visit_artifact (Suc fuel) get V a t = Some (Inr t')"
    show "grows t t' \<and> trail_ok get start (set V) t' \<and> (a_id a \<in> set V \<or> expanded get t' (a_id a))"
    proof (cases "a_id a \<in> set V")
      case True
      with run t show ?thesis by (simp add: insert_absorb)
    next
      case False
      with run have "visit_sources (visit_artifact fuel get (a_id a # V)) get (a_id a)
          (a_source_artifact_ids a) t = Some (Inr t')" by simp
      moreover have "walks_ok get start (insert (a_id a) (set V)) (visit_artifact fuel get (a_id a # V))"
        using Suc [of "a_id a # V"] by simp
      moreover have src: "sources_of get (a_id a) = set (a_source_artifact_ids a)"
        using a(1) by (simp add: sources_of_def)
      ultimately have res: "grows t t'" "trail_ok get start (insert (a_id a) (set V)) t'"
        "expanded get t' (a_id a)"
        using visit_sources_sound [OF ok _ a(2) _ t, of "visit_artifact fuel get (a_id a # V)"
            "a_source_artifact_ids a" t']
        by (auto simp: expanded_def)
      from res(2,3) have "trail_ok get start (set V) t'" by (auto simp: trail_ok_def)
      with res show ?thesis by blast
    qed
  qed
qed

lemma closed_upstream:
  assumes "trail_ok get start {} t" and "expanded get t start"
  shows "set (dict_keys (fst t)) = upstream_of get start"
proof
  show "set (dict_keys (fst t)) \<subseteq> upstream_of get start"
    using assms(1) by (auto simp: trail_ok_def)
  show "upstream_of get start \<subseteq> set (dict_keys (fst t))"
  proof
    fix j assume "j \<in> upstream_of get start"
    then have "(start, j) \<in> {(t, i). i \<in> sources_of get t}\<^sup>+" by (simp add: upstream_of_def)
    then show "j \<in> set (dict_keys (fst t))"
    proof (induction rule: trancl_induct)
      case (base j)
      with assms(2) show ?case by (auto simp: expanded_def)
    next
      case (step j k)
      then obtain a where "(j, a) \<in> set (fst t)" by auto
      with assms(1) have "expanded get t j" by (auto simp: trail_ok_def)
      with step show ?case by (auto simp: expanded_def)
    qed
  qed
qed

section \<open>The lineage of a stored artifact\<close>

lemma lookup_in_ok: "\<exists>ids. lookup_ok ids (lookup_in run_id s) \<and> unseen ids t \<le> artifact_count run_id s"
proof (cases "dict_get (artifacts s) run_id")
  case None
  then have "lookup_ok {} (lookup_in run_id s)"
    by (auto simp: lookup_ok_def lookup_in_def get_artifact_run split: option.splits)
  then show ?thesis by (auto simp: unseen_def)
next
  case (Some xs)
  let ?ids = "a_id ` set xs"
  have "lookup_ok ?ids (lookup_in run_id s)"
    using Some by (auto simp: lookup_ok_def lookup_in_def get_artifact_run find_Some_iff split: option.splits)
  moreover have "unseen ?ids t \<le> length xs"
  proof -
    have "unseen ?ids t \<le> card ?ids" unfolding unseen_def by (rule card_mono) auto
    also have "\<dots> \<le> length xs" using card_image_le [of "set xs" a_id] card_length [of xs] by simp
    finally show ?thesis .
  qed
  ultimately show ?thesis using Some by (auto simp: artifact_count_def)
qed

text \<open>build_lineage as one case distinction.\<close>

lemma build_lineage_run:
  "build_lineage run_id i s =
     (case lookup_in run_id s i of
        Inl e \<Rightarrow> (Inl e, s)
      | Inr a \<Rightarrow>
          (case visit_artifact (Suc (artifact_count run_id s)) (lookup_in run_id s) [] a ([], []) of
             None \<Rightarrow> (Inr None, s)
           | Some (Inl e) \<Rightarrow> (Inl e, s)
           | Some (Inr t) \<Rightarrow> (Inr (Some \<lparr>al_root_artifact = a, al_upstream_artifacts = map snd (fst t),
                                      al_edges = snd t\<rparr>), s)))"
proof (cases "lookup_in run_id s i")
  case (Inl e)
  then have "get_artifact run_id i s = (Inl e, s)"
    using get_artifact_same [of run_id i s] by (cases "get_artifact run_id i s") (auto simp: lookup_in_def)
  with Inl show ?thesis by (simp add: build_lineage_def bnd_run)
next
  case (Inr a)
  then have "get_artifact run_id i s = (Inr a, s)"
    using get_artifact_same [of run_id i s] by (cases "get_artifact run_id i s") (auto simp: lookup_in_def)
  with Inr show ?thesis
    by (simp add: build_lineage_def bnd_run asks_run lift_result_run ret_run split: option.split sum.split prod.split)
qed

lemma build_lineage_outcome: "build_lineage run_id i s = (r, s') \<Longrightarrow> s' = s \<and> r \<noteq> Inr None"
proof -
  obtain ids where ids: "lookup_ok ids (lookup_in run_id s)" "unseen ids ([], []) \<le> artifact_count run_id s"
    using lookup_in_ok by blast
  then have total: "visit_artifact (Suc (artifact_count run_id s)) (lookup_in run_id s) [] a ([], []) \<noteq> None" for a
    using visit_artifact_total [OF ids(1), of "([], [])" "Suc (artifact_count run_id s)" "[]" a] by auto
  assume run: "build_lineage run_id i s = (r, s')"
  show ?thesis
  proof (cases "lookup_in run_id s i")
    case (Inl e)
    with run show ?thesis by (auto simp: build_lineage_run)
  next
    case (Inr a)
    with run total [of a] show ?thesis
      by (auto simp: build_lineage_run simp del: visit_artifact.simps split: sum.splits option.splits)
  qed
qed

lemma lineage_found:
  assumes "build_lineage run_id i s = (Inr (Some l), s')"
  shows "a_id (al_root_artifact l) = i \<and> distinct (map a_id (al_upstream_artifacts l))
     \<and> set (map a_id (al_upstream_artifacts l)) = upstream_of (lookup_in run_id s) i
     \<and> set (al_edges l) = {\<lparr>le_source_artifact_id = j, le_target_artifact_id = k\<rparr> | j k.
          k \<in> insert i (upstream_of (lookup_in run_id s) i) \<and> j \<in> sources_of (lookup_in run_id s) k}"
proof -
  let ?get = "lookup_in run_id s"
  obtain ids where ids: "lookup_ok ids ?get" using lookup_in_ok by blast
  from assms obtain a t where a: "?get i = Inr a"
    and run: "visit_artifact (Suc (artifact_count run_id s)) ?get [] a ([], []) = Some (Inr t)"
    and l: "l = \<lparr>al_root_artifact = a, al_upstream_artifacts = map snd (fst t), al_edges = snd t\<rparr>"
    by (auto simp: build_lineage_run split: sum.splits option.splits)
  have id: "a_id a = i" using ids a by (simp add: lookup_ok_def)
  have "trail_ok ?get i {a_id a} ([], [])" by (simp add: trail_ok_def)
  with visit_artifact_sound [OF ids, of i "[]" "Suc (artifact_count run_id s)"] run a id
  have t: "trail_ok ?get i {} t" "expanded ?get t i"
    unfolding walks_ok_def by fastforce+
  note keys = closed_upstream [OF t]
  have names: "map a_id (map snd (fst t)) = dict_keys (fst t)"
    using t(1) ids by (auto simp: trail_ok_def lookup_ok_def)
  have "expanded ?get t k" if "k \<in> insert i (upstream_of ?get i)" for k
    using that t keys [symmetric] by (auto simp: trail_ok_def)
  then have "set (snd t) = {\<lparr>le_source_artifact_id = j, le_target_artifact_id = k\<rparr> | j k.
          k \<in> insert i (upstream_of ?get i) \<and> j \<in> sources_of ?get k}"
  proof (intro set_eqI iffI)
    fix e :: ArtifactLineageEdge assume "e \<in> set (snd t)"
    with t(1) show "e \<in> {\<lparr>le_source_artifact_id = j, le_target_artifact_id = k\<rparr> | j k.
          k \<in> insert i (upstream_of ?get i) \<and> j \<in> sources_of ?get k}"
      by (cases e) (auto simp: trail_ok_def)
  qed (auto simp: expanded_def)
  with keys names t(1) l id show ?thesis by (simp add: trail_ok_def del: map_map)
qed

text \<open>
  C25: The walk over source artifacts ends for every repository, also when artifacts name each
  other in a cycle, and changes nothing.
\<close>

theorem lineage_always_ends:
  "snd (build_lineage run_id artifact_id s) = s \<and> fst (build_lineage run_id artifact_id s) \<noteq> Inr None"
  using build_lineage_outcome [of run_id artifact_id s] by (metis prod.collapse)

text \<open>
  C26: The lineage of an artifact lists, once each, exactly the artifacts it transitively
  derives from, and exactly the source edges among the artifact and these.
\<close>

theorem lineage_is_upstream_closure:
  assumes "build_lineage run_id i s = (Inr (Some l), s')"
  shows "a_id (al_root_artifact l) = i \<and> distinct (map a_id (al_upstream_artifacts l))
     \<and> set (map a_id (al_upstream_artifacts l)) = upstream_of (lookup_in run_id s) i
     \<and> set (al_edges l) = {\<lparr>le_source_artifact_id = j, le_target_artifact_id = k\<rparr> | j k.
          k \<in> insert i (upstream_of (lookup_in run_id s) i) \<and> j \<in> sources_of (lookup_in run_id s) k}"
  by (rule lineage_found [OF assms])

section \<open>Expansion\<close>

lemma append_once_all:
  "distinct acc \<Longrightarrow> distinct (foldl append_once acc xs) \<and> set (foldl append_once acc xs) = set acc \<union> set xs"
  by (induction xs arbitrary: acc) (auto simp: append_once_def)

lemma expand_ids_effect:
  "expand_ids run_id acc ids s = (r, s') \<Longrightarrow> distinct acc \<Longrightarrow>
     s' = s \<and> r \<noteq> Inr None \<and> (\<forall>out. r = Inr (Some out) \<longrightarrow>
       distinct out \<and> set out = set acc \<union> (\<Union>i \<in> set ids. insert i (upstream_of (lookup_in run_id s) i)))"
proof (induction ids arbitrary: acc r)
  case Nil
  then show ?case by (auto simp: ret_run)
next
  case (Cons i rest)
  obtain x s1 where get: "get_artifact run_id i s = (x, s1)" by fastforce
  with get_artifact_same have s1: "s1 = s" by blast
  obtain y s2 where lin: "build_lineage run_id i s = (y, s2)" by fastforce
  note y = build_lineage_outcome [OF lin]
  show ?case
  proof (cases "\<exists>a l. x = Inr a \<and> y = Inr (Some l)")
    case False
    with Cons.prems(1) get s1 lin y show ?thesis
      by (auto simp: bnd_run split: sum.splits option.splits)
  next
    case True
    then obtain a l where xy: "x = Inr a" "y = Inr (Some l)" by blast
    let ?acc = "foldl append_once (append_once acc i) (map a_id (al_upstream_artifacts l))"
    have acc: "distinct ?acc" "set ?acc = insert i (set acc) \<union> upstream_of (lookup_in run_id s) i"
      using append_once_all [of "append_once acc i" "map a_id (al_upstream_artifacts l)"] Cons.prems(2)
        lineage_found [of run_id i s l s2] lin xy
      by (auto simp: append_once_def)
    from Cons.prems(1) get s1 lin y xy have "expand_ids run_id ?acc rest s = (r, s')"
      by (auto simp: bnd_run)
    from Cons.IH [OF this acc(1)] acc(2) show ?thesis by auto
  qed
qed

text \<open>
  Expanding a list of artifact ids gives, without repetition, these ids together with
  everything they transitively derive from.
\<close>

theorem expansion_is_upstream_union:
  assumes "expand_source_artifact_ids run_id ids s = (Inr out, s')"
  shows "\<exists>expanded_ids. out = Some expanded_ids \<and> distinct expanded_ids
     \<and> set expanded_ids = (\<Union>i \<in> set ids. insert i (upstream_of (lookup_in run_id s) i))"
  using assms expand_ids_effect [of run_id "[]" ids s "Inr out" s']
  by (cases out) (auto simp: expand_source_artifact_ids_def)

section \<open>A cycle of artifacts\<close>

text \<open>Two artifacts that name each other as their sources.\<close>

definition cyclic_state :: repo where
  "cyclic_state = waiting_state\<lparr>artifacts := [(''run_0'',
     [demo_artifact\<lparr>a_source_artifact_ids := [''artifact_2'']\<rparr>,
      demo_artifact\<lparr>a_id := ''artifact_2'', a_source_artifact_ids := [''artifact_1'', ''artifact_1'']\<rparr>])]\<rparr>"

lemma found_case:
  "(case x of Inr (Some l) \<Rightarrow> P l | _ \<Rightarrow> False) \<Longrightarrow> \<exists>l. x = Inr (Some l) \<and> P l"
  by (cases x) (auto split: option.splits)

theorem lineage_is_upstream_closure_witness:
  "upstream_of (lookup_in ''run_0'' cyclic_state) ''artifact_1'' = {''artifact_1'', ''artifact_2''}"
proof -
  have "case fst (build_lineage ''run_0'' ''artifact_1'' cyclic_state) of
      Inr (Some l) \<Rightarrow> map a_id (al_upstream_artifacts l) = [''artifact_2'', ''artifact_1''] | _ \<Rightarrow> False"
    by code_simp
  from found_case [OF this] obtain l where out: "fst (build_lineage ''run_0'' ''artifact_1'' cyclic_state) = Inr (Some l)"
    and ids: "map a_id (al_upstream_artifacts l) = [''artifact_2'', ''artifact_1'']"
    by (elim exE conjE) (rule that)
  from out have "build_lineage ''run_0'' ''artifact_1'' cyclic_state
      = (Inr (Some l), snd (build_lineage ''run_0'' ''artifact_1'' cyclic_state))"
    by (rule pair_fst_snd)
  from lineage_is_upstream_closure [OF this] show ?thesis unfolding ids by (simp add: insert_commute)
qed

theorem expansion_is_upstream_union_witness:
  "\<exists>out. fst (expand_source_artifact_ids ''run_0'' [''artifact_2''] cyclic_state) = Inr (Some out)
     \<and> set out = insert ''artifact_2'' (upstream_of (lookup_in ''run_0'' cyclic_state) ''artifact_2'')"
proof -
  have "\<not> isl (fst (expand_source_artifact_ids ''run_0'' [''artifact_2''] cyclic_state))" by code_simp
  then obtain out s' where "expand_source_artifact_ids ''run_0'' [''artifact_2''] cyclic_state = (Inr out, s')"
    by (metis prod.collapse sum.collapse(2))
  with expansion_is_upstream_union [OF this] show ?thesis by auto
qed

end
