(* ===== verification/Auth.thy ===== *)
theory Auth
  imports Py_Value
begin

text \<open>
  security/auth.py, security/oidc.py and the dependencies of api/auth.py: who a request
  comes from and what it may do. A header table is a dictionary; the verification of a JWT
  (the jwt package) is a function from the token to its claims.
\<close>

section \<open>Roles and permissions\<close>

datatype UserRole = VIEWER | OPERATOR | REVIEWER | APPROVER | ADMIN

datatype AuthPermission = READ_RUNS | MUTATE_RUNS | APPROVE_RUNS | ADMINISTER

fun role_value :: "UserRole \<Rightarrow> string" where
  "role_value VIEWER = ''viewer''"
| "role_value OPERATOR = ''operator''"
| "role_value REVIEWER = ''reviewer''"
| "role_value APPROVER = ''approver''"
| "role_value ADMIN = ''admin''"

fun permission_value :: "AuthPermission \<Rightarrow> string" where
  "permission_value READ_RUNS = ''runs:read''"
| "permission_value MUTATE_RUNS = ''runs:write''"
| "permission_value APPROVE_RUNS = ''runs:approve''"
| "permission_value ADMINISTER = ''administer''"

definition all_roles :: "UserRole list" where
  "all_roles = [VIEWER, OPERATOR, REVIEWER, APPROVER, ADMIN]"

definition all_permissions :: "AuthPermission list" where
  "all_permissions = [READ_RUNS, MUTATE_RUNS, APPROVE_RUNS, ADMINISTER]"

fun ROLE_PERMISSIONS :: "UserRole \<Rightarrow> AuthPermission list" where
  "ROLE_PERMISSIONS VIEWER = [READ_RUNS]"
| "ROLE_PERMISSIONS OPERATOR = [READ_RUNS, MUTATE_RUNS]"
| "ROLE_PERMISSIONS REVIEWER = [READ_RUNS, APPROVE_RUNS]"
| "ROLE_PERMISSIONS APPROVER = [READ_RUNS, APPROVE_RUNS]"
| "ROLE_PERMISSIONS ADMIN = [READ_RUNS, MUTATE_RUNS, APPROVE_RUNS, ADMINISTER]"

record AuthenticatedUser =
  u_id :: string
  u_name :: "string option"
  u_roles :: "UserRole list"
  u_organization_id :: string
  u_workspace_ids :: "string list"
  u_workspace_id :: string

definition has_permission :: "AuthenticatedUser \<Rightarrow> AuthPermission \<Rightarrow> bool" where
  "has_permission user permission = list_ex (\<lambda>role. permission \<in> set (ROLE_PERMISSIONS role)) (u_roles user)"

definition to_audit_payload :: "AuthenticatedUser \<Rightarrow> (string, pyval) dict" where
  "to_audit_payload user =
     [(''id'', PStr (u_id user)), (''name'', opt_str (u_name user)),
      (''roles'', strs (map role_value (u_roles user))),
      (''organization_id'', PStr (u_organization_id user)),
      (''workspace_id'', PStr (u_workspace_id user))]"

definition auth_normalize_optional :: "string option \<Rightarrow> string option" where
  "auth_normalize_optional v =
     (case v of None \<Rightarrow> None
      | Some t \<Rightarrow> (let normalized = strip t in if normalized = [] then None else Some normalized))"

definition auth_normalize_required :: "string \<Rightarrow> string \<Rightarrow> string result" where
  "auth_normalize_required v label =
     (let normalized = strip v in
      if normalized = [] then Inl (AuthenticationError (label @ '' must not be blank.''))
      else Inr normalized)"

definition in_workspace :: "AuthenticatedUser \<Rightarrow> string option \<Rightarrow> AuthenticatedUser result" where
  "in_workspace user workspace_id =
     (let selected = (case auth_normalize_optional workspace_id of None \<Rightarrow> u_workspace_id user | Some w \<Rightarrow> w) in
      if selected \<notin> set (u_workspace_ids user)
      then Inl (AuthorizationError (''User '' @ [CHR 39] @ u_id user @ [CHR 39]
                 @ '' does not have access to workspace '' @ [CHR 39] @ selected @ [CHR 39] @ ''.''))
      else Inr (user\<lparr>u_workspace_id := selected\<rparr>))"

definition can_access :: "AuthenticatedUser \<Rightarrow> pyval \<Rightarrow> pyval \<Rightarrow> bool" where
  "can_access user organization_id workspace_id \<longleftrightarrow>
     organization_id = PStr (u_organization_id user) \<and> workspace_id = PStr (u_workspace_id user)"

section \<open>Parsing\<close>

text \<open>raw.replace(";", ",").split(",")\<close>

definition split_list :: "string \<Rightarrow> string list" where
  "split_list raw = split_on (CHR '','') (map (\<lambda>c. if c = CHR '';'' then CHR '','' else c) raw)"

definition user_role :: "string \<Rightarrow> UserRole option" where
  "user_role v = find (\<lambda>role. role_value role = v) all_roles"

text \<open>The loop of parse_roles; seen holds the same roles as the list that is built.\<close>

fun parse_role_list :: "UserRole list \<Rightarrow> string list \<Rightarrow> UserRole list result" where
  "parse_role_list parsed [] = Inr parsed"
| "parse_role_list parsed (candidate # rest) =
     (let normalized = lower (strip candidate) in
      if normalized = [] then parse_role_list parsed rest
      else case user_role normalized of
             None \<Rightarrow> Inl (AuthenticationError (''Unknown role '' @ [CHR 39] @ normalized @ [CHR 39]
                      @ ''. Valid roles: '' @ join '', '' (map role_value all_roles) @ ''.''))
           | Some role \<Rightarrow> parse_role_list (if role \<in> set parsed then parsed else parsed @ [role]) rest)"

definition parse_roles :: "string list \<Rightarrow> UserRole list result" where
  "parse_roles candidates =
     (case parse_role_list [] candidates of
        Inl e \<Rightarrow> Inl e
      | Inr parsed \<Rightarrow> if parsed = [] then Inl (AuthenticationError ''At least one user role is required.'')
                     else Inr parsed)"

definition parse_workspace_ids :: "string list \<Rightarrow> string list result" where
  "parse_workspace_ids candidates =
     (let workspaces = fromkeys (filter (\<lambda>w. w \<noteq> []) (map strip candidates)) in
      if workspaces = [] then Inl (AuthenticationError ''At least one workspace id is required.'')
      else Inr workspaces)"

definition local_development_user ::
    "string \<Rightarrow> string option \<Rightarrow> string \<Rightarrow> string \<Rightarrow> string \<Rightarrow> AuthenticatedUser result" where
  "local_development_user user_id name user_roles organization_id workspace_ids =
     (case parse_workspace_ids (split_list workspace_ids) of Inl e \<Rightarrow> Inl e | Inr workspaces \<Rightarrow>
      case auth_normalize_required user_id ''Local user id'' of Inl e \<Rightarrow> Inl e | Inr i \<Rightarrow>
      case parse_roles (split_list user_roles) of Inl e \<Rightarrow> Inl e | Inr parsed \<Rightarrow>
      case auth_normalize_required organization_id ''Organization id'' of Inl e \<Rightarrow> Inl e | Inr org \<Rightarrow>
        Inr \<lparr>u_id = i, u_name = auth_normalize_optional name, u_roles = parsed, u_organization_id = org,
             u_workspace_ids = workspaces, u_workspace_id = hd workspaces\<rparr>)"

text \<open>One entry token=user|name|roles[|organization|workspaces], given the entries before it.\<close>

definition parse_profile ::
    "string \<Rightarrow> string \<Rightarrow> (string, AuthenticatedUser) dict \<Rightarrow> string \<Rightarrow>
     (string, AuthenticatedUser) dict result" where
  "parse_profile default_organization_id default_workspace_ids profiles profile =
     (case partition_at (CHR ''='') profile of (token, separator, user_spec) \<Rightarrow>
      if \<not> separator then
        Inl (AuthenticationError ''Token profiles must use token=user_id|display_name|roles format.'')
      else case auth_normalize_required token ''Auth token'' of Inl e \<Rightarrow> Inl e | Inr normalized_token \<Rightarrow>
      (let parts = map strip (split_on (CHR ''|'') user_spec) in
       if length parts \<notin> {3, 5} then
         Inl (AuthenticationError (''Token profiles must include user id, display name, roles, and optionally ''
                @ ''organization id and comma-separated workspace ids.''))
       else if normalized_token \<in> set (dict_keys profiles) then
         Inl (AuthenticationError ''Duplicate auth token profile configured.'')
       else case parse_workspace_ids (split_list (if length parts = 5 then parts ! 4 else default_workspace_ids)) of
              Inl e \<Rightarrow> Inl e | Inr workspaces \<Rightarrow>
            case auth_normalize_required (parts ! 0) ''User id'' of Inl e \<Rightarrow> Inl e | Inr user_id \<Rightarrow>
            case parse_roles (split_list (parts ! 2)) of Inl e \<Rightarrow> Inl e | Inr parsed \<Rightarrow>
            case auth_normalize_required (if length parts = 5 then parts ! 3 else default_organization_id)
                   ''Organization id'' of Inl e \<Rightarrow> Inl e | Inr org \<Rightarrow>
              Inr (dict_set normalized_token
                \<lparr>u_id = user_id,
                 u_name = Some (case auth_normalize_optional (Some (parts ! 1)) of None \<Rightarrow> user_id | Some n \<Rightarrow> n),
                 u_roles = parsed, u_organization_id = org, u_workspace_ids = workspaces,
                 u_workspace_id = hd workspaces\<rparr> profiles)))"

fun parse_profile_list ::
    "string \<Rightarrow> string \<Rightarrow> (string, AuthenticatedUser) dict \<Rightarrow> string list \<Rightarrow>
     (string, AuthenticatedUser) dict result" where
  "parse_profile_list org workspaces profiles [] = Inr profiles"
| "parse_profile_list org workspaces profiles (raw_profile # rest) =
     (if strip raw_profile = [] then parse_profile_list org workspaces profiles rest
      else case parse_profile org workspaces profiles (strip raw_profile) of
             Inl e \<Rightarrow> Inl e
           | Inr profiles' \<Rightarrow> parse_profile_list org workspaces profiles' rest)"

definition parse_token_profiles ::
    "string \<Rightarrow> string \<Rightarrow> string \<Rightarrow> (string, AuthenticatedUser) dict result" where
  "parse_token_profiles raw_profiles default_organization_id default_workspace_ids =
     parse_profile_list default_organization_id default_workspace_ids [] (split_on (CHR '';'') raw_profiles)"

section \<open>Authentication by token\<close>

definition header :: "(string, string) dict \<Rightarrow> string \<Rightarrow> string option" where
  "header headers name =
     (case dict_get headers name of
        Some v \<Rightarrow> Some v
      | None \<Rightarrow> map_option snd (find (\<lambda>(k, v). lower k = lower name) headers))"

definition header_bearer_token :: "(string, string) dict \<Rightarrow> string option result" where
  "header_bearer_token headers =
     (case header headers ''authorization'' of
        None \<Rightarrow> Inr None
      | Some authorization \<Rightarrow>
          (case partition_at (CHR '' '') authorization of (scheme, separator, credentials) \<Rightarrow>
             if \<not> separator \<or> lower scheme \<noteq> ''bearer'' then
               Inl (AuthenticationError ''Authorization header must use the Bearer scheme.'')
             else if strip credentials = [] then
               Inl (AuthenticationError ''Bearer token must not be blank.'')
             else Inr (Some (strip credentials))))"

text \<open>hmac.compare_digest on two strings: both must be ASCII.\<close>

definition is_ascii :: "string \<Rightarrow> bool" where
  "is_ascii s = list_all (\<lambda>c. (of_char c :: nat) < 128) s"

definition compare_digest :: "string \<Rightarrow> string \<Rightarrow> bool result" where
  "compare_digest a b =
     (if is_ascii a \<and> is_ascii b then Inr (a = b)
      else Inl (TypeError ''comparing strings with non-ASCII characters is not supported''))"

fun match_token :: "string \<Rightarrow> (string, AuthenticatedUser) dict \<Rightarrow> AuthenticatedUser result" where
  "match_token token [] = Inl (AuthenticationError ''Invalid authentication credentials.'')"
| "match_token token ((expected_token, user) # rest) =
     (case compare_digest token expected_token of
        Inl e \<Rightarrow> Inl e
      | Inr same \<Rightarrow> if same then Inr user else match_token token rest)"

record auth_settings =
  as_auth_mode :: string
  as_token_profiles :: string
  as_local_user_id :: string
  as_local_user_name :: "string option"
  as_local_roles :: string
  as_local_organization_id :: string
  as_local_workspace_ids :: string
  as_oidc_roles_claim :: string
  as_oidc_organization_claim :: string
  as_oidc_workspaces_claim :: string

definition authenticated_user_from_headers ::
    "(string, string) dict \<Rightarrow> bool \<Rightarrow> auth_settings \<Rightarrow> AuthenticatedUser result" where
  "authenticated_user_from_headers headers auth_enabled cfg =
     (if \<not> auth_enabled then
        local_development_user (as_local_user_id cfg) (as_local_user_name cfg) (as_local_roles cfg)
          (as_local_organization_id cfg) (as_local_workspace_ids cfg)
      else case header_bearer_token headers of Inl e \<Rightarrow> Inl e | Inr bearer \<Rightarrow>
      case (case bearer of Some t \<Rightarrow> Some t | None \<Rightarrow> header headers ''x-aeai-api-key'') of
        None \<Rightarrow> Inl (AuthenticationError ''Missing bearer token or X-AEAI-API-Key header.'')
      | Some token \<Rightarrow>
          (case parse_token_profiles (as_token_profiles cfg) (as_local_organization_id cfg)
                  (as_local_workspace_ids cfg) of
             Inl e \<Rightarrow> Inl e
           | Inr profiles \<Rightarrow>
               if profiles = [] then
                 Inl (AuthenticationError ''No authentication token profiles are configured.'')
               else match_token token profiles))"

definition ensure_permission :: "AuthenticatedUser \<Rightarrow> AuthPermission \<Rightarrow> unit result" where
  "ensure_permission user permission =
     (if has_permission user permission then Inr ()
      else Inl (AuthorizationError (''User '' @ [CHR 39] @ u_id user @ [CHR 39] @ '' with roles [''
             @ join '', '' (map role_value (u_roles user)) @ ''] lacks permission '' @ [CHR 39]
             @ permission_value permission @ [CHR 39] @ ''.'')))"

section \<open>Authentication by OIDC\<close>

definition oidc_bearer_token :: "(string, string) dict \<Rightarrow> string result" where
  "oidc_bearer_token headers =
     (let authorization = (case find (\<lambda>(k, v). lower k = ''authorization'') headers of
            None \<Rightarrow> [] | Some (k, v) \<Rightarrow> v)
      in case partition_at (CHR '' '') authorization of (scheme, separator, token) \<Rightarrow>
           if \<not> separator \<or> lower scheme \<noteq> ''bearer'' \<or> strip token = [] then
             Inl (AuthenticationError ''OIDC authentication requires a Bearer access token.'')
           else Inr (strip token))"

definition required_claim :: "(pyval \<Rightarrow> string) \<Rightarrow> (string, pyval) dict \<Rightarrow> string \<Rightarrow> string result" where
  "required_claim rp claims name =
     (let v = pget claims name; txt = strip (if truthy v then py_str rp v else []) in
      if txt = [] then Inl (AuthenticationError (''OIDC token is missing required claim '' @ [CHR 39] @ name
                              @ [CHR 39] @ ''.''))
      else Inr txt)"

definition claim_values :: "(pyval \<Rightarrow> string) \<Rightarrow> pyval \<Rightarrow> string list" where
  "claim_values rp v =
     (case v of
        PStr s \<Rightarrow> filter (\<lambda>x. x \<noteq> []) (map strip (split_list s))
      | PList xs \<Rightarrow> filter (\<lambda>x. x \<noteq> []) (map (\<lambda>item. strip (py_str rp item)) xs)
      | _ \<Rightarrow> [])"

text \<open>verify is jwt.decode with the keys of the issuer; any failure of it is this error.\<close>

definition verify_jwt :: "(string \<Rightarrow> (string, pyval) dict option) \<Rightarrow> string \<Rightarrow> (string, pyval) dict result" where
  "verify_jwt verify token =
     (case verify token of
        None \<Rightarrow> Inl (AuthenticationError ''OIDC access token validation failed.'')
      | Some claims \<Rightarrow> Inr claims)"

definition authenticated_user_from_oidc_token ::
    "(pyval \<Rightarrow> string) \<Rightarrow> (string \<Rightarrow> (string, pyval) dict option) \<Rightarrow> string \<Rightarrow> auth_settings \<Rightarrow>
     AuthenticatedUser result" where
  "authenticated_user_from_oidc_token rp verify token cfg =
     (case verify_jwt verify token of Inl e \<Rightarrow> Inl e | Inr claims \<Rightarrow>
      case required_claim rp claims ''sub'' of Inl e \<Rightarrow> Inl e | Inr subject \<Rightarrow>
      case required_claim rp claims (as_oidc_organization_claim cfg) of Inl e \<Rightarrow> Inl e | Inr organization_id \<Rightarrow>
      case parse_workspace_ids (claim_values rp (pget claims (as_oidc_workspaces_claim cfg))) of
        Inl e \<Rightarrow> Inl e | Inr workspaces \<Rightarrow>
      case parse_roles (claim_values rp (pget claims (as_oidc_roles_claim cfg))) of Inl e \<Rightarrow> Inl e | Inr parsed \<Rightarrow>
        Inr \<lparr>u_id = subject,
             u_name = Some (strip (if truthy (pget claims ''name'') then py_str rp (pget claims ''name'')
               else if truthy (pget claims ''preferred_username'')
                    then py_str rp (pget claims ''preferred_username'') else subject)),
             u_roles = parsed, u_organization_id = organization_id, u_workspace_ids = workspaces,
             u_workspace_id = hd workspaces\<rparr>)"

section \<open>The API dependencies\<close>

text \<open>The two ways a request ends early: an answer with a status, or an exception no handler expects.\<close>

datatype api_failure = HTTPException int string | Uncaught exn

definition auth_failure :: "exn \<Rightarrow> api_failure" where
  "auth_failure e =
     (case e of
        AuthorizationError m \<Rightarrow> HTTPException 403 m
      | AuthenticationError m \<Rightarrow> HTTPException 401 m
      | _ \<Rightarrow> Uncaught e)"

definition get_current_user ::
    "(pyval \<Rightarrow> string) \<Rightarrow> (string \<Rightarrow> (string, pyval) dict option) \<Rightarrow> auth_settings \<Rightarrow>
     (string, string) dict \<Rightarrow> api_failure + AuthenticatedUser" where
  "get_current_user rp verify cfg headers =
     (case (case (if as_auth_mode cfg = ''oidc'' then
                    (case oidc_bearer_token headers of Inl e \<Rightarrow> Inl e
                     | Inr token \<Rightarrow> authenticated_user_from_oidc_token rp verify token cfg)
                  else authenticated_user_from_headers headers (as_auth_mode cfg = ''token'') cfg) of
              Inl e \<Rightarrow> Inl e
            | Inr user \<Rightarrow> in_workspace user (header headers ''x-aeai-workspace-id'')) of
        Inl e \<Rightarrow> Inl (auth_failure e)
      | Inr user \<Rightarrow> Inr user)"

definition require_permission :: "AuthPermission \<Rightarrow> AuthenticatedUser \<Rightarrow> api_failure + AuthenticatedUser" where
  "require_permission permission user =
     (case ensure_permission user permission of
        Inl e \<Rightarrow> Inl (HTTPException 403 (exn_message e))
      | Inr u \<Rightarrow> Inr user)"

record SessionResponse =
  sr_user_id :: string
  sr_name :: "string option"
  sr_roles :: "string list"
  sr_organization_id :: string
  sr_workspace_ids :: "string list"
  sr_active_workspace_id :: string
  sr_permissions :: "string list"

definition current_session :: "AuthenticatedUser \<Rightarrow> SessionResponse" where
  "current_session user =
     \<lparr>sr_user_id = u_id user, sr_name = u_name user, sr_roles = map role_value (u_roles user),
      sr_organization_id = u_organization_id user, sr_workspace_ids = u_workspace_ids user,
      sr_active_workspace_id = u_workspace_id user,
      sr_permissions = map permission_value (filter (has_permission user) all_permissions)\<rparr>"

end
