(* ===== verification/Auth_Properties.thy ===== *)
theory Auth_Properties
  imports Auth
begin

text \<open>
  Every authenticated user is well formed and acts in one of its workspaces, a token is only
  accepted when it is configured, and the role table decides each permission.
\<close>

section \<open>Well-formed users\<close>

definition user_ok :: "AuthenticatedUser \<Rightarrow> bool" where
  "user_ok user \<longleftrightarrow>
     u_id user \<noteq> [] \<and> u_organization_id user \<noteq> [] \<and> u_roles user \<noteq> [] \<and> distinct (u_roles user)
     \<and> distinct (u_workspace_ids user) \<and> [] \<notin> set (u_workspace_ids user)
     \<and> u_workspace_id user \<in> set (u_workspace_ids user)"

lemma parse_role_list_distinct: "parse_role_list acc cs = Inr rs \<Longrightarrow> distinct acc \<Longrightarrow> distinct rs"
  by (induction acc cs rule: parse_role_list.induct)
    (auto simp: Let_def split: if_splits option.splits)

lemma parse_roles_ok: "parse_roles cs = Inr rs \<Longrightarrow> rs \<noteq> [] \<and> distinct rs"
  by (auto simp: parse_roles_def split: sum.splits if_splits dest: parse_role_list_distinct)

lemma parse_workspace_ids_ok:
  "parse_workspace_ids cs = Inr ws \<Longrightarrow> distinct ws \<and> [] \<notin> set ws \<and> hd ws \<in> set ws"
proof -
  assume "parse_workspace_ids cs = Inr ws"
  then have ws: "ws = fromkeys (filter (\<lambda>w. w \<noteq> []) (map strip cs))" and ne: "ws \<noteq> []"
    by (auto simp: parse_workspace_ids_def Let_def split: if_splits)
  have "set ws = set (filter (\<lambda>w. w \<noteq> []) (map strip cs))" unfolding ws by simp
  then have "[] \<notin> set ws" by auto
  moreover have "distinct ws" unfolding ws by simp
  ultimately show ?thesis using hd_in_set [OF ne] by blast
qed

lemma auth_normalize_required_ok: "auth_normalize_required v label = Inr t \<Longrightarrow> t \<noteq> []"
  by (auto simp: auth_normalize_required_def Let_def split: if_splits)

lemmas parsed_ok = parse_roles_ok parse_workspace_ids_ok auth_normalize_required_ok

lemma local_user_ok: "local_development_user i name rs org ws = Inr user \<Longrightarrow> user_ok user"
  by (auto simp: local_development_user_def user_ok_def split: sum.splits dest: parsed_ok)

lemma parse_profile_ok:
  assumes "parse_profile org ws profiles p = Inr profiles'" and "\<forall>(t, u) \<in> set profiles. t \<noteq> [] \<and> user_ok u"
  shows "\<forall>(t, u) \<in> set profiles'. t \<noteq> [] \<and> user_ok u"
  using assms
  by (auto simp: parse_profile_def Let_def user_ok_def split: prod.splits if_splits sum.splits
      dest!: mem_dict_set dest: parsed_ok)

lemma parse_profile_list_ok:
  "parse_profile_list org ws profiles raws = Inr profiles' \<Longrightarrow>
     \<forall>(t, u) \<in> set profiles. t \<noteq> [] \<and> user_ok u \<Longrightarrow> \<forall>(t, u) \<in> set profiles'. t \<noteq> [] \<and> user_ok u"
proof (induction org ws profiles raws rule: parse_profile_list.induct)
  case (2 org ws profiles raw rest)
  show ?case
  proof (cases "strip raw = []")
    case False
    with "2.prems" obtain profiles1 where one: "parse_profile org ws profiles (strip raw) = Inr profiles1"
      and rest: "parse_profile_list org ws profiles1 rest = Inr profiles'"
      by (auto split: sum.splits)
    from "2.IH"(2) [OF False one rest parse_profile_ok [OF one "2.prems"(2)]] show ?thesis .
  qed (use 2 in simp)
qed simp

lemma parse_token_profiles_ok:
  "parse_token_profiles raw org ws = Inr profiles \<Longrightarrow> (t, u) \<in> set profiles \<Longrightarrow> t \<noteq> [] \<and> user_ok u"
  unfolding parse_token_profiles_def by (drule parse_profile_list_ok) auto

lemma match_token_sound: "match_token token profiles = Inr user \<Longrightarrow> (token, user) \<in> set profiles"
  by (induction token profiles rule: match_token.induct)
    (auto simp: compare_digest_def split: if_splits)

lemma in_workspace_ok: "in_workspace user w = Inr user' \<Longrightarrow> user_ok user \<Longrightarrow> user_ok user'"
  by (auto simp: in_workspace_def Let_def user_ok_def split: if_splits option.splits)

text \<open>The token a request presents: the bearer token, or else the API key header.\<close>

definition presented_token :: "(string, string) dict \<Rightarrow> string option" where
  "presented_token headers =
     (case header_bearer_token headers of
        Inl e \<Rightarrow> None
      | Inr (Some t) \<Rightarrow> Some t
      | Inr None \<Rightarrow> header headers ''x-aeai-api-key'')"

lemma token_user:
  assumes "authenticated_user_from_headers headers True cfg = Inr user"
  shows "\<exists>token profiles. presented_token headers = Some token
     \<and> parse_token_profiles (as_token_profiles cfg) (as_local_organization_id cfg) (as_local_workspace_ids cfg)
         = Inr profiles
     \<and> (token, user) \<in> set profiles"
  using assms
  by (auto simp: authenticated_user_from_headers_def presented_token_def dest!: match_token_sound
      split: sum.splits option.splits if_splits)

lemma oidc_user_ok: "authenticated_user_from_oidc_token rp verify token cfg = Inr user \<Longrightarrow> user_ok user"
  by (auto simp: authenticated_user_from_oidc_token_def required_claim_def Let_def user_ok_def
      split: sum.splits if_splits dest: parsed_ok)

lemma headers_user_ok: "authenticated_user_from_headers headers enabled cfg = Inr user \<Longrightarrow> user_ok user"
  using token_user [of headers cfg user] parse_token_profiles_ok local_user_ok
  by (cases enabled) (auto simp: authenticated_user_from_headers_def)

lemma current_user_cases:
  assumes "get_current_user rp verify cfg headers = Inr user"
  obtains (oidc) token u where "as_auth_mode cfg = ''oidc''" and "oidc_bearer_token headers = Inr token"
      and "authenticated_user_from_oidc_token rp verify token cfg = Inr u"
      and "in_workspace u (header headers ''x-aeai-workspace-id'') = Inr user"
  | (headers) u where "as_auth_mode cfg \<noteq> ''oidc''"
      and "authenticated_user_from_headers headers (as_auth_mode cfg = ''token'') cfg = Inr u"
      and "in_workspace u (header headers ''x-aeai-workspace-id'') = Inr user"
  using assms by (auto simp: get_current_user_def split: sum.splits if_splits)

text \<open>
  C27: Every user the API authenticates, by token, by OIDC or as the local development user, has
  an id, an organization, at least one role without repetition, and acts in one of its own non-
  blank workspaces.
\<close>

theorem authenticated_users_wellformed:
  assumes "get_current_user rp verify cfg headers = Inr user"
  shows "user_ok user"
  using assms
  by (cases rule: current_user_cases) (auto intro: in_workspace_ok oidc_user_ok headers_user_ok)

section \<open>Tokens\<close>

text \<open>
  C28: With token authentication a request is accepted only when the token it presents is,
  character by character, a configured one; the user is the one configured for it, in one of the
  configured workspaces.
\<close>

theorem token_authentication_sound:
  assumes "as_auth_mode cfg = ''token''" and "get_current_user rp verify cfg headers = Inr user"
  shows "\<exists>token profiles configured. presented_token headers = Some token \<and> token \<noteq> []
     \<and> parse_token_profiles (as_token_profiles cfg) (as_local_organization_id cfg) (as_local_workspace_ids cfg)
         = Inr profiles
     \<and> (token, configured) \<in> set profiles
     \<and> user = configured\<lparr>u_workspace_id := u_workspace_id user\<rparr>
     \<and> u_workspace_id user \<in> set (u_workspace_ids configured)"
  using assms(2)
proof (cases rule: current_user_cases)
  case (headers u)
  with assms(1) token_user [of headers cfg u] obtain token profiles where
    t: "presented_token headers = Some token" "(token, u) \<in> set profiles"
      "parse_token_profiles (as_token_profiles cfg) (as_local_organization_id cfg) (as_local_workspace_ids cfg)
         = Inr profiles" by auto
  moreover have "user = u\<lparr>u_workspace_id := u_workspace_id user\<rparr>" "u_workspace_id user \<in> set (u_workspace_ids u)"
    using headers(3) by (auto simp: in_workspace_def Let_def split: if_splits)
  ultimately show ?thesis using parse_token_profiles_ok [OF t(3,2)] by blast
qed (use assms(1) in simp)

text \<open>
  With token authentication a presented token with a non-ASCII character raises a TypeError
  that the dependency does not turn into a 401 answer, whatever profiles are configured.
\<close>

theorem non_ascii_token_escapes:
  assumes "as_auth_mode cfg = ''token''" and "presented_token headers = Some token" and "\<not> is_ascii token"
    and "parse_token_profiles (as_token_profiles cfg) (as_local_organization_id cfg) (as_local_workspace_ids cfg)
      = Inr profiles" and "profiles \<noteq> []"
  shows "get_current_user rp verify cfg headers =
     Inl (Uncaught (TypeError ''comparing strings with non-ASCII characters is not supported''))"
proof -
  obtain t u rest where p: "profiles = (t, u) # rest" using assms(5) by (cases profiles) auto
  from assms(2) consider "header_bearer_token headers = Inr (Some token)"
    | "header_bearer_token headers = Inr None" "header headers ''x-aeai-api-key'' = Some token"
    by (auto simp: presented_token_def split: sum.splits option.splits)
  then have "authenticated_user_from_headers headers True cfg = match_token token profiles"
    using assms(4,5) by cases (simp_all add: authenticated_user_from_headers_def)
  then show ?thesis
    using assms(1,3) p by (simp add: get_current_user_def compare_digest_def auth_failure_def)
qed

section \<open>Permissions\<close>

text \<open>
  C29: A permission check passes exactly when the user has a role the table grants it to:
  reading any role, writing operator or admin, approving reviewer, approver or admin,
  administering admin.
\<close>

theorem permission_matrix:
  "require_permission permission user = Inr user \<longleftrightarrow>
     (case permission of
        READ_RUNS \<Rightarrow> u_roles user \<noteq> []
      | MUTATE_RUNS \<Rightarrow> OPERATOR \<in> set (u_roles user) \<or> ADMIN \<in> set (u_roles user)
      | APPROVE_RUNS \<Rightarrow> REVIEWER \<in> set (u_roles user) \<or> APPROVER \<in> set (u_roles user) \<or> ADMIN \<in> set (u_roles user)
      | ADMINISTER \<Rightarrow> ADMIN \<in> set (u_roles user))"
proof -
  have perms: "permission \<in> set (ROLE_PERMISSIONS role) \<longleftrightarrow>
     (case permission of READ_RUNS \<Rightarrow> True | MUTATE_RUNS \<Rightarrow> role \<in> {OPERATOR, ADMIN}
      | APPROVE_RUNS \<Rightarrow> role \<in> {REVIEWER, APPROVER, ADMIN} | ADMINISTER \<Rightarrow> role = ADMIN)" for role
    by (cases role; cases permission) simp_all
  have "require_permission permission user = Inr user \<longleftrightarrow> has_permission user permission"
    by (simp add: require_permission_def ensure_permission_def)
  also have "\<dots> \<longleftrightarrow> (\<exists>role \<in> set (u_roles user). permission \<in> set (ROLE_PERMISSIONS role))"
    by (simp add: has_permission_def list_ex_iff)
  finally show ?thesis
    unfolding perms by (cases permission; cases "u_roles user") auto
qed

section \<open>A configuration\<close>

definition demo_settings :: auth_settings where
  "demo_settings = \<lparr>as_auth_mode = ''token'', as_token_profiles = ''k1=ann|Ann|operator;k2=bob||viewer|org2|w1,w2'',
     as_local_user_id = ''dev'', as_local_user_name = None, as_local_roles = ''admin'',
     as_local_organization_id = ''local-org'', as_local_workspace_ids = ''default'',
     as_oidc_roles_claim = ''roles'', as_oidc_organization_claim = ''organization_id'',
     as_oidc_workspaces_claim = ''workspace_ids''\<rparr>"

definition bob_in_w2 :: AuthenticatedUser where
  "bob_in_w2 = \<lparr>u_id = ''bob'', u_name = Some ''bob'', u_roles = [VIEWER], u_organization_id = ''org2'',
     u_workspace_ids = [''w1'', ''w2''], u_workspace_id = ''w2''\<rparr>"

lemma demo_login:
  "get_current_user (\<lambda>v. []) (\<lambda>t. None) demo_settings
     [(''authorization'', ''Bearer k2''), (''x-aeai-workspace-id'', ''w2'')] = Inr bob_in_w2"
  by code_simp

theorem authenticated_users_wellformed_witness: "user_ok bob_in_w2"
  by (rule authenticated_users_wellformed [OF demo_login])

theorem token_authentication_sound_witness:
  "\<exists>token profiles. presented_token [(''authorization'', ''Bearer k2''), (''x-aeai-workspace-id'', ''w2'')] = Some token
     \<and> parse_token_profiles (as_token_profiles demo_settings) ''local-org'' ''default'' = Inr profiles
     \<and> token \<in> set (dict_keys profiles)"
proof -
  have "as_auth_mode demo_settings = ''token''" by (simp add: demo_settings_def)
  from token_authentication_sound [OF this demo_login] show ?thesis
    by (force simp: demo_settings_def)
qed

theorem non_ascii_token_escapes_witness:
  "get_current_user (\<lambda>v. []) (\<lambda>t. None) demo_settings [(''authorization'', ''Bearer '' @ [CHR 0xE9])] =
     Inl (Uncaught (TypeError ''comparing strings with non-ASCII characters is not supported''))"
proof -
  have "\<not> isl (parse_token_profiles (as_token_profiles demo_settings) ''local-org'' ''default'')
      \<and> projr (parse_token_profiles (as_token_profiles demo_settings) ''local-org'' ''default'') \<noteq> []"
    by code_simp
  then obtain profiles where "parse_token_profiles (as_token_profiles demo_settings)
      (as_local_organization_id demo_settings) (as_local_workspace_ids demo_settings) = Inr profiles" "profiles \<noteq> []"
    by (metis (no_types, lifting) auth_settings.select_convs(6,7) demo_settings_def sum.collapse(2))
  moreover have "presented_token [(''authorization'', ''Bearer '' @ [CHR 0xE9])] = Some [CHR 0xE9]" by code_simp
  moreover have "\<not> is_ascii [CHR 0xE9]" by code_simp
  moreover have "as_auth_mode demo_settings = ''token''" by (simp add: demo_settings_def)
  ultimately show ?thesis using non_ascii_token_escapes by blast
qed

end
