(* ===== verification/Sql_Models.thy ===== *)
theory Sql_Models
  imports Run_Repository
begin

text \<open>
  storage/sqlalchemy_models.py and the row conversions of runs/sqlalchemy_repository.py.

  SQLAlchemy and the database are not part of the repository. A mapped class is a record
  of five operations on a database of unspecified type: session.get, session.add followed
  by a flush, the flush of a changed object, a select with a condition ordered by
  created_at, and a bulk delete. What the proofs need of them is stated in Sql_Refinement.
  A row keeps its status and type as strings, as the columns do; reading it back may raise
  ValueError. Times are instants, so that the conversions of _utc_datetime, which give an
  instant the zone UTC, are the identity. A JSON column is a dictionary or list that is
  never null.
\<close>

section \<open>Rows\<close>

record RunModel =
  mr_id :: string
  mr_task :: string
  mr_status :: string
  mr_metadata_json :: "(string, pyval) dict"
  mr_dataset_artifact_id :: "string option"
  mr_trace_id :: "string option"
  mr_error_summary :: "string option"
  mr_created_at :: int
  mr_updated_at :: int

record GraphNodeModel =
  mn_id :: string
  mn_run_id :: string
  mn_agent_type :: string
  mn_status :: string
  mn_depends_on :: "string list"
  mn_required_tools :: "string list"
  mn_expected_artifacts :: "string list"
  mn_retry_count :: int
  mn_started_at :: "int option"
  mn_finished_at :: "int option"
  mn_created_at :: int
  mn_updated_at :: int

record ArtifactModel =
  ma_id :: string
  ma_run_id :: string
  ma_producer_node_id :: "string option"
  ma_type :: string
  ma_uri :: string
  ma_metadata_json :: "(string, pyval) dict"
  ma_content_type :: "string option"
  ma_storage_backend :: "string option"
  ma_storage_key :: "string option"
  ma_size_bytes :: "int option"
  ma_source_artifact_ids :: "string list"
  ma_created_at :: int

record WorkflowJobModel =
  mj_id :: string
  mj_run_id :: string
  mj_workflow_name :: string
  mj_status :: string
  mj_payload :: "(string, pyval) dict"
  mj_attempt_count :: int
  mj_max_attempts :: int
  mj_worker_id :: "string option"
  mj_error_summary :: "string option"
  mj_started_at :: "int option"
  mj_finished_at :: "int option"
  mj_heartbeat_at :: "int option"
  mj_created_at :: int
  mj_updated_at :: int

record AgentEventModel =
  me_id :: string
  me_run_id :: string
  me_node_id :: string
  me_event_type :: string
  me_payload :: "(string, pyval) dict"
  me_created_at :: int

record RunCheckpointModel =
  mc_run_id :: string
  mc_version :: int
  mc_state_json :: pyval
  mc_created_at :: int
  mc_updated_at :: int

record EvaluationResultModel =
  mv_id :: string
  mv_run_id :: string
  mv_target_artifact_id :: "string option"
  mv_score :: rat
  mv_passed :: bool
  mv_checks :: "pyval list"
  mv_created_at :: int

section \<open>Sessions\<close>

record ('d, 'k, 'm) sql_table =
  tb_get :: "'k \<Rightarrow> 'd \<Rightarrow> 'm option"
  tb_add :: "'m \<Rightarrow> 'd \<Rightarrow> 'd option"
  tb_save :: "'m \<Rightarrow> 'd \<Rightarrow> 'd"
  tb_select :: "('m \<Rightarrow> bool) \<Rightarrow> 'd \<Rightarrow> 'm list"
  tb_delete :: "('m \<Rightarrow> bool) \<Rightarrow> 'd \<Rightarrow> 'd"

record 'd sql_orm =
  om_runs :: "('d, string, RunModel) sql_table"
  om_nodes :: "('d, string \<times> string, GraphNodeModel) sql_table"
  om_artifacts :: "('d, string, ArtifactModel) sql_table"
  om_jobs :: "('d, string, WorkflowJobModel) sql_table"
  om_events :: "('d, string, AgentEventModel) sql_table"
  om_checkpoints :: "('d, string, RunCheckpointModel) sql_table"
  om_evaluations :: "('d, string, EvaluationResultModel) sql_table"

text \<open>The database as committed, and as the open session sees it.\<close>

record 'd sql_state = env +
  committed :: 'd
  session :: 'd

text \<open>
  with self._session_factory() as session: the session starts from the committed database,
  and what it did not commit is rolled back when it closes, after an exception as well.
\<close>

definition with_session :: "(('d, 'z) sql_state_scheme, 'a) py \<Rightarrow> (('d, 'z) sql_state_scheme, 'a) py" where
  "with_session body =
     (\<lambda>s. case body (s\<lparr>session := committed s\<rparr>) of (x, s') \<Rightarrow> (x, s'\<lparr>session := committed s'\<rparr>))"

definition commit :: "(('d, 'z) sql_state_scheme, unit) py" where
  "commit = modify (\<lambda>s. s\<lparr>committed := session s\<rparr>)"

definition sql_get :: "('d, 'k, 'm) sql_table \<Rightarrow> 'k \<Rightarrow> (('d, 'z) sql_state_scheme, 'm option) py" where
  "sql_get tb k = asks (\<lambda>s. tb_get tb k (session s))"

definition sql_select ::
    "('d, 'k, 'm) sql_table \<Rightarrow> ('m \<Rightarrow> bool) \<Rightarrow> (('d, 'z) sql_state_scheme, 'm list) py" where
  "sql_select tb p = asks (\<lambda>s. tb_select tb p (session s))"

definition sql_add :: "('d, 'k, 'm) sql_table \<Rightarrow> 'm \<Rightarrow> (('d, 'z) sql_state_scheme, unit) py" where
  "sql_add tb m =
     bnd (asks session) (\<lambda>d. case tb_add tb m d of
       None \<Rightarrow> raise (OtherError ''IntegrityError'' ''a row with this key exists'')
     | Some d' \<Rightarrow> modify (\<lambda>s. s\<lparr>session := d'\<rparr>))"

definition sql_save :: "('d, 'k, 'm) sql_table \<Rightarrow> 'm \<Rightarrow> (('d, 'z) sql_state_scheme, unit) py" where
  "sql_save tb m = modify (\<lambda>s. s\<lparr>session := tb_save tb m (session s)\<rparr>)"

definition sql_delete ::
    "('d, 'k, 'm) sql_table \<Rightarrow> ('m \<Rightarrow> bool) \<Rightarrow> (('d, 'z) sql_state_scheme, unit) py" where
  "sql_delete tb p = modify (\<lambda>s. s\<lparr>session := tb_delete tb p (session s)\<rparr>)"

section \<open>Enumerations from their values\<close>

definition run_status_of :: "string \<Rightarrow> RunStatus result" where
  "run_status_of v =
     (case find (\<lambda>st. run_status_value st = v)
             [RunPending, RunQueued, RunRunning, RunWaitingForApproval, RunCompleted, RunFailed] of
        None \<Rightarrow> Inl (ValueError (v @ '' is not a valid RunStatus'')) | Some st \<Rightarrow> Inr st)"

definition job_status_of :: "string \<Rightarrow> WorkflowJobStatus result" where
  "job_status_of v =
     (case find (\<lambda>st. job_status_value st = v)
             [JobQueued, JobRunning, JobWaitingForApproval, JobCompleted, JobFailed, JobDeadLetter,
              JobDismissed] of
        None \<Rightarrow> Inl (ValueError (v @ '' is not a valid WorkflowJobStatus'')) | Some st \<Rightarrow> Inr st)"

definition node_status_of :: "string \<Rightarrow> GraphNodeStatus result" where
  "node_status_of v =
     (case find (\<lambda>st. node_status_value st = v)
             [NodePending, NodeRunning, NodeWaitingForApproval, NodeCompleted, NodeFailed, NodeSkipped] of
        None \<Rightarrow> Inl (ValueError (v @ '' is not a valid GraphNodeStatus'')) | Some st \<Rightarrow> Inr st)"

definition artifact_type_of :: "string \<Rightarrow> ArtifactType result" where
  "artifact_type_of v =
     (case find (\<lambda>t. artifact_type_value t = v) all_artifact_types of
        None \<Rightarrow> Inl (ValueError (v @ '' is not a valid ArtifactType'')) | Some t \<Rightarrow> Inr t)"

lemma run_status_of_value [simp]: "run_status_of (run_status_value st) = Inr st"
  by (cases st) (simp_all add: run_status_of_def)

lemma job_status_of_value [simp]: "job_status_of (job_status_value st) = Inr st"
  by (cases st) (simp_all add: job_status_of_def)

lemma node_status_of_value [simp]: "node_status_of (node_status_value st) = Inr st"
  by (cases st) (simp_all add: node_status_of_def)

lemma artifact_type_of_value [simp]: "artifact_type_of (artifact_type_value t) = Inr t"
  by (cases t) (simp_all add: artifact_type_of_def all_artifact_types_def)

lemma job_status_value_inj [simp]: "job_status_value a = job_status_value b \<longleftrightarrow> a = b"
  by (cases a; cases b) simp_all

section \<open>Records from rows\<close>

definition run_from_model :: "RunModel \<Rightarrow> RunRecord result" where
  "run_from_model m =
     (case run_status_of (mr_status m) of Inl e \<Rightarrow> Inl e | Inr st \<Rightarrow> Inr
        \<lparr>r_id = mr_id m, r_task = mr_task m, r_status = st, r_metadata = mr_metadata_json m,
         r_created_at = mr_created_at m, r_updated_at = mr_updated_at m,
         r_dataset_artifact_id = mr_dataset_artifact_id m, r_trace_id = mr_trace_id m,
         r_error_summary = mr_error_summary m\<rparr>)"

definition workflow_job_from_model :: "WorkflowJobModel \<Rightarrow> WorkflowJobRecord result" where
  "workflow_job_from_model m =
     (case job_status_of (mj_status m) of Inl e \<Rightarrow> Inl e | Inr st \<Rightarrow> Inr
        \<lparr>j_id = mj_id m, j_run_id = mj_run_id m, j_workflow_name = mj_workflow_name m, j_status = st,
         j_payload = mj_payload m, j_attempt_count = mj_attempt_count m,
         j_max_attempts = mj_max_attempts m, j_created_at = mj_created_at m,
         j_updated_at = mj_updated_at m, j_worker_id = mj_worker_id m,
         j_error_summary = mj_error_summary m, j_started_at = mj_started_at m,
         j_finished_at = mj_finished_at m, j_heartbeat_at = mj_heartbeat_at m\<rparr>)"

definition artifact_from_model ::
    "(string \<Rightarrow> string) \<Rightarrow> (pyval \<Rightarrow> string) \<Rightarrow> ArtifactModel \<Rightarrow> ArtifactRecord result" where
  "artifact_from_model ru rp m =
     (let sm = artifact_storage_metadata ru rp (ma_metadata_json m) (ma_content_type m)
                 (ma_storage_backend m) (ma_storage_key m) (ma_size_bytes m) in
      case artifact_type_of (ma_type m) of Inl e \<Rightarrow> Inl e | Inr t \<Rightarrow> Inr
        \<lparr>a_id = ma_id m, a_run_id = ma_run_id m, a_type = t, a_uri = ma_uri m,
         a_metadata = ma_metadata_json m, a_source_artifact_ids = ma_source_artifact_ids m,
         a_created_at = ma_created_at m, a_producer_node_id = ma_producer_node_id m,
         a_content_type = sm_content_type sm, a_storage_backend = sm_storage_backend sm,
         a_storage_key = sm_storage_key sm, a_size_bytes = sm_size_bytes sm\<rparr>)"

definition graph_node_from_model :: "GraphNodeModel \<Rightarrow> GraphNodeRecord result" where
  "graph_node_from_model m =
     (case node_status_of (mn_status m) of Inl e \<Rightarrow> Inl e | Inr st \<Rightarrow> Inr
        \<lparr>n_id = mn_id m, n_run_id = mn_run_id m, n_agent_type = mn_agent_type m, n_status = st,
         n_depends_on = mn_depends_on m, n_required_tools = mn_required_tools m,
         n_expected_artifacts = mn_expected_artifacts m, n_retry_count = mn_retry_count m,
         n_created_at = mn_created_at m, n_updated_at = mn_updated_at m,
         n_started_at = mn_started_at m, n_finished_at = mn_finished_at m\<rparr>)"

definition event_from_model :: "AgentEventModel \<Rightarrow> AgentEventRecord" where
  "event_from_model m =
     \<lparr>e_id = me_id m, e_run_id = me_run_id m, e_node_id = me_node_id m,
      e_event_type = me_event_type m, e_payload = me_payload m, e_created_at = me_created_at m\<rparr>"

definition evaluation_from_model :: "EvaluationResultModel \<Rightarrow> EvaluationResultRecord" where
  "evaluation_from_model m =
     \<lparr>v_id = mv_id m, v_run_id = mv_run_id m, v_score = mv_score m, v_passed = mv_passed m,
      v_checks = mv_checks m, v_created_at = Some (mv_created_at m),
      v_target_artifact_id = mv_target_artifact_id m\<rparr>"

text \<open>deepcopy(model.state_json or {})\<close>

definition checkpoint_from_model :: "RunCheckpointModel \<Rightarrow> RunCheckpointRecord" where
  "checkpoint_from_model m =
     \<lparr>c_run_id = mc_run_id m,
      c_state = (if truthy (mc_state_json m) then mc_state_json m else PDict []),
      c_version = mc_version m, c_created_at = mc_created_at m, c_updated_at = mc_updated_at m\<rparr>"

section \<open>Rows from records\<close>

definition run_to_model :: "(string \<Rightarrow> string) \<Rightarrow> RunRecord \<Rightarrow> RunModel" where
  "run_to_model ru run =
     \<lparr>mr_id = r_id run, mr_task = r_task run, mr_status = run_status_value (r_status run),
      mr_metadata_json = redact_dict ru (r_metadata run),
      mr_dataset_artifact_id = r_dataset_artifact_id run, mr_trace_id = r_trace_id run,
      mr_error_summary = redact_opt ru (r_error_summary run), mr_created_at = r_created_at run,
      mr_updated_at = r_updated_at run\<rparr>"

definition artifact_to_model :: "(string \<Rightarrow> string) \<Rightarrow> ArtifactRecord \<Rightarrow> ArtifactModel" where
  "artifact_to_model ru a =
     \<lparr>ma_id = a_id a, ma_run_id = a_run_id a, ma_producer_node_id = a_producer_node_id a,
      ma_type = artifact_type_value (a_type a), ma_uri = ru (a_uri a),
      ma_metadata_json = redact_dict ru (a_metadata a), ma_content_type = a_content_type a,
      ma_storage_backend = a_storage_backend a,
      ma_storage_key = (case a_storage_key a of None \<Rightarrow> None
                        | Some k \<Rightarrow> if k = [] then None else Some (ru k)),
      ma_size_bytes = a_size_bytes a, ma_source_artifact_ids = a_source_artifact_ids a,
      ma_created_at = a_created_at a\<rparr>"

definition graph_node_to_model :: "GraphNodeRecord \<Rightarrow> GraphNodeModel" where
  "graph_node_to_model n =
     \<lparr>mn_id = n_id n, mn_run_id = n_run_id n, mn_agent_type = n_agent_type n,
      mn_status = node_status_value (n_status n), mn_depends_on = n_depends_on n,
      mn_required_tools = n_required_tools n, mn_expected_artifacts = n_expected_artifacts n,
      mn_retry_count = n_retry_count n, mn_started_at = n_started_at n,
      mn_finished_at = n_finished_at n, mn_created_at = n_created_at n,
      mn_updated_at = n_updated_at n\<rparr>"

definition event_to_model :: "(string \<Rightarrow> string) \<Rightarrow> AgentEventRecord \<Rightarrow> AgentEventModel" where
  "event_to_model ru e =
     \<lparr>me_id = e_id e, me_run_id = e_run_id e, me_node_id = e_node_id e,
      me_event_type = e_event_type e, me_payload = redact_dict ru (e_payload e),
      me_created_at = e_created_at e\<rparr>"

definition evaluation_to_model ::
    "(string \<Rightarrow> string) \<Rightarrow> EvaluationResultRecord \<Rightarrow> EvaluationResultModel result" where
  "evaluation_to_model ru v =
     (case v_created_at v of
        None \<Rightarrow> Inl (ValueError (''Evaluation record is missing created_at: '' @ v_id v))
      | Some t \<Rightarrow> Inr
          \<lparr>mv_id = v_id v, mv_run_id = v_run_id v, mv_target_artifact_id = v_target_artifact_id v,
           mv_score = v_score v, mv_passed = v_passed v,
           mv_checks = map (redact_value ru None) (v_checks v), mv_created_at = t\<rparr>)"

definition workflow_job_to_model :: "(string \<Rightarrow> string) \<Rightarrow> WorkflowJobRecord \<Rightarrow> WorkflowJobModel" where
  "workflow_job_to_model ru j =
     \<lparr>mj_id = j_id j, mj_run_id = j_run_id j, mj_workflow_name = j_workflow_name j,
      mj_status = job_status_value (j_status j), mj_payload = redact_dict ru (j_payload j),
      mj_attempt_count = j_attempt_count j, mj_max_attempts = j_max_attempts j,
      mj_worker_id = j_worker_id j, mj_error_summary = redact_opt ru (j_error_summary j),
      mj_started_at = j_started_at j, mj_finished_at = j_finished_at j,
      mj_heartbeat_at = j_heartbeat_at j, mj_created_at = j_created_at j,
      mj_updated_at = j_updated_at j\<rparr>"

definition checkpoint_to_model :: "(string \<Rightarrow> string) \<Rightarrow> RunCheckpointRecord \<Rightarrow> RunCheckpointModel" where
  "checkpoint_to_model ru c =
     \<lparr>mc_run_id = c_run_id c, mc_version = c_version c,
      mc_state_json = redact_value ru None (c_state c), mc_created_at = c_created_at c,
      mc_updated_at = c_updated_at c\<rparr>"

section \<open>Running\<close>

lemma with_session_run [py_simps]:
  "with_session body s =
     (case body (s\<lparr>session := committed s\<rparr>) of (x, s') \<Rightarrow> (x, s'\<lparr>session := committed s'\<rparr>))"
  by (simp add: with_session_def)

lemma sql_runs [py_simps]:
  "commit s = (Inr (), s\<lparr>committed := session s\<rparr>)"
  "sql_get tb k s = (Inr (tb_get tb k (session s)), s)"
  "sql_select tb p s = (Inr (tb_select tb p (session s)), s)"
  "sql_save tb m s = (Inr (), s\<lparr>session := tb_save tb m (session s)\<rparr>)"
  "sql_delete tb p s = (Inr (), s\<lparr>session := tb_delete tb p (session s)\<rparr>)"
  "sql_add tb m s =
     (case tb_add tb m (session s) of
        None \<Rightarrow> (Inl (OtherError ''IntegrityError'' ''a row with this key exists''), s)
      | Some d \<Rightarrow> (Inr (), s\<lparr>session := d\<rparr>))"
  by (simp_all add: commit_def sql_get_def sql_select_def sql_save_def sql_delete_def sql_add_def py_simps
      split: option.splits)

end
