(* ===== verification/Sql_Repository.thy ===== *)
theory Sql_Repository
  imports Sql_Models
begin

text \<open>
  runs/sqlalchemy_repository.py: the operations of SQLAlchemyRunRepository, in the order of
  the file. Every operation runs in a session of its own and commits once, at its end;
  the claims that first recover timed-out jobs do so in a session before theirs. Row locks
  (with_for_update) keep concurrent sessions apart, so that concurrent callers are
  sequences of these programs; skip_locked only matters between them.
\<close>

section \<open>Helpers\<close>

definition get_run_model :: "'d sql_orm \<Rightarrow> string \<Rightarrow> (('d, 'z) sql_state_scheme, RunModel) py" where
  "get_run_model om run_id =
     bnd (sql_get (om_runs om) run_id) (\<lambda>found. case found of
       None \<Rightarrow> raise (RunNotFoundError (''Run not found: '' @ run_id)) | Some model \<Rightarrow> ret model)"

definition get_workflow_job_model ::
    "'d sql_orm \<Rightarrow> string \<Rightarrow> (('d, 'z) sql_state_scheme, WorkflowJobModel) py" where
  "get_workflow_job_model om job_id =
     bnd (sql_get (om_jobs om) job_id) (\<lambda>found. case found of
       None \<Rightarrow> raise (WorkflowJobNotFoundError (''Workflow job not found: '' @ job_id))
     | Some model \<Rightarrow> ret model)"

definition delete_run_children :: "'d sql_orm \<Rightarrow> string \<Rightarrow> (('d, 'z) sql_state_scheme, unit) py" where
  "delete_run_children om run_id =
     seq (sql_delete (om_evaluations om) (\<lambda>m. mv_run_id m = run_id))
     (seq (sql_delete (om_checkpoints om) (\<lambda>m. mc_run_id m = run_id))
     (seq (sql_delete (om_events om) (\<lambda>m. me_run_id m = run_id))
     (seq (sql_delete (om_nodes om) (\<lambda>m. mn_run_id m = run_id))
     (seq (sql_delete (om_artifacts om) (\<lambda>m. ma_run_id m = run_id))
          (sql_delete (om_jobs om) (\<lambda>m. mj_run_id m = run_id))))))"

definition ensure_job_model_owned_by_worker :: "WorkflowJobModel \<Rightarrow> string \<Rightarrow> ('s, unit) py" where
  "ensure_job_model_owned_by_worker model worker_id =
     bnd (lift_result (job_status_of (mj_status model))) (\<lambda>status.
     seq (guard (status = JobRunning)
            (WorkflowJobStateError (''Workflow job '' @ mj_id model @ '' is '' @ job_status_value status @ '', not running.'')))
         (guard (mj_worker_id model = Some worker_id)
            (WorkflowJobOwnershipError
               (''Workflow job '' @ mj_id model @ '' is owned by ''
                @ (case mj_worker_id model of None \<Rightarrow> ''None'' | Some w \<Rightarrow> w) @ '', not '' @ worker_id @ ''.''))))"

section \<open>Runs\<close>

definition sql_create_run ::
    "'d sql_orm \<Rightarrow> string \<Rightarrow> (string, pyval) dict \<Rightarrow> string option \<Rightarrow>
     (('d, 'z) sql_state_scheme, RunRecord) py" where
  "sql_create_run om task metadata trace_id =
     (let normalized_task = strip task in
      seq (guard (3 \<le> length normalized_task)
             (ValueError ''Task must contain at least 3 non-whitespace characters.''))
      (bnd utc_now (\<lambda>now.
       bnd uuid4_hex (\<lambda>u.
       bnd (asks uri_redactor) (\<lambda>ru.
       bnd (ensure_trace_id trace_id) (\<lambda>trace.
         let model = \<lparr>mr_id = ''run_'' @ u, mr_task = normalized_task,
               mr_status = run_status_value RunPending, mr_metadata_json = redact_dict ru metadata,
               mr_dataset_artifact_id = None, mr_trace_id = Some trace, mr_error_summary = None,
               mr_created_at = now, mr_updated_at = now\<rparr>
         in with_session
              (seq (sql_add (om_runs om) model)
              (seq commit (lift_result (run_from_model model))))))))))"

definition sql_list_runs :: "'d sql_orm \<Rightarrow> (('d, 'z) sql_state_scheme, RunRecord list) py" where
  "sql_list_runs om =
     with_session (bnd (sql_select (om_runs om) (\<lambda>m. True)) (\<lambda>models.
       map_each models (\<lambda>m. lift_result (run_from_model m))))"

definition sql_get_run :: "'d sql_orm \<Rightarrow> string \<Rightarrow> (('d, 'z) sql_state_scheme, RunRecord) py" where
  "sql_get_run om run_id =
     with_session (bnd (get_run_model om run_id) (\<lambda>model. lift_result (run_from_model model)))"

definition sql_restore_run ::
    "'d sql_orm \<Rightarrow> RunRecord \<Rightarrow> ArtifactRecord list \<Rightarrow> GraphNodeRecord list \<Rightarrow> AgentEventRecord list \<Rightarrow>
     EvaluationResultRecord list \<Rightarrow> WorkflowJobRecord list \<Rightarrow> RunCheckpointRecord option \<Rightarrow>
     (('d, 'z) sql_state_scheme, RunRecord) py" where
  "sql_restore_run om run arts nodes evs evals jobs checkpoint =
     with_session (bnd (asks uri_redactor) (\<lambda>ru.
       seq (delete_run_children om (r_id run))
       (seq (sql_delete (om_runs om) (\<lambda>m. mr_id m = r_id run))
       (seq (sql_add (om_runs om) (run_to_model ru run))
       (seq (for_each arts (\<lambda>a. sql_add (om_artifacts om) (artifact_to_model ru a)))
       (seq (for_each nodes (\<lambda>n. sql_add (om_nodes om) (graph_node_to_model n)))
       (seq (for_each evs (\<lambda>e. sql_add (om_events om) (event_to_model ru e)))
       (seq (for_each evals (\<lambda>v. bnd (lift_result (evaluation_to_model ru v)) (\<lambda>m.
               sql_add (om_evaluations om) m)))
       (seq (for_each jobs (\<lambda>j. sql_add (om_jobs om) (workflow_job_to_model ru j)))
       (seq (case checkpoint of None \<Rightarrow> ret ()
             | Some c \<Rightarrow> sql_add (om_checkpoints om) (checkpoint_to_model ru c))
       (seq commit
       (bnd (get_run_model om (r_id run)) (\<lambda>model. lift_result (run_from_model model))))))))))))))"

definition sql_update_status ::
    "'d sql_orm \<Rightarrow> string \<Rightarrow> RunStatus \<Rightarrow> string option \<Rightarrow> (('d, 'z) sql_state_scheme, RunRecord) py" where
  "sql_update_status om run_id status error_summary =
     with_session (bnd (get_run_model om run_id) (\<lambda>model.
       bnd (asks uri_redactor) (\<lambda>ru.
       bnd utc_now (\<lambda>now.
         let updated = model\<lparr>mr_status := run_status_value status,
               mr_error_summary := redact_opt ru error_summary, mr_updated_at := now\<rparr>
         in seq (sql_save (om_runs om) updated)
            (seq commit (lift_result (run_from_model updated)))))))"

section \<open>Workflow jobs\<close>

definition sql_enqueue_workflow_job ::
    "'d sql_orm \<Rightarrow> string \<Rightarrow> string \<Rightarrow> (string, pyval) dict \<Rightarrow> int \<Rightarrow> string option \<Rightarrow>
     WorkflowJobStatus \<Rightarrow> (('d, 'z) sql_state_scheme, WorkflowJobRecord) py" where
  "sql_enqueue_workflow_job om run_id workflow_name payload max_attempts job_id status =
     (let normalized_workflow = strip workflow_name in
      seq (guard (normalized_workflow \<noteq> []) (ValueError ''Workflow name is required.''))
      (seq (guard (1 \<le> max_attempts) (ValueError ''Workflow job max_attempts must be at least 1.''))
      (seq (guard (status \<noteq> JobRunning) (ValueError ''Workflow jobs cannot be enqueued directly as running.''))
      (with_session
        (bnd (get_run_model om run_id) (\<lambda>_.
         bnd utc_now (\<lambda>now.
         bnd (case job_id of
                Some i \<Rightarrow> (if i \<noteq> [] then ret i else bnd uuid4_hex (\<lambda>u. ret (''job_'' @ u)))
              | None \<Rightarrow> bnd uuid4_hex (\<lambda>u. ret (''job_'' @ u))) (\<lambda>new_id.
         bnd (asks uri_redactor) (\<lambda>ru.
           let model = \<lparr>mj_id = new_id, mj_run_id = run_id, mj_workflow_name = normalized_workflow,
                 mj_status = job_status_value status, mj_payload = redact_dict ru payload,
                 mj_attempt_count = 0, mj_max_attempts = max_attempts, mj_worker_id = None,
                 mj_error_summary = None, mj_started_at = None, mj_finished_at = None,
                 mj_heartbeat_at = None, mj_created_at = now, mj_updated_at = now\<rparr>
           in seq (sql_add (om_jobs om) model)
              (seq commit (lift_result (workflow_job_from_model model))))))))))))"

definition sql_update_workflow_job_result ::
    "'d sql_orm \<Rightarrow> string \<Rightarrow> WorkflowJobStatus \<Rightarrow> (string, pyval) dict option \<Rightarrow> string option \<Rightarrow>
     (('d, 'z) sql_state_scheme, WorkflowJobRecord) py" where
  "sql_update_workflow_job_result om job_id status payload error_summary =
     seq (guard (status \<in> {JobCompleted, JobFailed})
            (ValueError ''Workflow job result status must be completed or failed.''))
     (with_session (bnd (get_workflow_job_model om job_id) (\<lambda>model.
       bnd utc_now (\<lambda>now.
       bnd (asks uri_redactor) (\<lambda>ru.
         let updated = model\<lparr>mj_status := job_status_value status,
               mj_payload := (case payload of Some p \<Rightarrow> redact_dict ru p | None \<Rightarrow> mj_payload model),
               mj_error_summary := redact_opt ru error_summary, mj_updated_at := now,
               mj_finished_at := Some now\<rparr>
         in seq (sql_save (om_jobs om) updated)
            (seq commit (lift_result (workflow_job_from_model updated))))))))"

definition sql_list_workflow_jobs ::
    "'d sql_orm \<Rightarrow> string option \<Rightarrow> WorkflowJobStatus option \<Rightarrow>
     (('d, 'z) sql_state_scheme, WorkflowJobRecord list) py" where
  "sql_list_workflow_jobs om run_id status =
     with_session
       (seq (case run_id of None \<Rightarrow> ret () | Some r \<Rightarrow> bnd (get_run_model om r) (\<lambda>_. ret ()))
       (bnd (sql_select (om_jobs om) (\<lambda>m.
               (case run_id of None \<Rightarrow> True | Some r \<Rightarrow> mj_run_id m = r)
               \<and> (case status of None \<Rightarrow> True | Some st \<Rightarrow> mj_status m = job_status_value st))) (\<lambda>models.
          map_each models (\<lambda>m. lift_result (workflow_job_from_model m)))))"

definition sql_get_workflow_job ::
    "'d sql_orm \<Rightarrow> string \<Rightarrow> (('d, 'z) sql_state_scheme, WorkflowJobRecord) py" where
  "sql_get_workflow_job om job_id =
     with_session (bnd (get_workflow_job_model om job_id) (\<lambda>model.
       lift_result (workflow_job_from_model model)))"

text \<open>The row a claim leaves.\<close>

definition claimed_model :: "string \<Rightarrow> int \<Rightarrow> WorkflowJobModel \<Rightarrow> WorkflowJobModel" where
  "claimed_model worker_id now model =
     model\<lparr>mj_status := job_status_value JobRunning, mj_worker_id := Some worker_id,
           mj_attempt_count := mj_attempt_count model + 1,
           mj_started_at := (case mj_started_at model of None \<Rightarrow> Some now | Some t \<Rightarrow> Some t),
           mj_heartbeat_at := Some now, mj_updated_at := now\<rparr>"

text \<open>The condition on the workflow name of the queries.\<close>

definition row_name_matches :: "string option \<Rightarrow> WorkflowJobModel \<Rightarrow> bool" where
  "row_name_matches w m = (case w of None \<Rightarrow> True | Some n \<Rightarrow> mj_workflow_name m = n)"

text \<open>
  One iteration of the loop of recover_timed_out_workflow_jobs over the rows of the query;
  None for continue.
\<close>

definition sql_recover_one ::
    "'d sql_orm \<Rightarrow> int \<Rightarrow> int \<Rightarrow> int \<Rightarrow> WorkflowJobModel \<Rightarrow>
     (('d, 'z) sql_state_scheme, WorkflowJobRecord option) py" where
  "sql_recover_one om timeout_seconds reference_time cutoff model =
     (if cutoff < (case mj_heartbeat_at model of None \<Rightarrow> mj_updated_at model | Some h \<Rightarrow> h) then ret None
      else bnd (asks uri_redactor) (\<lambda>ru.
        let should_retry = mj_attempt_count model < mj_max_attempts model;
            next_status = (if should_retry then JobQueued else JobDeadLetter);
            error_summary = ''Workflow job heartbeat timed out after '' @ int_str timeout_seconds @ '' seconds.''
        in bnd (lift_result (append_workflow_failure ru (mj_payload model) (mj_attempt_count model)
                  next_status (redact_text ru error_summary) reference_time (mj_worker_id model)
                  ''heartbeat_timeout'')) (\<lambda>payload.
           let recovered = model\<lparr>mj_payload := payload, mj_status := job_status_value next_status,
                 mj_worker_id := (if should_retry then None else mj_worker_id model),
                 mj_error_summary := Some (redact_text ru error_summary),
                 mj_heartbeat_at := (if should_retry then None else mj_heartbeat_at model),
                 mj_finished_at := (if should_retry then None else Some reference_time),
                 mj_updated_at := reference_time\<rparr>
           in seq (if should_retry then ret ()
                   else bnd (get_run_model om (mj_run_id model)) (\<lambda>run.
                     sql_save (om_runs om)
                       (run\<lparr>mr_status := run_status_value RunFailed,
                            mr_error_summary := Some (redact_text ru error_summary),
                            mr_updated_at := reference_time\<rparr>)))
              (seq (sql_save (om_jobs om) recovered)
              (bnd (lift_result (workflow_job_from_model recovered)) (\<lambda>job. ret (Some job)))))))"

definition sql_recover_timed_out_workflow_jobs ::
    "'d sql_orm \<Rightarrow> int \<Rightarrow> string option \<Rightarrow> int option \<Rightarrow>
     (('d, 'z) sql_state_scheme, WorkflowJobRecord list) py" where
  "sql_recover_timed_out_workflow_jobs om timeout_seconds workflow_name now =
     seq (guard (1 \<le> timeout_seconds) (ValueError ''Workflow job timeout must be at least 1 second.''))
     (bnd (case now of Some t \<Rightarrow> ret t | None \<Rightarrow> utc_now) (\<lambda>reference_time.
      with_session
        (bnd (sql_select (om_jobs om) (\<lambda>m. mj_status m = job_status_value JobRunning
                \<and> row_name_matches (normalize_workflow workflow_name) m)) (\<lambda>models.
         bnd (map_each models (sql_recover_one om timeout_seconds reference_time
                (reference_time - timeout_seconds * 1000000))) (\<lambda>found.
         seq commit (ret (List.map_filter (\<lambda>x. x) found)))))))"

definition sql_claim_model ::
    "'d sql_orm \<Rightarrow> string \<Rightarrow> WorkflowJobModel \<Rightarrow> (('d, 'z) sql_state_scheme, WorkflowJobRecord option) py" where
  "sql_claim_model om worker_id model =
     bnd utc_now (\<lambda>now.
     seq (sql_save (om_jobs om) (claimed_model worker_id now model))
     (seq commit
     (bnd (lift_result (workflow_job_from_model (claimed_model worker_id now model))) (\<lambda>job.
        ret (Some job)))))"

definition sql_claim_next_workflow_job ::
    "'d sql_orm \<Rightarrow> string \<Rightarrow> string option \<Rightarrow> int option \<Rightarrow>
     (('d, 'z) sql_state_scheme, WorkflowJobRecord option) py" where
  "sql_claim_next_workflow_job om worker_id workflow_name stale_after_seconds =
     (let normalized_workflow = normalize_workflow workflow_name in
      seq (case stale_after_seconds of None \<Rightarrow> ret ()
           | Some t \<Rightarrow> bnd (sql_recover_timed_out_workflow_jobs om t normalized_workflow None) (\<lambda>_. ret ()))
      (with_session
        (bnd (sql_select (om_jobs om) (\<lambda>m. mj_status m = job_status_value JobQueued
                \<and> row_name_matches normalized_workflow m)) (\<lambda>models. case models of
           [] \<Rightarrow> ret None
         | model # _ \<Rightarrow> sql_claim_model om worker_id model))))"

definition sql_claim_workflow_job ::
    "'d sql_orm \<Rightarrow> string \<Rightarrow> string \<Rightarrow> int option \<Rightarrow>
     (('d, 'z) sql_state_scheme, WorkflowJobRecord option) py" where
  "sql_claim_workflow_job om job_id worker_id stale_after_seconds =
     seq (case stale_after_seconds of None \<Rightarrow> ret ()
          | Some t \<Rightarrow> bnd (sql_recover_timed_out_workflow_jobs om t None None) (\<lambda>_. ret ()))
     (with_session
       (bnd (sql_select (om_jobs om) (\<lambda>m. mj_id m = job_id)) (\<lambda>models. case models of
          [] \<Rightarrow> raise (WorkflowJobNotFoundError (''Workflow job not found: '' @ job_id))
        | model # _ \<Rightarrow>
            bnd (lift_result (job_status_of (mj_status model))) (\<lambda>status.
              if status \<noteq> JobQueued then ret None else sql_claim_model om worker_id model))))"

definition sql_heartbeat_workflow_job ::
    "'d sql_orm \<Rightarrow> string \<Rightarrow> string \<Rightarrow> (('d, 'z) sql_state_scheme, WorkflowJobRecord) py" where
  "sql_heartbeat_workflow_job om job_id worker_id =
     with_session (bnd (get_workflow_job_model om job_id) (\<lambda>model.
       seq (ensure_job_model_owned_by_worker model worker_id)
       (bnd utc_now (\<lambda>now.
         let updated = model\<lparr>mj_heartbeat_at := Some now, mj_updated_at := now\<rparr>
         in seq (sql_save (om_jobs om) updated)
            (seq commit (lift_result (workflow_job_from_model updated)))))))"

definition sql_complete_workflow_job ::
    "'d sql_orm \<Rightarrow> string \<Rightarrow> string option \<Rightarrow> (('d, 'z) sql_state_scheme, WorkflowJobRecord) py" where
  "sql_complete_workflow_job om job_id worker_id =
     with_session (bnd (get_workflow_job_model om job_id) (\<lambda>model.
       bnd (lift_result (job_status_of (mj_status model))) (\<lambda>status.
         if status = JobCompleted then lift_result (workflow_job_from_model model)
         else seq (case worker_id of None \<Rightarrow> ret () | Some w \<Rightarrow> ensure_job_model_owned_by_worker model w)
           (bnd utc_now (\<lambda>now.
             let updated = model\<lparr>mj_status := job_status_value JobCompleted, mj_updated_at := now,
                   mj_finished_at := Some now\<rparr>
             in seq (sql_save (om_jobs om) updated)
                (seq commit (lift_result (workflow_job_from_model updated))))))))"

definition sql_fail_workflow_job ::
    "'d sql_orm \<Rightarrow> string \<Rightarrow> string \<Rightarrow> bool \<Rightarrow> string option \<Rightarrow>
     (('d, 'z) sql_state_scheme, WorkflowJobRecord) py" where
  "sql_fail_workflow_job om job_id error_summary retry worker_id =
     with_session (bnd (get_workflow_job_model om job_id) (\<lambda>model.
       seq (case worker_id of None \<Rightarrow> ret () | Some w \<Rightarrow> ensure_job_model_owned_by_worker model w)
       (bnd utc_now (\<lambda>now.
        bnd (asks uri_redactor) (\<lambda>ru.
          let should_retry = (retry \<and> mj_attempt_count model < mj_max_attempts model);
              next_status = (if should_retry then JobQueued else JobDeadLetter)
          in bnd (lift_result (append_workflow_failure ru (mj_payload model) (mj_attempt_count model)
                    next_status (redact_text ru error_summary) now
                    (str_or worker_id (mj_worker_id model)) ''worker_failure'')) (\<lambda>payload.
             let failed = model\<lparr>mj_payload := payload, mj_status := job_status_value next_status,
                   mj_worker_id := (if should_retry then None else mj_worker_id model),
                   mj_finished_at := (if should_retry then None else Some now),
                   mj_heartbeat_at := (if should_retry then None else mj_heartbeat_at model),
                   mj_error_summary := Some (redact_text ru error_summary), mj_updated_at := now\<rparr>
             in seq (if should_retry then ret ()
                     else bnd (get_run_model om (mj_run_id model)) (\<lambda>run.
                       sql_save (om_runs om)
                         (run\<lparr>mr_status := run_status_value RunFailed,
                              mr_error_summary := Some (redact_text ru error_summary),
                              mr_updated_at := now\<rparr>)))
                (seq (sql_save (om_jobs om) failed)
                (seq commit (lift_result (workflow_job_from_model failed))))))))))"

definition sql_retry_dead_letter_workflow_job ::
    "'d sql_orm \<Rightarrow> string \<Rightarrow> string option \<Rightarrow> (('d, 'z) sql_state_scheme, WorkflowJobRecord) py" where
  "sql_retry_dead_letter_workflow_job om job_id reason =
     with_session (bnd (get_workflow_job_model om job_id) (\<lambda>model.
       bnd (lift_result (job_status_of (mj_status model))) (\<lambda>status.
       seq (guard (status = JobDeadLetter)
              (WorkflowJobStateError (''Workflow job must be dead_letter before manual retry: '' @ job_id)))
       (bnd utc_now (\<lambda>now.
        bnd (asks uri_redactor) (\<lambda>ru.
        bnd (lift_result (to_int (case dict_get (mj_payload model) ''manual_retry_count'' of
                                    None \<Rightarrow> PInt 0 | Some v \<Rightarrow> v))) (\<lambda>count.
         let payload1 = dict_update (mj_payload model)
               [(''manual_retry_count'', PInt (count + 1)), (''last_manual_retry_at'', PStr (isoformat now))];
             payload = (case reason of None \<Rightarrow> payload1
               | Some r \<Rightarrow> if r = [] then payload1
                          else dict_set ''last_manual_retry_reason'' (PStr (redact_text ru r)) payload1);
             retried = model\<lparr>mj_status := job_status_value JobQueued, mj_payload := payload,
               mj_max_attempts := max (mj_max_attempts model) (mj_attempt_count model + 1),
               mj_worker_id := None, mj_error_summary := None, mj_heartbeat_at := None,
               mj_finished_at := None, mj_updated_at := now\<rparr>
         in seq (sql_save (om_jobs om) retried)
            (bnd (get_run_model om (mj_run_id model)) (\<lambda>run.
             seq (sql_save (om_runs om)
                    (run\<lparr>mr_status := run_status_value RunPending, mr_error_summary := None,
                         mr_updated_at := now\<rparr>))
             (seq commit (lift_result (workflow_job_from_model retried))))))))))))"

definition sql_dismiss_dead_letter_workflow_job ::
    "'d sql_orm \<Rightarrow> string \<Rightarrow> string option \<Rightarrow> (('d, 'z) sql_state_scheme, WorkflowJobRecord) py" where
  "sql_dismiss_dead_letter_workflow_job om job_id reason =
     with_session (bnd (get_workflow_job_model om job_id) (\<lambda>model.
       bnd (lift_result (job_status_of (mj_status model))) (\<lambda>status.
       seq (guard (status = JobDeadLetter)
              (WorkflowJobStateError (''Workflow job must be dead_letter before dismissal: '' @ job_id)))
       (bnd utc_now (\<lambda>now.
        bnd (asks uri_redactor) (\<lambda>ru.
         let payload1 = dict_set ''dismissed_at'' (PStr (isoformat now)) (mj_payload model);
             payload = (case reason of None \<Rightarrow> payload1
               | Some r \<Rightarrow> if r = [] then payload1
                          else dict_set ''dismissal_reason'' (PStr (redact_text ru r)) payload1);
             dismissed = model\<lparr>mj_status := job_status_value JobDismissed, mj_payload := payload,
               mj_worker_id := None, mj_heartbeat_at := None, mj_finished_at := Some now,
               mj_updated_at := now\<rparr>
         in seq (sql_save (om_jobs om) dismissed)
            (seq commit (lift_result (workflow_job_from_model dismissed)))))))))"

section \<open>Artifacts and graph nodes\<close>

definition sql_next_artifact_id :: "(('d, 'z) sql_state_scheme, string) py" where
  "sql_next_artifact_id = bnd uuid4_hex (\<lambda>u. ret (''artifact_'' @ u))"

definition sql_add_artifact ::
    "'d sql_orm \<Rightarrow> string \<Rightarrow> ArtifactType \<Rightarrow> string \<Rightarrow> (string, pyval) dict \<Rightarrow> string list \<Rightarrow>
     string option \<Rightarrow> string option \<Rightarrow> string option \<Rightarrow> string option \<Rightarrow> string option \<Rightarrow>
     int option \<Rightarrow> (('d, 'z) sql_state_scheme, ArtifactRecord) py" where
  "sql_add_artifact om run_id artifact_type uri metadata source_artifact_ids producer_node_id
      artifact_id content_type storage_backend storage_key size_bytes =
     with_session (bnd (get_run_model om run_id) (\<lambda>run.
       bnd (case artifact_id of
              Some i \<Rightarrow> (if i \<noteq> [] then ret i else sql_next_artifact_id)
            | None \<Rightarrow> sql_next_artifact_id) (\<lambda>resolved_artifact_id.
       bnd (asks uri_redactor) (\<lambda>ru.
       bnd (asks repr_of) (\<lambda>rp.
       bnd utc_now (\<lambda>now.
         let normalized_metadata = redact_dict ru metadata;
             sm = artifact_storage_metadata ru rp normalized_metadata content_type storage_backend
                    storage_key size_bytes;
             model = \<lparr>ma_id = resolved_artifact_id, ma_run_id = run_id,
               ma_producer_node_id = producer_node_id, ma_type = artifact_type_value artifact_type,
               ma_uri = ru uri, ma_metadata_json = normalized_metadata,
               ma_content_type = sm_content_type sm, ma_storage_backend = sm_storage_backend sm,
               ma_storage_key = sm_storage_key sm, ma_size_bytes = sm_size_bytes sm,
               ma_source_artifact_ids = source_artifact_ids, ma_created_at = now\<rparr>
         in seq (sql_add (om_artifacts om) model)
            (seq (if artifact_type = DATASET then
                    bnd utc_now (\<lambda>now2.
                      sql_save (om_runs om)
                        (run\<lparr>mr_dataset_artifact_id := Some (ma_id model), mr_updated_at := now2\<rparr>))
                  else ret ())
            (seq commit (lift_result (artifact_from_model ru rp model))))))))))"

definition sql_list_artifacts ::
    "'d sql_orm \<Rightarrow> string \<Rightarrow> (('d, 'z) sql_state_scheme, ArtifactRecord list) py" where
  "sql_list_artifacts om run_id =
     with_session (bnd (get_run_model om run_id) (\<lambda>_.
       bnd (asks uri_redactor) (\<lambda>ru.
       bnd (asks repr_of) (\<lambda>rp.
       bnd (sql_select (om_artifacts om) (\<lambda>m. ma_run_id m = run_id)) (\<lambda>models.
         map_each models (\<lambda>m. lift_result (artifact_from_model ru rp m)))))))"

definition sql_get_artifact ::
    "'d sql_orm \<Rightarrow> string \<Rightarrow> string \<Rightarrow> (('d, 'z) sql_state_scheme, ArtifactRecord) py" where
  "sql_get_artifact om run_id artifact_id =
     with_session (bnd (get_run_model om run_id) (\<lambda>_.
       bnd (asks uri_redactor) (\<lambda>ru.
       bnd (asks repr_of) (\<lambda>rp.
       bnd (sql_get (om_artifacts om) artifact_id) (\<lambda>found. case found of
         None \<Rightarrow> raise (ArtifactNotFoundError (''Artifact not found: '' @ artifact_id))
       | Some model \<Rightarrow>
           if ma_run_id model \<noteq> run_id
           then raise (ArtifactNotFoundError (''Artifact not found: '' @ artifact_id))
           else lift_result (artifact_from_model ru rp model))))))"

text \<open>_update_graph_node_model keeps the id, the run and the creation time of the row.\<close>

definition update_graph_node_model :: "GraphNodeModel \<Rightarrow> GraphNodeRecord \<Rightarrow> GraphNodeModel" where
  "update_graph_node_model model node =
     model\<lparr>mn_agent_type := n_agent_type node, mn_status := node_status_value (n_status node),
           mn_depends_on := n_depends_on node, mn_required_tools := n_required_tools node,
           mn_expected_artifacts := n_expected_artifacts node, mn_retry_count := n_retry_count node,
           mn_started_at := n_started_at node, mn_finished_at := n_finished_at node,
           mn_updated_at := n_updated_at node\<rparr>"

definition sql_upsert_graph_node ::
    "'d sql_orm \<Rightarrow> GraphNodeRecord \<Rightarrow> (('d, 'z) sql_state_scheme, GraphNodeRecord) py" where
  "sql_upsert_graph_node om node =
     with_session (bnd (get_run_model om (n_run_id node)) (\<lambda>_.
       bnd (sql_get (om_nodes om) (n_id node, n_run_id node)) (\<lambda>found.
       bnd (case found of
              None \<Rightarrow> seq (sql_add (om_nodes om) (graph_node_to_model node)) (ret (graph_node_to_model node))
            | Some model \<Rightarrow>
                seq (sql_save (om_nodes om) (update_graph_node_model model node))
                    (ret (update_graph_node_model model node))) (\<lambda>model.
         seq commit (lift_result (graph_node_from_model model))))))"

definition sql_add_graph_node ::
    "'d sql_orm \<Rightarrow> GraphNodeRecord \<Rightarrow> (('d, 'z) sql_state_scheme, GraphNodeRecord) py" where
  "sql_add_graph_node om node = sql_upsert_graph_node om node"

definition sql_get_graph_node ::
    "'d sql_orm \<Rightarrow> string \<Rightarrow> string \<Rightarrow> (('d, 'z) sql_state_scheme, GraphNodeRecord) py" where
  "sql_get_graph_node om run_id node_id =
     with_session (bnd (get_run_model om run_id) (\<lambda>_.
       bnd (sql_get (om_nodes om) (node_id, run_id)) (\<lambda>found. case found of
         None \<Rightarrow> raise (GraphNodeNotFoundError (''Graph node not found: '' @ node_id))
       | Some model \<Rightarrow> lift_result (graph_node_from_model model))))"

definition sql_list_graph_nodes ::
    "'d sql_orm \<Rightarrow> string \<Rightarrow> (('d, 'z) sql_state_scheme, GraphNodeRecord list) py" where
  "sql_list_graph_nodes om run_id =
     with_session (bnd (get_run_model om run_id) (\<lambda>_.
       bnd (sql_select (om_nodes om) (\<lambda>m. mn_run_id m = run_id)) (\<lambda>models.
         map_each models (\<lambda>m. lift_result (graph_node_from_model m)))))"

section \<open>Events, evaluations and checkpoints\<close>

definition plain_event_model :: "AgentEventRecord \<Rightarrow> AgentEventModel" where
  "plain_event_model e =
     \<lparr>me_id = e_id e, me_run_id = e_run_id e, me_node_id = e_node_id e,
      me_event_type = e_event_type e, me_payload = e_payload e, me_created_at = e_created_at e\<rparr>"

definition sql_add_event ::
    "'d sql_orm \<Rightarrow> AgentEventRecord \<Rightarrow> (('d, 'z) sql_state_scheme, AgentEventRecord) py" where
  "sql_add_event om event =
     with_session (bnd (get_run_model om (e_run_id event)) (\<lambda>run_model.
       bnd (lift_result (run_from_model run_model)) (\<lambda>_.
       bnd (asks uri_redactor) (\<lambda>ru.
         let model = plain_event_model (event\<lparr>e_payload := redact_dict ru (e_payload event)\<rparr>)
         in seq (sql_add (om_events om) model) (seq commit (ret (event_from_model model)))))))"

definition sql_list_events ::
    "'d sql_orm \<Rightarrow> string \<Rightarrow> (('d, 'z) sql_state_scheme, AgentEventRecord list) py" where
  "sql_list_events om run_id =
     with_session (bnd (get_run_model om run_id) (\<lambda>_.
       bnd (sql_select (om_events om) (\<lambda>m. me_run_id m = run_id)) (\<lambda>models.
         ret (map event_from_model models))))"

definition sql_add_evaluation ::
    "'d sql_orm \<Rightarrow> EvaluationResultRecord \<Rightarrow> (('d, 'z) sql_state_scheme, EvaluationResultRecord) py" where
  "sql_add_evaluation om evaluation =
     with_session (bnd (get_run_model om (v_run_id evaluation)) (\<lambda>run_model.
       bnd (lift_result (run_from_model run_model)) (\<lambda>run.
       bnd (asks uri_redactor) (\<lambda>ru.
         let record0 = evaluation\<lparr>v_checks := map (redact_value ru None) (v_checks evaluation)\<rparr>
         in bnd (case v_created_at record0 of Some t \<Rightarrow> ret t | None \<Rightarrow> utc_now) (\<lambda>created.
            let rec = record0\<lparr>v_created_at := Some created\<rparr>;
                model = \<lparr>mv_id = v_id rec, mv_run_id = v_run_id rec,
                  mv_target_artifact_id = v_target_artifact_id rec, mv_score = v_score rec,
                  mv_passed = v_passed rec, mv_checks = map (redact_value ru None) (v_checks rec),
                  mv_created_at = created\<rparr>
            in bnd (asks mlflow_log) (\<lambda>ml.
               bnd (asks langsmith_log) (\<lambda>ls.
               bnd (evaluation_event rec (r_trace_id run) (fst (ml run rec)) (snd (ml run rec))
                      (fst (ls run rec)) (snd (ls run rec))) (\<lambda>event.
               seq (sql_add (om_evaluations om) model)
               (seq (sql_add (om_events om) (plain_event_model event))
               (seq commit (ret (evaluation_from_model model))))))))))))"

definition sql_list_evaluations ::
    "'d sql_orm \<Rightarrow> string \<Rightarrow> (('d, 'z) sql_state_scheme, EvaluationResultRecord list) py" where
  "sql_list_evaluations om run_id =
     with_session (bnd (get_run_model om run_id) (\<lambda>_.
       bnd (sql_select (om_evaluations om) (\<lambda>m. mv_run_id m = run_id)) (\<lambda>models.
         ret (map evaluation_from_model models))))"

definition sql_get_evaluation ::
    "'d sql_orm \<Rightarrow> string \<Rightarrow> string \<Rightarrow> (('d, 'z) sql_state_scheme, EvaluationResultRecord) py" where
  "sql_get_evaluation om run_id evaluation_id =
     with_session (bnd (get_run_model om run_id) (\<lambda>_.
       bnd (sql_get (om_evaluations om) evaluation_id) (\<lambda>found. case found of
         None \<Rightarrow> raise (EvaluationResultNotFoundError (''Evaluation result not found: '' @ evaluation_id))
       | Some model \<Rightarrow>
           if mv_run_id model \<noteq> run_id
           then raise (EvaluationResultNotFoundError (''Evaluation result not found: '' @ evaluation_id))
           else ret (evaluation_from_model model))))"

definition sql_save_checkpoint ::
    "'d sql_orm \<Rightarrow> string \<Rightarrow> pyval \<Rightarrow> (('d, 'z) sql_state_scheme, RunCheckpointRecord) py" where
  "sql_save_checkpoint om run_id state =
     with_session (bnd (get_run_model om run_id) (\<lambda>_.
       bnd utc_now (\<lambda>now.
       bnd (asks uri_redactor) (\<lambda>ru.
       bnd (sql_get (om_checkpoints om) run_id) (\<lambda>found.
       bnd (case found of
              None \<Rightarrow>
                (let model = \<lparr>mc_run_id = run_id, mc_version = 1, mc_state_json = redact_value ru None state,
                              mc_created_at = now, mc_updated_at = now\<rparr>
                 in seq (sql_add (om_checkpoints om) model) (ret model))
            | Some old \<Rightarrow>
                (let model = old\<lparr>mc_version := mc_version old + 1,
                              mc_state_json := redact_value ru None state, mc_updated_at := now\<rparr>
                 in seq (sql_save (om_checkpoints om) model) (ret model))) (\<lambda>model.
         seq commit (ret (checkpoint_from_model model))))))))"

definition sql_get_checkpoint ::
    "'d sql_orm \<Rightarrow> string \<Rightarrow> (('d, 'z) sql_state_scheme, RunCheckpointRecord) py" where
  "sql_get_checkpoint om run_id =
     with_session (bnd (get_run_model om run_id) (\<lambda>_.
       bnd (sql_get (om_checkpoints om) run_id) (\<lambda>found. case found of
         None \<Rightarrow> raise (RunCheckpointNotFoundError (''Run checkpoint not found: '' @ run_id))
       | Some model \<Rightarrow> ret (checkpoint_from_model model))))"

end
