(* ===== verification/Sql_Refinement.thy ===== *)
theory Sql_Refinement
  imports Sql_Repository Job_Properties
begin

text \<open>
  The SQLAlchemy repository simulates the in-memory one on the calls of job histories. The
  theory states what is expected of the mapped classes of runs and jobs (sql_laws), relates
  a database to the tables of the in-memory repository (matches), and shows for every
  operation that matching states go to matching states with matching results.
\<close>

section \<open>What is expected of SQLAlchemy and the database\<close>

text \<open>
  A mapped class with the primary key key, ordered by created: get finds what was added or
  saved under its key and nothing else, an added row with a new key whose references exist
  is taken, and a select gives the rows that satisfy the condition, once each, in order of
  their creation.
\<close>

definition table_laws ::
    "('m \<Rightarrow> 'k) \<Rightarrow> ('m \<Rightarrow> int) \<Rightarrow> ('m \<Rightarrow> 'd \<Rightarrow> bool) \<Rightarrow> ('d, 'k, 'm) sql_table \<Rightarrow> bool" where
  "table_laws key created refs tb \<longleftrightarrow>
     (\<forall>k d m. tb_get tb k d = Some m \<longrightarrow> key m = k)
     \<and> (\<forall>m d. tb_get tb (key m) d = None \<and> refs m d \<longrightarrow> tb_add tb m d \<noteq> None)
     \<and> (\<forall>m d d' k. tb_add tb m d = Some d' \<longrightarrow>
          tb_get tb k d' = (if k = key m then Some m else tb_get tb k d))
     \<and> (\<forall>m d k. tb_get tb (key m) d \<noteq> None \<longrightarrow>
          tb_get tb k (tb_save tb m d) = (if k = key m then Some m else tb_get tb k d))
     \<and> (\<forall>p d. distinct (tb_select tb p d) \<and> sorted (map created (tb_select tb p d))
          \<and> set (tb_select tb p d) = {m. tb_get tb (key m) d = Some m \<and> p m})"

text \<open>Writing one table leaves another as it is.\<close>

definition leaves_alone :: "('d, 'k, 'm) sql_table \<Rightarrow> ('d, 'l, 'n) sql_table \<Rightarrow> bool" where
  "leaves_alone tb other \<longleftrightarrow>
     (\<forall>m d d' k. tb_add tb m d = Some d' \<longrightarrow> tb_get other k d' = tb_get other k d)
     \<and> (\<forall>m d k. tb_get other k (tb_save tb m d) = tb_get other k d)"

definition sql_laws :: "'d sql_orm \<Rightarrow> bool" where
  "sql_laws om \<longleftrightarrow>
     table_laws mr_id mr_created_at (\<lambda>m d. True) (om_runs om)
     \<and> table_laws mj_id mj_created_at (\<lambda>m d. tb_get (om_runs om) (mj_run_id m) d \<noteq> None) (om_jobs om)
     \<and> leaves_alone (om_runs om) (om_jobs om) \<and> leaves_alone (om_jobs om) (om_runs om)"

section \<open>Matching states\<close>

definition run_match :: "RunRecord \<Rightarrow> RunModel \<Rightarrow> bool" where
  "run_match r m \<longleftrightarrow>
     mr_id m = r_id r \<and> mr_task m = r_task r \<and> mr_status m = run_status_value (r_status r)
     \<and> mr_metadata_json m = r_metadata r \<and> mr_dataset_artifact_id m = r_dataset_artifact_id r
     \<and> mr_trace_id m = r_trace_id r \<and> mr_error_summary m = r_error_summary r
     \<and> mr_created_at m = r_created_at r \<and> mr_updated_at m = r_updated_at r"

text \<open>The database may hold an error summary redacted that the in-memory job keeps as it is.\<close>

definition summary_match :: "(string \<Rightarrow> string) \<Rightarrow> string option \<Rightarrow> string option \<Rightarrow> bool" where
  "summary_match ru e e' \<longleftrightarrow> e' = e \<or> e' = redact_opt ru e"

definition job_match :: "(string \<Rightarrow> string) \<Rightarrow> WorkflowJobRecord \<Rightarrow> WorkflowJobModel \<Rightarrow> bool" where
  "job_match ru j m \<longleftrightarrow>
     mj_id m = j_id j \<and> mj_run_id m = j_run_id j \<and> mj_workflow_name m = j_workflow_name j
     \<and> mj_status m = job_status_value (j_status j) \<and> mj_payload m = j_payload j
     \<and> mj_attempt_count m = j_attempt_count j \<and> mj_max_attempts m = j_max_attempts j
     \<and> mj_worker_id m = j_worker_id j \<and> summary_match ru (j_error_summary j) (mj_error_summary m)
     \<and> mj_started_at m = j_started_at j \<and> mj_finished_at m = j_finished_at j
     \<and> mj_heartbeat_at m = j_heartbeat_at j \<and> mj_created_at m = j_created_at j
     \<and> mj_updated_at m = j_updated_at j"

definition same_job :: "(string \<Rightarrow> string) \<Rightarrow> WorkflowJobRecord \<Rightarrow> WorkflowJobRecord \<Rightarrow> bool" where
  "same_job ru j j' \<longleftrightarrow>
     (\<exists>e. j' = j\<lparr>j_error_summary := e\<rparr> \<and> summary_match ru (j_error_summary j) e)"

definition runs_match :: "'d sql_orm \<Rightarrow> (string, RunRecord) dict \<Rightarrow> 'd \<Rightarrow> bool" where
  "runs_match om rs d \<longleftrightarrow>
     (\<forall>i. rel_option run_match (dict_get rs i) (tb_get (om_runs om) i d))"

definition jobs_match ::
    "'d sql_orm \<Rightarrow> (string \<Rightarrow> string) \<Rightarrow> (string, WorkflowJobRecord) dict \<Rightarrow> 'd \<Rightarrow> bool" where
  "jobs_match om ru js d \<longleftrightarrow>
     (\<forall>i. rel_option (job_match ru) (dict_get js i) (tb_get (om_jobs om) i d))"

definition agree_env :: "'z env_scheme \<Rightarrow> 'y env_scheme \<Rightarrow> bool" where
  "agree_env s t \<longleftrightarrow>
     clock t = clock s \<and> ticks t = ticks s \<and> uuids t = uuids s \<and> uuid_ix t = uuid_ix s
     \<and> uri_redactor t = uri_redactor s \<and> active_trace t = active_trace s"

definition matches :: "'d sql_orm \<Rightarrow> 'z repo_scheme \<Rightarrow> ('d, 'y) sql_state_scheme \<Rightarrow> bool" where
  "matches om s t \<longleftrightarrow>
     agree_env s t \<and> runs_match om (runs s) (committed t)
     \<and> jobs_match om (uri_redactor s) (workflow_jobs s) (committed t)"

text \<open>Two programs end in matching states with results related by Q.\<close>

definition outcome_match ::
    "'d sql_orm \<Rightarrow> ('a \<Rightarrow> 'b \<Rightarrow> bool) \<Rightarrow> 'a result \<times> 'z repo_scheme \<Rightarrow>
     'b result \<times> ('d, 'y) sql_state_scheme \<Rightarrow> bool" where
  "outcome_match om Q x y \<longleftrightarrow> rel_sum (=) Q (fst x) (fst y) \<and> matches om (snd x) (snd y)"

lemma summary_match_refl [simp]: "summary_match ru e e"
  by (simp add: summary_match_def)

lemma summary_match_redacted [simp]:
  "summary_match ru (Some e) (Some (redact_text ru e))"
  by (simp add: summary_match_def redact_opt_def)

lemma run_from_match: "run_match r m \<Longrightarrow> run_from_model m = Inr r"
  by (simp add: run_match_def run_from_model_def)

lemma job_from_match:
  "job_match ru j m \<Longrightarrow> workflow_job_from_model m = Inr (j\<lparr>j_error_summary := mj_error_summary m\<rparr>)"
  by (simp add: job_match_def workflow_job_from_model_def)

lemma same_jobI [simp]:
  "summary_match ru (j_error_summary j) e \<Longrightarrow> same_job ru j (j\<lparr>j_error_summary := e\<rparr>)"
  by (auto simp: same_job_def)

lemma agree_envD:
  "agree_env s t \<Longrightarrow> clock t = clock s" "agree_env s t \<Longrightarrow> ticks t = ticks s"
  "agree_env s t \<Longrightarrow> uuids t = uuids s" "agree_env s t \<Longrightarrow> uuid_ix t = uuid_ix s"
  "agree_env s t \<Longrightarrow> uri_redactor t = uri_redactor s" "agree_env s t \<Longrightarrow> active_trace t = active_trace s"
  by (simp_all add: agree_env_def)

lemma agree_env_session [simp]:
  "agree_env s (t\<lparr>session := d\<rparr>) = agree_env s t" "agree_env s (t\<lparr>committed := d\<rparr>) = agree_env s t"
  by (simp_all add: agree_env_def)

section \<open>Reading and writing matching tables\<close>

lemma get_run_match:
  assumes "runs_match om rs d"
  obtains "dict_get rs i = None" "tb_get (om_runs om) i d = None"
  | r m where "dict_get rs i = Some r" "tb_get (om_runs om) i d = Some m" "run_match r m"
proof -
  from assms have "rel_option run_match (dict_get rs i) (tb_get (om_runs om) i d)"
    by (simp add: runs_match_def)
  with that show thesis by (cases "dict_get rs i"; cases "tb_get (om_runs om) i d") auto
qed

lemma get_job_match:
  assumes "jobs_match om ru js d"
  obtains "dict_get js i = None" "tb_get (om_jobs om) i d = None"
  | j m where "dict_get js i = Some j" "tb_get (om_jobs om) i d = Some m" "job_match ru j m"
proof -
  from assms have "rel_option (job_match ru) (dict_get js i) (tb_get (om_jobs om) i d)"
    by (simp add: jobs_match_def)
  with that show thesis by (cases "dict_get js i"; cases "tb_get (om_jobs om) i d") auto
qed

lemma runs_match_put:
  assumes "sql_laws om" and "runs_match om rs d" and "run_match r m" and "mr_id m = i"
    and "tb_get (om_runs om) i d \<noteq> None"
  shows "runs_match om (dict_set i r rs) (tb_save (om_runs om) m d)"
  using assms by (simp add: runs_match_def sql_laws_def table_laws_def dict_get_set)

lemma jobs_match_put:
  assumes "sql_laws om" and "jobs_match om ru js d" and "job_match ru j m" and "mj_id m = i"
    and "tb_get (om_jobs om) i d \<noteq> None"
  shows "jobs_match om ru (dict_set i j js) (tb_save (om_jobs om) m d)"
  using assms by (simp add: jobs_match_def sql_laws_def table_laws_def dict_get_set)

lemma runs_match_add:
  assumes "sql_laws om" and "runs_match om rs d" and "run_match r m" and "mr_id m = i"
    and "dict_get rs i = None"
  obtains d' where "tb_add (om_runs om) m d = Some d'" and "runs_match om (dict_set i r rs) d'"
    and "jobs_match om ru js d' = jobs_match om ru js d"
proof -
  from assms(2,5) have "tb_get (om_runs om) i d = None"
    by (metis get_run_match option.distinct(1))
  with assms(1,4) have "tb_add (om_runs om) m d \<noteq> None"
    by (simp add: sql_laws_def table_laws_def)
  then obtain d' where d': "tb_add (om_runs om) m d = Some d'" by blast
  show thesis
  proof (rule that [OF d'])
    show "runs_match om (dict_set i r rs) d'"
      using assms d' by (simp add: runs_match_def sql_laws_def table_laws_def dict_get_set)
    show "jobs_match om ru js d' = jobs_match om ru js d"
      using assms(1) d' by (simp add: jobs_match_def sql_laws_def leaves_alone_def)
  qed
qed

lemma jobs_match_add:
  assumes "sql_laws om" and "jobs_match om ru js d" and "job_match ru j m" and "mj_id m = i"
    and "dict_get js i = None" and "tb_get (om_runs om) (mj_run_id m) d \<noteq> None"
  obtains d' where "tb_add (om_jobs om) m d = Some d'" and "jobs_match om ru (dict_set i j js) d'"
    and "runs_match om rs d' = runs_match om rs d"
proof -
  from assms(2,5) have "tb_get (om_jobs om) i d = None"
    by (metis get_job_match option.distinct(1))
  with assms(1,4,6) have "tb_add (om_jobs om) m d \<noteq> None"
    by (simp add: sql_laws_def table_laws_def)
  then obtain d' where d': "tb_add (om_jobs om) m d = Some d'" by blast
  show thesis
  proof (rule that [OF d'])
    show "jobs_match om ru (dict_set i j js) d'"
      using assms d' by (simp add: jobs_match_def sql_laws_def table_laws_def dict_get_set)
    show "runs_match om rs d' = runs_match om rs d"
      using assms(1) d' by (simp add: runs_match_def sql_laws_def leaves_alone_def)
  qed
qed

lemma match_frames:
  assumes "sql_laws om"
  shows "runs_match om rs (tb_save (om_jobs om) m d) = runs_match om rs d"
    and "jobs_match om ru js (tb_save (om_runs om) n d) = jobs_match om ru js d"
    and "tb_get (om_runs om) k (tb_save (om_jobs om) m d) = tb_get (om_runs om) k d"
    and "tb_get (om_jobs om) k (tb_save (om_runs om) n d) = tb_get (om_jobs om) k d"
  using assms by (simp_all add: runs_match_def jobs_match_def sql_laws_def leaves_alone_def)

lemma job_key: "sql_laws om \<Longrightarrow> tb_get (om_jobs om) i d = Some m \<Longrightarrow> mj_id m = i"
  by (auto simp: sql_laws_def table_laws_def)

lemma run_key: "sql_laws om \<Longrightarrow> tb_get (om_runs om) i d = Some m \<Longrightarrow> mr_id m = i"
  by (auto simp: sql_laws_def table_laws_def)

text \<open>Running the small programs of the repository.\<close>

lemma get_models_run [py_simps]:
  "get_run_model om i t =
     (case tb_get (om_runs om) i (session t) of
        None \<Rightarrow> (Inl (RunNotFoundError (''Run not found: '' @ i)), t) | Some m \<Rightarrow> (Inr m, t))"
  "get_workflow_job_model om i t =
     (case tb_get (om_jobs om) i (session t) of
        None \<Rightarrow> (Inl (WorkflowJobNotFoundError (''Workflow job not found: '' @ i)), t) | Some m \<Rightarrow> (Inr m, t))"
  by (simp_all add: get_run_model_def get_workflow_job_model_def py_simps split: option.splits)

lemma ensure_model_owned_run:
  "job_match ru j m \<Longrightarrow>
     ensure_job_model_owned_by_worker m w t = (fst (ensure_job_owned_by_worker j w ()), t)"
  by (simp add: job_match_def ensure_job_model_owned_by_worker_def py_simps)

text \<open>
  The end of an operation that wrote a job row m' in place of the row of a job: the states
  match again, and both sides return the job they wrote.
\<close>

lemma wrote_job_matches:
  assumes "sql_laws om" and "matches om s t" and "dict_get (workflow_jobs s) i = Some j"
    and "job_match (uri_redactor s) j' m'" and "j_id j' = i"
    and "agree_env s' t'" and "uri_redactor s' = uri_redactor s" and "runs_match om (runs s') (committed t)"
    and "workflow_jobs s' = dict_set i j' (workflow_jobs s)"
    and "committed t' = tb_save (om_jobs om) m' (committed t)"
  shows "matches om s' t'"
proof -
  have jobs: "jobs_match om (uri_redactor s) (workflow_jobs s) (committed t)"
    using assms(2) by (simp add: matches_def)
  have key: "mj_id m' = i" using assms(4,5) by (simp add: job_match_def)
  have old: "tb_get (om_jobs om) i (committed t) \<noteq> None"
    using assms(3) get_job_match [OF jobs(1), of i] by fastforce
  from assms(6-10) jobs_match_put [OF assms(1) jobs assms(4) key old] show ?thesis
    by (simp add: matches_def match_frames [OF assms(1)])
qed

lemma wrote_job:
  assumes "sql_laws om" and "matches om s t" and "dict_get (workflow_jobs s) i = Some j"
    and m: "job_match (uri_redactor s) j' m'" and "j_id j' = i"
    and "agree_env s' t'" and "uri_redactor s' = uri_redactor s" and "runs s' = runs s"
    and "workflow_jobs s' = dict_set i j' (workflow_jobs s)"
    and "committed t' = tb_save (om_jobs om) m' (committed t)"
  shows "outcome_match om (same_job (uri_redactor s)) (Inr j', s') (workflow_job_from_model m', t')"
proof -
  have "runs_match om (runs s') (committed t)" using assms(2,8) by (simp add: matches_def)
  then have "matches om s' t'"
    by (rule wrote_job_matches [OF assms(1,2,3) m assms(5-7) _ assms(9,10)])
  then show ?thesis
    using m by (simp add: outcome_match_def job_from_match [OF m] job_match_def)
qed

lemma same_error:
  "matches om s t \<Longrightarrow> agree_env s' t' \<Longrightarrow> uri_redactor s' = uri_redactor s \<Longrightarrow> runs s' = runs s \<Longrightarrow>
   workflow_jobs s' = workflow_jobs s \<Longrightarrow> committed t' = committed t \<Longrightarrow>
   outcome_match om Q (Inl e, s') (Inl e, t')"
  by (simp add: outcome_match_def matches_def)

text \<open>Operations that first look up their job.\<close>

lemma on_job_match:
  assumes "matches om s t" and "jobs_ok s"
    and "\<And>j m. dict_get (workflow_jobs s) i = Some j \<Longrightarrow> tb_get (om_jobs om) i (committed t) = Some m \<Longrightarrow>
           job_match (uri_redactor s) j m \<Longrightarrow> j_id j = i \<Longrightarrow> agree_env s t \<Longrightarrow>
           outcome_match om Q (f j s) (with_session (g m) t)"
  shows "outcome_match om Q (bnd (get_workflow_job_for_update i) f s)
           (with_session (bnd (get_workflow_job_model om i) g) t)"
proof -
  have env: "agree_env s t" and jobs: "jobs_match om (uri_redactor s) (workflow_jobs s) (committed t)"
    using assms(1) by (simp_all add: matches_def)
  show ?thesis
  proof (cases rule: get_job_match [OF jobs, of i])
    case 1
    with env show ?thesis
      by (auto simp: py_simps agree_env_def intro!: same_error [OF assms(1)])
  next
    case (2 j m)
    with assms(2) have "j_id j = i" by (simp add: jobs_ok_def)
    from assms(3) [OF 2 this env] 2 show ?thesis by (simp add: py_simps)
  qed
qed

lemma guard_passed: "b \<Longrightarrow> bnd (guard b e) f = f ()"
  by (simp add: bnd_guard_True)

declare job_status_value.simps [simp del] run_status_value.simps [simp del]

section \<open>The operations\<close>

lemma heartbeat_match:
  assumes laws: "sql_laws om" and match: "matches om s t" and "jobs_ok s"
  shows "outcome_match om (same_job (uri_redactor s)) (heartbeat_workflow_job i w s)
           (sql_heartbeat_workflow_job om i w t)"
  unfolding heartbeat_workflow_job_def sql_heartbeat_workflow_job_def
  apply (rule on_job_match [OF match assms(3)])
  subgoal premises at_job for j m
  proof (cases "j_status j = JobRunning \<and> j_worker_id j = Some w")
    case True
    with at_job show ?thesis
      by (simp add: py_simps Let_def agree_envD [OF at_job(5)] ensure_model_owned_run [OF at_job(3)])
        (rule wrote_job [OF laws match at_job(1)], simp_all add: job_match_def agree_env_def)
  next
    case False
    with at_job show ?thesis
      by (auto simp: py_simps Let_def ensure_model_owned_run [OF at_job(3)] agree_env_def
          intro!: same_error [OF match])
  qed
  done

lemma dismiss_match:
  assumes laws: "sql_laws om" and match: "matches om s t" and "jobs_ok s"
  shows "outcome_match om (same_job (uri_redactor s)) (dismiss_dead_letter_workflow_job i why s)
           (sql_dismiss_dead_letter_workflow_job om i why t)"
  unfolding dismiss_dead_letter_workflow_job_def sql_dismiss_dead_letter_workflow_job_def
  apply (rule on_job_match [OF match assms(3)])
  subgoal premises at_job for j m
  proof (cases "j_status j = JobDeadLetter")
    case True
    from at_job(3) have m: "mj_status m = job_status_value JobDeadLetter" "mj_payload m = j_payload j"
      using True by (simp_all add: job_match_def)
    with True at_job show ?thesis
      by (simp add: py_simps Let_def agree_envD [OF at_job(5)])
        (rule wrote_job [OF laws match at_job(1)],
         simp_all add: job_match_def agree_env_def split: option.split)
  next
    case False
    from at_job(3) have "mj_status m = job_status_value (j_status j)" by (simp add: job_match_def)
    with False at_job show ?thesis
      by (auto simp: py_simps agree_env_def intro!: same_error [OF match])
  qed
  done

lemma update_result_match:
  assumes laws: "sql_laws om" and match: "matches om s t" and "jobs_ok s"
  shows "outcome_match om (same_job (uri_redactor s)) (update_workflow_job_result i st p e s)
           (sql_update_workflow_job_result om i st p e t)"
proof (cases "st \<in> {JobCompleted, JobFailed}")
  case False
  with match show ?thesis
    unfolding update_workflow_job_result_def sql_update_workflow_job_result_def
    by (simp add: py_simps) (rule same_error [OF match], simp_all add: matches_def)
next
  case True
  show ?thesis
    unfolding update_workflow_job_result_def sql_update_workflow_job_result_def guard_passed [OF True]
    apply (rule on_job_match [OF match assms(3)])
    subgoal premises at_job for j m
    proof -
      from at_job(3) have "mj_payload m = j_payload j" by (simp add: job_match_def)
      with at_job show ?thesis
        by (simp add: py_simps Let_def agree_envD [OF at_job(5)])
          (rule wrote_job [OF laws match at_job(1)],
           simp_all add: job_match_def agree_env_def split: option.split)
    qed
    done
qed

lemma complete_match:
  assumes laws: "sql_laws om" and match: "matches om s t" and "jobs_ok s"
  shows "outcome_match om (same_job (uri_redactor s)) (complete_workflow_job i w s)
           (sql_complete_workflow_job om i w t)"
  unfolding complete_workflow_job_def sql_complete_workflow_job_def
  apply (rule on_job_match [OF match assms(3)])
  subgoal premises at_job for j m
  proof -
    from at_job(3) have st: "mj_status m = job_status_value (j_status j)" by (simp add: job_match_def)
    consider "j_status j = JobCompleted"
      | "j_status j \<noteq> JobCompleted" "w = None \<or> (j_status j = JobRunning \<and> j_worker_id j = w)"
      | v where "j_status j \<noteq> JobCompleted" "w = Some v" "\<not> (j_status j = JobRunning \<and> j_worker_id j = Some v)"
      by (cases w) auto
    then show ?thesis
    proof cases
      case 1
      with at_job match st show ?thesis
        by (simp add: py_simps job_from_match [OF at_job(3)] outcome_match_def matches_def job_match_def)
    next
      case 2
      with at_job st show ?thesis
        by (cases w)
          (simp_all add: py_simps Let_def agree_envD [OF at_job(5)] ensure_model_owned_run [OF at_job(3)],
           (rule wrote_job [OF laws match at_job(1)], simp_all add: job_match_def agree_env_def)+)
    next
      case 3
      with at_job st show ?thesis
        by (auto simp: py_simps ensure_model_owned_run [OF at_job(3)] agree_env_def
            intro!: same_error [OF match])
    qed
  qed
  done

text \<open>A claim of one row.\<close>

lemma claim_row_match:
  assumes laws: "sql_laws om" and match: "matches om s t" and j: "dict_get (workflow_jobs s) i = Some j"
    and m: "job_match (uri_redactor s) j m" and "j_id j = i" and env: "agree_env s t"
  shows "outcome_match om (rel_option (same_job (uri_redactor s)))
     (bnd utc_now (\<lambda>now. seq (put_job i (claimed w now j)) (ret (Some (claimed w now j)))) s)
     (with_session (sql_claim_model om w m) t)"
proof -
  let ?now = "clock s (ticks s)"
  have c: "job_match (uri_redactor s) (claimed w ?now j) (claimed_model w ?now m)"
    using m by (simp add: job_match_def claimed_def claimed_model_def)
  have "runs_match om (runs s) (committed t)" using match by (simp add: matches_def)
  with env show ?thesis
    by (simp add: sql_claim_model_def py_simps agree_envD [OF env] job_from_match [OF c] outcome_match_def)
      (use c \<open>j_id j = i\<close> in \<open>auto simp: job_match_def agree_env_def match_frames [OF laws]
        intro!: wrote_job_matches [OF laws match j c] split: option.splits\<close>)
qed

lemma selected:
  assumes "sql_laws om"
  shows "distinct (tb_select (om_jobs om) P d)" "sorted (map mj_created_at (tb_select (om_jobs om) P d))"
    "set (tb_select (om_jobs om) P d) = {m. tb_get (om_jobs om) (mj_id m) d = Some m \<and> P m}"
  using assms by (simp_all add: sql_laws_def table_laws_def)

text \<open>The rows of a query by id, and of a query by status and workflow name.\<close>

lemma select_by_id:
  assumes "sql_laws om"
  shows "tb_select (om_jobs om) (\<lambda>m. mj_id m = i) d =
           (case tb_get (om_jobs om) i d of None \<Rightarrow> [] | Some m \<Rightarrow> [m])"
proof -
  let ?rows = "tb_select (om_jobs om) (\<lambda>m. mj_id m = i) d"
  have rows: "distinct ?rows" "set ?rows = {m. tb_get (om_jobs om) (mj_id m) d = Some m \<and> mj_id m = i}"
    by (simp_all add: selected [OF assms])
  show ?thesis
  proof (cases "tb_get (om_jobs om) i d")
    case None
    with rows(2) have "set ?rows = {}" by auto
    with None show ?thesis by simp
  next
    case (Some m)
    with rows(2) job_key [OF assms Some] have "set ?rows = {m}" by auto
    moreover have "length ?rows = 1" using rows(1) calculation by (simp flip: distinct_card)
    ultimately have "?rows = [m]" by (auto simp: length_Suc_conv)
    with Some show ?thesis by simp
  qed
qed

definition satisfies :: "(WorkflowJobRecord \<Rightarrow> bool) \<Rightarrow> (string, WorkflowJobRecord) dict \<Rightarrow> string \<Rightarrow> bool" where
  "satisfies Q js i = (case dict_get js i of None \<Rightarrow> False | Some j \<Rightarrow> Q j)"

definition created_of :: "(string, WorkflowJobRecord) dict \<Rightarrow> string \<Rightarrow> int" where
  "created_of js i = (case dict_get js i of None \<Rightarrow> 0 | Some j \<Rightarrow> j_created_at j)"

text \<open>The jobs stand in the order in the order of their creation, all at different times.\<close>

definition in_creation_order :: "'z repo_scheme \<Rightarrow> bool" where
  "in_creation_order s \<longleftrightarrow>
     sorted_wrt (<) (map (created_of (workflow_jobs s)) (workflow_job_order s))"

lemma select_rows:
  assumes laws: "sql_laws om" and match: "jobs_match om ru (workflow_jobs s) d"
    and ok: "jobs_ok s" and order: "in_creation_order s"
    and PQ: "\<And>j m. job_match ru j m \<Longrightarrow> P m = Q j"
  shows "tb_select (om_jobs om) P d =
           map (\<lambda>i. the (tb_get (om_jobs om) i d)) (filter (satisfies Q (workflow_jobs s)) (workflow_job_order s))"
    (is "?rows = map ?row ?ids")
proof -
  have job: "\<exists>j m. dict_get (workflow_jobs s) i = Some j \<and> tb_get (om_jobs om) i d = Some m
      \<and> job_match ru j m \<and> mj_id m = i" if "i \<in> set (workflow_job_order s)" for i
  proof -
    from that ok have "dict_get (workflow_jobs s) i \<noteq> None" by (simp add: jobs_ok_def dict_get_None_iff)
    with get_job_match [OF match, of i] job_key [OF laws] show ?thesis by fastforce
  qed
  have created: "mj_created_at (?row i) = created_of (workflow_jobs s) i" if "i \<in> set (workflow_job_order s)" for i
    using job [OF that] by (auto simp: created_of_def job_match_def)
  have eq: "map mj_created_at (map ?row ?ids) = map (created_of (workflow_jobs s)) ?ids"
    using created by simp
  have strict: "sorted_wrt (<) (map mj_created_at (map ?row ?ids))"
    using order unfolding eq in_creation_order_def sorted_wrt_map by (rule sorted_wrt_filter)
  have set: "set ?rows = set (map ?row ?ids)"
  proof
    show "set ?rows \<subseteq> set (map ?row ?ids)"
    proof
      fix m assume "m \<in> set ?rows"
      then have m: "tb_get (om_jobs om) (mj_id m) d = Some m" "P m"
        by (simp_all add: selected [OF laws])
      obtain j where j: "dict_get (workflow_jobs s) (mj_id m) = Some j" "job_match ru j m"
        by (rule get_job_match [OF match, of "mj_id m"]) (use m(1) in auto)
      with PQ m(2) have "satisfies Q (workflow_jobs s) (mj_id m)" by (simp add: satisfies_def)
      moreover have "mj_id m \<in> set (workflow_job_order s)"
        using ok dict_get_mem [OF j(1)] by (simp add: jobs_ok_def)
      ultimately have "?row (mj_id m) \<in> set (map ?row ?ids)" by simp
      then show "m \<in> set (map ?row ?ids)" using m(1) by simp
    qed
    show "set (map ?row ?ids) \<subseteq> set ?rows"
    proof
      fix m assume "m \<in> set (map ?row ?ids)"
      then obtain i where i: "i \<in> set (workflow_job_order s)" "satisfies Q (workflow_jobs s) i" "m = ?row i" by auto
      from job [OF i(1)] obtain j m' where j: "dict_get (workflow_jobs s) i = Some j" "job_match ru j m'"
          "tb_get (om_jobs om) i d = Some m'" "mj_id m' = i"
        by blast
      have "m = m'" using i(3) j(3) by simp
      moreover have "Q j" using i(2) j(1) by (simp add: satisfies_def)
      ultimately have "tb_get (om_jobs om) (mj_id m) d = Some m" "P m"
        using j PQ [OF j(2)] by simp_all
      then show "m \<in> set ?rows" by (simp add: selected [OF laws])
    qed
  qed
  from strict have sd: "sorted (map mj_created_at (map ?row ?ids))" "distinct (map mj_created_at (map ?row ?ids))"
    by (simp_all only: strict_sorted_iff)
  note rows = selected [OF laws, of P d]
  from sd(2) have inj: "inj_on mj_created_at (set (map ?row ?ids))"
    by (simp only: distinct_map)
  show ?thesis
  proof (rule map_sorted_distinct_set_unique [OF _ rows(2) _ sd set])
    show "inj_on mj_created_at (set ?rows \<union> set (map ?row ?ids))" using inj set by simp
    show "distinct (map mj_created_at ?rows)" using rows(1) inj set by (simp add: distinct_map)
  qed
qed

section \<open>Timeout recovery\<close>

text \<open>The states inside a session: the tables match what the session sees.\<close>

definition matches_inside :: "'d sql_orm \<Rightarrow> 'z repo_scheme \<Rightarrow> ('d, 'y) sql_state_scheme \<Rightarrow> bool" where
  "matches_inside om s t \<longleftrightarrow>
     agree_env s t \<and> runs_match om (runs s) (session t)
     \<and> jobs_match om (uri_redactor s) (workflow_jobs s) (session t)"

lemma recover_one_match:
  assumes laws: "sql_laws om" and match: "matches_inside om s t" and ok: "jobs_ok s"
    and j: "dict_get (workflow_jobs s) i = Some j" and row: "tb_get (om_jobs om) i (session t) = Some m"
    and m: "job_match (uri_redactor s) j m"
    and run: "j_status j = JobRunning" "name_matches n j" and listed: "history_listed j"
  shows "\<exists>x s' x' t'. recover_one secs n ref cutoff i s = (Inr x, s')
     \<and> sql_recover_one om secs ref cutoff m t = (Inr x', t')
     \<and> rel_option (same_job (uri_redactor s)) x x' \<and> matches_inside om s' t' \<and> committed t' = committed t
     \<and> (\<forall>k. k \<noteq> i \<longrightarrow> tb_get (om_jobs om) k (session t') = tb_get (om_jobs om) k (session t))"
proof -
  have env: "agree_env s t" and rm: "runs_match om (runs s) (session t)"
    and jm: "jobs_match om (uri_redactor s) (workflow_jobs s) (session t)"
    using match by (simp_all add: matches_inside_def)
  have id: "j_id j = i" "j_run_id j \<in> set (dict_keys (runs s))" using ok j by (simp_all add: jobs_ok_def)
  have beat: "(case mj_heartbeat_at m of None \<Rightarrow> mj_updated_at m | Some h \<Rightarrow> h)
      = (case j_heartbeat_at j of None \<Rightarrow> j_updated_at j | Some h \<Rightarrow> h)"
    and fields: "mj_attempt_count m = j_attempt_count j" "mj_max_attempts m = j_max_attempts j"
      "mj_payload m = j_payload j" "mj_worker_id m = j_worker_id j" "mj_run_id m = j_run_id j"
    using m by (simp_all add: job_match_def split: option.split)
  show ?thesis
  proof (cases "cutoff < (case j_heartbeat_at j of None \<Rightarrow> j_updated_at j | Some h \<Rightarrow> h)")
    case True
    with j run match show ?thesis
      unfolding recover_one_def sql_recover_one_def by (simp add: beat py_simps)
  next
    case False
    let ?again = "j_attempt_count j < j_max_attempts j"
    define e where "e = ''Workflow job heartbeat timed out after '' @ int_str secs @ '' seconds.''"
    obtain p where p: "append_workflow_failure (uri_redactor s) (j_payload j) (j_attempt_count j)
        (if ?again then JobQueued else JobDeadLetter) (redact_text (uri_redactor s) e) ref
        (j_worker_id j) ''heartbeat_timeout'' = Inr p"
      using append_workflow_failure_listed [OF listed] by blast
    define j1 where "j1 = j\<lparr>j_status := (if ?again then JobQueued else JobDeadLetter), j_payload := p,
       j_worker_id := (if ?again then None else j_worker_id j), j_error_summary := Some e,
       j_heartbeat_at := (if ?again then None else j_heartbeat_at j),
       j_finished_at := (if ?again then None else Some ref), j_updated_at := ref\<rparr>"
    define m1 where "m1 = m\<lparr>mj_payload := p, mj_status := job_status_value (if ?again then JobQueued else JobDeadLetter),
       mj_worker_id := (if ?again then None else j_worker_id j),
       mj_error_summary := Some (redact_text (uri_redactor s) e),
       mj_heartbeat_at := (if ?again then None else mj_heartbeat_at m),
       mj_finished_at := (if ?again then None else Some ref), mj_updated_at := ref\<rparr>"
    have jm': "job_match (uri_redactor s) j1 m1" using m by (simp add: job_match_def j1_def m1_def)
    have key1: "mj_id m1 = i" using m id by (simp add: job_match_def m1_def)
    have put: "jobs_match om (uri_redactor s) (dict_set i j1 (workflow_jobs s)) (tb_save (om_jobs om) m1 d)"
      if "tb_get (om_jobs om) i d = Some m" "jobs_match om (uri_redactor s) (workflow_jobs s) d" for d
      using jobs_match_put [OF laws that(2) jm' key1] that by simp
    have other: "k \<noteq> i \<Longrightarrow> tb_get (om_jobs om) k (tb_save (om_jobs om) m1 d) = tb_get (om_jobs om) k d"
      if "tb_get (om_jobs om) i d = Some m" for d k
      using key1 that laws by (simp add: sql_laws_def table_laws_def)
    have same: "same_job (uri_redactor s) j1 (j1\<lparr>j_error_summary := mj_error_summary m1\<rparr>)"
      by (rule same_jobI) (simp add: j1_def m1_def)
    show ?thesis
    proof (cases ?again)
      case True
      have "recover_one secs n ref cutoff i s = (Inr (Some j1), s\<lparr>workflow_jobs := dict_set i j1 (workflow_jobs s)\<rparr>)"
        unfolding recover_one_def e_def [symmetric] using False True j run p by (simp add: py_simps Let_def j1_def)
      moreover have "sql_recover_one om secs ref cutoff m t =
          (Inr (Some (j1\<lparr>j_error_summary := mj_error_summary m1\<rparr>)), t\<lparr>session := tb_save (om_jobs om) m1 (session t)\<rparr>)"
        unfolding sql_recover_one_def e_def [symmetric] using False True p job_from_match [OF jm']
        by (simp add: beat fields py_simps Let_def agree_envD [OF env] m1_def)
      ultimately show ?thesis
        using put [OF row jm] other [OF row] rm env same
        by (simp add: matches_inside_def match_frames [OF laws] agree_env_def)
    next
      case dead: False
      obtain r rmod where r: "dict_get (runs s) (j_run_id j) = Some r"
          "tb_get (om_runs om) (j_run_id j) (session t) = Some rmod" "run_match r rmod"
        using id(2) get_run_match [OF rm, of "j_run_id j"] by (metis dict_get_None_iff)
      let ?r = "r\<lparr>r_status := RunFailed, r_error_summary := Some (redact_text (uri_redactor s) e),
        r_updated_at := ref\<rparr>"
      let ?rmod = "rmod\<lparr>mr_status := run_status_value RunFailed,
        mr_error_summary := Some (redact_text (uri_redactor s) e), mr_updated_at := ref\<rparr>"
      let ?d = "tb_save (om_runs om) ?rmod (session t)"
      have rput: "runs_match om (dict_set (j_run_id j) ?r (runs s)) ?d"
        by (rule runs_match_put [OF laws rm])
          (use r run_key [OF laws r(2)] in \<open>simp_all add: run_match_def\<close>)
      have row': "tb_get (om_jobs om) i ?d = Some m"
        and jm2: "jobs_match om (uri_redactor s) (workflow_jobs s) ?d"
        using row jm by (simp_all add: match_frames [OF laws])
      have "recover_one secs n ref cutoff i s = (Inr (Some j1), s\<lparr>workflow_jobs := dict_set i j1 (workflow_jobs s),
          runs := dict_set (j_run_id j) ?r (runs s)\<rparr>)"
        unfolding recover_one_def e_def [symmetric] using False dead j run p r by (simp add: py_simps Let_def j1_def)
      moreover have "sql_recover_one om secs ref cutoff m t =
          (Inr (Some (j1\<lparr>j_error_summary := mj_error_summary m1\<rparr>)), t\<lparr>session := tb_save (om_jobs om) m1 ?d\<rparr>)"
        unfolding sql_recover_one_def e_def [symmetric] using False dead p r job_from_match [OF jm']
        by (simp add: beat fields py_simps Let_def agree_envD [OF env] m1_def)
      ultimately show ?thesis
        using put [OF row' jm2] other [OF row'] rput env same
        by (simp add: matches_inside_def match_frames [OF laws] agree_env_def)
    qed
  qed
qed

abbreviation recoverable :: "string option \<Rightarrow> WorkflowJobRecord \<Rightarrow> bool" where
  "recoverable n \<equiv> (\<lambda>j. j_status j = JobRunning \<and> name_matches n j)"

lemma recover_one_skips:
  "dict_get (workflow_jobs s) i = Some j \<Longrightarrow> \<not> recoverable n j \<Longrightarrow>
     recover_one secs n ref cutoff i s = (Inr None, s)"
  by (auto simp: recover_one_def py_simps)

lemma recover_each_match:
  assumes laws: "sql_laws om"
  shows "distinct is \<Longrightarrow> set is \<subseteq> set (dict_keys (workflow_jobs s)) \<Longrightarrow> matches_inside om s t \<Longrightarrow>
    jobs_ok s \<Longrightarrow> uri_redactor s = ru \<Longrightarrow>
    (\<And>i j. i \<in> set is \<Longrightarrow> dict_get (workflow_jobs s) i = Some j \<Longrightarrow> recoverable n j \<Longrightarrow> history_listed j) \<Longrightarrow>
    \<exists>xs s' ys t'. map_each is (recover_one secs n ref cutoff) s = (Inr xs, s')
      \<and> map_each (map (\<lambda>i. the (tb_get (om_jobs om) i (session t)))
            (filter (satisfies (recoverable n) (workflow_jobs s)) is)) (sql_recover_one om secs ref cutoff) t = (Inr ys, t')
      \<and> list_all2 (same_job ru) (List.map_filter (\<lambda>x. x) xs) (List.map_filter (\<lambda>x. x) ys)
      \<and> matches_inside om s' t' \<and> committed t' = committed t"
proof (induction "is" arbitrary: s t)
  case Nil
  then show ?case by (simp add: py_simps map_filter_simps)
next
  case (Cons i rest)
  then obtain j where j: "dict_get (workflow_jobs s) i = Some j"
    using dict_get_Some_of_keys [of i "workflow_jobs s"] by auto
  have jm: "jobs_match om (uri_redactor s) (workflow_jobs s) (session t)"
    using Cons.prems(3) by (simp add: matches_inside_def)
  obtain m where m: "tb_get (om_jobs om) i (session t) = Some m" "job_match (uri_redactor s) j m"
    using get_job_match [OF jm, of i] j by (metis option.distinct(1) option.inject)
  have sat: "satisfies (recoverable n) (workflow_jobs s) i = recoverable n j"
    using j by (simp add: satisfies_def)
  show ?case
  proof (cases "recoverable n j")
    case False
    have "\<exists>xs s' ys t'. map_each rest (recover_one secs n ref cutoff) s = (Inr xs, s')
      \<and> map_each (map (\<lambda>i. the (tb_get (om_jobs om) i (session t)))
            (filter (satisfies (recoverable n) (workflow_jobs s)) rest)) (sql_recover_one om secs ref cutoff) t = (Inr ys, t')
      \<and> list_all2 (same_job ru) (List.map_filter (\<lambda>x. x) xs) (List.map_filter (\<lambda>x. x) ys)
      \<and> matches_inside om s' t' \<and> committed t' = committed t"
      by (rule Cons.IH) (use Cons.prems in auto)
    with False sat recover_one_skips [OF j False] show ?thesis
      by (auto simp: py_simps map_filter_simps)
  next
    case True
    have "history_listed j" using Cons.prems(6) [of i j] j True by simp
    from recover_one_match [OF laws Cons.prems(3,4) j m _ _ this] True
    obtain x s1 x' t1 where one: "recover_one secs n ref cutoff i s = (Inr x, s1)"
        "sql_recover_one om secs ref cutoff m t = (Inr x', t1)" "rel_option (same_job (uri_redactor s)) x x'"
        "matches_inside om s1 t1" "committed t1 = committed t"
        "\<forall>k. k \<noteq> i \<longrightarrow> tb_get (om_jobs om) k (session t1) = tb_get (om_jobs om) k (session t)"
      by blast
    have ok1: "jobs_ok s1"
      by (rule jobs_ok_evolve [OF Cons.prems(4) evolvesD [OF evolves_recover_one [of True] one(1)]])
    have keys1: "dict_keys (workflow_jobs s1) = dict_keys (workflow_jobs s)"
      using evolvesD [OF evolves_recover_one [of True] one(1)] by (simp add: jobs_evolve_def)
    have same: "k \<in> set rest \<Longrightarrow> dict_get (workflow_jobs s1) k = dict_get (workflow_jobs s) k" for k
      using recover_one_effect [OF one(1) j] Cons.prems(1) by auto
    have ru1: "uri_redactor s1 = ru"
      using one(4) Cons.prems(3,5) one(1) by (auto simp: recover_one_def py_simps Let_def split: option.splits if_splits sum.splits)
    have "\<exists>xs s' ys t'. map_each rest (recover_one secs n ref cutoff) s1 = (Inr xs, s')
      \<and> map_each (map (\<lambda>i. the (tb_get (om_jobs om) i (session t1)))
            (filter (satisfies (recoverable n) (workflow_jobs s1)) rest)) (sql_recover_one om secs ref cutoff) t1 = (Inr ys, t')
      \<and> list_all2 (same_job ru) (List.map_filter (\<lambda>x. x) xs) (List.map_filter (\<lambda>x. x) ys)
      \<and> matches_inside om s' t' \<and> committed t' = committed t1"
      by (rule Cons.IH [OF _ _ one(4) ok1 ru1]) (use Cons.prems keys1 same in auto)
    moreover have "filter (satisfies (recoverable n) (workflow_jobs s1)) rest
        = filter (satisfies (recoverable n) (workflow_jobs s)) rest"
      using same by (intro filter_cong) (simp_all add: satisfies_def)
    moreover have "map (\<lambda>i. the (tb_get (om_jobs om) i (session t1))) (filter p rest)
        = map (\<lambda>i. the (tb_get (om_jobs om) i (session t))) (filter p rest)" for p
      using one(6) Cons.prems(1) by (intro map_cong) auto
    ultimately show ?thesis
      using True sat m one Cons.prems(5)
      by (auto simp: py_simps map_filter_simps split: option.splits)
  qed
qed

text \<open>
  What the simulation needs of the in-memory state: its invariant, the order of creation,
  and failure histories that recovery can extend.
\<close>

definition queue_ready :: "'z repo_scheme \<Rightarrow> bool" where
  "queue_ready s \<longleftrightarrow>
     jobs_ok s \<and> in_creation_order s
     \<and> (\<forall>i j. dict_get (workflow_jobs s) i = Some j \<longrightarrow> history_listed j)"

lemma recover_match:
  assumes laws: "sql_laws om" and match: "matches om s t" and ready: "queue_ready s"
  shows "outcome_match om (list_all2 (same_job (uri_redactor s))) (recover_timed_out_workflow_jobs secs n now s)
           (sql_recover_timed_out_workflow_jobs om secs n now t)"
proof (cases "1 \<le> secs")
  case False
  with match show ?thesis
    unfolding recover_timed_out_workflow_jobs_def sql_recover_timed_out_workflow_jobs_def
    by (simp add: py_simps outcome_match_def)
next
  case True
  have env: "agree_env s t" using match by (simp add: matches_def)
  define ref where "ref = (case now of Some r \<Rightarrow> r | None \<Rightarrow> clock s (ticks s))"
  define s1 where "s1 = (case now of Some r \<Rightarrow> s | None \<Rightarrow> s\<lparr>ticks := Suc (ticks s)\<rparr>)"
  define t1 where "t1 = (case now of Some r \<Rightarrow> t | None \<Rightarrow> t\<lparr>ticks := Suc (ticks s)\<rparr>)"
  have reads: "(case now of Some r \<Rightarrow> ret r | None \<Rightarrow> utc_now) s = (Inr ref, s1)"
    "(case now of Some r \<Rightarrow> ret r | None \<Rightarrow> utc_now) t = (Inr ref, t1)"
    using env by (simp_all add: ref_def s1_def t1_def py_simps agree_envD [OF env] split: option.split)
  have parts: "workflow_jobs s1 = workflow_jobs s" "workflow_job_order s1 = workflow_job_order s"
      "runs s1 = runs s" "uri_redactor s1 = uri_redactor s"
      "committed t1 = committed t" "agree_env s1 t1"
    using env by (simp_all add: s1_def t1_def agree_env_def split: option.split)
  let ?n = "normalize_workflow n"
  let ?t1 = "t1\<lparr>session := committed t1\<rparr>"
  have "jobs_ok s1" "in_creation_order s1"
    using ready parts by (auto simp: queue_ready_def in_creation_order_def intro: jobs_ok_same)
  moreover have inside: "matches_inside om s1 ?t1"
    using match parts by (simp add: matches_inside_def matches_def)
  ultimately have rows: "tb_select (om_jobs om) (\<lambda>m. mj_status m = job_status_value JobRunning \<and> row_name_matches ?n m)
        (committed t1)
      = map (\<lambda>i. the (tb_get (om_jobs om) i (committed t1)))
          (filter (satisfies (recoverable ?n) (workflow_jobs s1)) (workflow_job_order s1))"
    by (intro select_rows [OF laws])
      (auto simp: matches_inside_def job_match_def row_name_matches_def name_matches_def split: option.splits)
  obtain xs s' ys t' where each: "map_each (workflow_job_order s1) (recover_one secs ?n ref (ref - secs * 1000000)) s1 = (Inr xs, s')"
      "map_each (map (\<lambda>i. the (tb_get (om_jobs om) i (session ?t1)))
            (filter (satisfies (recoverable ?n) (workflow_jobs s1)) (workflow_job_order s1)))
         (sql_recover_one om secs ref (ref - secs * 1000000)) ?t1 = (Inr ys, t')"
      "list_all2 (same_job (uri_redactor s)) (List.map_filter (\<lambda>x. x) xs) (List.map_filter (\<lambda>x. x) ys)"
      "matches_inside om s' t'"
    using recover_each_match [OF laws _ _ inside \<open>jobs_ok s1\<close> parts(4), of "workflow_job_order s1" ?n secs ref "ref - secs * 1000000"]
      \<open>jobs_ok s1\<close> ready parts(1) by (auto simp: jobs_ok_def queue_ready_def)
  have "recover_timed_out_workflow_jobs secs n now s = (Inr (List.map_filter (\<lambda>x. x) xs), s')"
    unfolding recover_timed_out_workflow_jobs_def guard_passed [OF True]
    by (simp add: bnd_run reads asks_run each ret_run)
  moreover have "sql_recover_timed_out_workflow_jobs om secs n now t
      = (Inr (List.map_filter (\<lambda>x. x) ys), t'\<lparr>committed := session t', session := session t'\<rparr>)"
    unfolding sql_recover_timed_out_workflow_jobs_def guard_passed [OF True]
    using each(2) rows by (simp add: bnd_run reads py_simps)
  ultimately show ?thesis
    using each by (simp add: outcome_match_def matches_def matches_inside_def)
qed

section \<open>What every call leaves of the environment and of the order\<close>

lemma same_env_reflp: "reflp (same_env :: 'z repo_scheme \<Rightarrow> 'z repo_scheme \<Rightarrow> bool)"
  by (simp add: reflp_def)

lemma same_env_transp: "transp (same_env :: 'z repo_scheme \<Rightarrow> 'z repo_scheme \<Rightarrow> bool)"
  by (auto intro: transpI same_env_trans)

lemma env_recover_one: "evolves same_env (recover_one secs n ref cutoff i)"
  unfolding evolves_def recover_one_def
  by (auto simp: py_simps Let_def same_env_def split: option.splits sum.splits)

lemma env_recover: "evolves same_env (recover_timed_out_workflow_jobs secs n now)"
  by (rule evolves_by_keeps [OF same_env_reflp], unfold recover_timed_out_workflow_jobs_def,
    intro keeps_intros keeps_of_evolves [OF same_env_transp env_recover_one])
    (rule keepsI, simp add: py_simps same_env_def)

lemma env_claim_scan: "evolves same_env (claim_scan w n is)"
  unfolding evolves_def
proof (induction w n "is" rule: claim_scan.induct)
  case (2 w n i rest)
  then show ?case by (auto simp: py_simps same_env_def split: option.splits)
qed (simp add: py_simps)

lemma env_claim_next: "evolves same_env (claim_next_workflow_job w n stale)"
  by (rule evolves_by_keeps [OF same_env_reflp], unfold claim_next_workflow_job_def,
    intro keeps_intros keeps_of_evolves [OF same_env_transp env_recover]
      keeps_of_evolves [OF same_env_transp env_claim_scan])

lemma env_claim_now:
  "evolves same_env (bnd (get_workflow_job_for_update i) (\<lambda>job.
     if j_status job \<noteq> JobQueued then ret None
     else bnd utc_now (\<lambda>now. seq (put_job i (claimed w now job)) (ret (Some (claimed w now job))))))"
  unfolding evolves_def by (auto simp: py_simps same_env_def split: option.splits)

lemma env_claim: "evolves same_env (claim_workflow_job i w stale)"
  by (rule evolves_by_keeps [OF same_env_reflp], unfold claim_workflow_job_def,
    rule keeps_bnd [OF _ keeps_of_evolves [OF same_env_transp env_claim_now]],
    intro keeps_intros keeps_of_evolves [OF same_env_transp env_recover])

lemma env_small:
  "evolves same_env (create_run task md tr)" "evolves same_env (update_status r rst e)"
  "evolves same_env (enqueue_workflow_job r nm p k ji jst)"
  "evolves same_env (heartbeat_workflow_job i w)" "evolves same_env (complete_workflow_job i ow)"
  "evolves same_env (fail_workflow_job i es b ow)" "evolves same_env (retry_dead_letter_workflow_job i why)"
  "evolves same_env (dismiss_dead_letter_workflow_job i why)"
  "evolves same_env (update_workflow_job_result i jst op oe)"
  unfolding evolves_def create_run_def update_status_def enqueue_workflow_job_def
    heartbeat_workflow_job_def complete_workflow_job_def fail_workflow_job_def
    retry_dead_letter_workflow_job_def dismiss_dead_letter_workflow_job_def
    update_workflow_job_result_def ensure_trace_id_def
  by (auto simp: py_simps Let_def same_env_def split: option.splits sum.splits)

lemma env_bnd_ret:
  fixes m :: "('z repo_scheme, 'a) py"
  shows "evolves same_env m \<Longrightarrow> evolves same_env (bnd m (\<lambda>x. ret (f x)))"
  by (rule evolves_by_keeps [OF same_env_reflp], intro keeps_bnd keeps_ret)
    (rule keeps_of_evolves [OF same_env_transp])

lemma env_perform: "evolves same_env (perform c)"
  by (cases c) (simp_all only: perform.simps,
    (intro env_bnd_ret env_small env_claim env_claim_next env_recover)+)

lemma in_creation_order_evolve:
  assumes ev: "jobs_evolve adm s s'" and ok: "jobs_ok s" and "in_creation_order s"
  shows "in_creation_order s'"
proof -
  have "created_of (workflow_jobs s') i = created_of (workflow_jobs s) i" if "i \<in> set (workflow_job_order s)" for i
  proof -
    from that ok obtain job where "dict_get (workflow_jobs s) i = Some job"
      using dict_get_Some_of_keys unfolding jobs_ok_def by metis
    moreover from ev this obtain job' where "dict_get (workflow_jobs s') i = Some job'" "job_moves adm job job'"
      unfolding jobs_evolve_def by blast
    ultimately show ?thesis
      using job_moves_identity [of adm job job'] by (simp add: created_of_def job_identity_def)
  qed
  then have "map (created_of (workflow_jobs s')) (workflow_job_order s)
      = map (created_of (workflow_jobs s)) (workflow_job_order s)" by simp
  moreover have "workflow_job_order s' = workflow_job_order s" using ev by (simp add: jobs_evolve_def)
  ultimately show ?thesis using assms(3) unfolding in_creation_order_def by (simp only:)
qed

section \<open>Claims\<close>

lemma find_filter: "find P xs = (case filter P xs of [] \<Rightarrow> None | x # _ \<Rightarrow> Some x)"
  by (induction xs) auto

text \<open>A claim that recovers first is a recovery followed by a claim.\<close>

lemma after_recovery:
  assumes laws: "sql_laws om" and match: "matches om s t" and ready: "queue_ready s"
    and rest: "\<And>s1 t1. matches om s1 t1 \<Longrightarrow> jobs_ok s1 \<Longrightarrow> in_creation_order s1 \<Longrightarrow>
        uri_redactor s1 = uri_redactor s \<Longrightarrow> outcome_match om Q (m s1) (m' t1)"
  shows "outcome_match om Q (seq (recover_first stale n) m s)
     (seq (case stale of None \<Rightarrow> ret ()
           | Some u \<Rightarrow> bnd (sql_recover_timed_out_workflow_jobs om u n None) (\<lambda>_. ret ())) m' t)"
proof (cases stale)
  case None
  with rest [OF match] ready show ?thesis by (simp add: py_simps queue_ready_def)
next
  case (Some u)
  obtain x s1 where mem: "recover_timed_out_workflow_jobs u n None s = (x, s1)" by fastforce
  obtain y t1 where sql: "sql_recover_timed_out_workflow_jobs om u n None t = (y, t1)" by fastforce
  from recover_match [OF laws match ready, of u n None]
  have out: "rel_sum (=) (list_all2 (same_job (uri_redactor s))) x y" "matches om s1 t1"
    by (simp_all add: mem sql outcome_match_def)
  note ev = evolvesD [OF evolves_recover [of True] mem]
  have ok: "jobs_ok s" "in_creation_order s" using ready by (simp_all add: queue_ready_def)
  have "outcome_match om Q (m s1) (m' t1)"
    using rest [OF out(2) jobs_ok_evolve [OF ok(1) ev] in_creation_order_evolve [OF ev ok]]
      evolvesD [OF env_recover mem] by (simp add: same_env_def)
  with out Some mem sql show ?thesis
    by (cases x; cases y) (simp_all add: py_simps outcome_match_def)
qed

lemma claim_next_match:
  fixes om :: "'d sql_orm" and s :: "'z repo_scheme" and t :: "('d, 'y) sql_state_scheme"
  assumes laws: "sql_laws om" and match: "matches om s t" and ready: "queue_ready s"
  shows "outcome_match om (rel_option (same_job (uri_redactor s))) (claim_next_workflow_job w n stale s)
           (sql_claim_next_workflow_job om w n stale t)"
  unfolding claim_next_workflow_job_def sql_claim_next_workflow_job_def Let_def
proof (rule after_recovery [OF laws match ready])
  fix s1 :: "'z repo_scheme" and t1 :: "('d, 'y) sql_state_scheme"
  let ?n = "normalize_workflow n"
  assume match1: "matches om s1 t1" and ok: "jobs_ok s1" and order: "in_creation_order s1"
    and ru: "uri_redactor s1 = uri_redactor s"
  have env: "agree_env s1 t1" and jm: "jobs_match om (uri_redactor s1) (workflow_jobs s1) (committed t1)"
    using match1 by (simp_all add: matches_def)
  let ?Q = "\<lambda>j. j_status j = JobQueued \<and> name_matches ?n j"
  have claimable: "claimable ?n s1 = satisfies ?Q (workflow_jobs s1)"
    by (rule ext) (simp add: claimable_def satisfies_def)
  have rows: "tb_select (om_jobs om) (\<lambda>m. mj_status m = job_status_value JobQueued \<and> row_name_matches ?n m)
        (committed t1)
      = map (\<lambda>i. the (tb_get (om_jobs om) i (committed t1)))
          (filter (satisfies ?Q (workflow_jobs s1)) (workflow_job_order s1))"
    by (rule select_rows [OF laws jm ok order])
      (auto simp: job_match_def row_name_matches_def name_matches_def split: option.splits)
  have scan: "claim_scan w ?n (workflow_job_order s1) s1 =
      (case filter (satisfies ?Q (workflow_jobs s1)) (workflow_job_order s1) of
         [] \<Rightarrow> (Inr None, s1) | i # _ \<Rightarrow> claim_at w i s1)"
    using claim_scan_find [of "workflow_job_order s1" s1 w ?n] ok
    by (simp add: jobs_ok_def claimable find_filter split: list.split)
  show "outcome_match om (rel_option (same_job (uri_redactor s)))
     (bnd (asks workflow_job_order) (claim_scan w ?n) s1)
     (with_session (bnd (sql_select (om_jobs om) (\<lambda>m. mj_status m = job_status_value JobQueued
          \<and> row_name_matches ?n m)) (\<lambda>models. case models of [] \<Rightarrow> ret None
        | model # _ \<Rightarrow> sql_claim_model om w model)) t1)"
  proof (cases "filter (satisfies ?Q (workflow_jobs s1)) (workflow_job_order s1)")
    case Nil
    with rows scan match1 show ?thesis
      by (simp add: py_simps outcome_match_def matches_def)
  next
    case (Cons i rest)
    then have "satisfies ?Q (workflow_jobs s1) i" by (metis filter_eq_ConsD)
    then obtain j where j: "dict_get (workflow_jobs s1) i = Some j" "j_status j = JobQueued"
      by (auto simp: satisfies_def split: option.splits)
    then obtain m where m: "tb_get (om_jobs om) i (committed t1) = Some m" "job_match (uri_redactor s1) j m"
      using get_job_match [OF jm, of i] by (metis option.distinct(1) option.inject)
    have "j_id j = i" using ok j by (simp add: jobs_ok_def)
    from claim_row_match [OF laws match1 j(1) m(2) this env, of w]
    show ?thesis
      using Cons rows scan m j ru by (simp add: py_simps claim_at_def Let_def)
  qed
qed

lemma claim_match:
  fixes om :: "'d sql_orm" and s :: "'z repo_scheme" and t :: "('d, 'y) sql_state_scheme"
  assumes laws: "sql_laws om" and match: "matches om s t" and ready: "queue_ready s"
  shows "outcome_match om (rel_option (same_job (uri_redactor s))) (claim_workflow_job i w stale s)
           (sql_claim_workflow_job om i w stale t)"
  unfolding claim_workflow_job_def sql_claim_workflow_job_def
proof (rule after_recovery [OF laws match ready])
  fix s1 :: "'z repo_scheme" and t1 :: "('d, 'y) sql_state_scheme"
  assume match1: "matches om s1 t1" and ok: "jobs_ok s1" and ru: "uri_redactor s1 = uri_redactor s"
  have env: "agree_env s1 t1" and jm: "jobs_match om (uri_redactor s1) (workflow_jobs s1) (committed t1)"
    using match1 by (simp_all add: matches_def)
  show "outcome_match om (rel_option (same_job (uri_redactor s)))
     (bnd (get_workflow_job_for_update i) (\<lambda>job. if j_status job \<noteq> JobQueued then ret None
        else bnd utc_now (\<lambda>now. seq (put_job i (claimed w now job)) (ret (Some (claimed w now job))))) s1)
     (with_session (bnd (sql_select (om_jobs om) (\<lambda>m. mj_id m = i)) (\<lambda>models. case models of
          [] \<Rightarrow> raise (WorkflowJobNotFoundError (''Workflow job not found: '' @ i))
        | model # _ \<Rightarrow> bnd (lift_result (job_status_of (mj_status model))) (\<lambda>status.
              if status \<noteq> JobQueued then ret None else sql_claim_model om w model))) t1)"
  proof (cases rule: get_job_match [OF jm, of i])
    case 1
    with match1 show ?thesis
      by (simp add: py_simps select_by_id [OF laws] outcome_match_def matches_def)
  next
    case (2 j m)
    have st: "mj_status m = job_status_value (j_status j)" using 2 by (simp add: job_match_def)
    have "j_id j = i" using ok 2 by (simp add: jobs_ok_def)
    from claim_row_match [OF laws match1 2(1,3) this env, of w] 2 match1 ru st show ?thesis
      by (simp add: py_simps select_by_id [OF laws] outcome_match_def matches_def)
  qed
qed

section \<open>Failures, manual retries and new records\<close>

text \<open>The end of an operation that wrote a job row and the row of its run.\<close>

lemma wrote_both:
  assumes laws: "sql_laws om" and match: "matches om s t" and "dict_get (workflow_jobs s) i = Some j"
    and m: "job_match (uri_redactor s) j' m'" and "j_id j' = i"
    and r: "dict_get (runs s) k = Some r" and row: "tb_get (om_runs om) k (committed t) = Some rm"
    and rm: "run_match r' rm'" "mr_id rm' = k"
    and "agree_env s' t'" and "uri_redactor s' = uri_redactor s"
    and "runs s' = dict_set k r' (runs s)" and "workflow_jobs s' = dict_set i j' (workflow_jobs s)"
    and written: "committed t' = tb_save (om_jobs om) m' (tb_save (om_runs om) rm' (committed t))
      \<or> committed t' = tb_save (om_runs om) rm' (tb_save (om_jobs om) m' (committed t))"
  shows "outcome_match om (same_job (uri_redactor s)) (Inr j', s') (workflow_job_from_model m', t')"
proof -
  have jm: "jobs_match om (uri_redactor s) (workflow_jobs s) (committed t)"
    and runm: "runs_match om (runs s) (committed t)"
    using match by (simp_all add: matches_def)
  have key: "mj_id m' = i" using m assms(5) by (simp add: job_match_def)
  have old: "tb_get (om_jobs om) i (committed t) \<noteq> None"
    using assms(3) get_job_match [OF jm, of i] by (metis option.distinct(1))
  have "jobs_match om (uri_redactor s) (dict_set i j' (workflow_jobs s)) (committed t')"
    using written
  proof
    assume w: "committed t' = tb_save (om_jobs om) m' (tb_save (om_runs om) rm' (committed t))"
    show ?thesis
      unfolding w
      by (rule jobs_match_put [OF laws _ m key]) (use jm old in \<open>simp_all add: match_frames [OF laws]\<close>)
  next
    assume w: "committed t' = tb_save (om_runs om) rm' (tb_save (om_jobs om) m' (committed t))"
    show ?thesis
      unfolding w match_frames [OF laws] by (rule jobs_match_put [OF laws jm m key old])
  qed
  moreover have "runs_match om (dict_set k r' (runs s)) (committed t')"
    using written
  proof
    assume w: "committed t' = tb_save (om_jobs om) m' (tb_save (om_runs om) rm' (committed t))"
    show ?thesis
      unfolding w match_frames [OF laws]
      by (rule runs_match_put [OF laws runm rm]) (simp add: row)
  next
    assume w: "committed t' = tb_save (om_runs om) rm' (tb_save (om_jobs om) m' (committed t))"
    show ?thesis
      unfolding w
      by (rule runs_match_put [OF laws _ rm]) (use runm row in \<open>simp_all add: match_frames [OF laws]\<close>)
  qed
  ultimately show ?thesis
    using assms(10-13) m job_from_match [OF m]
    by (simp add: outcome_match_def matches_def job_match_def)
qed

lemma run_of_job:
  assumes laws: "sql_laws om" and match: "matches om s t" and ok: "jobs_ok s"
    and j: "dict_get (workflow_jobs s) i = Some j"
  obtains r rm where "dict_get (runs s) (j_run_id j) = Some r"
    "tb_get (om_runs om) (j_run_id j) (committed t) = Some rm" "run_match r rm" "mr_id rm = j_run_id j"
proof -
  have runm: "runs_match om (runs s) (committed t)" using match by (simp add: matches_def)
  have "dict_get (runs s) (j_run_id j) \<noteq> None" using ok j by (simp add: jobs_ok_def dict_get_None_iff)
  with get_run_match [OF runm, of "j_run_id j"] obtain r rm where
    "dict_get (runs s) (j_run_id j) = Some r" "tb_get (om_runs om) (j_run_id j) (committed t) = Some rm"
    "run_match r rm" by metis
  with run_key [OF laws] that show thesis by blast
qed

lemma retry_match:
  assumes laws: "sql_laws om" and match: "matches om s t" and ok: "jobs_ok s"
  shows "outcome_match om (same_job (uri_redactor s)) (retry_dead_letter_workflow_job i why s)
           (sql_retry_dead_letter_workflow_job om i why t)"
  unfolding retry_dead_letter_workflow_job_def sql_retry_dead_letter_workflow_job_def
  apply (rule on_job_match [OF match ok])
  subgoal premises at_job for j m
  proof (cases "j_status j = JobDeadLetter")
    case False
    from at_job(3) have "mj_status m = job_status_value (j_status j)" by (simp add: job_match_def)
    with False at_job show ?thesis
      by (auto simp: py_simps agree_env_def intro!: same_error [OF match])
  next
    case True
    from at_job(3) have m: "mj_status m = job_status_value JobDeadLetter" "mj_payload m = j_payload j"
      "mj_run_id m = j_run_id j" using True by (simp_all add: job_match_def)
    obtain r rm where r: "dict_get (runs s) (j_run_id j) = Some r"
      "tb_get (om_runs om) (j_run_id j) (committed t) = Some rm" "run_match r rm" "mr_id rm = j_run_id j"
      by (rule run_of_job [OF laws match ok at_job(1)])
    show ?thesis
    proof (cases "to_int (case dict_get (j_payload j) ''manual_retry_count'' of None \<Rightarrow> PInt 0 | Some v \<Rightarrow> v)")
      case (Inl e)
      with True m at_job show ?thesis
        by (simp add: py_simps agree_envD [OF at_job(5)])
          (rule same_error [OF match], simp_all add: agree_env_def)
    next
      case (Inr count)
      with True m at_job r show ?thesis
        by (simp add: py_simps Let_def agree_envD [OF at_job(5)] match_frames [OF laws])
          (rule wrote_both [OF laws match at_job(1) _ _ r(1,2), where rm' = "rm\<lparr>mr_status := run_status_value RunPending,
             mr_error_summary := None, mr_updated_at := clock s (ticks s)\<rparr>"],
           simp_all add: job_match_def run_match_def agree_env_def split: option.split)
    qed
  qed
  done

lemma fail_match:
  assumes laws: "sql_laws om" and match: "matches om s t" and ok: "jobs_ok s"
  shows "outcome_match om (same_job (uri_redactor s)) (fail_workflow_job i e again w s)
           (sql_fail_workflow_job om i e again w t)"
  unfolding fail_workflow_job_def sql_fail_workflow_job_def
  apply (rule on_job_match [OF match ok])
  subgoal premises at_job for j m
  proof (cases "w = None \<or> (j_status j = JobRunning \<and> j_worker_id j = w)")
    case False
    then obtain v where "w = Some v" "\<not> (j_status j = JobRunning \<and> j_worker_id j = Some v)" by auto
    with at_job show ?thesis
      by (auto simp: py_simps ensure_model_owned_run [OF at_job(3)] agree_env_def
          intro!: same_error [OF match])
  next
    case True
    have owned: "(case w of None \<Rightarrow> ret () | Some v \<Rightarrow> ensure_job_owned_by_worker j v) s = (Inr (), s)"
      "(case w of None \<Rightarrow> ret () | Some v \<Rightarrow> ensure_job_model_owned_by_worker m v) t' = (Inr (), t')" for t'
      using True by (auto simp: py_simps ensure_model_owned_run [OF at_job(3)] split: option.split)
    from at_job(3) have m: "mj_payload m = j_payload j" "mj_run_id m = j_run_id j"
      "mj_attempt_count m = j_attempt_count j" "mj_max_attempts m = j_max_attempts j"
      "mj_worker_id m = j_worker_id j" by (simp_all add: job_match_def)
    obtain r rm where r: "dict_get (runs s) (j_run_id j) = Some r"
      "tb_get (om_runs om) (j_run_id j) (committed t) = Some rm" "run_match r rm" "mr_id rm = j_run_id j"
      by (rule run_of_job [OF laws match ok at_job(1)])
    let ?again = "again \<and> j_attempt_count j < j_max_attempts j"
    show ?thesis
    proof (cases "append_workflow_failure (uri_redactor s) (j_payload j) (j_attempt_count j)
        (if ?again then JobQueued else JobDeadLetter) (redact_text (uri_redactor s) e) (clock s (ticks s))
        (str_or w (j_worker_id j)) ''worker_failure''")
      case (Inl x)
      with m at_job show ?thesis
        by (simp add: bnd_run owned with_session_run)
          (simp add: py_simps Let_def agree_envD [OF at_job(5)],
           rule same_error [OF match], simp_all add: agree_env_def)
    next
      case (Inr p)
      show ?thesis
      proof (cases ?again)
        case again: True
        with Inr m at_job show ?thesis
          by (simp add: bnd_run owned with_session_run)
            (simp add: py_simps Let_def agree_envD [OF at_job(5)],
             rule wrote_job [OF laws match at_job(1)], simp_all add: job_match_def agree_env_def)
      next
        case False
        with Inr m at_job r show ?thesis
          by (simp only: bnd_run owned with_session_run)
            (simp add: py_simps Let_def agree_envD [OF at_job(5)] match_frames [OF laws],
             rule wrote_both [OF laws match at_job(1) _ _ r(1,2), where rm' = "rm\<lparr>mr_status := run_status_value RunFailed,
               mr_error_summary := Some (redact_text (uri_redactor s) e), mr_updated_at := clock s (ticks s)\<rparr>"],
             simp_all add: job_match_def run_match_def agree_env_def)
      qed
    qed
  qed
  done

lemma update_status_match:
  assumes laws: "sql_laws om" and match: "matches om s t"
  shows "outcome_match om (=) (update_status k st e s) (sql_update_status om k st e t)"
proof -
  have env: "agree_env s t" and runm: "runs_match om (runs s) (committed t)"
    and jm: "jobs_match om (uri_redactor s) (workflow_jobs s) (committed t)"
    using match by (simp_all add: matches_def)
  show ?thesis
  proof (cases rule: get_run_match [OF runm, of k])
    case 1
    with match env show ?thesis
      by (simp add: update_status_def sql_update_status_def py_simps outcome_match_def matches_def)
  next
    case (2 r rm)
    let ?r = "r\<lparr>r_status := st, r_error_summary := redact_opt (uri_redactor s) e, r_updated_at := clock s (ticks s)\<rparr>"
    let ?rm = "rm\<lparr>mr_status := run_status_value st, mr_error_summary := redact_opt (uri_redactor s) e,
      mr_updated_at := clock s (ticks s)\<rparr>"
    have rm: "run_match ?r ?rm" using 2(3) by (simp add: run_match_def)
    have "runs_match om (dict_set k ?r (runs s)) (tb_save (om_runs om) ?rm (committed t))"
      by (rule runs_match_put [OF laws runm rm]) (use 2 run_key [OF laws 2(2)] in simp_all)
    with 2 jm env show ?thesis
      by (simp add: update_status_def sql_update_status_def py_simps Let_def agree_envD [OF env]
          run_from_match [OF rm] outcome_match_def matches_def match_frames [OF laws])
        (simp add: agree_env_def)
  qed
qed

text \<open>The trace id and the new ids are read from the environment, which both sides share.\<close>

lemma trace_id_match:
  assumes "agree_env s t"
  obtains x s' t' where "ensure_trace_id tr s = (Inr x, s')" "ensure_trace_id tr t = (Inr x, t')"
    "s' = s \<and> t' = t \<or> s' = s\<lparr>uuid_ix := Suc (uuid_ix s)\<rparr> \<and> t' = t\<lparr>uuid_ix := Suc (uuid_ix s)\<rparr>"
proof -
  let ?n = "strip (case tr of None \<Rightarrow> [] | Some x \<Rightarrow> x)"
  consider "?n \<noteq> []" | "?n = []" "active_trace s \<in> {None, Some []}"
    | x where "?n = []" "active_trace s = Some x" "x \<noteq> []" by (cases "active_trace s") auto
  then show thesis
  proof cases
    case 1
    then show thesis by (intro that [of ?n s t]) (simp_all add: ensure_trace_id_def py_simps Let_def)
  next
    case 2
    then show thesis
      by (intro that [of "uuids s (uuid_ix s)" "s\<lparr>uuid_ix := Suc (uuid_ix s)\<rparr>" "t\<lparr>uuid_ix := Suc (uuid_ix s)\<rparr>"])
        (auto simp: ensure_trace_id_def py_simps Let_def agree_envD [OF assms])
  next
    case 3
    then show thesis
      by (intro that [of x s t]) (simp_all add: ensure_trace_id_def py_simps Let_def agree_envD [OF assms])
  qed
qed

definition new_run_id :: "'z env_scheme \<Rightarrow> string" where
  "new_run_id s = ''run_'' @ uuids s (uuid_ix s)"

lemma create_run_match:
  assumes laws: "sql_laws om" and match: "matches om s t" and fresh: "dict_get (runs s) (new_run_id s) = None"
  shows "outcome_match om (=) (create_run task md tr s) (sql_create_run om task md tr t)"
proof (cases "3 \<le> length (strip task)")
  case False
  with match show ?thesis
    by (simp add: create_run_def sql_create_run_def Let_def py_simps outcome_match_def)
next
  case True
  define s1 where "s1 = s\<lparr>ticks := Suc (ticks s), uuid_ix := Suc (uuid_ix s)\<rparr>"
  define t1 where "t1 = t\<lparr>ticks := Suc (ticks s), uuid_ix := Suc (uuid_ix s)\<rparr>"
  have env: "agree_env s t" and runm: "runs_match om (runs s) (committed t)"
    and jm: "jobs_match om (uri_redactor s) (workflow_jobs s) (committed t)"
    using match by (simp_all add: matches_def)
  then have "agree_env s1 t1" by (simp add: s1_def t1_def agree_env_def)
  then obtain trace s2 t2 where trace: "ensure_trace_id tr s1 = (Inr trace, s2)" "ensure_trace_id tr t1 = (Inr trace, t2)"
    and s2: "s2 = s1 \<and> t2 = t1 \<or> s2 = s1\<lparr>uuid_ix := Suc (uuid_ix s1)\<rparr> \<and> t2 = t1\<lparr>uuid_ix := Suc (uuid_ix s1)\<rparr>"
    by (rule trace_id_match)
  let ?r = "\<lparr>r_id = new_run_id s, r_task = strip task, r_status = RunPending,
    r_metadata = redact_dict (uri_redactor s) md, r_created_at = clock s (ticks s),
    r_updated_at = clock s (ticks s), r_dataset_artifact_id = None, r_trace_id = Some trace,
    r_error_summary = None\<rparr>"
  let ?rm = "\<lparr>mr_id = new_run_id s, mr_task = strip task, mr_status = run_status_value RunPending,
    mr_metadata_json = redact_dict (uri_redactor s) md, mr_dataset_artifact_id = None,
    mr_trace_id = Some trace, mr_error_summary = None, mr_created_at = clock s (ticks s),
    mr_updated_at = clock s (ticks s)\<rparr>"
  have rm: "run_match ?r ?rm" by (simp add: run_match_def)
  obtain d where d: "tb_add (om_runs om) ?rm (committed t) = Some d"
      "runs_match om (dict_set (new_run_id s) ?r (runs s)) d"
      "jobs_match om (uri_redactor s) (workflow_jobs s) d"
    by (rule runs_match_add [OF laws runm rm _ fresh, of "uri_redactor s" "workflow_jobs s"]) (use jm in auto)
  have "create_run task md tr s = (Inr ?r, s2\<lparr>runs := dict_set (new_run_id s) ?r (runs s2),
      artifacts := dict_set (new_run_id s) [] (artifacts s2),
      graph_nodes := dict_set (new_run_id s) [] (graph_nodes s2),
      events := dict_set (new_run_id s) [] (events s2),
      evaluations := dict_set (new_run_id s) [] (evaluations s2)\<rparr>)"
    using True trace(1) unfolding s1_def new_run_id_def
    by (simp add: create_run_def Let_def py_simps)
  moreover have "sql_create_run om task md tr t = (Inr ?r, t2\<lparr>session := d, committed := d\<rparr>)"
  proof -
    have "committed t2 = committed t" using s2 by (auto simp: t1_def)
    with True trace(2) d(1) run_from_match [OF rm] show ?thesis
      unfolding t1_def new_run_id_def
      by (simp add: sql_create_run_def Let_def py_simps agree_envD [OF env])
  qed
  ultimately show ?thesis
    using d s2 env
    by (auto simp: outcome_match_def matches_def s1_def t1_def agree_env_def)
qed

lemma enqueue_match:
  assumes laws: "sql_laws om" and match: "matches om s t"
    and fresh: "enqueue_id ji s \<notin> set (dict_keys (workflow_jobs s))"
  shows "outcome_match om (same_job (uri_redactor s)) (enqueue_workflow_job k nm p mx ji st s)
           (sql_enqueue_workflow_job om k nm p mx ji st t)"
proof (cases "strip nm \<noteq> [] \<and> 1 \<le> mx \<and> st \<noteq> JobRunning")
  case False
  with match show ?thesis
    by (auto simp: enqueue_workflow_job_def sql_enqueue_workflow_job_def Let_def py_simps outcome_match_def)
next
  case True
  have env: "agree_env s t" and runm: "runs_match om (runs s) (committed t)"
    and jm: "jobs_match om (uri_redactor s) (workflow_jobs s) (committed t)"
    using match by (simp_all add: matches_def)
  show ?thesis
  proof (cases rule: get_run_match [OF runm, of k])
    case 1
    with True match env show ?thesis
      by (simp add: enqueue_workflow_job_def sql_enqueue_workflow_job_def Let_def py_simps outcome_match_def matches_def)
  next
    case (2 r rm)
    let ?j = "\<lparr>j_id = enqueue_id ji s, j_run_id = k, j_workflow_name = strip nm, j_status = st,
      j_payload = redact_dict (uri_redactor s) p, j_attempt_count = 0, j_max_attempts = mx,
      j_created_at = clock s (ticks s), j_updated_at = clock s (ticks s), j_worker_id = None,
      j_error_summary = None, j_started_at = None, j_finished_at = None, j_heartbeat_at = None\<rparr>"
    let ?m = "\<lparr>mj_id = enqueue_id ji s, mj_run_id = k, mj_workflow_name = strip nm,
      mj_status = job_status_value st, mj_payload = redact_dict (uri_redactor s) p, mj_attempt_count = 0,
      mj_max_attempts = mx, mj_worker_id = None, mj_error_summary = None, mj_started_at = None,
      mj_finished_at = None, mj_heartbeat_at = None, mj_created_at = clock s (ticks s),
      mj_updated_at = clock s (ticks s)\<rparr>"
    have m: "job_match (uri_redactor s) ?j ?m" by (simp add: job_match_def)
    obtain d where d: "tb_add (om_jobs om) ?m (committed t) = Some d"
        "jobs_match om (uri_redactor s) (dict_set (enqueue_id ji s) ?j (workflow_jobs s)) d"
        "runs_match om (runs s) d"
      by (rule jobs_match_add [OF laws jm m, of "enqueue_id ji s" "runs s"])
        (use fresh 2 runm in \<open>auto simp: dict_get_None_iff\<close>)
    show ?thesis
    proof (cases "ji \<in> {None, Some []}")
      case new: True
      then have "enqueue_id ji s = ''job_'' @ uuids s (uuid_ix s)" by (auto simp: enqueue_id_def)
      with True 2 new d env job_from_match [OF m] show ?thesis
        by (auto simp: enqueue_workflow_job_def sql_enqueue_workflow_job_def Let_def py_simps
            outcome_match_def matches_def agree_env_def same_job_def)
    next
      case False
      then obtain x where "ji = Some x" "x \<noteq> []" by auto
      moreover from this have "enqueue_id ji s = x" by (simp add: enqueue_id_def)
      ultimately show ?thesis
        using True 2 d env job_from_match [OF m]
        by (auto simp: enqueue_workflow_job_def sql_enqueue_workflow_job_def Let_def py_simps
            outcome_match_def matches_def agree_env_def same_job_def)
    qed
  qed
qed

end
