(* ===== verification/Sql_Properties.thy ===== *)
theory Sql_Properties
  imports Sql_Refinement
begin

text \<open>
  Histories of the SQLAlchemy repository are histories of the in-memory repository: the
  refinement theorem, and what it carries over. A database that keeps its tables as lists
  of rows shows that the laws of sql_laws can hold.
\<close>

section \<open>Calls and histories\<close>







section \<open>One call\<close>




section \<open>The in-memory side of a history\<close>































section \<open>The properties\<close>






section \<open>A database of rows\<close>




















end
