(* ===== verification/Dataset_Plan.thy ===== *)
theory Dataset_Plan
  imports Run_State
begin

text \<open>
  data/intelligence.py: how the columns of a profiled dataset decide the recipe of its
  analysis. The aliases of a role are a set in the code, whose iteration order depends on
  the hash seed; the order is the parameter pick below, any function that lists the same
  aliases. The pydantic text of a validation error is the parameter pm, a function of the
  rejected value.
\<close>

section \<open>What the code takes from pydantic and from floating point numbers\<close>

text \<open>A value the operator in of a set raises TypeError for.\<close>

definition unhashable :: "pyval \<Rightarrow> bool" where
  "unhashable v = (case v of PList _ \<Rightarrow> True | PDict _ \<Rightarrow> True | _ \<Rightarrow> False)"

text \<open>Model construction with a value that its fields do not allow.\<close>

definition validation_error :: "(pyval \<Rightarrow> string) \<Rightarrow> pyval \<Rightarrow> exn" where
  "validation_error pm v = OtherError ''ValidationError'' (pm v)"

text \<open>
  fl_near rounds a rational to the nearest double, which every float operation does to its
  exact result; fl_round is round(x, digits).
\<close>

record floats =
  fl_near :: "rat \<Rightarrow> rat"
  fl_round :: "nat \<Rightarrow> rat \<Rightarrow> rat"

section \<open>Profiles and plans\<close>

record CsvColumnProfile =
  cp_name :: string
  cp_inferred_type :: string
  cp_description :: string
  cp_missing_count :: int
  cp_missing_ratio :: rat
  cp_unique_count :: int
  cp_example_values :: "string list"
  cp_summary_statistics :: "(string, rat) dict"

record CsvDatasetProfile =
  dp_path :: string
  dp_row_count :: int
  dp_column_count :: int
  dp_columns :: "CsvColumnProfile list"
  dp_quality_summary :: "(string, pyval) dict"

record DatasetAnalysisPlan =
  ap_recipe :: string
  ap_domain :: string
  ap_confidence :: rat
  ap_measures :: "string list"
  ap_dimensions :: "string list"
  ap_time_columns :: "string list"
  ap_identifiers :: "string list"
  ap_semantic_mappings :: "(string, string) dict"
  ap_goals :: "string list"
  ap_warnings :: "string list"
  ap_requires_clarification :: bool

definition plan_to_py :: "DatasetAnalysisPlan \<Rightarrow> pyval" where
  "plan_to_py p = PDict
     [(''recipe'', PStr (ap_recipe p)), (''domain'', PStr (ap_domain p)),
      (''confidence'', PFloat (ap_confidence p)), (''measures'', strs (ap_measures p)),
      (''dimensions'', strs (ap_dimensions p)), (''time_columns'', strs (ap_time_columns p)),
      (''identifiers'', strs (ap_identifiers p)),
      (''semantic_mappings'', PDict (map (\<lambda>(k, v). (k, PStr v)) (ap_semantic_mappings p))),
      (''goals'', strs (ap_goals p)), (''warnings'', strs (ap_warnings p)),
      (''requires_clarification'', PBool (ap_requires_clarification p))]"

definition procurement_aliases :: "(string \<times> string list) list" where
  "procurement_aliases =
     [(''supplier'', [''supplier'', ''supplier_name'', ''vendor'', ''vendor_name'']),
      (''category'', [''category'', ''spend_category'', ''commodity'', ''procurement_category'',
                    ''expense_type'']),
      (''amount'', [''amount'', ''amount_gbp'', ''amount_usd'', ''amount_eur'', ''amount_inr'',
                  ''spend_amount'', ''invoice_amount'', ''net_amount'', ''total_amount'',
                  ''transaction_amount'', ''cost'', ''spend'']),
      (''date'', [''date'', ''invoice_date'', ''transaction_date'', ''purchase_date'', ''payment_date'',
                ''posting_date''])]"

section \<open>Column names\<close>

text \<open>re.sub("[^a-z0-9]+", "_", value): each longest run of other characters becomes one underscore.\<close>

definition name_char :: "char \<Rightarrow> bool" where
  "name_char c = (let n = (of_char c :: nat) in (97 \<le> n \<and> n \<le> 122) \<or> (48 \<le> n \<and> n \<le> 57))"

fun squeeze :: "bool \<Rightarrow> string \<Rightarrow> string" where
  "squeeze inside [] = []"
| "squeeze inside (c # cs) =
     (if name_char c then c # squeeze False cs
      else if inside then squeeze True cs else CHR ''_'' # squeeze True cs)"

definition strip_underscores :: "string \<Rightarrow> string" where
  "strip_underscores s =
     rev (dropWhile (\<lambda>c. c = CHR ''_'') (rev (dropWhile (\<lambda>c. c = CHR ''_'') s)))"

definition normalize_name :: "string \<Rightarrow> string" where
  "normalize_name value_text = strip_underscores (squeeze False (lower value_text))"

definition ends_with :: "string \<Rightarrow> string \<Rightarrow> bool" where
  "ends_with suffix s = starts_with (rev suffix) (rev s)"

text \<open>
  The quotient unique_count / row_count is compared with 0.98; division rounds correctly, so
  the comparison is that of the exact numbers (for counts below two to the forty).
\<close>

definition is_identifier :: "string \<Rightarrow> int \<Rightarrow> int \<Rightarrow> bool" where
  "is_identifier name unique_count row_count =
     (let normalized = normalize_name name;
          explicit = (normalized = ''id'' \<or> ends_with ''_id'' normalized \<or> contains ''identifier'' normalized);
          unique = (5 < row_count \<and> 98 * row_count \<le> 100 * unique_count)
      in explicit \<or> (unique \<and> list_ex (\<lambda>token. contains token normalized) [''code'', ''number'', ''key'']))"

definition looks_temporal :: "string \<Rightarrow> bool" where
  "looks_temporal name =
     list_ex (\<lambda>token. contains token (normalize_name name))
       [''date'', ''time'', ''timestamp'', ''month'', ''year'']"

definition goal_candidates :: "(string \<times> string list) list" where
  "goal_candidates =
     [(''quality'', [''quality'', ''missing'', ''clean'']),
      (''summary'', [''analyze'', ''analysis'', ''summary'', ''kpi'', ''dashboard'', ''report'']),
      (''trend'', [''trend'', ''over time'', ''forecast'', ''growth'']),
      (''segments'', [''segment'', ''group'', ''breakdown'', ''compare'']),
      (''outliers'', [''outlier'', ''anomaly'', ''unusual'', ''risk'']),
      (''relationships'', [''correlation'', ''relationship'', ''driver''])]"

definition analysis_goals :: "string \<Rightarrow> string list" where
  "analysis_goals task =
     (let goals = map fst (filter (\<lambda>(name, terms). list_ex (\<lambda>t. contains t (lower task)) terms)
                             goal_candidates)
      in if goals = [] then [''quality'', ''summary'', ''segments'', ''outliers''] else goals)"

definition generic_confidence :: "floats \<Rightarrow> CsvDatasetProfile \<Rightarrow> string list \<Rightarrow> rat" where
  "generic_confidence fl profile measured =
     (if dp_row_count profile = 0 then fl_near fl (1 / 5)
      else
        let typed_columns = length (filter (\<lambda>c. cp_inferred_type c \<noteq> ''unknown'') (dp_columns profile));
            type_ratio = fl_near fl (of_nat typed_columns / of_int (max (dp_column_count profile) 1));
            base = fl_near fl (fl_near fl (55 / 100) + fl_near fl (type_ratio * fl_near fl (1 / 5)));
            bonus = (if measured = [] then 0 else fl_near fl (1 / 10))
        in fl_round fl 2 (min (fl_near fl (9 / 10)) (fl_near fl (base + bonus))))"

section \<open>The plan of a dataset\<close>

text \<open>The dictionary comprehension over roles and aliases: the last alias in use wins.\<close>

definition semantic_columns :: "(string list \<Rightarrow> string list) \<Rightarrow> CsvDatasetProfile \<Rightarrow> (string, string) dict" where
  "semantic_columns pick profile =
     (let normalized = foldl (\<lambda>d c. dict_set (normalize_name (cp_name c)) (cp_name c) d) []
                         (dp_columns profile);
          pairs = concat (map (\<lambda>(role, aliases). map (\<lambda>alias. (role, alias)) (pick aliases))
                            procurement_aliases)
      in foldl (\<lambda>d (role, alias). case dict_get normalized alias of
                  None \<Rightarrow> d | Some name \<Rightarrow> dict_set role name d) [] pairs)"

definition required_roles :: "string list" where
  "required_roles = [''supplier'', ''category'', ''amount'']"

definition has_required_roles :: "(string, string) dict \<Rightarrow> bool" where
  "has_required_roles mappings = list_all (\<lambda>role. dict_get mappings role \<noteq> None) required_roles"

text \<open>list(profile.quality_summary.get("warnings") or [])\<close>

definition profile_warnings :: "CsvDatasetProfile \<Rightarrow> pyval list result" where
  "profile_warnings profile =
     (let w = pget (dp_quality_summary profile) ''warnings''
      in if truthy w then py_list w else Inr [])"

text \<open>The recipe, once the required columns are known to be there when procurement is preferred.\<close>

definition choose_recipe :: "(string, string) dict \<Rightarrow> string option \<Rightarrow> string \<Rightarrow> string" where
  "choose_recipe mappings preferred user_task =
     (let intent = list_ex (\<lambda>token. contains token (lower user_task))
                     [''procurement'', ''supplier'', ''vendor'', ''invoice'', ''spend'']
      in if preferred = Some ''procurement'' \<or> (has_required_roles mappings \<and> intent)
         then ''procurement'' else ''generic'')"

definition build_dataset_analysis_plan ::
    "(pyval \<Rightarrow> string) \<Rightarrow> floats \<Rightarrow> (string list \<Rightarrow> string list) \<Rightarrow> CsvDatasetProfile \<Rightarrow> string \<Rightarrow>
     string option \<Rightarrow> DatasetAnalysisPlan result" where
  "build_dataset_analysis_plan pm fl pick profile user_task preferred =
     (let mappings = semantic_columns pick profile;
          ready = has_required_roles mappings;
          missing = sort (filter (\<lambda>role. dict_get mappings role = None) required_roles) in
      if preferred = Some ''procurement'' \<and> \<not> ready then
        Inl (ValueError (''Procurement analysis requires semantic columns for: '' @ join '', '' missing))
      else
        let recipe = choose_recipe mappings preferred user_task;
            columns = dp_columns profile;
            identifiers = map cp_name (filter (\<lambda>c.
                is_identifier (cp_name c) (cp_unique_count c) (dp_row_count profile)) columns);
            time_columns = map cp_name (filter (\<lambda>c.
                cp_inferred_type c = ''date'' \<or> looks_temporal (cp_name c)) columns);
            measured = map cp_name (filter (\<lambda>c.
                cp_inferred_type c \<in> {''integer'', ''number''} \<and> cp_name c \<notin> set identifiers
                \<and> cp_name c \<notin> set time_columns) columns);
            dimensions = map cp_name (filter (\<lambda>c.
                cp_name c \<notin> set identifiers \<and> cp_name c \<notin> set time_columns
                \<and> cp_name c \<notin> set measured
                \<and> cp_unique_count c \<le> max 20 (min (dp_row_count profile div 2) 500)) columns) in
        case profile_warnings profile of Inl e \<Rightarrow> Inl e | Inr ws \<Rightarrow>
          let warnings = ws
                @ (if measured = [] then
                     [PStr ''No numeric measures were detected; analysis will focus on counts and quality.'']
                   else [])
                @ (if time_columns = [] then
                     [PStr ''No time column was detected; trend analysis will be omitted.'']
                   else []);
              confidence = (if recipe = ''procurement'' then fl_near fl (95 / 100)
                            else generic_confidence fl profile measured) in
          case as_strs_list warnings of
            None \<Rightarrow> Inl (validation_error pm (PList warnings))
          | Some warning_texts \<Rightarrow>
              if \<not> (0 \<le> confidence \<and> confidence \<le> 1) then Inl (validation_error pm (PFloat confidence))
              else Inr
                \<lparr>ap_recipe = recipe,
                 ap_domain = (if recipe = ''procurement'' then ''procurement'' else ''general''),
                 ap_confidence = confidence, ap_measures = take 20 measured,
                 ap_dimensions = take 20 dimensions, ap_time_columns = take 10 time_columns,
                 ap_identifiers = take 20 identifiers,
                 ap_semantic_mappings = (if recipe = ''procurement'' then mappings else []),
                 ap_goals = analysis_goals user_task, ap_warnings = warning_texts,
                 ap_requires_clarification = (dp_row_count profile = 0)\<rparr>)"

section \<open>Lemmas\<close>

lemma analysis_goals_nonempty: "analysis_goals task \<noteq> []"
  by (simp add: analysis_goals_def Let_def)

text \<open>A plan uses the procurement recipe only when the roles it needs are mapped to columns.\<close>

lemma foldl_roles:
  assumes "dict_get (foldl (\<lambda>d (role, alias). case dict_get normalized alias of
             None \<Rightarrow> d | Some name \<Rightarrow> dict_set role name d) d0 pairs) r = Some column"
    and "\<And>c. dict_get d0 r = Some c \<Longrightarrow> P c"
    and "\<And>alias c. (r, alias) \<in> set pairs \<Longrightarrow> dict_get normalized alias = Some c \<Longrightarrow> P c"
  shows "P column"
  using assms
proof (induction pairs arbitrary: d0)
  case (Cons p pairs)
  obtain role al where p: "p = (role, al)" by fastforce
  show ?case
  proof (cases "dict_get normalized al")
    case None
    with Cons p show ?thesis by (auto intro: Cons.IH [of d0])
  next
    case (Some name)
    with Cons.prems p show ?thesis
      by (intro Cons.IH [of "dict_set role name d0"]) (auto simp: dict_get_set split: if_splits)
  qed
qed auto

lemma normalized_columns:
  "dict_get (foldl (\<lambda>d c. dict_set (normalize_name (cp_name c)) (cp_name c) d) d0 columns) k = Some name \<Longrightarrow>
     dict_get d0 k = Some name \<or> (\<exists>c \<in> set columns. cp_name c = name \<and> normalize_name name = k)"
  by (induction columns arbitrary: d0) (fastforce simp: dict_get_set split: if_splits)+

lemma semantic_column_sound:
  assumes "dict_get (semantic_columns pick profile) role = Some name"
    and "\<And>aliases. set (pick aliases) = set aliases"
  shows "\<exists>c \<in> set (dp_columns profile). cp_name c = name
           \<and> (\<exists>aliases. (role, aliases) \<in> set procurement_aliases \<and> normalize_name name \<in> set aliases)"
proof -
  define normalized where
    "normalized = foldl (\<lambda>d c. dict_set (normalize_name (cp_name c)) (cp_name c) d) [] (dp_columns profile)"
  define pairs where
    "pairs = concat (map (\<lambda>(role, aliases). map (\<lambda>alias. (role, alias)) (pick aliases)) procurement_aliases)"
  from assms(1) have "dict_get (foldl (\<lambda>d (role, alias). case dict_get normalized alias of
      None \<Rightarrow> d | Some name \<Rightarrow> dict_set role name d) [] pairs) role = Some name"
    by (simp add: semantic_columns_def Let_def normalized_def pairs_def)
  then show ?thesis
  proof (rule foldl_roles)
    fix al c
    assume "(role, al) \<in> set pairs" and "dict_get normalized al = Some c"
    with assms(2) normalized_columns [of "[]" "dp_columns profile" al c] show
      "\<exists>x \<in> set (dp_columns profile). cp_name x = c
         \<and> (\<exists>aliases. (role, aliases) \<in> set procurement_aliases \<and> normalize_name c \<in> set aliases)"
      by (auto simp: pairs_def normalized_def)
  qed simp
qed

end
