(* ===== verification/Planner.thy ===== *)
theory Planner
  imports Dataset_Plan Orchestrator
begin

text \<open>
  agents/planner.py: the schema of plans, their validation, the fixed graphs of an analysis
  and the choice of a recipe, in which a language model may have a say. What the model
  gateway answers is the argument gateway: any value and any exception. The text of a
  pydantic error is pm (Dataset_Plan), json.dumps is dumps and repr is rp.
\<close>

section \<open>The plan schema\<close>

record PlanNodeSchema =
  pn_id :: string
  pn_agent :: string
  pn_task :: string
  pn_depends_on :: "string list"
  pn_required_tools :: "string list"
  pn_expected_artifacts :: "string list"
  pn_risk :: string

record ExecutionPlanSchema =
  ep_run_id :: string
  ep_user_task :: string
  ep_nodes :: "PlanNodeSchema list"

text \<open>
  A text field: the length limits hold for the raw value, the validator then strips it and
  refuses a blank one. A list field: each value is stripped and must not be blank.
\<close>

definition text_field :: "nat \<Rightarrow> nat \<Rightarrow> pyval \<Rightarrow> string option" where
  "text_field lo hi v =
     (case v of
        PStr s \<Rightarrow> if lo \<le> length s \<and> length s \<le> hi \<and> strip s \<noteq> [] then Some (strip s) else None
      | _ \<Rightarrow> None)"

definition list_field :: "pyval \<Rightarrow> string list option" where
  "list_field v =
     (case as_strs v of
        None \<Rightarrow> None
      | Some ss \<Rightarrow> if list_all (\<lambda>s. strip s \<noteq> []) ss then Some (map strip ss) else None)"

definition risk_field :: "pyval \<Rightarrow> string option" where
  "risk_field v =
     (case v of PStr s \<Rightarrow> if s \<in> {''low'', ''medium'', ''high''} then Some s else None | _ \<Rightarrow> None)"

text \<open>A required field, a field with a default, and extra="forbid".\<close>

definition required_field :: "(string, pyval) dict \<Rightarrow> string \<Rightarrow> (pyval \<Rightarrow> 'a option) \<Rightarrow> 'a option" where
  "required_field d k f = Option.bind (dict_get d k) f"

definition default_field :: "(string, pyval) dict \<Rightarrow> string \<Rightarrow> 'a \<Rightarrow> (pyval \<Rightarrow> 'a option) \<Rightarrow> 'a option" where
  "default_field d k x f = (case dict_get d k of None \<Rightarrow> Some x | Some v \<Rightarrow> f v)"

definition only_fields :: "string list \<Rightarrow> (string, pyval) dict \<Rightarrow> bool" where
  "only_fields names d = list_all (\<lambda>k. k \<in> set names) (dict_keys d)"

definition plan_node_of_dict :: "(string, pyval) dict \<Rightarrow> PlanNodeSchema option" where
  "plan_node_of_dict d =
     (if \<not> only_fields [''id'', ''agent'', ''task'', ''depends_on'', ''required_tools'',
                      ''expected_artifacts'', ''risk''] d then None
      else
        Option.bind (required_field d ''id'' (text_field 1 96)) (\<lambda>i.
        Option.bind (required_field d ''agent'' (text_field 1 128)) (\<lambda>a.
        Option.bind (required_field d ''task'' (text_field 3 2000)) (\<lambda>t.
        Option.bind (default_field d ''depends_on'' [] list_field) (\<lambda>ds.
        Option.bind (default_field d ''required_tools'' [] list_field) (\<lambda>ts.
        Option.bind (default_field d ''expected_artifacts'' [] list_field) (\<lambda>xs.
        Option.bind (default_field d ''risk'' ''low'' risk_field) (\<lambda>r.
          Some \<lparr>pn_id = i, pn_agent = a, pn_task = t, pn_depends_on = ds, pn_required_tools = ts,
                pn_expected_artifacts = xs, pn_risk = r\<rparr>))))))))"

definition plan_node_of_py :: "pyval \<Rightarrow> PlanNodeSchema option" where
  "plan_node_of_py v = Option.bind (as_dict v) plan_node_of_dict"

text \<open>ExecutionPlanSchema.model_validate\<close>

definition plan_of_payload :: "pyval \<Rightarrow> ExecutionPlanSchema option" where
  "plan_of_payload v =
     Option.bind (as_dict v) (\<lambda>d.
       if \<not> only_fields [''run_id'', ''user_task'', ''nodes''] d then None
       else
         Option.bind (required_field d ''run_id'' (text_field 1 96)) (\<lambda>i.
         Option.bind (required_field d ''user_task'' (text_field 3 4000)) (\<lambda>t.
         Option.bind (required_field d ''nodes'' as_list) (\<lambda>vs.
         Option.bind (those (map plan_node_of_py vs)) (\<lambda>ns.
           if ns = [] then None else Some \<lparr>ep_run_id = i, ep_user_task = t, ep_nodes = ns\<rparr>)))))"

text \<open>The constructors PlanNodeSchema(...) and ExecutionPlanSchema(...), whose nodes are instances.\<close>

definition new_plan_node :: "(pyval \<Rightarrow> string) \<Rightarrow> (string, pyval) dict \<Rightarrow> PlanNodeSchema result" where
  "new_plan_node pm kwargs =
     (case plan_node_of_dict kwargs of
        None \<Rightarrow> Inl (validation_error pm (PDict kwargs)) | Some node \<Rightarrow> Inr node)"

definition new_plan ::
    "(pyval \<Rightarrow> string) \<Rightarrow> string \<Rightarrow> string \<Rightarrow> PlanNodeSchema list \<Rightarrow> ExecutionPlanSchema result" where
  "new_plan pm run_id user_task nodes =
     (case (text_field 1 96 (PStr run_id), text_field 3 4000 (PStr user_task)) of
        (Some i, Some t) \<Rightarrow>
          if nodes = [] then Inl (validation_error pm (PStr run_id))
          else Inr \<lparr>ep_run_id = i, ep_user_task = t, ep_nodes = nodes\<rparr>
      | _ \<Rightarrow> Inl (validation_error pm (PDict [(''run_id'', PStr run_id), (''user_task'', PStr user_task)])))"

definition node_dump :: "PlanNodeSchema \<Rightarrow> pyval" where
  "node_dump n = PDict
     [(''id'', PStr (pn_id n)), (''agent'', PStr (pn_agent n)), (''task'', PStr (pn_task n)),
      (''depends_on'', strs (pn_depends_on n)), (''required_tools'', strs (pn_required_tools n)),
      (''expected_artifacts'', strs (pn_expected_artifacts n)), (''risk'', PStr (pn_risk n))]"

definition plan_dump :: "ExecutionPlanSchema \<Rightarrow> pyval" where
  "plan_dump p = PDict
     [(''run_id'', PStr (ep_run_id p)), (''user_task'', PStr (ep_user_task p)),
      (''nodes'', PList (map node_dump (ep_nodes p)))]"

definition to_execution_node :: "PlanNodeSchema \<Rightarrow> ExecutionNode" where
  "to_execution_node n =
     \<lparr>en_id = pn_id n, en_agent = pn_agent n, en_task = pn_task n, en_depends_on = pn_depends_on n,
      en_required_tools = pn_required_tools n, en_expected_artifacts = pn_expected_artifacts n,
      en_risk = pn_risk n\<rparr>"

definition to_execution_graph :: "ExecutionPlanSchema \<Rightarrow> ExecutionGraph" where
  "to_execution_graph p =
     \<lparr>eg_run_id = ep_run_id p, eg_nodes = map to_execution_node (ep_nodes p)\<rparr>"

definition validate_planner_output ::
    "(pyval \<Rightarrow> string) \<Rightarrow> pyval \<Rightarrow> agent_registry \<Rightarrow> ExecutionPlanSchema result" where
  "validate_planner_output pm payload reg =
     (case plan_of_payload payload of
        None \<Rightarrow> Inl (PlannerValidationError
                  (''Planner output does not match the plan schema: '' @ pm payload))
      | Some plan \<Rightarrow>
          (case validate_graph (to_execution_graph plan) (list_agent_types reg) of
             Inl (GraphValidationError m) \<Rightarrow>
               Inl (PlannerValidationError (''Planner output failed graph validation: '' @ m))
           | Inl e \<Rightarrow> Inl e
           | Inr _ \<Rightarrow> Inr plan))"

section \<open>The fixed graphs of an analysis\<close>

definition looks_like_procurement_dashboard_task :: "string \<Rightarrow> bool" where
  "looks_like_procurement_dashboard_task user_task =
     (let lowered = lower user_task in
      list_ex (\<lambda>k. contains k lowered) [''procurement'', ''supplier'', ''spend'', ''invoice'']
      \<and> list_ex (\<lambda>k. contains k lowered) [''analyze'', ''analysis'', ''dashboard'', ''report'', ''kpi''])"

definition dataset_context :: "(pyval \<Rightarrow> string) \<Rightarrow> pyval \<Rightarrow> string" where
  "dataset_context rp dataset_artifact_id =
     (if truthy dataset_artifact_id
      then '' using dataset artifact '' @ py_str rp dataset_artifact_id else [])"

definition node_kwargs ::
    "string \<Rightarrow> string \<Rightarrow> string \<Rightarrow> string list option \<Rightarrow> string list \<Rightarrow> string list \<Rightarrow> string \<Rightarrow>
     (string, pyval) dict" where
  "node_kwargs i agent task depends_on required_tools expected_artifacts risk =
     [(''id'', PStr i), (''agent'', PStr agent), (''task'', PStr task)]
     @ (case depends_on of None \<Rightarrow> [] | Some ds \<Rightarrow> [(''depends_on'', strs ds)])
     @ [(''required_tools'', strs required_tools), (''expected_artifacts'', strs expected_artifacts),
        (''risk'', PStr risk)]"

text \<open>The keyword arguments of the five nodes, and their construction in order.\<close>

definition analysis_kwargs :: "string \<Rightarrow> string \<Rightarrow> (string, pyval) dict list" where
  "analysis_kwargs context recipe =
     (let label = (if recipe = ''procurement'' then ''procurement'' else ''general-purpose'') in
      [node_kwargs ''data_profile'' ''data_retrieval''
         (''Profile the dataset'' @ context @ '' and apply the '' @ recipe @ '' analysis recipe.'')
         None [''dataset_reader'', ''schema_profiler'', ''quality_checker'']
         [''schema_profile'', ''quality_report''] ''low'',
       node_kwargs ''analytics'' ''analytics_code''
         (''Compute governed '' @ label @ '' analytics using the '' @ recipe @ '' analysis recipe.'')
         (Some [''data_profile'']) [''dataframe_query'', ''python_analysis'', ''code_artifact_writer'']
         [''kpi_table'', ''code''] ''medium'',
       node_kwargs ''visualization'' ''visualization''
         (''Create relevant charts and a dashboard for the '' @ recipe @ '' analysis recipe.'')
         (Some [''analytics'']) [''chart_renderer'', ''dashboard_renderer''] [''chart'', ''dashboard''] ''low'',
       node_kwargs ''report'' ''report''
         (''Generate a final report with insights, charts, recommendations, ''
          @ ''assumptions, and limitations.'')
         (Some [''analytics'', ''visualization'']) [''artifact_reader'', ''markdown_report_writer'']
         [''report''] ''low'',
       node_kwargs ''evaluation'' ''evaluation''
         (''Evaluate artifact completeness and consistency between computed KPIs, ''
          @ ''dashboard charts, and report claims.'')
         (Some [''visualization'', ''report'']) [''artifact_reader'', ''deterministic_evaluator'']
         [''evaluation''] ''low''])"

fun build_nodes :: "(pyval \<Rightarrow> string) \<Rightarrow> (string, pyval) dict list \<Rightarrow> PlanNodeSchema list result" where
  "build_nodes pm [] = Inr []"
| "build_nodes pm (k # ks) =
     (case new_plan_node pm k of Inl e \<Rightarrow> Inl e | Inr n \<Rightarrow>
      case build_nodes pm ks of Inl e \<Rightarrow> Inl e | Inr ns \<Rightarrow> Inr (n # ns))"

definition analysis_nodes ::
    "(pyval \<Rightarrow> string) \<Rightarrow> (pyval \<Rightarrow> string) \<Rightarrow> pyval \<Rightarrow> DatasetAnalysisPlan \<Rightarrow> PlanNodeSchema list result" where
  "analysis_nodes pm rp dataset_artifact_id analysis_plan =
     build_nodes pm (analysis_kwargs (dataset_context rp dataset_artifact_id) (ap_recipe analysis_plan))"

definition procurement_plan :: DatasetAnalysisPlan where
  "procurement_plan =
     \<lparr>ap_recipe = ''procurement'', ap_domain = ''procurement'', ap_confidence = 1, ap_measures = [],
      ap_dimensions = [], ap_time_columns = [], ap_identifiers = [], ap_semantic_mappings = [],
      ap_goals = [''summary'', ''trend'', ''outliers''], ap_warnings = [], ap_requires_clarification = False\<rparr>"

definition procurement_dashboard_nodes ::
    "(pyval \<Rightarrow> string) \<Rightarrow> (pyval \<Rightarrow> string) \<Rightarrow> pyval \<Rightarrow> PlanNodeSchema list result" where
  "procurement_dashboard_nodes pm rp dataset_artifact_id =
     analysis_nodes pm rp dataset_artifact_id procurement_plan"

definition create_plan ::
    "(pyval \<Rightarrow> string) \<Rightarrow> (pyval \<Rightarrow> string) \<Rightarrow> agent_registry \<Rightarrow> string \<Rightarrow> string \<Rightarrow> pyval \<Rightarrow>
     ExecutionPlanSchema result" where
  "create_plan pm rp reg run_id user_task dataset_artifact_id =
     (let normalized_task = strip user_task in
      if \<not> looks_like_procurement_dashboard_task normalized_task then
        Inl (PlannerValidationError
          ''Planner currently supports procurement analytics dashboard/report workflows.'')
      else
        case procurement_dashboard_nodes pm rp dataset_artifact_id of Inl e \<Rightarrow> Inl e | Inr nodes \<Rightarrow>
        case new_plan pm run_id normalized_task nodes of Inl e \<Rightarrow> Inl e | Inr plan \<Rightarrow>
          validate_planner_output pm (plan_dump plan) reg)"

text \<open>PlannerAgent.execute: only a PlannerValidationError becomes a failed output.\<close>

definition planner_execute ::
    "(pyval \<Rightarrow> string) \<Rightarrow> (pyval \<Rightarrow> string) \<Rightarrow> agent_registry \<Rightarrow> AgentInput \<Rightarrow> AgentOutput result" where
  "planner_execute pm rp reg agent_input =
     (case create_plan pm rp reg (ai_run_id agent_input) (ai_task agent_input)
             (pget (ai_context agent_input) ''dataset_artifact_id'') of
        Inl (PlannerValidationError m) \<Rightarrow> Inr
          \<lparr>ao_status = ''failed'', ao_summary = ''Planner failed to create a valid execution graph.'',
           ao_artifacts = [], ao_events = [], ao_metrics = [], ao_errors = [m]\<rparr>
      | Inl e \<Rightarrow> Inl e
      | Inr plan \<Rightarrow> Inr
          \<lparr>ao_status = ''succeeded'',
           ao_summary = ''Created execution graph with '' @ nat_str (length (ep_nodes plan)) @ '' nodes.'',
           ao_artifacts = [],
           ao_events =
             [[(''event_type'', PStr (event_type_value EvLog)),
               (''message'', PStr ''Planner generated a validated execution graph.''),
               (''node_count'', PInt (int (length (ep_nodes plan))))]],
           ao_metrics = [(''plan'', plan_dump plan)], ao_errors = []\<rparr>)"

section \<open>The recommendation of a language model\<close>

record planner_gateway =
  gw_model :: string
  gw_generate :: "string \<Rightarrow> (string, pyval) dict result"

record planner_state =
  pl_source :: string
  pl_rationale :: string
  pl_model :: "string option"
  pl_warning :: "string option"

text \<open>round(column.missing_ratio, 3) and json.dumps are fl and dumps.\<close>

definition safe_dataset_description ::
    "(pyval \<Rightarrow> string) \<Rightarrow> floats \<Rightarrow> CsvDatasetProfile \<Rightarrow> string \<Rightarrow> string" where
  "safe_dataset_description dumps fl profile task = dumps (PDict
     [(''task'', PStr (take 1200 task)), (''row_count'', PInt (dp_row_count profile)),
      (''columns'', PList (map (\<lambda>c. PDict
         [(''name'', PStr (take 120 (cp_name c))), (''type'', PStr (cp_inferred_type c)),
          (''missing_ratio'', PFloat (fl_round fl 3 (cp_missing_ratio c)))])
         (take 60 (dp_columns profile)))),
      (''allowed_recipes'', strs [''generic'', ''procurement''])])"

definition allowed_goals :: "string list" where
  "allowed_goals = [''quality'', ''summary'', ''trend'', ''segments'', ''outliers'', ''relationships'']"

definition recommended_goals :: "pyval \<Rightarrow> string list result" where
  "recommended_goals goals =
     (case goals of
        PList vs \<Rightarrow>
          (if 50 < length vs then Inl (ValueError ''Model proposed invalid analysis goals.'')
           else case as_strs_list vs of
             None \<Rightarrow> Inl (ValueError ''Model proposed invalid analysis goals.'')
           | Some ss \<Rightarrow>
               if \<not> list_all (\<lambda>g. g \<in> set allowed_goals) ss
               then Inl (ValueError ''Model proposed invalid analysis goals.'')
               else if 6 < length (fromkeys ss)
               then Inl (ValueError ''Model proposed too many analysis goals.'')
               else Inr (fromkeys ss))
      | _ \<Rightarrow> Inl (ValueError ''Model proposed invalid analysis goals.''))"

definition apply_model_recommendation ::
    "DatasetAnalysisPlan \<Rightarrow> (string, pyval) dict \<Rightarrow> DatasetAnalysisPlan result" where
  "apply_model_recommendation existing recommendation =
     (let recipe = pget recommendation ''recipe'' in
      if set (dict_keys recommendation) \<noteq> {''recipe'', ''goals'', ''rationale''} then
        Inl (ValueError ''Model recommendation contains unexpected fields.'')
      else if unhashable recipe then Inl (TypeError ''unhashable type'')
      else if recipe \<notin> {PStr ''generic'', PStr ''procurement''} then
        Inl (ValueError ''Model proposed an unsupported recipe.'')
      else case recommended_goals (pget recommendation ''goals'') of Inl e \<Rightarrow> Inl e | Inr goals \<Rightarrow>
        if as_str (pget recommendation ''rationale'') = None then
          Inl (ValueError ''Model rationale must be text.'')
        else if recipe = PStr ''procurement'' \<and> \<not> has_required_roles (ap_semantic_mappings existing) then
          Inl (ValueError ''Model selected procurement without required semantic columns.'')
        else Inr (existing\<lparr>
          ap_recipe := (if recipe = PStr ''procurement'' then ''procurement'' else ''generic''),
          ap_domain := (if recipe = PStr ''procurement'' then ''procurement'' else ''general''),
          ap_goals := (if goals = [] then ap_goals existing else goals)\<rparr>))"

text \<open>except (LLMError, ValueError, TypeError, KeyError), with the subclasses of these in src.\<close>

definition planner_catches :: "exn \<Rightarrow> bool" where
  "planner_catches e \<longleftrightarrow> is_key_error e \<or> exn_class e \<in>
     {''LLMError'', ''LLMBudgetExceeded'', ''ValueError'', ''TypeError'', ''ValidationError'',
      ''JSONDecodeError'', ''UnicodeDecodeError'', ''UnicodeEncodeError'', ''GraphValidationError'',
      ''PlannerValidationError'', ''DeploymentApprovalError'', ''RunArchiveError'',
      ''RunArchiveConflictError'', ''AuthenticationError'', ''DataIngestionError''}"

text \<open>
  The try block of create_dynamic_plan: the plan to go on with and the planner's record of
  where it came from. gateway is self._llm_gateway or build_llm_gateway().
\<close>

definition consult_model ::
    "planner_gateway option result \<Rightarrow> string \<Rightarrow> DatasetAnalysisPlan \<Rightarrow> (planner_state, DatasetAnalysisPlan) py" where
  "consult_model gateway description analysis_plan =
     try_catch
       (bnd (lift_result gateway) (\<lambda>g. case g of
          None \<Rightarrow> ret analysis_plan
        | Some gw \<Rightarrow>
            bnd (lift_result (gw_generate gw description)) (\<lambda>recommendation.
            bnd (lift_result (apply_model_recommendation analysis_plan recommendation)) (\<lambda>plan.
            seq (modify (\<lambda>s. s\<lparr>pl_source := ''llm'',
                     pl_rationale := (case as_str (pget recommendation ''rationale'') of
                        None \<Rightarrow> [] | Some r \<Rightarrow> take 300 r),
                     pl_model := Some (gw_model gw)\<rparr>))
                (ret plan)))))
       (\<lambda>e. if planner_catches e
             then seq (modify (\<lambda>s. s\<lparr>pl_warning := Some (exn_class e)\<rparr>)) (ret analysis_plan)
             else raise e)"

text \<open>nodes.insert(3, ...) and the new dependency of the first node called report.\<close>

fun append_dependency :: "string \<Rightarrow> string \<Rightarrow> PlanNodeSchema list \<Rightarrow> PlanNodeSchema list" where
  "append_dependency node_id d [] = []"
| "append_dependency node_id d (n # ns) =
     (if pn_id n = node_id then n\<lparr>pn_depends_on := pn_depends_on n @ [d]\<rparr> # ns
      else n # append_dependency node_id d ns)"

definition add_investigation ::
    "(pyval \<Rightarrow> string) \<Rightarrow> PlanNodeSchema list \<Rightarrow> PlanNodeSchema list result" where
  "add_investigation pm nodes =
     (case new_plan_node pm
        (node_kwargs ''investigation'' ''investigation''
           ''Select and execute bounded read-only checks over computed analytics.''
           (Some [''analytics'']) [''artifact_reader''] [''report''] ''low'') of
        Inl e \<Rightarrow> Inl e
      | Inr n \<Rightarrow> Inr (append_dependency ''report'' ''investigation'' (take 3 nodes @ [n] @ drop 3 nodes)))"

text \<open>reasoning is settings.llm_enabled and settings.dynamic_reasoning_enabled.\<close>

definition create_dynamic_plan ::
    "(pyval \<Rightarrow> string) \<Rightarrow> (pyval \<Rightarrow> string) \<Rightarrow> (pyval \<Rightarrow> string) \<Rightarrow> floats \<Rightarrow> (string list \<Rightarrow> string list) \<Rightarrow>
     planner_gateway option result \<Rightarrow> bool \<Rightarrow> agent_registry \<Rightarrow> string \<Rightarrow> string \<Rightarrow> CsvDatasetProfile \<Rightarrow>
     pyval \<Rightarrow> (planner_state, ExecutionPlanSchema \<times> DatasetAnalysisPlan) py" where
  "create_dynamic_plan pm rp dumps fl pick gateway reasoning reg run_id user_task profile dataset_artifact_id =
     (let normalized_task = strip user_task in
      bnd (lift_result (build_dataset_analysis_plan pm fl pick profile normalized_task None)) (\<lambda>existing.
      seq (modify (\<lambda>s. \<lparr>pl_source = ''deterministic'', pl_rationale = [], pl_model = None, pl_warning = None\<rparr>))
      (bnd (consult_model gateway (safe_dataset_description dumps fl profile normalized_task) existing)
        (\<lambda>analysis_plan.
      bnd (lift_result (analysis_nodes pm rp dataset_artifact_id analysis_plan)) (\<lambda>nodes.
      bnd (lift_result (if reasoning then add_investigation pm nodes else Inr nodes)) (\<lambda>nodes'.
      bnd (lift_result (new_plan pm run_id normalized_task nodes')) (\<lambda>plan.
      bnd (lift_result (validate_planner_output pm (plan_dump plan) reg)) (\<lambda>validated.
        ret (validated, analysis_plan)))))))))"

end
