(* ===== verification/Planner_Properties.thy ===== *)
theory Planner_Properties
  imports Planner
begin

text \<open>
  What the planner may return. A validated plan is a graph the orchestrator accepts, and the
  plan of a dataset is one of four fixed graphs whatever a language model answers.
\<close>

section \<open>Field values that validate unchanged\<close>

lemma strip_unchanged: "s \<noteq> [] \<Longrightarrow> \<not> py_space (hd s) \<Longrightarrow> \<not> py_space (last s) \<Longrightarrow> strip s = s"
  unfolding strip_def
  by (simp add: iffD2 [OF dropWhile_eq_self_iff, of s] iffD2 [OF dropWhile_eq_self_iff, of "rev s"] hd_rev)

lemma strip_length: "length (strip s) \<le> length s"
  using length_dropWhile_le [of py_space "rev (dropWhile py_space s)"] length_dropWhile_le [of py_space s]
  by (simp add: strip_def)

lemma text_field_Some: "text_field lo hi v = Some s \<Longrightarrow> strip s = s \<and> s \<noteq> [] \<and> length s \<le> hi"
  using strip_length by (auto simp: text_field_def split: pyval.splits if_splits intro: order_trans)

lemma text_field_again: "strip s = s \<Longrightarrow> s \<noteq> [] \<Longrightarrow> lo \<le> length s \<Longrightarrow> length s \<le> hi \<Longrightarrow>
    text_field lo hi (PStr s) = Some s"
  by (simp add: text_field_def)

definition tidy :: "string list \<Rightarrow> bool" where
  "tidy ss \<longleftrightarrow> list_all (\<lambda>s. strip s = s \<and> s \<noteq> []) ss"

lemma list_field_Some: "list_field v = Some ss \<Longrightarrow> tidy ss"
  by (fastforce simp: list_field_def tidy_def list_all_iff split: option.splits if_splits)

lemma list_field_again: "tidy ss \<Longrightarrow> list_field (strs ss) = Some ss"
  by (induction ss) (auto simp: list_field_def tidy_def list_all_iff intro!: map_idI)

text \<open>The conditions under which a node or a plan is dumped and read back unchanged.\<close>

definition node_tidy :: "PlanNodeSchema \<Rightarrow> bool" where
  "node_tidy n \<longleftrightarrow>
     strip (pn_id n) = pn_id n \<and> pn_id n \<noteq> [] \<and> length (pn_id n) \<le> 96
     \<and> strip (pn_agent n) = pn_agent n \<and> pn_agent n \<noteq> [] \<and> length (pn_agent n) \<le> 128
     \<and> strip (pn_task n) = pn_task n \<and> pn_task n \<noteq> [] \<and> length (pn_task n) \<le> 2000
     \<and> tidy (pn_depends_on n) \<and> tidy (pn_required_tools n) \<and> tidy (pn_expected_artifacts n)
     \<and> pn_risk n \<in> {''low'', ''medium'', ''high''}"

definition plan_tidy :: "ExecutionPlanSchema \<Rightarrow> bool" where
  "plan_tidy p \<longleftrightarrow>
     strip (ep_run_id p) = ep_run_id p \<and> ep_run_id p \<noteq> [] \<and> length (ep_run_id p) \<le> 96
     \<and> strip (ep_user_task p) = ep_user_task p \<and> ep_user_task p \<noteq> [] \<and> length (ep_user_task p) \<le> 4000
     \<and> ep_nodes p \<noteq> [] \<and> list_all node_tidy (ep_nodes p)"

lemma default_field_Some:
  "default_field d k x f = Some y \<Longrightarrow> (\<And>v. f v = Some y \<Longrightarrow> P y) \<Longrightarrow> P x \<Longrightarrow> P y"
  by (auto simp: default_field_def split: option.splits)

lemma required_field_Some: "required_field d k f = Some y \<Longrightarrow> \<exists>v. dict_get d k = Some v \<and> f v = Some y"
  by (auto simp: required_field_def bind_eq_Some_conv)

lemma risk_field_Some: "risk_field v = Some r \<Longrightarrow> r \<in> {''low'', ''medium'', ''high''}"
  by (auto simp: risk_field_def split: pyval.splits if_splits)

lemma plan_node_tidy:
  assumes "plan_node_of_dict d = Some n"
  shows "node_tidy n"
proof -
  from assms obtain i a t ds ts xs r where
    f: "required_field d ''id'' (text_field 1 96) = Some i"
      "required_field d ''agent'' (text_field 1 128) = Some a"
      "required_field d ''task'' (text_field 3 2000) = Some t"
      "default_field d ''depends_on'' [] list_field = Some ds"
      "default_field d ''required_tools'' [] list_field = Some ts"
      "default_field d ''expected_artifacts'' [] list_field = Some xs"
      "default_field d ''risk'' ''low'' risk_field = Some r"
    and n: "n = \<lparr>pn_id = i, pn_agent = a, pn_task = t, pn_depends_on = ds, pn_required_tools = ts,
                 pn_expected_artifacts = xs, pn_risk = r\<rparr>"
    by (auto simp: plan_node_of_dict_def bind_eq_Some_conv split: if_splits)
  have tidy_Nil: "tidy []" by (simp add: tidy_def)
  have lists: "tidy ds" "tidy ts" "tidy xs"
    using f(4-6) by (auto elim!: default_field_Some intro: list_field_Some tidy_Nil)
  have "r \<in> {''low'', ''medium'', ''high''}"
    using f(7) by (rule default_field_Some) (auto dest: risk_field_Some)
  with f(1-3) lists show ?thesis
    unfolding n node_tidy_def by (auto dest!: required_field_Some text_field_Some)
qed

lemma those_Some: "those xs = Some ys \<longleftrightarrow> xs = map Some ys"
  by (induction xs arbitrary: ys) (auto split: option.splits)

lemma payload_tidy: "plan_of_payload v = Some p \<Longrightarrow> plan_tidy p"
proof -
  assume "plan_of_payload v = Some p"
  then obtain d i t vs ns where
    f: "required_field d ''run_id'' (text_field 1 96) = Some i"
      "required_field d ''user_task'' (text_field 3 4000) = Some t"
      "those (map plan_node_of_py vs) = Some ns" "ns \<noteq> []"
    and p: "p = \<lparr>ep_run_id = i, ep_user_task = t, ep_nodes = ns\<rparr>"
    by (auto simp: plan_of_payload_def bind_eq_Some_conv split: if_splits)
  have "node_tidy n" if "n \<in> set ns" for n
  proof -
    from f(3) have "map plan_node_of_py vs = map Some ns" by (simp add: those_Some)
    with that have "\<exists>v. plan_node_of_py v = Some n" by (metis image_eqI imageE set_map)
    then show ?thesis by (auto simp: plan_node_of_py_def bind_eq_Some_conv intro: plan_node_tidy)
  qed
  with f show ?thesis
    unfolding p plan_tidy_def list_all_iff by (auto dest!: required_field_Some text_field_Some)
qed

lemma node_reads_back:
  assumes "node_tidy n" and "3 \<le> length (pn_task n)"
  shows "plan_node_of_py (node_dump n) = Some n"
proof -
  have "1 \<le> length (pn_id n)" "1 \<le> length (pn_agent n)"
    using assms(1) by (auto simp: node_tidy_def Suc_le_eq)
  with assms show ?thesis
    by (simp add: plan_node_of_py_def node_dump_def plan_node_of_dict_def only_fields_def
        required_field_def default_field_def node_tidy_def text_field_again list_field_again risk_field_def)
qed

lemma plan_reads_back:
  assumes "plan_tidy p" and "3 \<le> length (ep_user_task p)" and "list_all (\<lambda>n. 3 \<le> length (pn_task n)) (ep_nodes p)"
  shows "plan_of_payload (plan_dump p) = Some p"
proof -
  have "those (map plan_node_of_py (map node_dump (ep_nodes p))) = Some (ep_nodes p)"
    using assms(1,3) by (auto simp: those_Some plan_tidy_def list_all_iff intro!: node_reads_back)
  moreover have "1 \<le> length (ep_run_id p)"
    using assms(1) by (auto simp: plan_tidy_def Suc_le_eq)
  ultimately show ?thesis
    using assms(1,2)
    by (simp add: plan_of_payload_def plan_dump_def only_fields_def required_field_def text_field_again
        plan_tidy_def)
qed

section \<open>The shape of the planned graphs\<close>

text \<open>What a plan commits to, apart from the wording of its tasks.\<close>

type_synonym node_shape =
  "string \<times> string \<times> string list \<times> string list \<times> string list \<times> string"

definition shape :: "PlanNodeSchema \<Rightarrow> node_shape" where
  "shape n = (pn_id n, pn_agent n, pn_depends_on n, pn_required_tools n, pn_expected_artifacts n, pn_risk n)"

definition planned_shape :: "bool \<Rightarrow> node_shape list" where
  "planned_shape reasoning =
     [(''data_profile'', ''data_retrieval'', [], [''dataset_reader'', ''schema_profiler'', ''quality_checker''],
         [''schema_profile'', ''quality_report''], ''low''),
      (''analytics'', ''analytics_code'', [''data_profile''],
         [''dataframe_query'', ''python_analysis'', ''code_artifact_writer''], [''kpi_table'', ''code''], ''medium''),
      (''visualization'', ''visualization'', [''analytics''], [''chart_renderer'', ''dashboard_renderer''],
         [''chart'', ''dashboard''], ''low'')]
     @ (if reasoning
        then [(''investigation'', ''investigation'', [''analytics''], [''artifact_reader''], [''report''], ''low'')]
        else [])
     @ [(''report'', ''report'',
         [''analytics'', ''visualization''] @ (if reasoning then [''investigation''] else []),
         [''artifact_reader'', ''markdown_report_writer''], [''report''], ''low''),
        (''evaluation'', ''evaluation'', [''visualization'', ''report''],
         [''artifact_reader'', ''deterministic_evaluator''], [''evaluation''], ''low'')]"

definition task_tidy :: "string \<Rightarrow> bool" where
  "task_tidy t \<longleftrightarrow> strip t = t \<and> 3 \<le> length t \<and> length t \<le> 2000"

definition shape_tidy :: "node_shape \<Rightarrow> bool" where
  "shape_tidy = (\<lambda>(i, a, ds, ts, xs, r).
     strip i = i \<and> i \<noteq> [] \<and> length i \<le> 96 \<and> strip a = a \<and> a \<noteq> [] \<and> length a \<le> 128
     \<and> tidy ds \<and> tidy ts \<and> tidy xs \<and> r \<in> {''low'', ''medium'', ''high''})"

definition position :: "node_shape list \<Rightarrow> string \<Rightarrow> nat" where
  "position shapes i = length (takeWhile (\<lambda>(j, _). j \<noteq> i) shapes)"

text \<open>Agents are known, artifacts exist, and every dependency is an earlier node.\<close>

definition shape_fits :: "string list \<Rightarrow> node_shape list \<Rightarrow> bool" where
  "shape_fits known shapes \<longleftrightarrow>
     shapes \<noteq> [] \<and> distinct (map fst shapes)
     \<and> list_all (\<lambda>(i, a, ds, ts, xs, r).
          shape_tidy (i, a, ds, ts, xs, r) \<and> a \<in> set known \<and> list_all (\<lambda>x. x \<in> set valid_artifact_types) xs
          \<and> list_all (\<lambda>d. d \<in> set (map fst shapes) \<and> position shapes d < position shapes i) ds) shapes"

definition default_agent_types :: "string list" where
  "default_agent_types = sort (map ag_agent_type default_registrations)"

lemma default_agents: "build_default_registry = Inr reg \<Longrightarrow> list_agent_types reg = default_agent_types"
  using default_registry_types by (metis default_agent_types_def list_agent_types_def sum.inject(2))

lemma planned_shape_fits: "shape_fits default_agent_types (planned_shape reasoning)"
proof -
  have "shape_fits default_agent_types (planned_shape False)" by code_simp
  moreover have "shape_fits default_agent_types (planned_shape True)" by code_simp
  ultimately show ?thesis by (cases reasoning) simp_all
qed

lemma valid_artifact_types_range: "set valid_artifact_types = range artifact_type_value"
proof -
  have "set all_artifact_types = UNIV"
    by (auto simp: all_artifact_types_def) (metis ArtifactType.exhaust)
  then show ?thesis by (simp add: valid_artifact_types_def)
qed

lemma shape_fits_ok:
  assumes fits: "shape_fits known (map shape nodes)" and tasks: "\<forall>n \<in> set nodes. task_tidy (pn_task n)"
  shows "list_all node_tidy nodes"
    and "graph_ok known \<lparr>eg_run_id = i, eg_nodes = map to_execution_node nodes\<rparr>"
proof -
  let ?ids = "map pn_id nodes"
  have ids: "map fst (map shape nodes) = ?ids" by (simp add: shape_def comp_def)
  have each: "shape_tidy (shape n) \<and> pn_agent n \<in> set known
      \<and> set (pn_expected_artifacts n) \<subseteq> set valid_artifact_types
      \<and> (\<forall>d \<in> set (pn_depends_on n). d \<in> set ?ids
           \<and> position (map shape nodes) d < position (map shape nodes) (pn_id n))" if "n \<in> set nodes" for n
    using fits that unfolding shape_fits_def ids by (force simp: list_all_iff shape_def)
  show "list_all node_tidy nodes"
    using each tasks by (auto simp: list_all_iff node_tidy_def shape_tidy_def shape_def task_tidy_def)
  have "acyclic (depends (map to_execution_node nodes))"
    by (rule acyclic_by_rank [of _ "position (map shape nodes)"])
      (use each in \<open>auto simp: depends_def to_execution_node_def\<close>)
  moreover have "node_ok known (map en_id (map to_execution_node nodes)) (to_execution_node n)"
    if "n \<in> set nodes" for n
  proof -
    from tasks that have "strip (pn_task n) \<noteq> []" by (auto simp: task_tidy_def)
    with each [OF that] that show ?thesis
      by (auto simp: node_ok_def to_execution_node_def comp_def shape_tidy_def shape_def
          valid_artifact_types_range)
  qed
  moreover have "distinct ?ids" and "nodes \<noteq> []"
    using fits unfolding shape_fits_def ids by auto
  ultimately show "graph_ok known \<lparr>eg_run_id = i, eg_nodes = map to_execution_node nodes\<rparr>"
    by (simp add: graph_ok_def comp_def to_execution_node_def)
qed

section \<open>The nodes that are built\<close>

definition built :: "PlanNodeSchema list result \<Rightarrow> node_shape list \<Rightarrow> bool" where
  "built x shapes \<longleftrightarrow> (\<exists>ns. x = Inr ns \<and> map shape ns = shapes \<and> (\<forall>n \<in> set ns. task_tidy (pn_task n)))"

lemma built_Nil: "built (build_nodes pm []) []"
  by (simp add: built_def)

lemma built_Cons:
  assumes "shape_tidy (i, a, case ds of None \<Rightarrow> [] | Some l \<Rightarrow> l, ts, xs, r)" and "task_tidy t"
    and "built (build_nodes pm ks) shapes"
  shows "built (build_nodes pm (node_kwargs i a t ds ts xs r # ks))
           ((i, a, case ds of None \<Rightarrow> [] | Some l \<Rightarrow> l, ts, xs, r) # shapes)"
proof -
  have len: "1 \<le> length i" "1 \<le> length a" "t \<noteq> []"
    using assms(1,2) by (auto simp: shape_tidy_def task_tidy_def Suc_le_eq)
  from assms(1,2) have "new_plan_node pm (node_kwargs i a t ds ts xs r) = Inr
      \<lparr>pn_id = i, pn_agent = a, pn_task = t, pn_depends_on = (case ds of None \<Rightarrow> [] | Some l \<Rightarrow> l),
       pn_required_tools = ts, pn_expected_artifacts = xs, pn_risk = r\<rparr>"
    using len
    by (cases ds) (simp_all add: new_plan_node_def node_kwargs_def plan_node_of_dict_def only_fields_def
        required_field_def default_field_def shape_tidy_def task_tidy_def text_field_again
        list_field_again risk_field_def)
  with assms(2,3) show ?thesis by (auto simp: built_def shape_def)
qed

lemmas built_None = built_Cons [where ds = None, unfolded option.case]
lemmas built_Some = built_Cons [where ds = "Some l" for l, unfolded option.case]

lemma task_tidy_around:
  assumes "p \<noteq> []" "q \<noteq> []" "\<not> py_space (hd p)" "\<not> py_space (last q)" "3 \<le> length p"
    and "length p + length m + length q \<le> 2000"
  shows "task_tidy (p @ m @ q)"
  using assms strip_unchanged [of "p @ m @ q"] by (simp add: task_tidy_def)

lemma task_tidyI:
  "s \<noteq> [] \<Longrightarrow> \<not> py_space (hd s) \<Longrightarrow> \<not> py_space (last s) \<Longrightarrow> 3 \<le> length s \<Longrightarrow> length s \<le> 2000 \<Longrightarrow> task_tidy s"
  by (simp add: task_tidy_def strip_unchanged)

lemma built_analysis:
  assumes "length context \<le> 1900" and "recipe \<in> {''procurement'', ''generic''}"
  shows "built (build_nodes pm (analysis_kwargs context recipe)) (planned_shape False)"
proof -
  have tasks: "task_tidy (''Profile the dataset'' @ context @ '' and apply the '' @ recipe @ '' analysis recipe.'')"
    "task_tidy (''Compute governed '' @ (if recipe = ''procurement'' then ''procurement'' else ''general-purpose'')
       @ '' analytics using the '' @ recipe @ '' analysis recipe.'')"
    "task_tidy (''Create relevant charts and a dashboard for the '' @ recipe @ '' analysis recipe.'')"
    "task_tidy (''Generate a final report with insights, charts, recommendations, '' @ ''assumptions, and limitations.'')"
    "task_tidy (''Evaluate artifact completeness and consistency between computed KPIs, ''
       @ ''dashboard charts, and report claims.'')"
    using assms by (rule_tac [!] task_tidyI) (auto simp: py_space_def)
  have shapes: "\<forall>x \<in> set (planned_shape False). shape_tidy x"
    using planned_shape_fits [of False] by (auto simp: shape_fits_def list_all_iff)
  then show ?thesis
    unfolding planned_shape_def if_False append.simps
    unfolding analysis_kwargs_def Let_def
    by (intro built_None built_Some built_Nil tasks) simp_all
qed

lemma built_investigation:
  assumes "built (Inr nodes) (planned_shape False)"
  shows "built (add_investigation pm nodes) (planned_shape True)"
proof -
  have "task_tidy ''Select and execute bounded read-only checks over computed analytics.''"
    by (rule task_tidyI) (simp_all add: py_space_def)
  moreover have "shape_tidy (''investigation'', ''investigation'', [''analytics''], [''artifact_reader''], [''report''], ''low'')"
    using planned_shape_fits [of True] by (simp add: shape_fits_def planned_shape_def)
  ultimately have "built (build_nodes pm [node_kwargs ''investigation'' ''investigation''
        ''Select and execute bounded read-only checks over computed analytics.''
        (Some [''analytics'']) [''artifact_reader''] [''report''] ''low''])
      [(''investigation'', ''investigation'', [''analytics''], [''artifact_reader''], [''report''], ''low'')]"
    by (intro built_Some built_Nil)
  then obtain n where n: "new_plan_node pm (node_kwargs ''investigation'' ''investigation''
        ''Select and execute bounded read-only checks over computed analytics.''
        (Some [''analytics'']) [''artifact_reader''] [''report''] ''low'') = Inr n"
      "shape n = (''investigation'', ''investigation'', [''analytics''], [''artifact_reader''], [''report''], ''low'')"
      "task_tidy (pn_task n)"
    by (auto simp: built_def split: sum.splits)
  from assms obtain a b c d e where
    "nodes = [a, b, c, d, e]" "map shape [a, b, c, d, e] = planned_shape False"
    "\<forall>n \<in> set [a, b, c, d, e]. task_tidy (pn_task n)"
    by (auto simp: built_def planned_shape_def map_eq_Cons_conv)
  with n show ?thesis
    by (auto simp: built_def add_investigation_def planned_shape_def shape_def)
qed

section \<open>The model may only advise\<close>

lemma analysis_goals_allowed: "set (analysis_goals task) \<subseteq> set allowed_goals"
proof -
  have "fst ` set goal_candidates = set allowed_goals"
    by (auto simp: goal_candidates_def allowed_goals_def)
  then have "set (map fst (filter P goal_candidates)) \<subseteq> set allowed_goals" for P
    by auto
  moreover have "set [''quality'', ''summary'', ''segments'', ''outliers''] \<subseteq> set allowed_goals"
    by (simp add: allowed_goals_def)
  ultimately show ?thesis
    unfolding analysis_goals_def Let_def by (split if_split) blast
qed

text \<open>advises existing plan: the plan keeps what the columns decided and stays within their recipe.\<close>

definition advises :: "DatasetAnalysisPlan \<Rightarrow> DatasetAnalysisPlan \<Rightarrow> bool" where
  "advises existing plan \<longleftrightarrow>
     plan = existing\<lparr>ap_recipe := ap_recipe plan, ap_domain := ap_domain plan, ap_goals := ap_goals plan\<rparr>
     \<and> ap_recipe plan \<in> {''procurement'', ''generic''}
     \<and> (ap_recipe plan = ''procurement'' \<longrightarrow> ap_recipe existing = ''procurement'')
     \<and> set (ap_goals plan) \<subseteq> set allowed_goals"

lemma plan_result_cases:
  "(if b then Inl e else case w of Inl e \<Rightarrow> Inl e | Inr ws \<Rightarrow>
      (case f ws of None \<Rightarrow> Inl (x ws) | Some t \<Rightarrow> if c then Inl y else Inr (g t))) = Inr p \<Longrightarrow>
     \<not> b \<and> (\<exists>t. p = g t)"
  by (auto split: if_splits sum.splits option.splits)

lemma dataset_plan_facts:
  assumes "build_dataset_analysis_plan pm fl pick profile task preferred = Inr p"
  shows "ap_recipe p \<in> {''procurement'', ''generic''}"
    and "ap_recipe p = ''procurement'' \<Longrightarrow>
      ap_semantic_mappings p = semantic_columns pick profile \<and> has_required_roles (semantic_columns pick profile)"
    and "ap_recipe p \<noteq> ''procurement'' \<Longrightarrow> ap_semantic_mappings p = []"
    and "ap_goals p = analysis_goals task"
proof -
  let ?m = "semantic_columns pick profile" and ?r = "choose_recipe (semantic_columns pick profile) preferred task"
  have p: "\<not> (preferred = Some ''procurement'' \<and> \<not> has_required_roles ?m)" "ap_recipe p = ?r"
    "ap_semantic_mappings p = (if ?r = ''procurement'' then ?m else [])" "ap_goals p = analysis_goals task"
    using plan_result_cases [OF assms [unfolded build_dataset_analysis_plan_def Let_def]] by auto
  show "ap_recipe p \<in> {''procurement'', ''generic''}" "ap_recipe p \<noteq> ''procurement'' \<Longrightarrow> ap_semantic_mappings p = []"
    "ap_goals p = analysis_goals task"
    using p by (simp_all add: choose_recipe_def Let_def)
  show "ap_semantic_mappings p = ?m \<and> has_required_roles ?m" if "ap_recipe p = ''procurement''"
    using p that by (simp add: choose_recipe_def Let_def split: if_splits) blast
qed

lemma recommended_goals_allowed: "recommended_goals v = Inr gs \<Longrightarrow> set gs \<subseteq> set allowed_goals"
  by (auto simp: recommended_goals_def list_all_iff split: pyval.splits if_splits option.splits)

lemma recommendation_advises:
  assumes "apply_model_recommendation existing r = Inr plan"
    and "ap_recipe existing \<noteq> ''procurement'' \<Longrightarrow> ap_semantic_mappings existing = []"
    and "set (ap_goals existing) \<subseteq> set allowed_goals"
  shows "advises existing plan"
proof -
  from assms(1) obtain gs where gs: "recommended_goals (pget r ''goals'') = Inr gs"
    and allowed: "\<not> (pget r ''recipe'' = PStr ''procurement'' \<and> \<not> has_required_roles (ap_semantic_mappings existing))"
    and plan: "plan = existing\<lparr>
          ap_recipe := (if pget r ''recipe'' = PStr ''procurement'' then ''procurement'' else ''generic''),
          ap_domain := (if pget r ''recipe'' = PStr ''procurement'' then ''procurement'' else ''general''),
          ap_goals := (if gs = [] then ap_goals existing else gs)\<rparr>"
    by (auto simp: apply_model_recommendation_def Let_def simp del: not_None_eq split: if_splits sum.splits)
  have "\<not> has_required_roles []" by (simp add: has_required_roles_def required_roles_def)
  with allowed assms(2) have "pget r ''recipe'' = PStr ''procurement'' \<Longrightarrow> ap_recipe existing = ''procurement''"
    by metis
  with recommended_goals_allowed [OF gs] assms(3) show ?thesis
    by (auto simp: advises_def plan)
qed

lemma planner_catches_simps [simp]: "planner_catches (ValueError m)" "planner_catches (TypeError m)"
  by (simp_all add: planner_catches_def)

lemma recommended_goals_error: "recommended_goals v = Inl e \<Longrightarrow> \<exists>m. e = ValueError m"
  by (auto simp: recommended_goals_def split: if_splits pyval.splits option.splits)

lemma if_InlE: "(if c then Inl e1 else x) = Inl e \<Longrightarrow> P e1 \<Longrightarrow> (x = Inl e \<Longrightarrow> P e) \<Longrightarrow> P e"
  by (auto split: if_splits)

lemma recommendation_error_caught:
  assumes "apply_model_recommendation existing r = Inl e"
  shows "planner_catches e"
proof (cases "recommended_goals (pget r ''goals'')")
  case (Inl e')
  then obtain m where m: "e' = ValueError m" using recommended_goals_error by blast
  show ?thesis
    using assms unfolding apply_model_recommendation_def Let_def Inl sum.case
    by (elim if_InlE) (simp_all only: planner_catches_simps m Inl_inject, metis m planner_catches_simps(1) sum.inject(1))
next
  case (Inr gs)
  show ?thesis
    using assms unfolding apply_model_recommendation_def Let_def Inr sum.case
    by (elim if_InlE) (simp_all only: planner_catches_simps Inr_not_Inl)
qed

text \<open>A gateway may fail in any way its interface announces.\<close>

definition announced_failures :: "planner_gateway option result \<Rightarrow> bool" where
  "announced_failures gateway \<longleftrightarrow>
     (case gateway of
        Inl e \<Rightarrow> planner_catches e
      | Inr None \<Rightarrow> True
      | Inr (Some gw) \<Rightarrow> (\<forall>d. case gw_generate gw d of Inl e \<Rightarrow> planner_catches e | Inr r \<Rightarrow> True))"

lemma consult_model_effect:
  assumes "announced_failures gateway"
    and "ap_recipe existing \<noteq> ''procurement'' \<Longrightarrow> ap_semantic_mappings existing = []"
    and "ap_recipe existing \<in> {''procurement'', ''generic''}"
    and "set (ap_goals existing) \<subseteq> set allowed_goals"
  shows "\<exists>plan s'. consult_model gateway description existing s = (Inr plan, s') \<and> advises existing plan
           \<and> (pl_source s' = ''llm'' \<or> plan = existing \<and> pl_source s' = pl_source s)"
proof -
  have self: "advises existing existing" using assms(3,4) by (simp add: advises_def)
  consider (unbuilt) e where "gateway = Inl e" | (off) "gateway = Inr None"
    | (failed) gw e where "gateway = Inr (Some gw)" "gw_generate gw description = Inl e"
    | (refused) gw r e where "gateway = Inr (Some gw)" "gw_generate gw description = Inr r"
        "apply_model_recommendation existing r = Inl e"
    | (used) gw r plan where "gateway = Inr (Some gw)" "gw_generate gw description = Inr r"
        "apply_model_recommendation existing r = Inr plan"
    by (metis obj_sumE option.exhaust)
  then show ?thesis
  proof cases
    case failed
    with assms(1) have "planner_catches e"
      unfolding announced_failures_def by (metis (no_types, lifting) option.simps(5) sum.case)
    with failed self show ?thesis by (simp add: consult_model_def py_simps)
  next
    case refused
    with recommendation_error_caught self show ?thesis by (simp add: consult_model_def py_simps)
  next
    case used
    with recommendation_advises [OF used(3) assms(2,4)] show ?thesis by (simp add: consult_model_def py_simps)
  qed (use assms(1) self in \<open>simp_all add: consult_model_def py_simps announced_failures_def\<close>)
qed

lemma planned_plan_validates:
  assumes "built (Inr nodes) (planned_shape reasoning)" and "build_default_registry = Inr reg"
    and "strip run_id \<noteq> []" and "length run_id \<le> 96"
    and "strip task = task" and "3 \<le> length task" and "length task \<le> 4000"
  shows "\<exists>plan. new_plan pm run_id task nodes = Inr plan \<and> validate_planner_output pm (plan_dump plan) reg = Inr plan
           \<and> ep_run_id plan = strip run_id \<and> ep_user_task plan = task \<and> ep_nodes plan = nodes
           \<and> graph_ok (list_agent_types reg) (to_execution_graph plan)"
proof -
  let ?p = "\<lparr>ep_run_id = strip run_id, ep_user_task = task, ep_nodes = nodes\<rparr>"
  from assms(1) have b: "map shape nodes = planned_shape reasoning" "\<forall>n \<in> set nodes. task_tidy (pn_task n)"
    by (auto simp: built_def)
  have nodes: "nodes \<noteq> []" using b(1) by (auto simp: planned_shape_def)
  have tidy: "list_all node_tidy nodes" and ok: "graph_ok (list_agent_types reg) (to_execution_graph ?p)"
    using shape_fits_ok(1) [OF _ b(2), where known = default_agent_types]
      shape_fits_ok(2) [OF _ b(2), where known = default_agent_types and i = "strip run_id"]
      planned_shape_fits [of reasoning]
    by (simp_all add: b(1) default_agents [OF assms(2)] to_execution_graph_def)
  have len: "length (strip run_id) \<le> 96" "1 \<le> length run_id" "task \<noteq> []"
    using assms(3,4,6) strip_length [of run_id] strip_Nil by (auto simp: Suc_le_eq)
  have "new_plan pm run_id task nodes = Inr ?p"
    using assms(3-7) len nodes by (simp add: new_plan_def text_field_def)
  moreover have "plan_of_payload (plan_dump ?p) = Some ?p"
    by (rule plan_reads_back) (use assms(3,5-7) len nodes tidy b(2) in
        \<open>simp_all add: plan_tidy_def list_all_iff task_tidy_def\<close>)
  ultimately show ?thesis
    using ok by (intro exI [of _ ?p]) (simp add: validate_planner_output_def accepted_iff_ok [symmetric])
qed

lemma ordinary_nodes:
  assumes "built (analysis_nodes pm rp dataset ap) (planned_shape False)"
  obtains nodes where "analysis_nodes pm rp dataset ap = Inr nodes"
    and "\<exists>nodes'. (if reasoning then add_investigation pm nodes else Inr nodes) = Inr nodes'
           \<and> built (Inr nodes') (planned_shape reasoning)"
proof -
  from assms obtain nodes where nodes: "analysis_nodes pm rp dataset ap = Inr nodes"
      "built (Inr nodes) (planned_shape False)"
    by (auto simp: built_def)
  from built_investigation [OF nodes(2)] obtain nodes' where
    "add_investigation pm nodes = Inr nodes'" "built (Inr nodes') (planned_shape True)"
    by (metis built_def)
  with nodes that show thesis by (cases reasoning) auto
qed

text \<open>
  C32: Whatever a language model answers to the planner, and whatever announced failure it ends
  in, create_dynamic_plan returns a plan: its steps, agents, dependencies, tools and artifacts
  are those of one fixed graph, which the orchestrator accepts; the analysis keeps what the
  columns decided, uses the procurement recipe only if they already chose it, and differs from
  their plan only when the planner records the model as its source.
\<close>

theorem dynamic_plan_is_fixed:
  assumes columns: "build_dataset_analysis_plan pm fl pick profile (strip task) None = Inr existing"
    and failures: "announced_failures gateway" and reg: "build_default_registry = Inr reg"
    and run: "strip run_id \<noteq> []" "length run_id \<le> 96"
    and task: "3 \<le> length (strip task)" "length (strip task) \<le> 4000"
    and dataset: "length (dataset_context rp dataset) \<le> 1900"
  shows "\<exists>plan ap s'.
      create_dynamic_plan pm rp dumps fl pick gateway reasoning reg run_id task profile dataset s = (Inr (plan, ap), s')
      \<and> map shape (ep_nodes plan) = planned_shape reasoning
      \<and> graph_ok (list_agent_types reg) (to_execution_graph plan)
      \<and> advises existing ap \<and> (ap = existing \<or> pl_source s' = ''llm'')"
proof -
  let ?s = "\<lparr>pl_source = ''deterministic'', pl_rationale = [], pl_model = None, pl_warning = None\<rparr>"
  note facts = dataset_plan_facts [OF columns]
  from consult_model_effect [OF failures facts(3,1), of "safe_dataset_description dumps fl profile (strip task)" ?s]
  obtain ap s' where consult:
    "consult_model gateway (safe_dataset_description dumps fl profile (strip task)) existing ?s = (Inr ap, s')"
    "advises existing ap" "pl_source s' = ''llm'' \<or> ap = existing"
    using analysis_goals_allowed facts(4) by metis
  have "built (analysis_nodes pm rp dataset ap) (planned_shape False)"
    unfolding analysis_nodes_def using consult(2) by (intro built_analysis [OF dataset]) (simp add: advises_def)
  then obtain nodes nodes' where nodes: "analysis_nodes pm rp dataset ap = Inr nodes"
      "(if reasoning then add_investigation pm nodes else Inr nodes) = Inr nodes'"
      "built (Inr nodes') (planned_shape reasoning)"
    by (rule ordinary_nodes) blast
  from planned_plan_validates [OF nodes(3) reg run strip_idem task] obtain plan where plan:
    "new_plan pm run_id (strip task) nodes' = Inr plan"
    "validate_planner_output pm (plan_dump plan) reg = Inr plan" "ep_nodes plan = nodes'"
    "graph_ok (list_agent_types reg) (to_execution_graph plan)"
    by blast
  have "create_dynamic_plan pm rp dumps fl pick gateway reasoning reg run_id task profile dataset s = (Inr (plan, ap), s')"
    by (simp only: create_dynamic_plan_def Let_def bnd_run lift_result_run modify_run ret_run prod.case sum.case
        columns consult(1) nodes(1,2) plan(1,2))
  with consult(2,3) plan(3,4) nodes(3) show ?thesis
    by (auto simp: built_def)
qed

definition sample_profile :: CsvDatasetProfile where
  "sample_profile =
     \<lparr>dp_path = ''d.csv'', dp_row_count = 9, dp_column_count = 1,
      dp_columns = [\<lparr>cp_name = ''Amount'', cp_inferred_type = ''number'', cp_description = [],
                     cp_missing_count = 0, cp_missing_ratio = 0, cp_unique_count = 4,
                     cp_example_values = [], cp_summary_statistics = []\<rparr>],
      dp_quality_summary = []\<rparr>"

definition exact_floats :: floats where
  "exact_floats = \<lparr>fl_near = (\<lambda>q. q), fl_round = (\<lambda>n q. q)\<rparr>"

definition sample_gateway :: "planner_gateway option result" where
  "sample_gateway = Inr (Some \<lparr>gw_model = ''m'', gw_generate = (\<lambda>d. Inr
     [(''recipe'', PStr ''procurement''), (''goals'', strs [''trend'']), (''rationale'', PStr ''r'')])\<rparr>)"

lemma sample_columns:
  "build_dataset_analysis_plan (\<lambda>v. []) exact_floats (\<lambda>xs. xs) sample_profile (strip ''Sum it'') None = Inr
     \<lparr>ap_recipe = ''generic'', ap_domain = ''general'', ap_confidence = 17 / 20, ap_measures = [''Amount''],
      ap_dimensions = [], ap_time_columns = [], ap_identifiers = [], ap_semantic_mappings = [],
      ap_goals = [''quality'', ''summary'', ''segments'', ''outliers''],
      ap_warnings = [''No time column was detected; trend analysis will be omitted.''],
      ap_requires_clarification = False\<rparr>"
  by code_simp

theorem dynamic_plan_is_fixed_witness:
  "\<exists>reg plan ap s'. build_default_registry = Inr reg
     \<and> create_dynamic_plan (\<lambda>v. []) (\<lambda>v. []) (\<lambda>v. []) exact_floats (\<lambda>xs. xs) sample_gateway True reg ''r1'' ''Sum it''
         sample_profile (PStr ''a1'') \<lparr>pl_source = [], pl_rationale = [], pl_model = None, pl_warning = None\<rparr>
         = (Inr (plan, ap), s')
     \<and> map shape (ep_nodes plan) = planned_shape True"
proof -
  obtain reg where reg: "build_default_registry = Inr reg" using default_registry_types by blast
  have "strip ''Sum it'' = ''Sum it''" "strip ''r1'' = ''r1''" by code_simp+
  then show ?thesis
    using dynamic_plan_is_fixed [OF sample_columns, of sample_gateway reg "''r1''" "\<lambda>v. []" "PStr ''a1''" "\<lambda>v. []" True] reg
    by (fastforce simp: announced_failures_def sample_gateway_def dataset_context_def)
qed

end
