(* ===== verification/Workflows.thy ===== *)
theory Workflows
  imports Planner_Properties
begin

text \<open>
  workflows/procurement.py and workflows/dynamic.py: a run is planned and handed to the
  orchestrator. The six agents are programs the workflow is given; profiling the dataset
  reads files and warehouses and is the argument profile_dataset; snapshot is the usage
  report of the language model budget, None when models are disabled. Spans have no effect.
\<close>

definition PROCUREMENT_WORKFLOW_ERROR :: "string \<Rightarrow> exn" where
  "PROCUREMENT_WORKFLOW_ERROR m = OtherError ''ProcurementWorkflowError'' m"

definition DYNAMIC_WORKFLOW_ERROR :: "string \<Rightarrow> exn" where
  "DYNAMIC_WORKFLOW_ERROR m = OtherError ''DynamicWorkflowError'' m"

definition workflow_agents :: "string list" where
  "workflow_agents =
     [''data_retrieval'', ''analytics_code'', ''investigation'', ''visualization'', ''report'', ''evaluation'']"

text \<open>The orchestrator with the default registry, policy and retry policy.\<close>

definition build_procurement_orchestrator :: "(string \<Rightarrow> 'z agent) \<Rightarrow> 'z orchestrator result" where
  "build_procurement_orchestrator agent =
     (case build_default_registry of Inl e \<Rightarrow> Inl e | Inr reg \<Rightarrow>
      case retry_policy 2 of Inl e \<Rightarrow> Inl e | Inr attempts \<Rightarrow>
      case default_tool_permission_registry of Inl e \<Rightarrow> Inl e | Inr tools \<Rightarrow>
        Inr \<lparr>o_registry = reg, o_agents = map (\<lambda>name. (name, agent name)) workflow_agents,
             o_max_attempts = attempts, o_tools = tools\<rparr>)"

definition execute_procurement_workflow ::
    "nat \<Rightarrow> (pyval \<Rightarrow> string) \<Rightarrow> (string \<Rightarrow> 'z agent) \<Rightarrow> string \<Rightarrow>
     ('z repo_scheme, OrchestrationResult option) py" where
  "execute_procurement_workflow fuel pm agent run_id =
     bnd (get_run run_id) (\<lambda>run.
     seq (guard (r_dataset_artifact_id run \<notin> {None, Some []})
            (PROCUREMENT_WORKFLOW_ERROR
               ''A dataset artifact must be attached before executing the procurement workflow.''))
     (bnd (asks repr_of) (\<lambda>rp.
      bnd (lift_result build_default_registry) (\<lambda>reg.
      bnd (try_catch
             (lift_result (create_plan pm rp reg (r_id run) (r_task run) (opt_str (r_dataset_artifact_id run))))
             (\<lambda>e. case e of PlannerValidationError m \<Rightarrow> raise (PROCUREMENT_WORKFLOW_ERROR m)
                   | _ \<Rightarrow> raise e)) (\<lambda>plan.
      bnd (lift_result (build_procurement_orchestrator agent)) (\<lambda>orch.
        execute_run fuel orch (r_id run) (to_execution_graph plan)))))))"

section \<open>The dynamic workflow\<close>

definition planning_event ::
    "string \<Rightarrow> string \<Rightarrow> int \<Rightarrow> pyval \<Rightarrow> planner_state \<Rightarrow> AgentEventRecord" where
  "planning_event run_id u now plan st =
     \<lparr>e_id = ''event_'' @ u, e_run_id = run_id, e_node_id = ''planner'',
      e_event_type = event_type_value EvLog,
      e_payload =
        [(''message'', PStr ''Planner selected a governed analysis recipe from dataset semantics.''),
         (''analysis_plan'', plan), (''planner_source'', PStr (pl_source st)),
         (''planner_model'', opt_str (pl_model st)),
         (''planner_provider'', if pl_source st = ''llm'' then PStr ''huggingface'' else PNone),
         (''planner_rationale'', PStr (pl_rationale st)), (''planner_warning'', opt_str (pl_warning st))],
      e_created_at = now\<rparr>"

definition llm_usage_event :: "string \<Rightarrow> string \<Rightarrow> int \<Rightarrow> pyval \<Rightarrow> AgentEventRecord" where
  "llm_usage_event run_id u now summary =
     \<lparr>e_id = ''event_'' @ u, e_run_id = run_id, e_node_id = ''llm_budget'',
      e_event_type = event_type_value EvLog,
      e_payload =
        [(''message'', PStr ''Hugging Face AI usage and estimated workflow spending recorded.''),
         (''llm_usage_summary'', summary)],
      e_created_at = now\<rparr>"

definition add_new_event ::
    "(string \<Rightarrow> int \<Rightarrow> AgentEventRecord) \<Rightarrow> ('z repo_scheme, unit) py" where
  "add_new_event mk =
     bnd uuid4_hex (\<lambda>u. bnd utc_now (\<lambda>now. bnd (add_event (mk u now)) (\<lambda>_. ret ())))"

text \<open>except (OSError, ValueError, PlannerValidationError), with the subclasses of these in src.\<close>

definition dynamic_catches :: "exn \<Rightarrow> bool" where
  "dynamic_catches e \<longleftrightarrow> exn_class e \<in>
     {''OSError'', ''FileNotFoundError'', ''PermissionError'', ''TimeoutError'', ''ConnectionError'',
      ''IsADirectoryError'', ''WorkflowJobOwnershipError'', ''AuthorizationError'', ''ValueError'',
      ''ValidationError'', ''JSONDecodeError'', ''UnicodeDecodeError'', ''UnicodeEncodeError'',
      ''GraphValidationError'', ''PlannerValidationError'', ''DeploymentApprovalError'',
      ''RunArchiveError'', ''RunArchiveConflictError'', ''AuthenticationError'', ''DataIngestionError'',
      ''WarehouseConnectorError'', ''WarehouseConfigurationError'', ''CredentialResolutionError'',
      ''ConnectorInstallationError'', ''AnalyticsError'', ''VisualizationError''}"

text \<open>try: m; finally: f, where an exception of f replaces the outcome of m.\<close>

definition try_finally :: "('s, 'a) py \<Rightarrow> ('s, unit) py \<Rightarrow> ('s, 'a) py" where
  "try_finally m f = (\<lambda>s. case m s of (r, s') \<Rightarrow>
     (case f s' of (Inl e, s'') \<Rightarrow> (Inl e, s'') | (Inr u, s'') \<Rightarrow> (r, s'')))"

record 'z dynamic_setting =
  ds_pydantic :: "pyval \<Rightarrow> string"
  ds_dumps :: "pyval \<Rightarrow> string"
  ds_floats :: floats
  ds_pick :: "string list \<Rightarrow> string list"
  ds_gateway :: "planner_gateway option result"
  ds_reasoning :: bool
  ds_profile :: "string \<Rightarrow> (string, pyval) dict \<Rightarrow> CsvDatasetProfile result"
  ds_snapshot :: "pyval option"
  ds_agent :: "string \<Rightarrow> 'z agent"

text \<open>The part that plans: what the planner returns, with the planner's record of it.\<close>

definition plan_run ::
    "'z dynamic_setting \<Rightarrow> RunRecord \<Rightarrow> ArtifactRecord \<Rightarrow>
     ('z repo_scheme, ExecutionPlanSchema \<times> DatasetAnalysisPlan \<times> planner_state) py" where
  "plan_run st run dataset =
     bnd (lift_result (ds_profile st (a_uri dataset) (a_metadata dataset))) (\<lambda>profile.
     bnd (asks repr_of) (\<lambda>rp.
     bnd (lift_result build_default_registry) (\<lambda>reg.
       case create_dynamic_plan (ds_pydantic st) rp (ds_dumps st) (ds_floats st) (ds_pick st) (ds_gateway st)
              (ds_reasoning st) reg (r_id run) (r_task run) profile (PStr (a_id dataset))
              \<lparr>pl_source = ''deterministic'', pl_rationale = [], pl_model = None, pl_warning = None\<rparr> of
         (Inl e, p) \<Rightarrow> raise e
       | (Inr (plan, analysis_plan), p) \<Rightarrow> ret (plan, analysis_plan, p))))"

definition execute_dynamic_workflow ::
    "nat \<Rightarrow> 'z dynamic_setting \<Rightarrow> string \<Rightarrow> ('z repo_scheme, OrchestrationResult option) py" where
  "execute_dynamic_workflow fuel st run_id =
     bnd (get_run run_id) (\<lambda>run.
       case r_dataset_artifact_id run of
         None \<Rightarrow> raise (DYNAMIC_WORKFLOW_ERROR ''A dataset must be attached before automatic analysis.'')
       | Some dataset_id \<Rightarrow>
           (if dataset_id = [] then
              raise (DYNAMIC_WORKFLOW_ERROR ''A dataset must be attached before automatic analysis.'')
            else
              bnd (get_artifact (r_id run) dataset_id) (\<lambda>dataset.
                try_finally
                  (try_catch
                     (bnd (plan_run st run dataset) (\<lambda>(plan, analysis_plan, p).
                      seq (add_new_event (\<lambda>u now. planning_event (r_id run) u now (plan_to_py analysis_plan) p))
                      (bnd (lift_result (build_procurement_orchestrator (ds_agent st))) (\<lambda>orch.
                        execute_run fuel orch (r_id run) (to_execution_graph plan)))))
                     (\<lambda>e. bnd (asks repr_of) (\<lambda>rp.
                        if dynamic_catches e then raise (DYNAMIC_WORKFLOW_ERROR (exn_str rp e)) else raise e)))
                  (case ds_snapshot st of
                     None \<Rightarrow> ret ()
                   | Some summary \<Rightarrow> add_new_event (\<lambda>u now. llm_usage_event (r_id run) u now summary)))))"

end
