(* ===== verification/Code_Guard.thy ===== *)
theory Code_Guard
  imports Py_Value
begin

text \<open>
  analytics/code_guard.py: the static policy for generated Python code. ast.parse is the
  argument parse; a syntax tree has the node classes the guard distinguishes, with every
  other class as Other with its child nodes in field order. The contexts of names (Load and
  so on) and the alias nodes of imports are left out: they carry nothing the guard reads.
\<close>

section \<open>Syntax trees\<close>

datatype constant_value = StrConstant string | OtherConstant

datatype ast_node =
    Import "string list" int
  | ImportFrom "string option" int
  | Call ast_node "ast_node list" "ast_node list" int
  | Keyword "string option" ast_node
  | Attribute ast_node string int
  | Name string
  | Constant constant_value
  | Other "ast_node list"

datatype parse_outcome =
    Parsed ast_node
  | SyntaxError string "int option"
  | ParseRaises exn

text \<open>ast.iter_child_nodes, and ast.walk: breadth first with a queue.\<close>

fun child_nodes :: "ast_node \<Rightarrow> ast_node list" where
  "child_nodes (Import names line) = []"
| "child_nodes (ImportFrom m line) = []"
| "child_nodes (Call f args keywords line) = f # args @ keywords"
| "child_nodes (Keyword arg v) = [v]"
| "child_nodes (Attribute v attr line) = [v]"
| "child_nodes (Name i) = []"
| "child_nodes (Constant c) = []"
| "child_nodes (Other ns) = ns"

fun weight :: "ast_node \<Rightarrow> nat" where
  "weight (Import names line) = 1"
| "weight (ImportFrom m line) = 1"
| "weight (Call f args keywords line) = 1 + weight f + sum_list (map weight args) + sum_list (map weight keywords)"
| "weight (Keyword arg v) = 1 + weight v"
| "weight (Attribute v attr line) = 1 + weight v"
| "weight (Name i) = 1"
| "weight (Constant c) = 1"
| "weight (Other ns) = 1 + sum_list (map weight ns)"

lemma weight_children: "weight n = 1 + sum_list (map weight (child_nodes n))"
  by (cases n) auto

function walk_queue :: "ast_node list \<Rightarrow> ast_node list" where
  "walk_queue [] = []"
| "walk_queue (n # todo) = n # walk_queue (todo @ child_nodes n)"
  by pat_completeness auto
termination
  by (relation "measure (\<lambda>todo. sum_list (map weight todo))") (simp_all add: weight_children)

definition walk :: "ast_node \<Rightarrow> ast_node list" where
  "walk tree = walk_queue [tree]"

section \<open>The policy\<close>

datatype CodeSafetyDecision = SAFE | APPROVAL_NEEDED | BLOCKED

fun safety_decision_value :: "CodeSafetyDecision \<Rightarrow> string" where
  "safety_decision_value SAFE = ''safe''"
| "safety_decision_value APPROVAL_NEEDED = ''approval_required''"
| "safety_decision_value BLOCKED = ''blocked''"

record CodePolicyViolation =
  cv_rule :: string
  cv_message :: string
  cv_line :: "int option"

record CodeSafetyReport =
  cr_decision :: CodeSafetyDecision
  cr_violations :: "CodePolicyViolation list"

definition report_safe :: "CodeSafetyReport \<Rightarrow> bool" where
  "report_safe r \<longleftrightarrow> cr_decision r = SAFE"

definition report_to_dict :: "CodeSafetyReport \<Rightarrow> (string, pyval) dict" where
  "report_to_dict r =
     [(''decision'', PStr (safety_decision_value (cr_decision r))),
      (''violations'', PList (map (\<lambda>v. PDict
         [(''rule'', PStr (cv_rule v)), (''message'', PStr (cv_message v)), (''line'', opt_int (cv_line v))])
         (cr_violations r)))]"

definition allowed_imports :: "string list" where
  "allowed_imports = [''argparse'', ''collections'', ''csv'', ''json'', ''math'', ''statistics'']"

definition blocked_calls :: "string list" where
  "blocked_calls =
     [''__import__'', ''breakpoint'', ''compile'', ''delattr'', ''eval'', ''exec'', ''getattr'', ''globals'',
      ''input'', ''locals'', ''setattr'', ''vars'']"

definition blocked_attributes :: "string list" where
  "blocked_attributes =
     [''connect'', ''popen'', ''remove'', ''request'', ''rmdir'', ''rmtree'', ''spawn'', ''system'', ''unlink'',
      ''urlopen'']"

definition approval_attributes :: "string list" where
  "approval_attributes = [''chmod'', ''mkdir'', ''rename'', ''write'', ''write_bytes'', ''write_text'']"

definition root_module :: "string \<Rightarrow> string" where
  "root_module m = takeWhile (\<lambda>c. c \<noteq> CHR ''.'') m"

text \<open>The modules an import node names; a relative import without a module names the empty one.\<close>

definition violation :: "string \<Rightarrow> string \<Rightarrow> int \<Rightarrow> CodePolicyViolation" where
  "violation rule message line = \<lparr>cv_rule = rule, cv_message = message, cv_line = Some line\<rparr>"

definition check_import :: "string list \<Rightarrow> int \<Rightarrow> CodePolicyViolation list" where
  "check_import modules line =
     map (\<lambda>m. violation ''blocked_import'' (''Import is not allowed in analysis code: '' @ m) line)
       (filter (\<lambda>m. root_module m \<notin> set allowed_imports) modules)"

text \<open>The argument that gives the mode: the last assignment to mode_node in the code.\<close>

definition is_mode_keyword :: "ast_node \<Rightarrow> bool" where
  "is_mode_keyword k = (case k of Keyword arg v \<Rightarrow> arg = Some ''mode'' | _ \<Rightarrow> False)"

definition mode_node :: "ast_node list \<Rightarrow> ast_node list \<Rightarrow> ast_node option" where
  "mode_node args keywords =
     (case find is_mode_keyword keywords of
        Some (Keyword arg v) \<Rightarrow> Some v
      | _ \<Rightarrow> if 2 \<le> length args then Some (args ! 1) else None)"

definition open_requires_approval :: "ast_node list \<Rightarrow> ast_node list \<Rightarrow> bool" where
  "open_requires_approval args keywords =
     (case mode_node args keywords of
        None \<Rightarrow> False
      | Some (Constant (StrConstant m)) \<Rightarrow> list_ex (\<lambda>flag. flag \<in> set m) ''wax+''
      | Some _ \<Rightarrow> True)"

text \<open>The violations a call adds: those that block it and those that need an approval.\<close>

definition check_call ::
    "ast_node \<Rightarrow> ast_node list \<Rightarrow> ast_node list \<Rightarrow> int \<Rightarrow> CodePolicyViolation list \<times> CodePolicyViolation list" where
  "check_call func args keywords line =
     (let write = violation ''filesystem_write'' ''Opening files for write access requires approval.'' line in
      case func of
        Name name \<Rightarrow>
          (if name \<in> set blocked_calls then
             ([violation ''blocked_call'' (''Dynamic or interactive call is blocked: '' @ name) line], [])
           else if name = ''open'' \<and> open_requires_approval args keywords then ([], [write])
           else ([], []))
      | Attribute v attr l \<Rightarrow>
          (if attr \<in> set blocked_attributes then
             ([violation ''blocked_operation'' (''Unsafe operation is blocked: '' @ attr) line], [])
           else if attr \<in> set approval_attributes then
             ([], [violation ''approval_required'' (''Operation requires approval: '' @ attr) line])
           else if attr = ''open'' \<and> open_requires_approval args keywords then ([], [write])
           else ([], []))
      | _ \<Rightarrow> ([], []))"

fun check_ast_node :: "ast_node \<Rightarrow> CodePolicyViolation list \<times> CodePolicyViolation list" where
  "check_ast_node (Import names line) = (check_import names line, [])"
| "check_ast_node (ImportFrom m line) = (check_import [case m of None \<Rightarrow> [] | Some s \<Rightarrow> s] line, [])"
| "check_ast_node (Call f args keywords line) = check_call f args keywords line"
| "check_ast_node (Attribute v attr line) =
     ((if starts_with ''__'' attr
       then [violation ''dunder_access'' (''Dunder attribute access is blocked: '' @ attr) line] else []), [])"
| "check_ast_node n = ([], [])"

fun check_ast_nodes ::
    "ast_node list \<Rightarrow> CodePolicyViolation list \<Rightarrow> CodePolicyViolation list \<Rightarrow>
     CodePolicyViolation list \<times> CodePolicyViolation list" where
  "check_ast_nodes [] blocked approval = (blocked, approval)"
| "check_ast_nodes (n # ns) blocked approval =
     (case check_ast_node n of (b, a) \<Rightarrow> check_ast_nodes ns (blocked @ b) (approval @ a))"

text \<open>_deduplicate: the key of a violation is all of it.\<close>

definition deduplicate :: "CodePolicyViolation list \<Rightarrow> CodePolicyViolation list" where
  "deduplicate violations = fromkeys violations"

definition evaluate_code :: "(string \<Rightarrow> parse_outcome) \<Rightarrow> string \<Rightarrow> CodeSafetyReport result" where
  "evaluate_code parse source =
     (case parse source of
        SyntaxError m line \<Rightarrow> Inr
          \<lparr>cr_decision = BLOCKED,
           cr_violations = [\<lparr>cv_rule = ''syntax_error'', cv_message = m, cv_line = line\<rparr>]\<rparr>
      | ParseRaises e \<Rightarrow> Inl e
      | Parsed tree \<Rightarrow>
          (case check_ast_nodes (walk tree) [] [] of (blocked, approval) \<Rightarrow>
             if blocked \<noteq> [] then Inr \<lparr>cr_decision = BLOCKED, cr_violations = deduplicate blocked\<rparr>
             else if approval \<noteq> [] then
               Inr \<lparr>cr_decision = APPROVAL_NEEDED, cr_violations = deduplicate approval\<rparr>
             else Inr \<lparr>cr_decision = SAFE, cr_violations = []\<rparr>))"

section \<open>The walk visits every node\<close>






lemma walk_queue_weight: "length (walk_queue ts) = sum_list (map weight ts)"
proof (induction ts rule: walk_queue.induct)
  case (2 n todo)
  with weight_children [of n] show ?case by simp
qed simp


section \<open>What the decision means\<close>











text \<open>
  open("d.csv", **{"mode": "w"}) is found safe: an unpacked keyword has no name, so no mode
  is seen.
\<close>

lemma unpacked_mode_is_safe:
  "evaluate_code (\<lambda>s. Parsed (Other [Other
       [Call (Name ''open'') [Constant (StrConstant ''d.csv'')]
          [Keyword None (Other [Constant (StrConstant ''mode''), Constant (StrConstant ''w'')])] 1]])) source
     = Inr \<lparr>cr_decision = SAFE, cr_violations = []\<rparr>"
  by code_simp

end
