(* ===== verification/Llm_Budget.thy ===== *)
theory Llm_Budget
  imports Dataset_Plan
begin

text \<open>
  llm/budget.py: the spending limits of a workflow and the ledger file all workers append to.
  The JSON functions, float(text) and the sum of a list of floats are the codec. The ledger
  is a list of text lines; an access to the file may fail to open it, or fail to write, with
  the line on disk or not. Locks make each access of the ledger one step.
\<close>

record llm_codec =
  lc_floats :: floats
  lc_sum :: "rat list \<Rightarrow> rat"
  lc_loads :: "string \<Rightarrow> pyval result"
  lc_dumps :: "pyval \<Rightarrow> string"
  lc_line :: "pyval \<Rightarrow> string"
  lc_float_of :: "string \<Rightarrow> rat option"

abbreviation near :: "llm_codec \<Rightarrow> rat \<Rightarrow> rat" where
  "near c q \<equiv> fl_near (lc_floats c) q"

definition budget_exceeded :: "string \<Rightarrow> exn" where
  "budget_exceeded m = OtherError ''LLMBudgetExceeded'' m"

section \<open>The policy\<close>

record BudgetPolicy =
  bp_workflow_usd :: rat
  bp_monthly_usd :: rat
  bp_max_calls :: int
  bp_max_output_tokens :: int
  bp_input_usd_per_million :: rat
  bp_output_usd_per_million :: rat
  bp_ledger_path :: string

text \<open>__post_init__ of a policy: the first limit it breaks.\<close>

definition new_policy :: "BudgetPolicy \<Rightarrow> BudgetPolicy result" where
  "new_policy p =
     (if \<not> (0 < bp_workflow_usd p \<and> bp_workflow_usd p \<le> 1000) then
        Inl (ValueError ''AI workflow budget must be positive and no more than $1,000.'')
      else if \<not> (0 < bp_monthly_usd p \<and> bp_monthly_usd p \<le> 10000) then
        Inl (ValueError ''AI monthly budget must be positive and no more than $10,000.'')
      else if \<not> (1 \<le> bp_max_calls p \<and> bp_max_calls p \<le> 100) then
        Inl (ValueError ''AI call limit must be between 1 and 100.'')
      else if \<not> (200 \<le> bp_max_output_tokens p \<and> bp_max_output_tokens p \<le> 2400) then
        Inl (ValueError ''AI output token cap must be between 200 and 2,400.'')
      else if \<not> (0 < bp_input_usd_per_million p \<and> bp_input_usd_per_million p \<le> 100)
             \<or> \<not> (0 < bp_output_usd_per_million p \<and> bp_output_usd_per_million p \<le> 100) then
        Inl (ValueError ''AI estimate pricing must be positive and <= $100 per million tokens.'')
      else if strip (bp_ledger_path p) = [] then
        Inl (ValueError ''AI usage ledger path must not be empty.'')
      else Inr p)"

definition price :: "llm_codec \<Rightarrow> BudgetPolicy \<Rightarrow> int \<Rightarrow> int \<Rightarrow> rat" where
  "price c p prompt_tokens completion_tokens =
     near c (near c (near c (of_int (max 0 prompt_tokens) * bp_input_usd_per_million p)
                     + near c (of_int (max 0 completion_tokens) * bp_output_usd_per_million p)) / 1000000)"

text \<open>limit + 1e-12, the bound that sums are compared with.\<close>

definition slack :: "llm_codec \<Rightarrow> rat \<Rightarrow> rat" where
  "slack c cap = near c (cap + near c (1 / 1000000000000))"

section \<open>The ledger\<close>

datatype io_fault = IoOk | OpenFails | WriteFails bool

record RequestReservation =
  rr_request_id :: string
  rr_month :: string
  rr_purpose :: string
  rr_model :: string
  rr_prompt_estimate :: int
  rr_max_output_tokens :: int
  rr_reserved_usd :: rat

record UsageTracker =
  ut_run_id :: string
  ut_policy :: BudgetPolicy
  ut_requests :: int
  ut_blocked :: int
  ut_completed :: int
  ut_failed :: int
  ut_billed_estimate_usd :: rat
  ut_prompt_tokens :: int
  ut_completion_tokens :: int
  ut_calls :: "pyval list"
  ut_reserved_run_usd :: rat

text \<open>
  The world of a worker that calls models: its ledger file, the faults of the file accesses,
  the answers of the network and the request bodies that were sent, and the tracker of the
  current scope (the context variable).
\<close>

record llm_world = env +
  lw_lines :: "string list"
  lw_io :: "nat \<Rightarrow> io_fault"
  lw_io_ix :: nat
  lw_network :: "nat \<Rightarrow> string result"
  lw_sent :: "string list"
  lw_tracker :: "UsageTracker option"

definition new_tracker :: "string \<Rightarrow> BudgetPolicy \<Rightarrow> UsageTracker" where
  "new_tracker run_id policy =
     \<lparr>ut_run_id = run_id, ut_policy = policy, ut_requests = 0, ut_blocked = 0, ut_completed = 0,
      ut_failed = 0, ut_billed_estimate_usd = 0, ut_prompt_tokens = 0, ut_completion_tokens = 0,
      ut_calls = [], ut_reserved_run_usd = 0\<rparr>"

definition to_float :: "llm_codec \<Rightarrow> pyval \<Rightarrow> rat result" where
  "to_float c v =
     (case v of
        PBool b \<Rightarrow> Inr (if b then 1 else 0)
      | PInt i \<Rightarrow> Inr (near c (of_int i))
      | PFloat q \<Rightarrow> Inr q
      | PStr s \<Rightarrow> (case lc_float_of c s of
                   None \<Rightarrow> Inl (ValueError ''could not convert string to float'') | Some q \<Rightarrow> Inr q)
      | _ \<Rightarrow> Inl (TypeError ''float() argument must be a string or a real number''))"

text \<open>One line of the ledger: the cost it books for a request of the month, if any.\<close>

definition line_cost :: "llm_codec \<Rightarrow> string \<Rightarrow> string \<Rightarrow> (string \<times> rat) option result" where
  "line_cost c month line =
     (case lc_loads c line of
        Inl e \<Rightarrow> Inl e
      | Inr (PDict d) \<Rightarrow>
          (if pget d ''month'' \<noteq> PStr month then Inr None
           else if unhashable (pget d ''action'') then Inl (TypeError ''unhashable type'')
           else if pget d ''action'' \<notin> {PStr ''reserve'', PStr ''settle''} then Inr None
           else case dict_get d ''request_id'' of
             None \<Rightarrow> Inl (KeyError ''request_id'')
           | Some request_id \<Rightarrow>
               (case dict_get d ''cost_usd'' of
                  None \<Rightarrow> Inl (KeyError ''cost_usd'')
                | Some cost \<Rightarrow>
                    (case to_float c cost of Inl e \<Rightarrow> Inl e | Inr amount \<Rightarrow>
                       (case request_id of
                          PStr i \<Rightarrow> Inr (if 0 \<le> amount \<and> amount \<le> 10000 then Some (i, amount) else None)
                        | _ \<Rightarrow> Inr None))))
      | Inr _ \<Rightarrow> Inl (AttributeError ''get''))"

text \<open>except (ValueError, TypeError, KeyError, JSONDecodeError)\<close>

definition ledger_catches :: "exn \<Rightarrow> bool" where
  "ledger_catches e =
     (case e of ValueError m \<Rightarrow> True | TypeError m \<Rightarrow> True | KeyError m \<Rightarrow> True
      | OtherError k m \<Rightarrow> k \<in> {''JSONDecodeError'', ''UnicodeDecodeError''} | _ \<Rightarrow> False)"

fun monthly_costs ::
    "llm_codec \<Rightarrow> string \<Rightarrow> string list \<Rightarrow> (string, rat) dict \<Rightarrow> (string, rat) dict result" where
  "monthly_costs c month [] costs = Inr costs"
| "monthly_costs c month (line # lines) costs =
     (case line_cost c month line of
        Inl e \<Rightarrow> Inl (if ledger_catches e
                    then budget_exceeded ''AI usage ledger cannot be verified; inference blocked.'' else e)
      | Inr None \<Rightarrow> monthly_costs c month lines costs
      | Inr (Some (i, amount)) \<Rightarrow> monthly_costs c month lines (dict_set i amount costs))"

definition monthly_reserved :: "llm_codec \<Rightarrow> string \<Rightarrow> string list \<Rightarrow> rat result" where
  "monthly_reserved c month lines =
     (case monthly_costs c month lines [] of Inl e \<Rightarrow> Inl e | Inr costs \<Rightarrow> Inr (lc_sum c (map snd costs)))"

definition next_io :: "('z llm_world_scheme, io_fault) py" where
  "next_io = (\<lambda>s. (Inr (lw_io s (lw_io_ix s)), s\<lparr>lw_io_ix := Suc (lw_io_ix s)\<rparr>))"

definition os_error :: exn where
  "os_error = OtherError ''OSError'' ''ledger''"

text \<open>_append: a failed write may or may not leave the line in the file.\<close>

definition append_line :: "io_fault \<Rightarrow> string \<Rightarrow> ('z llm_world_scheme, unit) py" where
  "append_line io line =
     (case io of
        WriteFails kept \<Rightarrow> seq (modify (\<lambda>s. if kept then s\<lparr>lw_lines := lw_lines s @ [line]\<rparr> else s)) (raise os_error)
      | _ \<Rightarrow> modify (\<lambda>s. s\<lparr>lw_lines := lw_lines s @ [line]\<rparr>))"

text \<open>with self._locked() as stream: the body gets the lines and the fault of this access.\<close>

definition with_ledger ::
    "(io_fault \<Rightarrow> string list \<Rightarrow> ('z llm_world_scheme, 'a) py) \<Rightarrow> ('z llm_world_scheme, 'a) py" where
  "with_ledger body =
     bnd next_io (\<lambda>io. if io = OpenFails then raise os_error else bnd (asks lw_lines) (body io))"

definition is_os_error :: "exn \<Rightarrow> bool" where
  "is_os_error e \<longleftrightarrow> e = os_error"

definition ledger_reserve ::
    "llm_codec \<Rightarrow> string \<Rightarrow> string \<Rightarrow> string \<Rightarrow> rat \<Rightarrow> rat \<Rightarrow> ('z llm_world_scheme, unit) py" where
  "ledger_reserve c request_id run_id month estimate cap =
     try_catch
       (with_ledger (\<lambda>io lines.
          bnd (lift_result (monthly_reserved c month lines)) (\<lambda>total.
          seq (guard (near c (total + estimate) \<le> slack c cap)
                 (budget_exceeded ''App-side monthly AI cost budget reached; request not sent.''))
          (bnd utc_now (\<lambda>now.
             append_line io (lc_line c (PDict
               [(''action'', PStr ''reserve''), (''at'', PStr (isoformat now)),
                (''cost_usd'', PFloat (fl_round (lc_floats c) 9 estimate)), (''month'', PStr month),
                (''request_id'', PStr request_id), (''run_id'', PStr run_id)])))))))
       (\<lambda>e. if is_os_error e
             then raise (budget_exceeded ''AI usage ledger unavailable; request not sent.'') else raise e)"

definition ledger_settle ::
    "llm_codec \<Rightarrow> string \<Rightarrow> string \<Rightarrow> rat \<Rightarrow> string \<Rightarrow> ('z llm_world_scheme, unit) py" where
  "ledger_settle c request_id month cost source =
     try_catch
       (with_ledger (\<lambda>io lines.
          bnd utc_now (\<lambda>now.
             append_line io (lc_line c (PDict
               [(''action'', PStr ''settle''), (''at'', PStr (isoformat now)),
                (''cost_usd'', PFloat (fl_round (lc_floats c) 9 cost)), (''month'', PStr month),
                (''request_id'', PStr request_id), (''usage_source'', PStr source)])))))
       (\<lambda>e. if is_os_error e then ret () else raise e)"

definition month_total :: "llm_codec \<Rightarrow> string \<Rightarrow> ('z llm_world_scheme, rat) py" where
  "month_total c month =
     try_catch (with_ledger (\<lambda>io lines. lift_result (monthly_reserved c month lines)))
       (\<lambda>e. if is_os_error e then ret 0 else raise e)"

section \<open>The tracker of a run\<close>

definition tracker :: "('z llm_world_scheme, UsageTracker) py" where
  "tracker = asks (\<lambda>s. the (lw_tracker s))"

definition set_tracker :: "UsageTracker \<Rightarrow> ('z llm_world_scheme, unit) py" where
  "set_tracker t = modify (\<lambda>s. s\<lparr>lw_tracker := Some t\<rparr>)"

definition block_call :: "string \<Rightarrow> string \<Rightarrow> ('z llm_world_scheme, unit) py" where
  "block_call purpose reason =
     bnd tracker (\<lambda>t. set_tracker (t\<lparr>ut_blocked := ut_blocked t + 1,
       ut_calls := ut_calls t @ [PDict [(''purpose'', PStr purpose), (''status'', PStr ''blocked''),
         (''reason'', PStr reason), (''estimated_cost_usd'', PFloat 0)]]\<rparr>))"

text \<open>len(body.encode("utf-8")) for characters below 256.\<close>

definition utf8_length :: "string \<Rightarrow> nat" where
  "utf8_length s = sum_list (map (\<lambda>ch. if (of_char ch :: nat) < 128 then 1 else 2) s)"

definition prompt_units :: "string \<Rightarrow> int" where
  "prompt_units body = max 1 ((int (utf8_length body) + 2) div 3 + 128)"

text \<open>strftime("%Y-%m") of a time in the years 1000 to 9999.\<close>

definition month_of :: "int \<Rightarrow> string" where
  "month_of t = take 7 (isoformat t)"

text \<open>The try statement of begin around the reservation in the ledger.\<close>

definition reserve_or_block ::
    "llm_codec \<Rightarrow> string \<Rightarrow> UsageTracker \<Rightarrow> string \<Rightarrow> string \<Rightarrow> rat \<Rightarrow> ('z llm_world_scheme, unit) py" where
  "reserve_or_block c purpose t request_id month reserve =
     try_catch
       (ledger_reserve c request_id (ut_run_id t) month reserve (bp_monthly_usd (ut_policy t)))
       (\<lambda>e. case e of
          OtherError k m \<Rightarrow>
            (if k = ''LLMBudgetExceeded''
             then seq (block_call purpose ''monthly_budget_or_ledger'') (raise e) else raise e)
        | _ \<Rightarrow> raise e)"

text \<open>The rest of begin once the request has an id: reserve, count, and return the reservation.\<close>

definition book_request ::
    "llm_codec \<Rightarrow> UsageTracker \<Rightarrow> RequestReservation \<Rightarrow> ('z llm_world_scheme, RequestReservation) py" where
  "book_request c t r =
     seq (reserve_or_block c (rr_purpose r) t (rr_request_id r) (rr_month r) (rr_reserved_usd r))
     (seq (bnd tracker (\<lambda>t'. set_tracker (t'\<lparr>ut_requests := ut_requests t' + 1,
             ut_reserved_run_usd := near c (ut_reserved_run_usd t' + rr_reserved_usd r)\<rparr>)))
          (ret r))"

definition begin_request ::
    "llm_codec \<Rightarrow> string \<Rightarrow> string \<Rightarrow> string \<Rightarrow> int \<Rightarrow> ('z llm_world_scheme, RequestReservation) py" where
  "begin_request c purpose model body max_output_tokens =
     bnd tracker (\<lambda>t.
       if bp_max_calls (ut_policy t) \<le> ut_requests t then
         seq (block_call purpose ''max_calls'')
             (raise (budget_exceeded ''Maximum model calls per workflow reached; request not sent.''))
       else
         let prompt_estimate = prompt_units body;
             reserve = price c (ut_policy t) prompt_estimate max_output_tokens in
         if \<not> near c (ut_reserved_run_usd t + reserve) \<le> slack c (bp_workflow_usd (ut_policy t)) then
           seq (block_call purpose ''workflow_budget'')
               (raise (budget_exceeded ''App-side workflow AI cost budget reached; request not sent.''))
         else
           bnd uuid4_hex (\<lambda>u.
           bnd utc_now (\<lambda>now.
             book_request c t
               \<lparr>rr_request_id = ''llm_'' @ u, rr_month = month_of now, rr_purpose = purpose, rr_model = model,
                rr_prompt_estimate = prompt_estimate, rr_max_output_tokens = max_output_tokens,
                rr_reserved_usd = reserve\<rparr>)))"

text \<open>The counts of the provider, when it gave usable ones.\<close>

definition provider_usage :: "pyval \<Rightarrow> (int \<times> int) option" where
  "provider_usage usage =
     (case usage of
        PDict d \<Rightarrow>
          (case (to_int (pget d ''prompt_tokens''), to_int (pget d ''completion_tokens'')) of
             (Inr i, Inr j) \<Rightarrow> if min i j < 0 \<or> 10000000 < max i j then None else Some (i, j)
           | _ \<Rightarrow> None)
      | _ \<Rightarrow> None)"

definition finish_request ::
    "llm_codec \<Rightarrow> RequestReservation \<Rightarrow> pyval \<Rightarrow> bool \<Rightarrow> ('z llm_world_scheme, unit) py" where
  "finish_request c r usage succeeded =
     bnd tracker (\<lambda>t.
       let (source, input_tokens, output_tokens, cost) =
             (case provider_usage usage of
                Some (i, j) \<Rightarrow> (''provider'', i, j, price c (ut_policy t) i j)
              | None \<Rightarrow> (''reserved_upper_estimate'', rr_prompt_estimate r, rr_max_output_tokens r, rr_reserved_usd r))
       in seq (set_tracker (t\<lparr>
                 ut_billed_estimate_usd := near c (ut_billed_estimate_usd t + cost),
                 ut_prompt_tokens := ut_prompt_tokens t + input_tokens,
                 ut_completion_tokens := ut_completion_tokens t + output_tokens,
                 ut_completed := (if succeeded then ut_completed t + 1 else ut_completed t),
                 ut_failed := (if succeeded then ut_failed t else ut_failed t + 1),
                 ut_reserved_run_usd := near c (ut_reserved_run_usd t + near c (cost - rr_reserved_usd r))\<rparr>))
          (seq (ledger_settle c (rr_request_id r) (rr_month r) cost source)
               (bnd tracker (\<lambda>t'. set_tracker (t'\<lparr>ut_calls := ut_calls t' @ [PDict
                  [(''purpose'', PStr (rr_purpose r)), (''model'', PStr (rr_model r)),
                   (''status'', PStr (if succeeded then ''completed'' else ''provider_error'')),
                   (''input_units'', PInt input_tokens), (''output_units'', PInt output_tokens),
                   (''usage_source'', PStr source),
                   (''estimated_cost_usd'', PFloat (fl_round (lc_floats c) 8 cost))]]\<rparr>)))))"

definition usage_snapshot :: "llm_codec \<Rightarrow> ('z llm_world_scheme, pyval) py" where
  "usage_snapshot c =
     bnd tracker (\<lambda>t. bnd utc_now (\<lambda>now. bnd (month_total c (month_of now)) (\<lambda>booked.
       ret (PDict
         [(''run_id'', PStr (ut_run_id t)), (''provider'', PStr ''huggingface''),
          (''model_calls'', PInt (ut_requests t)), (''model_calls_completed'', PInt (ut_completed t)),
          (''model_calls_failed'', PInt (ut_failed t)), (''model_calls_blocked'', PInt (ut_blocked t)),
          (''estimated_cost_usd'', PFloat (fl_round (lc_floats c) 8 (ut_billed_estimate_usd t))),
          (''estimated_input_units'', PInt (ut_prompt_tokens t)),
          (''estimated_output_units'', PInt (ut_completion_tokens t)),
          (''workflow_budget_usd'', PFloat (bp_workflow_usd (ut_policy t))),
          (''monthly_app_budget_usd'', PFloat (bp_monthly_usd (ut_policy t))),
          (''month'', PStr (month_of now)),
          (''app_ledger_booked_usd'', PFloat (fl_round (lc_floats c) 8 booked)),
          (''usage_note'', PStr ''Estimates only; not the provider bill or Hugging Face credit balance.''),
          (''calls'', PList (ut_calls t))]))))"

text \<open>llm_usage_scope: a fresh tracker for the body, the previous one afterwards.\<close>

definition llm_usage_scope ::
    "string \<Rightarrow> BudgetPolicy \<Rightarrow> ('z llm_world_scheme, 'a) py \<Rightarrow> ('z llm_world_scheme, 'a) py" where
  "llm_usage_scope run_id policy body = (\<lambda>s.
     case body (s\<lparr>lw_tracker := Some (new_tracker run_id policy)\<rparr>) of
       (r, s') \<Rightarrow> (r, s'\<lparr>lw_tracker := lw_tracker s\<rparr>))"

end
