(* ===== verification/Llm_Gateway.thy ===== *)
theory Llm_Gateway
  imports Llm_Budget
begin

text \<open>
  llm/gateway.py: the gateway to the Hugging Face router. Opening a request sends its body,
  which the world records, and answers with bytes or an exception. The JSON schema that goes
  with a call is any value; json.dumps and json.loads are those of the codec.
\<close>

definition llm_error :: "string \<Rightarrow> exn" where
  "llm_error m = OtherError ''LLMError'' m"

record HuggingFaceChatGateway =
  hg_token :: string
  hg_model :: string
  hg_timeout :: int

section \<open>Names\<close>

definition in_ranges :: "(nat \<times> nat) list \<Rightarrow> char \<Rightarrow> bool" where
  "in_ranges rs ch = list_ex (\<lambda>(lo, hi). lo \<le> (of_char ch :: nat) \<and> (of_char ch :: nat) \<le> hi) rs"

definition ascii_alnum :: "char \<Rightarrow> bool" where
  "ascii_alnum ch = in_ranges [(65, 90), (97, 122), (48, 57)] ch"

text \<open>[A-Za-z0-9][A-Za-z0-9._-]* and the pattern _MODEL_ID, whose parts exclude / and the colon.\<close>

fun model_part :: "string \<Rightarrow> bool" where
  "model_part [] = False"
| "model_part (ch # rest) =
     (ascii_alnum ch \<and> list_all (\<lambda>x. ascii_alnum x \<or> x \<in> {CHR ''.'', CHR ''_'', CHR ''-''}) rest)"

definition is_model_id :: "string \<Rightarrow> bool" where
  "is_model_id s =
     (case partition_at (CHR '':'') s of (name, routed, routing) \<Rightarrow>
      case partition_at (CHR ''/'') name of (namespace, slash, model) \<Rightarrow>
        slash \<and> model_part namespace \<and> model_part model
        \<and> (routed \<longrightarrow> routing \<in> {''cheapest'', ''fastest'', ''preferred''}))"

text \<open>[A-Za-z][A-Za-z0-9_]{0,63}\<close>

fun is_schema_name :: "string \<Rightarrow> bool" where
  "is_schema_name [] = False"
| "is_schema_name (ch # rest) =
     (in_ranges [(65, 90), (97, 122)] ch \<and> length rest \<le> 63
      \<and> list_all (\<lambda>x. ascii_alnum x \<or> x = CHR ''_'') rest)"

definition new_gateway :: "string \<Rightarrow> string \<Rightarrow> int \<Rightarrow> HuggingFaceChatGateway result" where
  "new_gateway api_key model timeout_seconds =
     (if strip api_key = [] then Inl (llm_error ''Hugging Face token (HF_TOKEN) is not configured.'')
      else if \<not> is_model_id (strip model) then
        Inl (llm_error ''Expected a Hugging Face namespace/model ID, optionally with a routing policy.'')
      else Inr \<lparr>hg_token = strip api_key, hg_model = strip model, hg_timeout = max 1 (min timeout_seconds 90)\<rparr>)"

record llm_settings =
  ls_enabled :: bool
  ls_provider :: string
  ls_api_key :: string
  ls_model :: string
  ls_planner_model :: string
  ls_briefing_model :: string
  ls_timeout_seconds :: int

definition build_llm_gateway :: "llm_settings \<Rightarrow> string \<Rightarrow> HuggingFaceChatGateway option result" where
  "build_llm_gateway st purpose =
     (if \<not> ls_enabled st then Inr None
      else if ls_provider st \<notin> {''huggingface'', ''hf''} then
        Inl (llm_error ''Only Hugging Face is supported in this Upgrade 5 edition.'')
      else if purpose \<notin> {''planner'', ''briefing''} then Inl (llm_error ''Unsupported model purpose.'')
      else
        let chosen = (if purpose = ''planner'' then ls_planner_model st else ls_briefing_model st);
            model = (if chosen = [] then ls_model st else chosen)
        in case new_gateway (ls_api_key st) model (ls_timeout_seconds st) of
             Inl e \<Rightarrow> Inl e | Inr g \<Rightarrow> Inr (Some g))"

section \<open>One request\<close>

record gateway_call =
  gc_instructions :: string
  gc_input_text :: string
  gc_schema :: "(string, pyval) dict"
  gc_schema_name :: string
  gc_max_output_tokens :: int

definition purpose_of :: "string \<Rightarrow> string" where
  "purpose_of schema_name =
     (if schema_name = ''enterprise_analysis_recommendation'' then ''planner''
      else if schema_name = ''enterprise_investigation_checks'' then ''investigation''
      else if schema_name = ''enterprise_investigation_followup'' then ''investigation_followup''
      else if schema_name = ''enterprise_evidence_review'' then ''evidence_review''
      else if schema_name = ''enterprise_run_question_answer'' then ''run_question''
      else ''briefing'')"

definition output_cap :: "UsageTracker option \<Rightarrow> int \<Rightarrow> int" where
  "output_cap t max_output_tokens =
     (let cap = min (max max_output_tokens 200) 2400 in
      case t of None \<Rightarrow> cap | Some tr \<Rightarrow> min cap (bp_max_output_tokens (ut_policy tr)))"

definition request_body :: "llm_codec \<Rightarrow> HuggingFaceChatGateway \<Rightarrow> gateway_call \<Rightarrow> int \<Rightarrow> pyval" where
  "request_body c g call cap = PDict
     [(''model'', PStr (hg_model g)),
      (''messages'', PList
         [PDict [(''role'', PStr ''system''),
                 (''content'', PStr (gc_instructions call @ [CHR 0x0A] @ ''/no_think'' @ [CHR 0x0A] @ ''Return JSON only.''))],
          PDict [(''role'', PStr ''user''), (''content'', PStr (gc_input_text call))]]),
      (''stream'', PBool False), (''temperature'', PFloat (near c (1 / 5))), (''max_tokens'', PInt cap),
      (''response_format'', PDict
         [(''type'', PStr ''json_schema''),
          (''json_schema'', PDict [(''name'', PStr (gc_schema_name call)), (''schema'', PDict (gc_schema call)),
                                 (''strict'', PBool True)])])]"

definition max_body_bytes :: nat where
  "max_body_bytes = 512 * 1024"

text \<open>The opener: the body goes out, and the answer is what the network gives next.\<close>

definition send_request :: "string \<Rightarrow> ('z llm_world_scheme, string) py" where
  "send_request body = (\<lambda>s. (lw_network s (length (lw_sent s)), s\<lparr>lw_sent := lw_sent s @ [body]\<rparr>))"

text \<open>The two except clauses around the opener; other exceptions pass.\<close>

definition network_failure :: "exn \<Rightarrow> exn" where
  "network_failure e =
     (case e of
        OtherError k m \<Rightarrow>
          (if k = ''HTTPError'' then llm_error (''Hugging Face inference returned HTTP '' @ m @ ''.'')
           else if k \<in> {''URLError'', ''TimeoutError'', ''OSError'', ''SSLError'', ''ConnectionError'',
                       ''ConnectionResetError'', ''ConnectionRefusedError'', ''BrokenPipeError''}
           then llm_error ''Hugging Face inference is unavailable or timed out.''
           else e)
      | _ \<Rightarrow> e)"

text \<open>The reply: its content as a dictionary, and the usage the provider reports.\<close>

definition reply_result :: "llm_codec \<Rightarrow> string \<Rightarrow> ((string, pyval) dict \<times> pyval) result" where
  "reply_result c raw =
     (case lc_loads c raw of
        Inl e \<Rightarrow> Inl e
      | Inr (PDict reply) \<Rightarrow>
          (case pget reply ''choices'' of
             PList [choice] \<Rightarrow>
               (case choice of
                  PDict ch \<Rightarrow>
                    (if pget ch ''finish_reason'' \<notin> {PNone, PStr ''stop''} then
                       Inl (llm_error ''Model response was truncated or filtered.'')
                     else
                       case (case pget ch ''message'' of PDict m \<Rightarrow> pget m ''content'' | _ \<Rightarrow> PNone) of
                         PStr content \<Rightarrow>
                           (case lc_loads c content of
                              Inl e \<Rightarrow> Inl e
                            | Inr (PDict d) \<Rightarrow> Inr (d, pget reply ''usage'')
                            | Inr _ \<Rightarrow> Inl (llm_error ''Model output is not a JSON object.''))
                       | _ \<Rightarrow> Inl (llm_error ''Model returned no JSON text.''))
                | _ \<Rightarrow> Inl (AttributeError ''get''))
           | _ \<Rightarrow> Inl (llm_error ''Unexpected Hugging Face response choices.''))
      | Inr _ \<Rightarrow> Inl (llm_error ''Unexpected Hugging Face response envelope.''))"

text \<open>except (ValueError, KeyError, TypeError, AttributeError)\<close>

definition reply_failure :: "exn \<Rightarrow> exn" where
  "reply_failure e =
     (if ledger_catches e \<or> (case e of AttributeError m \<Rightarrow> True | _ \<Rightarrow> False)
      then llm_error ''Hugging Face returned invalid structured JSON.'' else e)"

definition exchange :: "llm_codec \<Rightarrow> string \<Rightarrow> ('z llm_world_scheme, (string, pyval) dict \<times> pyval) py" where
  "exchange c body =
     bnd (try_catch (send_request body) (\<lambda>e. raise (network_failure e))) (\<lambda>answer.
       let raw = take (max_body_bytes + 1) answer in
       seq (guard (length raw \<le> max_body_bytes) (llm_error ''Hugging Face response exceeded the size limit.''))
           (try_catch (lift_result (reply_result c raw)) (\<lambda>e. raise (reply_failure e))))"

definition attempted :: "('s, 'a) py \<Rightarrow> ('s, 'a result) py" where
  "attempted m = (\<lambda>s. case m s of (r, s') \<Rightarrow> (Inr r, s'))"

definition generate_with_usage ::
    "llm_codec \<Rightarrow> HuggingFaceChatGateway \<Rightarrow> gateway_call \<Rightarrow> ('z llm_world_scheme, (string, pyval) dict) py" where
  "generate_with_usage c g call =
     bnd (asks lw_tracker) (\<lambda>t.
       let cap = output_cap t (gc_max_output_tokens call);
           body = lc_dumps c (request_body c g call cap) in
       case t of
         None \<Rightarrow> bnd (exchange c body) (\<lambda>(result, usage). ret result)
       | Some _ \<Rightarrow>
           bnd (begin_request c (purpose_of (gc_schema_name call)) (hg_model g) body cap) (\<lambda>reservation.
           bnd (attempted (exchange c body)) (\<lambda>outcome. case outcome of
             Inl e \<Rightarrow> seq (finish_request c reservation PNone False) (raise e)
           | Inr (result, usage) \<Rightarrow> seq (finish_request c reservation usage True) (ret result))))"

text \<open>
  generate; policy is BudgetPolicy.from_settings of the settings when models are enabled,
  which opens a scope of its own when there is none.
\<close>

definition generate ::
    "llm_codec \<Rightarrow> BudgetPolicy option \<Rightarrow> HuggingFaceChatGateway \<Rightarrow> gateway_call \<Rightarrow>
     ('z llm_world_scheme, (string, pyval) dict) py" where
  "generate c policy g call =
     seq (guard (length (gc_input_text call) \<le> 15000) (llm_error ''Model input exceeds its compact-data budget.''))
     (seq (guard (length (gc_instructions call) \<le> 12000)
             (llm_error ''Model instructions exceed the configured limit.''))
     (seq (guard (is_schema_name (gc_schema_name call)) (llm_error ''Invalid JSON output schema name.''))
     (seq (guard (pget (gc_schema call) ''type'' = PStr ''object''
                  \<and> length (lc_dumps c (PDict (gc_schema call))) \<le> 12000)
             (llm_error ''Invalid or oversized JSON schema.''))
     (bnd (asks lw_tracker) (\<lambda>t. case (t, policy) of
        (None, Some p) \<Rightarrow>
          bnd uuid4_hex (\<lambda>u. llm_usage_scope (''direct_'' @ u) p (generate_with_usage c g call))
      | _ \<Rightarrow> generate_with_usage c g call)))))"

end
