(* ===== verification/Llm_Properties.thy ===== *)
theory Llm_Properties
  imports Llm_Gateway
begin

text \<open>
  What the budget promises: a request leaves the host only after it was reserved within the
  limits of its run and of the month, and a run sends at most as many as its policy allows,
  whatever the ledger file, the network and the other workers do in between.
\<close>

section \<open>What the operations leave alone\<close>

text \<open>A step that sends nothing and keeps the tracker's counters of requests and reservations.\<close>

definition idle :: "'z llm_world_scheme \<Rightarrow> 'z llm_world_scheme \<Rightarrow> bool" where
  "idle s s' \<longleftrightarrow> lw_sent s' = lw_sent s \<and> map_option ut_requests (lw_tracker s') = map_option ut_requests (lw_tracker s)
     \<and> map_option ut_policy (lw_tracker s') = map_option ut_policy (lw_tracker s)"


lemma idle_trans: "idle s t \<Longrightarrow> idle t u \<Longrightarrow> idle s u"
  by (simp add: idle_def)

lemma keeps_idle_next_io [keeps_intros]: "keeps (idle s) next_io"
  by (simp add: keeps_def next_io_def idle_def)

lemma keeps_idle_utc_now [keeps_intros]: "keeps (idle s) utc_now"
  by (simp add: keeps_def utc_now_def idle_def)

lemma keeps_idle_uuid [keeps_intros]: "keeps (idle s) uuid4_hex"
  by (simp add: keeps_def uuid4_hex_def idle_def)

lemma keeps_idle_append [keeps_intros]: "keeps (idle s) (append_line io line)"
  unfolding append_line_def
  by (cases io) (auto intro!: keeps_intros keeps_modify simp: idle_def)

lemma keeps_idle_with_ledger [keeps_intros]:
  "(\<And>io lines. keeps (idle s) (body io lines)) \<Longrightarrow> keeps (idle s) (with_ledger body)"
  unfolding with_ledger_def by (intro keeps_intros)










section \<open>A reservation\<close>









section \<open>A call of the gateway\<close>





section \<open>Histories of a run\<close>






section \<open>A concrete run\<close>







end
