(* ===== verification/Run_Archive.thy ===== *)
theory Run_Archive
  imports Sql_Models Run_State
begin

text \<open>
  runs/archive.py: a run as one JSON document, and its restoration in another repository.
  fromiso is datetime.fromisoformat with None for its ValueError, and float_of is float().
  Where the import stores a field as it finds it (payload.get of a text or a number), the
  record types of the model ask for the annotated type, and another type is a TypeError.
\<close>

definition run_archive_schema_version :: string where
  "run_archive_schema_version = ''aeai.run_archive.v1''"

section \<open>Records as JSON objects\<close>

definition time_py :: "int option \<Rightarrow> pyval" where
  "time_py t = (case t of None \<Rightarrow> PNone | Some x \<Rightarrow> PStr (isoformat x))"

definition run_to_archive :: "(string \<Rightarrow> string) \<Rightarrow> RunRecord \<Rightarrow> pyval" where
  "run_to_archive ru run = PDict
     [(''id'', PStr (r_id run)), (''task'', PStr (redact_text ru (r_task run))),
      (''status'', PStr (run_status_value (r_status run))),
      (''metadata'', redact_value ru None (PDict (r_metadata run))),
      (''dataset_artifact_id'', opt_str (r_dataset_artifact_id run)), (''trace_id'', opt_str (r_trace_id run)),
      (''error_summary'', opt_str (r_error_summary run)),
      (''created_at'', PStr (isoformat (r_created_at run))), (''updated_at'', PStr (isoformat (r_updated_at run)))]"

definition artifact_to_archive :: "(string \<Rightarrow> string) \<Rightarrow> ArtifactRecord \<Rightarrow> pyval" where
  "artifact_to_archive ru a = PDict
     [(''id'', PStr (a_id a)), (''run_id'', PStr (a_run_id a)),
      (''producer_node_id'', opt_str (a_producer_node_id a)),
      (''type'', PStr (artifact_type_value (a_type a))), (''uri'', PStr (ru (a_uri a))),
      (''metadata'', redact_value ru None (PDict (a_metadata a))),
      (''content_type'', opt_str (a_content_type a)), (''storage_backend'', opt_str (a_storage_backend a)),
      (''storage_key'', case a_storage_key a of None \<Rightarrow> PNone | Some k \<Rightarrow> if k = [] then PNone else PStr (ru k)),
      (''size_bytes'', opt_int (a_size_bytes a)),
      (''source_artifact_ids'', strs (a_source_artifact_ids a)),
      (''created_at'', PStr (isoformat (a_created_at a)))]"

definition node_to_archive :: "GraphNodeRecord \<Rightarrow> pyval" where
  "node_to_archive n = PDict
     [(''id'', PStr (n_id n)), (''run_id'', PStr (n_run_id n)), (''agent_type'', PStr (n_agent_type n)),
      (''status'', PStr (node_status_value (n_status n))), (''depends_on'', strs (n_depends_on n)),
      (''required_tools'', strs (n_required_tools n)), (''expected_artifacts'', strs (n_expected_artifacts n)),
      (''retry_count'', PInt (n_retry_count n)), (''started_at'', time_py (n_started_at n)),
      (''finished_at'', time_py (n_finished_at n)), (''created_at'', PStr (isoformat (n_created_at n))),
      (''updated_at'', PStr (isoformat (n_updated_at n)))]"

definition event_to_archive :: "(string \<Rightarrow> string) \<Rightarrow> AgentEventRecord \<Rightarrow> pyval" where
  "event_to_archive ru e = PDict
     [(''id'', PStr (e_id e)), (''run_id'', PStr (e_run_id e)), (''node_id'', PStr (e_node_id e)),
      (''event_type'', PStr (e_event_type e)), (''payload'', redact_value ru None (PDict (e_payload e))),
      (''created_at'', PStr (isoformat (e_created_at e)))]"

definition evaluation_to_archive :: "(string \<Rightarrow> string) \<Rightarrow> EvaluationResultRecord \<Rightarrow> pyval result" where
  "evaluation_to_archive ru v =
     (case v_created_at v of
        None \<Rightarrow> Inl (RunArchiveError (''Evaluation is missing created_at: '' @ v_id v))
      | Some t \<Rightarrow> Inr (PDict
          [(''id'', PStr (v_id v)), (''run_id'', PStr (v_run_id v)),
           (''target_artifact_id'', opt_str (v_target_artifact_id v)), (''score'', PFloat (v_score v)),
           (''passed'', PBool (v_passed v)), (''checks'', redact_value ru None (PList (v_checks v))),
           (''created_at'', PStr (isoformat t))]))"

definition job_to_archive :: "(string \<Rightarrow> string) \<Rightarrow> WorkflowJobRecord \<Rightarrow> pyval" where
  "job_to_archive ru j = PDict
     [(''id'', PStr (j_id j)), (''run_id'', PStr (j_run_id j)), (''workflow_name'', PStr (j_workflow_name j)),
      (''status'', PStr (job_status_value (j_status j))),
      (''payload'', redact_value ru None (PDict (j_payload j))),
      (''attempt_count'', PInt (j_attempt_count j)), (''max_attempts'', PInt (j_max_attempts j)),
      (''worker_id'', opt_str (j_worker_id j)), (''error_summary'', opt_str (j_error_summary j)),
      (''started_at'', time_py (j_started_at j)), (''finished_at'', time_py (j_finished_at j)),
      (''heartbeat_at'', time_py (j_heartbeat_at j)), (''created_at'', PStr (isoformat (j_created_at j))),
      (''updated_at'', PStr (isoformat (j_updated_at j)))]"

definition checkpoint_to_archive :: "(string \<Rightarrow> string) \<Rightarrow> RunCheckpointRecord \<Rightarrow> pyval" where
  "checkpoint_to_archive ru c = PDict
     [(''run_id'', PStr (c_run_id c)), (''version'', PInt (c_version c)),
      (''state'', redact_value ru None (c_state c)), (''created_at'', PStr (isoformat (c_created_at c))),
      (''updated_at'', PStr (isoformat (c_updated_at c)))]"

definition export_run_archive :: "string \<Rightarrow> ('z repo_scheme, (string, pyval) dict) py" where
  "export_run_archive run_id =
     bnd (get_run run_id) (\<lambda>run.
     bnd (try_catch (bnd (get_checkpoint run_id) (\<lambda>c. ret (Some c)))
            (\<lambda>e. case e of RunCheckpointNotFoundError m \<Rightarrow> ret None | _ \<Rightarrow> raise e)) (\<lambda>checkpoint.
     bnd (asks uri_redactor) (\<lambda>ru.
     bnd utc_now (\<lambda>now.
     bnd (list_artifacts run_id) (\<lambda>arts.
     bnd (list_graph_nodes run_id) (\<lambda>nodes.
     bnd (list_events run_id) (\<lambda>evs.
     bnd (bnd (list_evaluations run_id) (\<lambda>vs. map_each vs (\<lambda>v. lift_result (evaluation_to_archive ru v)))) (\<lambda>evals.
     bnd (list_workflow_jobs (Some run_id) None) (\<lambda>jobs.
       ret [(''schema_version'', PStr run_archive_schema_version), (''exported_at'', PStr (isoformat now)),
            (''run'', run_to_archive ru run), (''artifacts'', PList (map (artifact_to_archive ru) arts)),
            (''graph_nodes'', PList (map node_to_archive nodes)),
            (''events'', PList (map (event_to_archive ru) evs)), (''evaluations'', PList evals),
            (''workflow_jobs'', PList (map (job_to_archive ru) jobs)),
            (''checkpoint'', case checkpoint of None \<Rightarrow> PNone | Some c \<Rightarrow> checkpoint_to_archive ru c),
            (''notes'', PDict
               [(''payloads_included'', PBool False),
                (''usage'', PStr ''Import this archive into a local repository for offline run inspection.'')])])))))))))"

section \<open>Records from JSON objects\<close>

text \<open>The functions of the library an import uses.\<close>

record archive_reader =
  ar_repr :: "pyval \<Rightarrow> string"
  ar_fromiso :: "string \<Rightarrow> int option"
  ar_float :: "pyval \<Rightarrow> rat result"

fun rbind :: "'a result \<Rightarrow> ('a \<Rightarrow> 'b result) \<Rightarrow> 'b result" where
  "rbind (Inl e) f = Inl e"
| "rbind (Inr x) f = f x"

fun rmap :: "('a \<Rightarrow> 'b result) \<Rightarrow> 'a list \<Rightarrow> 'b list result" where
  "rmap f [] = Inr []"
| "rmap f (x # xs) = rbind (f x) (\<lambda>y. rbind (rmap f xs) (\<lambda>ys. Inr (y # ys)))"

text \<open>payload[key], str(payload[key]), and payload.get(key) of the annotated type.\<close>

definition item :: "(string, pyval) dict \<Rightarrow> string \<Rightarrow> pyval result" where
  "item d k = (case dict_get d k of None \<Rightarrow> Inl (KeyError k) | Some v \<Rightarrow> Inr v)"

definition text_item :: "archive_reader \<Rightarrow> (string, pyval) dict \<Rightarrow> string \<Rightarrow> string result" where
  "text_item ar d k = rbind (item d k) (\<lambda>v. Inr (py_str (ar_repr ar) v))"

definition opt_text :: "(string, pyval) dict \<Rightarrow> string \<Rightarrow> string option result" where
  "opt_text d k = typed (as_opt_str (pget d k))"

fun as_opt_int :: "pyval \<Rightarrow> int option option" where
  "as_opt_int PNone = Some None"
| "as_opt_int (PInt i) = Some (Some i)"
| "as_opt_int v = None"

text \<open>payload.get(key) or {}, list(payload.get(key) or []), int(payload.get(key) or default).\<close>

definition object_field :: "(string, pyval) dict \<Rightarrow> string \<Rightarrow> (string, pyval) dict result" where
  "object_field d k = (if truthy (pget d k) then typed (as_dict (pget d k)) else Inr [])"

definition texts_field :: "(string, pyval) dict \<Rightarrow> string \<Rightarrow> string list result" where
  "texts_field d k =
     (if truthy (pget d k) then rbind (py_list (pget d k)) (\<lambda>xs. typed (as_strs_list xs)) else Inr [])"

definition int_field :: "(string, pyval) dict \<Rightarrow> string \<Rightarrow> int \<Rightarrow> int result" where
  "int_field d k fallback = (if truthy (pget d k) then to_int (pget d k) else Inr fallback)"

definition parse_datetime :: "archive_reader \<Rightarrow> pyval \<Rightarrow> int result" where
  "parse_datetime ar v =
     (case ar_fromiso ar (py_str (ar_repr ar) v) of
        None \<Rightarrow> Inl (RunArchiveError (''Invalid datetime in archive: '' @ py_str (ar_repr ar) v))
      | Some t \<Rightarrow> Inr t)"

definition parse_optional_datetime :: "archive_reader \<Rightarrow> pyval \<Rightarrow> int option result" where
  "parse_optional_datetime ar v =
     (case v of
        PList xs \<Rightarrow> Inl (TypeError ''unhashable type'')
      | PDict d \<Rightarrow> Inl (TypeError ''unhashable type'')
      | _ \<Rightarrow> if v \<in> {PNone, PStr []} then Inr None
             else rbind (parse_datetime ar v) (\<lambda>t. Inr (Some t)))"

definition time_item :: "archive_reader \<Rightarrow> (string, pyval) dict \<Rightarrow> string \<Rightarrow> int result" where
  "time_item ar d k = rbind (item d k) (parse_datetime ar)"

definition run_from_archive :: "archive_reader \<Rightarrow> (string, pyval) dict \<Rightarrow> RunRecord result" where
  "run_from_archive ar d =
     rbind (text_item ar d ''id'') (\<lambda>i. rbind (text_item ar d ''task'') (\<lambda>t.
     rbind (rbind (text_item ar d ''status'') run_status_of) (\<lambda>st.
     rbind (object_field d ''metadata'') (\<lambda>m. rbind (opt_text d ''dataset_artifact_id'') (\<lambda>ds.
     rbind (opt_text d ''trace_id'') (\<lambda>tr. rbind (opt_text d ''error_summary'') (\<lambda>e.
     rbind (time_item ar d ''created_at'') (\<lambda>c. rbind (time_item ar d ''updated_at'') (\<lambda>u.
       Inr \<lparr>r_id = i, r_task = t, r_status = st, r_metadata = m, r_created_at = c, r_updated_at = u,
            r_dataset_artifact_id = ds, r_trace_id = tr, r_error_summary = e\<rparr>)))))))))"

definition artifact_from_archive :: "archive_reader \<Rightarrow> (string, pyval) dict \<Rightarrow> ArtifactRecord result" where
  "artifact_from_archive ar d =
     rbind (text_item ar d ''id'') (\<lambda>i. rbind (text_item ar d ''run_id'') (\<lambda>r.
     rbind (opt_text d ''producer_node_id'') (\<lambda>p.
     rbind (rbind (text_item ar d ''type'') artifact_type_of) (\<lambda>ty.
     rbind (text_item ar d ''uri'') (\<lambda>uri. rbind (object_field d ''metadata'') (\<lambda>m.
     rbind (opt_text d ''content_type'') (\<lambda>ct. rbind (opt_text d ''storage_backend'') (\<lambda>sb.
     rbind (opt_text d ''storage_key'') (\<lambda>sk. rbind (typed (as_opt_int (pget d ''size_bytes''))) (\<lambda>sz.
     rbind (texts_field d ''source_artifact_ids'') (\<lambda>src. rbind (time_item ar d ''created_at'') (\<lambda>c.
       Inr \<lparr>a_id = i, a_run_id = r, a_type = ty, a_uri = uri, a_metadata = m, a_source_artifact_ids = src,
            a_created_at = c, a_producer_node_id = p, a_content_type = ct, a_storage_backend = sb,
            a_storage_key = sk, a_size_bytes = sz\<rparr>))))))))))))"

definition node_from_archive :: "archive_reader \<Rightarrow> (string, pyval) dict \<Rightarrow> GraphNodeRecord result" where
  "node_from_archive ar d =
     rbind (text_item ar d ''id'') (\<lambda>i. rbind (text_item ar d ''run_id'') (\<lambda>r.
     rbind (text_item ar d ''agent_type'') (\<lambda>a. rbind (rbind (text_item ar d ''status'') node_status_of) (\<lambda>st.
     rbind (texts_field d ''depends_on'') (\<lambda>ds. rbind (texts_field d ''required_tools'') (\<lambda>ts.
     rbind (texts_field d ''expected_artifacts'') (\<lambda>xs. rbind (int_field d ''retry_count'' 0) (\<lambda>rc.
     rbind (parse_optional_datetime ar (pget d ''started_at'')) (\<lambda>sa.
     rbind (parse_optional_datetime ar (pget d ''finished_at'')) (\<lambda>fa.
     rbind (time_item ar d ''created_at'') (\<lambda>c. rbind (time_item ar d ''updated_at'') (\<lambda>u.
       Inr \<lparr>n_id = i, n_run_id = r, n_agent_type = a, n_status = st, n_depends_on = ds,
            n_required_tools = ts, n_expected_artifacts = xs, n_retry_count = rc, n_created_at = c,
            n_updated_at = u, n_started_at = sa, n_finished_at = fa\<rparr>))))))))))))"

definition event_from_archive :: "archive_reader \<Rightarrow> (string, pyval) dict \<Rightarrow> AgentEventRecord result" where
  "event_from_archive ar d =
     rbind (text_item ar d ''id'') (\<lambda>i. rbind (text_item ar d ''run_id'') (\<lambda>r.
     rbind (text_item ar d ''node_id'') (\<lambda>n. rbind (text_item ar d ''event_type'') (\<lambda>ty.
     rbind (object_field d ''payload'') (\<lambda>p. rbind (time_item ar d ''created_at'') (\<lambda>c.
       Inr \<lparr>e_id = i, e_run_id = r, e_node_id = n, e_event_type = ty, e_payload = p, e_created_at = c\<rparr>))))))"

definition evaluation_from_archive :: "archive_reader \<Rightarrow> (string, pyval) dict \<Rightarrow> EvaluationResultRecord result" where
  "evaluation_from_archive ar d =
     rbind (text_item ar d ''id'') (\<lambda>i. rbind (text_item ar d ''run_id'') (\<lambda>r.
     rbind (opt_text d ''target_artifact_id'') (\<lambda>t. rbind (rbind (item d ''score'') (ar_float ar)) (\<lambda>sc.
     rbind (item d ''passed'') (\<lambda>p.
     rbind (if truthy (pget d ''checks'') then typed (as_list (pget d ''checks'')) else Inr []) (\<lambda>cs.
     rbind (time_item ar d ''created_at'') (\<lambda>c.
       Inr \<lparr>v_id = i, v_run_id = r, v_score = sc, v_passed = truthy p, v_checks = cs,
            v_created_at = Some c, v_target_artifact_id = t\<rparr>)))))))"

definition job_from_archive :: "archive_reader \<Rightarrow> (string, pyval) dict \<Rightarrow> WorkflowJobRecord result" where
  "job_from_archive ar d =
     rbind (text_item ar d ''id'') (\<lambda>i. rbind (text_item ar d ''run_id'') (\<lambda>r.
     rbind (text_item ar d ''workflow_name'') (\<lambda>w. rbind (rbind (text_item ar d ''status'') job_status_of) (\<lambda>st.
     rbind (object_field d ''payload'') (\<lambda>p. rbind (int_field d ''attempt_count'' 0) (\<lambda>ac.
     rbind (int_field d ''max_attempts'' 1) (\<lambda>ma. rbind (opt_text d ''worker_id'') (\<lambda>wk.
     rbind (opt_text d ''error_summary'') (\<lambda>e.
     rbind (parse_optional_datetime ar (pget d ''started_at'')) (\<lambda>sa.
     rbind (parse_optional_datetime ar (pget d ''finished_at'')) (\<lambda>fa.
     rbind (parse_optional_datetime ar (pget d ''heartbeat_at'')) (\<lambda>hb.
     rbind (time_item ar d ''created_at'') (\<lambda>c. rbind (time_item ar d ''updated_at'') (\<lambda>u.
       Inr \<lparr>j_id = i, j_run_id = r, j_workflow_name = w, j_status = st, j_payload = p,
            j_attempt_count = ac, j_max_attempts = ma, j_created_at = c, j_updated_at = u,
            j_worker_id = wk, j_error_summary = e, j_started_at = sa, j_finished_at = fa,
            j_heartbeat_at = hb\<rparr>))))))))))))))"

definition checkpoint_from_archive :: "archive_reader \<Rightarrow> (string, pyval) dict \<Rightarrow> RunCheckpointRecord result" where
  "checkpoint_from_archive ar d =
     rbind (text_item ar d ''run_id'') (\<lambda>r. rbind (object_field d ''state'') (\<lambda>st.
     rbind (int_field d ''version'' 1) (\<lambda>v. rbind (time_item ar d ''created_at'') (\<lambda>c.
     rbind (time_item ar d ''updated_at'') (\<lambda>u.
       Inr \<lparr>c_run_id = r, c_state = PDict st, c_version = v, c_created_at = c, c_updated_at = u\<rparr>)))))"

text \<open>[f(item) for item in archive.get(key, [])]: an item that is no object cannot be indexed.\<close>

definition archive_items ::
    "((string, pyval) dict \<Rightarrow> 'a result) \<Rightarrow> (string, pyval) dict \<Rightarrow> string \<Rightarrow> 'a list result" where
  "archive_items f archive k =
     rbind (case dict_get archive k of None \<Rightarrow> Inr [] | Some v \<Rightarrow> py_list v)
       (rmap (\<lambda>v. rbind (typed (as_dict v)) f))"

definition required_mapping :: "(string, pyval) dict \<Rightarrow> string \<Rightarrow> (string, pyval) dict result" where
  "required_mapping payload k =
     (case pget payload k of
        PDict d \<Rightarrow> Inr d | _ \<Rightarrow> Inl (RunArchiveError (''Run archive is missing object: '' @ k)))"

definition import_run_archive ::
    "archive_reader \<Rightarrow> (string, pyval) dict \<Rightarrow> bool \<Rightarrow> ('z repo_scheme, RunRecord) py" where
  "import_run_archive ar archive overwrite =
     seq (guard (pget archive ''schema_version'' = PStr run_archive_schema_version)
            (RunArchiveError (''Unsupported run archive schema version: ''
               @ py_str (ar_repr ar) (pget archive ''schema_version''))))
     (bnd (lift_result (rbind (required_mapping archive ''run'') (run_from_archive ar))) (\<lambda>run.
      seq (bnd (try_catch (bnd (get_run (r_id run)) (\<lambda>_. ret True))
                  (\<lambda>e. case e of RunNotFoundError m \<Rightarrow> ret False | _ \<Rightarrow> raise e)) (\<lambda>exists.
           guard (\<not> exists \<or> overwrite) (RunArchiveConflictError (''Run already exists: '' @ r_id run))))
      (bnd (lift_result (archive_items (artifact_from_archive ar) archive ''artifacts'')) (\<lambda>arts.
       bnd (lift_result (archive_items (node_from_archive ar) archive ''graph_nodes'')) (\<lambda>nodes.
       bnd (lift_result (archive_items (event_from_archive ar) archive ''events'')) (\<lambda>evs.
       bnd (lift_result (archive_items (evaluation_from_archive ar) archive ''evaluations'')) (\<lambda>evals.
       bnd (lift_result (archive_items (job_from_archive ar) archive ''workflow_jobs'')) (\<lambda>jobs.
       bnd (lift_result
             (if truthy (pget archive ''checkpoint'')
              then rbind (typed (as_dict (pget archive ''checkpoint''))) (\<lambda>d.
                   rbind (checkpoint_from_archive ar d) (\<lambda>c. Inr (Some c)))
              else Inr None)) (\<lambda>checkpoint.
         restore_run run arts nodes evs evals jobs checkpoint)))))))))"

end
