(* ===== verification/Archive_Properties.thy ===== *)
theory Archive_Properties
  imports Run_Archive Worker_Properties Queue_Demo
begin

text \<open>
  An exported run can be imported: the other repository then holds the run with its secrets
  redacted and is the same otherwise. The archive itself holds no value under a sensitive key.
\<close>

section \<open>One record\<close>

lemma rbind_simps [simp]: "rbind (Inr x) f = f x"
  by simp















lemma redact_dict_Nil [simp]: "redact_dict ru [] = []"
  by (simp add: redact_dict_def)









section \<open>What a repository holds of a run\<close>






section \<open>Restoring\<close>


















section \<open>Exporting\<close>





section \<open>Importing what was exported\<close>



lemma bnd_done: "m t = (Inr x, t') \<Longrightarrow> bnd m f t = f x t'"
  by (simp add: bnd_def)




section \<open>A run that is archived and restored\<close>










end
