(* ===== verification/Time_Text.thy ===== *)
theory Time_Text
  imports Py_Value
begin

text \<open>
  The texts of UTC times are ordered as the times are: code that compares or sorts stored
  timestamps as texts compares times. The order of texts is the lexicographic order of the
  character codes; a time whose microseconds are zero has no fraction, and a plus sign comes
  before a dot.
\<close>

section \<open>Fixed-width numbers\<close>

lemma prefix_less:
  fixes a :: string
  assumes "length a = length b" and "a < b"
  shows "a @ x < b @ y"
  using assms by (induction a b rule: list_induct2) auto

lemma same_prefix_less: "(a @ x < a @ (y :: string)) \<longleftrightarrow> x < y"
  by (induction a) auto

fun digits :: "nat \<Rightarrow> nat \<Rightarrow> string" where
  "digits 0 n = []"
| "digits (Suc k) n = digits k (n div 10) @ [digit_char (n mod 10)]"

lemma length_digits [simp]: "length (digits k n) = k"
  by (induction k arbitrary: n) auto

lemma digits_0: "digits k 0 = replicate k CHR ''0''"
  by (induction k) (auto simp: digit_char_def replicate_append_same [symmetric] of_char_eq_iff [symmetric, where 'a = nat])

lemma zpad_snoc: "zpad (Suc k) (s @ [c]) = zpad k s @ [c]"
  by (simp add: zpad_def)

lemma zpad_digits: "0 < k \<Longrightarrow> n < 10 ^ k \<Longrightarrow> zpad k (nat_str n) = digits k n"
proof (induction k arbitrary: n)
  case (Suc k)
  show ?case
  proof (cases "n < 10")
    case True
    then show ?thesis by (simp add: nat_str.simps [of n] zpad_def digits_0)
  next
    case False
    then have "0 < k" using Suc.prems by (cases k) auto
    with Suc False show ?thesis
      by (simp add: nat_str.simps [of n] zpad_snoc less_mult_imp_div_less)
  qed
qed simp

lemma digit_char_less: "d < e \<Longrightarrow> e < 10 \<Longrightarrow> digit_char d < digit_char e"
  by (simp add: digit_char_def less_char_def)

lemma digits_less: "m < n \<Longrightarrow> n < 10 ^ k \<Longrightarrow> digits k m < digits k n"
proof (induction k arbitrary: m n)
  case (Suc k)
  consider "m div 10 < n div 10" | "m div 10 = n div 10" "m mod 10 < n mod 10"
    using Suc.prems(1) by (metis div_le_mono div_mult_mod_eq le_neq_implies_less nat_add_left_cancel_less order_less_imp_le)
  then show ?case
  proof cases
    case 1
    with Suc have "digits k (m div 10) < digits k (n div 10)"
      by (simp add: less_mult_imp_div_less)
    then show ?thesis by (simp add: prefix_less)
  next
    case 2
    then show ?thesis by (simp add: same_prefix_less digit_char_less)
  qed
qed simp

lemma field_less:
  assumes "0 \<le> a" "a < 10 ^ k" "0 \<le> b" "b < 10 ^ k" "0 < k"
    and "a < b \<or> a = b \<and> x < y"
  shows "zpad k (int_str a) @ x < zpad k (int_str b) @ (y :: string)"
proof -
  have lim: "nat a < 10 ^ k" "nat b < 10 ^ k"
    using assms(1-4) by (simp_all add: nat_less_iff)
  have "zpad k (int_str a) = digits k (nat a)" "zpad k (int_str b) = digits k (nat b)"
    using assms(1,3,5) lim by (simp_all add: int_str_def zpad_digits)
  with assms lim show ?thesis
    by (auto simp: same_prefix_less prefix_less digits_less)
qed

section \<open>The calendar\<close>

text \<open>The parts of civil_from_days: the year of an era, the day the year begins, month and day.\<close>

definition year_of_era :: "int \<Rightarrow> int" where
  "year_of_era doe = (doe - doe div 1460 + doe div 36524 - doe div 146096) div 365"

definition year_start :: "int \<Rightarrow> int" where
  "year_start y = 365 * y + y div 4 - y div 100"

definition year_end :: "int \<Rightarrow> int" where
  "year_end y = (if y = 399 then 146096 else year_start (y + 1) - 1)"

definition month_day :: "int \<Rightarrow> int \<times> int \<times> int" where
  "month_day doy =
     (let mp = (5 * doy + 2) div 153; m = (if mp < 10 then mp + 3 else mp - 9)
      in (if m \<le> 2 then 1 else 0, m, doy - (153 * mp + 2) div 5 + 1))"

lemma civil_parts:
  "civil_from_days days =
     (let z = days + 719468; y = year_of_era (z mod 146097);
          (b, m, d) = month_day (z mod 146097 - year_start y)
      in (y + z div 146097 * 400 + b, m, d))"
  unfolding civil_from_days_def Let_def year_of_era_def year_start_def month_day_def prod.case by (rule refl)

text \<open>Within a year the formula for the year of the era is constant.\<close>

lemma year_split:
  assumes "0 \<le> y" "y \<le> 399"
  obtains c q k where "y = 100 * c + 4 * q + k" "0 \<le> c" "c \<le> 3" "0 \<le> q" "q \<le> 24" "0 \<le> k" "k \<le> (3 :: int)"
proof
  show "y = 100 * (y div 100) + 4 * (y mod 100 div 4) + y mod 100 mod 4"
    by simp
qed (use assms in linarith)+

lemma year_start_split:
  assumes "y = 100 * c + 4 * q + k" "0 \<le> q" "q \<le> 24" "0 \<le> k" "k \<le> (3 :: int)"
  shows "year_start y = 36524 * c + 1461 * q + 365 * k"
proof -
  have "y div 4 = 25 * c + q" "y div 100 = c" using assms by linarith+
  with assms(1) show ?thesis by (simp add: year_start_def)
qed

lemma div_between: "n * q \<le> a \<Longrightarrow> a < n * q + n \<Longrightarrow> a div n = (q :: int)"
  by (rule int_div_pos_eq [where r = "a - n * q"]) auto

text \<open>Within a year the formula for the year of the era is constant.\<close>

lemma year_of_era_within:
  assumes "0 \<le> y" "y \<le> 399" and "year_start y \<le> doe" "doe \<le> year_end y"
  shows "year_of_era doe = y"
proof -
  obtain c q k where y: "y = 100 * c + 4 * q + k" "0 \<le> c" "c \<le> 3" "0 \<le> q" "q \<le> 24" "0 \<le> k" "k \<le> 3"
    using year_split [OF assms(1,2)] by blast
  note start = year_start_split [OF y(1,4-7)]
  define j where "j = doe - year_start y"
  have "0 \<le> j" using assms(3) by (simp add: j_def)
  have j: "j \<le> 364 \<or> j = 365 \<and> k = 3 \<and> (q = 24 \<longrightarrow> c = 3)"
  proof (cases "y = 399")
    case True
    with y have "c = 3" "q = 24" "k = 3" by linarith+
    with assms(4) True start show ?thesis by (simp add: j_def year_end_def) linarith
  next
    case False
    with assms(4) have doe: "doe < year_start (y + 1)" by (simp add: year_end_def)
    consider "k < 3" | "k = 3" "q < 24" | "k = 3" "q = 24" using y by linarith
    then show ?thesis
    proof cases
      case 1
      then have "year_start (y + 1) = 36524 * c + 1461 * q + 365 * (k + 1)"
        using y by (intro year_start_split) auto
      with doe start show ?thesis by (simp add: j_def)
    next
      case 2
      then have "year_start (y + 1) = 36524 * c + 1461 * (q + 1) + 365 * 0"
        using y by (intro year_start_split) auto
      with 2 doe start show ?thesis by (simp add: j_def) linarith
    next
      case 3
      then have "year_start (y + 1) = 36524 * (c + 1) + 1461 * 0 + 365 * 0"
        using y by (intro year_start_split) auto
      with 3 doe start show ?thesis by (simp add: j_def)
    qed
  qed
  have doe: "doe = 36524 * c + 1461 * q + 365 * k + j" by (simp add: j_def start)
  show ?thesis
  proof (cases "j = 365 \<and> q = 24 \<and> k = 3")
    case True
    with j doe y show ?thesis by (simp add: year_of_era_def)
  next
    case False
    with j y have "1461 * q + 365 * k + j < 36524" by linarith
    with \<open>0 \<le> j\<close> y doe have a: "doe div 36524 = c" by (intro div_between) auto
    have b: "doe div 146096 = 0" using doe y \<open>0 \<le> j\<close> \<open>1461 * q + 365 * k + j < 36524\<close> by (intro div_between) auto
    have d: "doe div 1460 = 25 * c + q + (if 1460 \<le> 24 * c + q + 365 * k + j then 1 else 0)"
      using doe y j \<open>0 \<le> j\<close> by (intro div_between) (auto split: if_splits)
    show ?thesis
      unfolding year_of_era_def a b d using doe y j \<open>0 \<le> j\<close> by (intro div_between) (auto split: if_splits)
  qed
qed

lemma year_within:
  assumes "0 \<le> doe" "doe \<le> 146096"
  shows "\<exists>y. 0 \<le> y \<and> y \<le> 399 \<and> year_start y \<le> doe \<and> doe \<le> year_end y"
  using assms
proof (induction doe rule: int_ge_induct)
  case base
  show ?case by (rule exI [of _ 0]) (simp add: year_start_def year_end_def)
next
  case (step doe)
  then obtain y where y: "0 \<le> y" "y \<le> 399" "year_start y \<le> doe" "doe \<le> year_end y" by auto
  show ?case
  proof (cases "doe = year_end y")
    case True
    with y step.prems have "y < 399" by (auto simp: year_end_def split: if_splits)
    moreover have "year_start (y + 1) \<le> year_end (y + 1)"
      using y(1) \<open>y < 399\<close> by (simp add: year_end_def year_start_def) linarith
    ultimately show ?thesis
      using y True by (intro exI [of _ "y + 1"]) (auto simp: year_end_def)
  qed (use y in \<open>auto intro!: exI [of _ y]\<close>)
qed

text \<open>Within a year, later days have a later month, or a later day of the month.\<close>

lemma month_day_less:
  assumes "0 \<le> i" "i < j" "j \<le> 365"
  shows "month_day i < month_day j"
proof -
  define p q where "p = (5 * i + 2) div 153" and "q = (5 * j + 2) div 153"
  have "p \<le> q" using assms by (simp add: p_def q_def zdiv_mono1)
  moreover have "0 \<le> p" "q \<le> 11" using assms unfolding p_def q_def by linarith+
  ultimately have "p = q \<or> (p < q \<and> 0 \<le> p \<and> q \<le> 11)" by auto
  then show ?thesis
    using assms(2) unfolding month_day_def Let_def p_def [symmetric] q_def [symmetric] by auto
qed

lemma month_day_range:
  assumes "0 \<le> i" "i \<le> 365" and "month_day i = (b, m, d)"
  shows "b = 0 \<and> 3 \<le> m \<or> b = 1 \<and> m \<le> 2" and "1 \<le> m" and "m \<le> 12" and "1 \<le> d" and "d \<le> 31"
proof -
  have mp: "0 \<le> (5 * i + 2) div 153" "(5 * i + 2) div 153 \<le> 11" using assms by linarith+
  then show "b = 0 \<and> 3 \<le> m \<or> b = 1 \<and> m \<le> 2" "1 \<le> m" "m \<le> 12"
    using assms(3) by (auto simp: month_day_def Let_def split: if_splits)
  show "1 \<le> d" "d \<le> 31"
    using assms(3) by (auto simp: month_day_def Let_def split: if_splits; linarith)+
qed

lemma div_less_cases: "a < b \<Longrightarrow> 0 < n \<Longrightarrow> a div n < b div n \<or> a div n = b div n \<and> a mod n < b mod (n :: int)"
  by (metis add_less_cancel_left div_mult_mod_eq linorder_not_less mult.commute order_le_less zdiv_mono1)

lemma year_start_mono: "x \<le> y \<Longrightarrow> year_start x \<le> year_start y"
proof (induction y rule: int_ge_induct)
  case (step y)
  have "year_start y \<le> year_start (y + 1)" proof -
    have "(y + 1) div 100 \<le> (y + 100) div 100" "y div 4 \<le> (y + 1) div 4"
      by (simp_all add: zdiv_mono1)
    then show ?thesis by (simp add: year_start_def)
  qed
  with step show ?case by linarith
qed simp

lemma year_order: "x < y \<Longrightarrow> y \<le> 399 \<Longrightarrow> year_end x < year_start y"
  using year_start_mono [of "x + 1" y] by (simp add: year_end_def)

lemma year_of_day:
  obtains y where "0 \<le> y" "y \<le> 399" "year_start y \<le> z mod 146097" "z mod 146097 \<le> year_end y"
proof -
  have "z mod 146097 < 146097" "0 \<le> z mod 146097" by simp_all
  then have "z mod 146097 \<le> 146096" by linarith
  from year_within [OF \<open>0 \<le> z mod 146097\<close> this] that show thesis by blast
qed

lemma civil_less:
  assumes "a < b"
  shows "civil_from_days a < civil_from_days b"
proof -
  let ?z = "a + 719468" and ?w = "b + 719468"
  obtain y where y: "0 \<le> y" "y \<le> 399" "year_start y \<le> ?z mod 146097" "?z mod 146097 \<le> year_end y"
    using year_of_day [of "a + 719468"] by blast
  obtain y' where y': "0 \<le> y'" "y' \<le> 399" "year_start y' \<le> ?w mod 146097" "?w mod 146097 \<le> year_end y'"
    using year_of_day [of "b + 719468"] by blast
  define i where "i = ?z mod 146097 - year_start y"
  define j where "j = ?w mod 146097 - year_start y'"
  have bound: "year_end x - year_start x \<le> 365" for x
    by (simp add: year_end_def year_start_def) linarith
  have ij: "0 \<le> i" "i \<le> 365" "0 \<le> j" "j \<le> 365"
    using y y' bound [of y] bound [of y'] by (simp_all add: i_def j_def)
  obtain p m d where md: "month_day i = (p, m, d)" by (cases "month_day i") auto
  obtain p' m' d' where md': "month_day j = (p', m', d')" by (cases "month_day j") auto
  have ca: "civil_from_days a = (y + ?z div 146097 * 400 + p, m, d)"
    using md year_of_era_within [OF y] by (simp add: civil_parts Let_def i_def)
  have cb: "civil_from_days b = (y' + ?w div 146097 * 400 + p', m', d')"
    using md' year_of_era_within [OF y'] by (simp add: civil_parts Let_def j_def)
  note r = month_day_range [OF ij(1,2) md] month_day_range [OF ij(3,4) md']
  consider "y + ?z div 146097 * 400 < y' + ?w div 146097 * 400"
    | "y + ?z div 146097 * 400 = y' + ?w div 146097 * 400" "i < j"
  proof -
    have "?z div 146097 < ?w div 146097 \<or> ?z div 146097 = ?w div 146097 \<and> ?z mod 146097 < ?w mod 146097"
      by (rule div_less_cases) (use assms in auto)
    then consider "?z div 146097 < ?w div 146097" | "?z div 146097 = ?w div 146097" "?z mod 146097 < ?w mod 146097"
      by blast
    then show thesis
    proof cases
      case 2
      have "y \<le> y'"
      proof (rule ccontr)
        assume "\<not> y \<le> y'"
        then have "year_end y' < year_start y" using y by (intro year_order) auto
        with 2 y y' show False by linarith
      qed
      with 2 that show thesis by (cases "y = y'") (auto simp: i_def j_def)
    qed (use y y' that in linarith)
  qed
  then show ?thesis
  proof cases
    case 1
    with r show ?thesis unfolding ca cb less_prod_simp by linarith
  next
    case 2
    with month_day_less [of i j] ij md md' show ?thesis by (auto simp: ca cb)
  qed
qed

lemma civil_range:
  assumes "civil_from_days a = (y, m, d)"
  shows "1 \<le> m" "m \<le> 12" "1 \<le> d" "d \<le> 31"
proof -
  let ?z = "a + 719468"
  obtain x where x: "0 \<le> x" "x \<le> 399" "year_start x \<le> ?z mod 146097" "?z mod 146097 \<le> year_end x"
    using year_of_day [of "a + 719468"] by blast
  have "year_end x - year_start x \<le> 365" by (simp add: year_end_def year_start_def) linarith
  with x have ij: "0 \<le> ?z mod 146097 - year_start x" "?z mod 146097 - year_start x \<le> 365" by linarith+
  obtain p where "month_day (?z mod 146097 - year_start x) = (p, m, d)"
    using assms year_of_era_within [OF x] by (auto simp: civil_parts Let_def split: prod.splits)
  from month_day_range [OF ij this] show "1 \<le> m" "m \<le> 12" "1 \<le> d" "d \<le> 31" by auto
qed

section \<open>The text of a time\<close>

definition year_of :: "int \<Rightarrow> int" where
  "year_of t = fst (civil_from_days (t div 1000000 div 86400))"

text \<open>The times datetime can hold: the years 1 to 9999.\<close>

definition datable :: "int \<Rightarrow> bool" where
  "datable t \<longleftrightarrow> 1 \<le> year_of t \<and> year_of t \<le> 9999"

lemma fraction_less:
  assumes "0 \<le> u" "u < v" "v < (1000000 :: int)"
  shows "(if u = 0 then [] else ''.'' @ zpad 6 (int_str u)) @ ''+00:00''
           < (if v = 0 then [] else ''.'' @ zpad 6 (int_str v)) @ (''+00:00'' :: string)"
proof -
  have "zpad 6 (int_str u) @ ''+00:00'' < zpad 6 (int_str v) @ ''+00:00''"
    using assms by (intro field_less) auto
  moreover have "CHR ''+'' < CHR ''.''" by (simp add: less_char_def)
  ultimately show ?thesis using assms by auto
qed

text \<open>A number in front of a text orders as the pair of the number and what orders the text.\<close>

lemma pair_less:
  assumes "0 \<le> a" "a < 10 ^ k" "0 \<le> b" "b < 10 ^ k" "0 < k"
    and "(a, v) < (b, w :: 'a :: linorder)" and "v < w \<Longrightarrow> x < y"
  shows "zpad k (int_str a) @ x < zpad k (int_str b) @ (y :: string)"
  using assms by (intro field_less) auto

lemma pair_less_sep:
  assumes "(a, v) < (b, w :: 'a :: linorder)" and "v < w \<Longrightarrow> x < y"
    and "0 \<le> a" "a < 10 ^ k" "0 \<le> b" "b < 10 ^ k" "0 < k"
  shows "zpad k (int_str a) @ c # x < zpad k (int_str b) @ c # (y :: string)"
  using assms by (intro pair_less) auto

lemma seconds_less:
  assumes "(a, u) < (b, v)" and "0 \<le> a" "a < 100" "0 \<le> b" "b < 100" "0 \<le> u" "v < 1000000"
  shows "zpad 2 (int_str a) @ (if u = 0 then [] else CHR ''.'' # zpad 6 (int_str u)) @ ''+00:00''
           < zpad 2 (int_str b) @ (if v = 0 then [] else CHR ''.'' # zpad 6 (int_str v)) @ (''+00:00'' :: string)"
  by (rule pair_less [OF _ _ _ _ _ assms(1)]) (use assms fraction_less [of u v] in auto)

definition time_key :: "int \<Rightarrow> int \<times> int \<times> int \<times> int \<times> int \<times> int \<times> int" where
  "time_key t =
     (let sod = t div 1000000 mod 86400; (y, m, d) = civil_from_days (t div 1000000 div 86400)
      in (y, m, d, sod div 3600, sod div 60 mod 60, sod mod 60, t mod 1000000))"

lemma clock_less:
  assumes "k < l"
  shows "(k div 3600, k div 60 mod 60, k mod 60) < (l div 3600, l div 60 mod 60, l mod (60 :: int))"
proof -
  have "x div 3600 = x div 60 div 60" for x :: int by (simp add: zdiv_zmult2_eq [symmetric])
  moreover have "k div 60 < l div 60 \<or> k div 60 = l div 60 \<and> k mod 60 < l mod 60"
    by (rule div_less_cases [OF assms]) simp
  moreover have "k div 60 < l div 60 \<Longrightarrow>
      k div 60 div 60 < l div 60 div 60 \<or> k div 60 div 60 = l div 60 div 60 \<and> k div 60 mod 60 < l div 60 mod 60"
    by (rule div_less_cases) simp_all
  ultimately show ?thesis by auto
qed

lemma time_key_less:
  assumes "s < t"
  shows "time_key s < time_key t"
proof -
  define a b where "a = s div 1000000" and "b = t div 1000000"
  obtain y m d where c: "civil_from_days (a div 86400) = (y, m, d)" by (cases "civil_from_days (a div 86400)") auto
  obtain y' m' d' where c': "civil_from_days (b div 86400) = (y', m', d')" by (cases "civil_from_days (b div 86400)") auto
  consider "a < b" | "a = b" "s mod 1000000 < t mod 1000000"
    using div_less_cases [OF assms, of 1000000] by (auto simp: a_def b_def)
  then show ?thesis
  proof cases
    case 1
    then consider "a div 86400 < b div 86400" | "a div 86400 = b div 86400" "a mod 86400 < b mod 86400"
      using div_less_cases [of a b 86400] by auto
    then show ?thesis
    proof cases
      case 1
      from civil_less [OF this] c c' show ?thesis
        by (auto simp: time_key_def Let_def a_def [symmetric] b_def [symmetric])
    next
      case 2
      from clock_less [OF 2(2)] 2(1) c c' show ?thesis
        by (auto simp: time_key_def Let_def a_def [symmetric] b_def [symmetric])
    qed
  next
    case 2
    then show ?thesis using c by (simp add: time_key_def Let_def a_def [symmetric] b_def [symmetric])
  qed
qed

text \<open>datetimes that are ordered have ordered texts.\<close>

lemma isoformat_less:
  assumes "datable s" "datable t" and "s < t"
  shows "isoformat s < isoformat t"
proof -
  define k l where "k = s div 1000000 mod 86400" and "l = t div 1000000 mod 86400"
  have kl: "0 \<le> k" "k < 86400" "0 \<le> l" "l < 86400" by (simp_all add: k_def l_def)
  then have hours: "0 \<le> k div 3600" "k div 3600 < 100" "0 \<le> l div 3600" "l div 3600 < 100" by linarith+
  obtain y m d where c: "civil_from_days (s div 1000000 div 86400) = (y, m, d)"
    by (cases "civil_from_days (s div 1000000 div 86400)") auto
  obtain y' m' d' where c': "civil_from_days (t div 1000000 div 86400) = (y', m', d')"
    by (cases "civil_from_days (t div 1000000 div 86400)") auto
  have yr: "0 \<le> y" "y < 10000" "0 \<le> y'" "y' < 10000"
    using assms(1,2) c c' by (simp_all add: datable_def year_of_def)
  note r = yr hours civil_range [OF c] civil_range [OF c']
  have "(y, m, d, k div 3600, k div 60 mod 60, k mod 60, s mod 1000000)
          < (y', m', d', l div 3600, l div 60 mod 60, l mod 60, t mod 1000000)"
    using time_key_less [OF assms(3)] c c' by (simp add: time_key_def Let_def k_def l_def)
  then show ?thesis
    unfolding isoformat_def Let_def c c' prod.case k_def [symmetric] l_def [symmetric]
      append.simps append_assoc
    by (elim pair_less_sep seconds_less) (use r kl in simp_all)
qed

end
