(* ===== verification/Monitor_Store.thy ===== *)
theory Monitor_Store
  imports Run_Repository Time_Text
begin

text \<open>
  monitoring/store.py: monitor definitions, their dispatches and alerts in a SQLite file. The
  tables are lists of rows in the order of insertion; a timestamp is the text the code stores
  and SQLite compares texts character by character. A statement of SQLite is one step; claim
  is one transaction. Rows with equal sort keys come in the order of insertion. The file, its
  permissions and a locked or failing database are not modelled. fromiso is
  datetime.fromisoformat with a time without zone read as UTC, and None for its ValueError.
\<close>

definition INTERVALS :: "(string, int) dict" where
  "INTERVALS = [(''hourly'', 3600), (''daily'', 86400), (''weekly'', 604800)]"

definition ALERT_STATES :: "string list" where
  "ALERT_STATES = [''open'', ''acknowledged'', ''resolved'']"

section \<open>The tables\<close>

record monitor_row =
  mo_id :: string
  mo_organization_id :: string
  mo_workspace_id :: string
  mo_name :: string
  mo_task :: string
  mo_source_id :: string
  mo_interval :: string
  mo_enabled :: bool
  mo_only_on_change :: bool
  mo_ai_escalation :: bool
  mo_anomaly_limit :: int
  mo_spend_change_pct :: rat
  mo_minimum_completeness :: rat
  mo_last_fingerprint :: "string option"
  mo_last_checked_at :: "string option"
  mo_last_run_id :: "string option"
  mo_next_due_at :: string
  mo_force_once :: bool
  mo_created_at :: string
  mo_updated_at :: string

text \<open>A claimed monitor is the row before the claim, with the id of the dispatch.\<close>

record claimed_monitor = monitor_row +
  cm_dispatch_id :: string

record monitor_run =
  mr_id :: string
  mr_monitor_id :: string
  mr_organization_id :: string
  mr_workspace_id :: string
  mr_started_at :: string
  mr_finished_at :: "string option"
  mr_status :: string
  mr_fingerprint :: "string option"
  mr_run_id :: "string option"
  mr_metrics :: "(string, rat) dict"
  mr_ai_review :: "(string, pyval) dict"
  mr_error :: "string option"

record monitor_alert =
  al_id :: string
  al_monitor_id :: string
  al_organization_id :: string
  al_workspace_id :: string
  al_dispatch_id :: string
  al_run_id :: "string option"
  al_rule :: string
  al_severity :: string
  al_title :: string
  al_description :: string
  al_evidence :: "(string, pyval) dict"
  al_status :: string
  al_created_at :: string
  al_updated_at :: string

record monitor_db = repo +
  md_monitors :: "monitor_row list"
  md_runs :: "monitor_run list"
  md_alerts :: "monitor_alert list"
  md_workers :: "(string, string) dict"

section \<open>Statements\<close>

definition utcnow_text :: "('z env_scheme, string) py" where
  "utcnow_text = bnd utc_now (\<lambda>t. ret (isoformat t))"

text \<open>UPDATE monitors ... WHERE: the rows that match are changed, their number is the row count.\<close>

definition update_monitors ::
    "(monitor_row \<Rightarrow> bool) \<Rightarrow> (monitor_row \<Rightarrow> monitor_row) \<Rightarrow> ('z monitor_db_scheme, nat) py" where
  "update_monitors p f =
     bnd (asks md_monitors) (\<lambda>rows.
     seq (modify (\<lambda>s. s\<lparr>md_monitors := map (\<lambda>r. if p r then f r else r) (md_monitors s)\<rparr>))
         (ret (length (filter p rows))))"

definition owned_row :: "string \<Rightarrow> string \<Rightarrow> string \<Rightarrow> monitor_row \<Rightarrow> bool" where
  "owned_row monitor_id org workspace r \<longleftrightarrow>
     mo_id r = monitor_id \<and> mo_organization_id r = org \<and> mo_workspace_id r = workspace"

definition integrity_error :: "string \<Rightarrow> exn" where
  "integrity_error m = OtherError ''IntegrityError'' m"

definition insert_monitor :: "monitor_row \<Rightarrow> ('z monitor_db_scheme, unit) py" where
  "insert_monitor row =
     bnd (asks md_monitors) (\<lambda>rows.
     seq (guard (mo_id row \<notin> mo_id ` set rows) (integrity_error ''UNIQUE constraint failed: monitors.id''))
         (modify (\<lambda>s. s\<lparr>md_monitors := md_monitors s @ [row]\<rparr>)))"

text \<open>The foreign key to monitors is checked after the uniqueness of the id.\<close>

definition insert_monitor_run :: "monitor_run \<Rightarrow> ('z monitor_db_scheme, unit) py" where
  "insert_monitor_run row =
     bnd (asks md_runs) (\<lambda>rows.
     seq (guard (mr_id row \<notin> mr_id ` set rows) (integrity_error ''UNIQUE constraint failed: monitor_runs.id''))
     (bnd (asks md_monitors) (\<lambda>ms.
      seq (guard (mr_monitor_id row \<in> mo_id ` set ms) (integrity_error ''FOREIGN KEY constraint failed''))
          (modify (\<lambda>s. s\<lparr>md_runs := md_runs s @ [row]\<rparr>)))))"

text \<open>ORDER BY key DESC\<close>

definition sort_desc :: "('a \<Rightarrow> 'k::linorder) \<Rightarrow> 'a list \<Rightarrow> 'a list" where
  "sort_desc key xs = rev (sort_key key (rev xs))"

section \<open>Monitors\<close>

definition get_monitor ::
    "string \<Rightarrow> string \<Rightarrow> string \<Rightarrow> ('z monitor_db_scheme, monitor_row option) py" where
  "get_monitor monitor_id org workspace =
     asks (\<lambda>s. find (owned_row monitor_id org workspace) (md_monitors s))"

definition create_monitor ::
    "string \<Rightarrow> string \<Rightarrow> string \<Rightarrow> string \<Rightarrow> string \<Rightarrow> string \<Rightarrow> bool \<Rightarrow> bool \<Rightarrow> int \<Rightarrow> rat \<Rightarrow> rat \<Rightarrow>
     ('z monitor_db_scheme, monitor_row option) py" where
  "create_monitor organization_id workspace_id name task source_id interval only_on_change ai_escalation
      anomaly_limit spend_change_pct minimum_completeness =
     seq (guard (interval \<in> set (dict_keys INTERVALS)) (ValueError ''Unsupported monitoring interval.''))
     (bnd utcnow_text (\<lambda>now.
      bnd uuid4_hex (\<lambda>u.
      bnd (asks md_monitors) (\<lambda>rows.
      seq (guard (length (filter (\<lambda>r. mo_organization_id r = organization_id \<and> mo_workspace_id r = workspace_id)
                            rows) < 40)
             (ValueError ''Workspace monitoring limit (40) reached.''))
      (seq (insert_monitor
             \<lparr>mo_id = ''mon_'' @ u, mo_organization_id = organization_id, mo_workspace_id = workspace_id,
              mo_name = name, mo_task = task, mo_source_id = source_id, mo_interval = interval,
              mo_enabled = False, mo_only_on_change = only_on_change, mo_ai_escalation = ai_escalation,
              mo_anomaly_limit = anomaly_limit, mo_spend_change_pct = spend_change_pct,
              mo_minimum_completeness = minimum_completeness, mo_last_fingerprint = None,
              mo_last_checked_at = None, mo_last_run_id = None, mo_next_due_at = now,
              mo_force_once = False, mo_created_at = now, mo_updated_at = now\<rparr>)
           (get_monitor (''mon_'' @ u) organization_id workspace_id))))))"

definition list_monitors :: "string \<Rightarrow> string \<Rightarrow> ('z monitor_db_scheme, monitor_row list) py" where
  "list_monitors org workspace =
     asks (\<lambda>s. sort_desc mo_created_at
       (filter (\<lambda>r. mo_organization_id r = org \<and> mo_workspace_id r = workspace) (md_monitors s)))"

definition set_enabled :: "string \<Rightarrow> string \<Rightarrow> string \<Rightarrow> bool \<Rightarrow> ('z monitor_db_scheme, bool) py" where
  "set_enabled monitor_id org workspace enabled =
     bnd utcnow_text (\<lambda>now.
     bnd (update_monitors (owned_row monitor_id org workspace)
            (\<lambda>r. r\<lparr>mo_enabled := enabled, mo_updated_at := now\<rparr>)) (\<lambda>n. ret (n \<noteq> 0)))"

definition trigger :: "string \<Rightarrow> string \<Rightarrow> string \<Rightarrow> ('z monitor_db_scheme, bool) py" where
  "trigger monitor_id org workspace =
     bnd utcnow_text (\<lambda>due. bnd utcnow_text (\<lambda>now.
     bnd (update_monitors (\<lambda>r. owned_row monitor_id org workspace r \<and> mo_enabled r)
            (\<lambda>r. r\<lparr>mo_next_due_at := due, mo_force_once := True, mo_updated_at := now\<rparr>)) (\<lambda>n. ret (n \<noteq> 0))))"

definition monitor_heartbeat :: "string \<Rightarrow> ('z monitor_db_scheme, unit) py" where
  "monitor_heartbeat worker_id =
     bnd utcnow_text (\<lambda>now. modify (\<lambda>s. s\<lparr>md_workers := dict_set worker_id now (md_workers s)\<rparr>))"

definition latest_heartbeat :: "('z monitor_db_scheme, string option) py" where
  "latest_heartbeat =
     asks (\<lambda>s. if md_workers s = [] then None else Some (foldr max (map snd (md_workers s)) []))"

section \<open>Claiming\<close>

text \<open>The transaction: an exception rolls the tables back and is raised again.\<close>

definition transaction :: "('z monitor_db_scheme, 'a) py \<Rightarrow> ('z monitor_db_scheme, 'a) py" where
  "transaction m = (\<lambda>s. case m s of
     (Inr x, s') \<Rightarrow> (Inr x, s')
   | (Inl e, s') \<Rightarrow> (Inl e, s'\<lparr>md_monitors := md_monitors s, md_runs := md_runs s,
                             md_alerts := md_alerts s, md_workers := md_workers s\<rparr>))"

text \<open>(_dt(now) + timedelta(seconds=INTERVALS[interval])).isoformat()\<close>

definition next_due :: "(string \<Rightarrow> int option) \<Rightarrow> string \<Rightarrow> string \<Rightarrow> string result" where
  "next_due fromiso now interval =
     (case fromiso now of
        None \<Rightarrow> Inl (ValueError (''Invalid isoformat string: '' @ now))
      | Some t \<Rightarrow>
          (case dict_get INTERVALS interval of
             None \<Rightarrow> Inl (KeyError interval)
           | Some secs \<Rightarrow> Inr (isoformat (t + secs * 1000000))))"

definition new_monitor_run :: "monitor_row \<Rightarrow> string \<Rightarrow> string \<Rightarrow> monitor_run" where
  "new_monitor_run row dispatch_id now =
     \<lparr>mr_id = dispatch_id, mr_monitor_id = mo_id row, mr_organization_id = mo_organization_id row,
      mr_workspace_id = mo_workspace_id row, mr_started_at = now, mr_finished_at = None,
      mr_status = ''running'', mr_fingerprint = None, mr_run_id = None, mr_metrics = [],
      mr_ai_review = [], mr_error = None\<rparr>"

definition claim_row ::
    "(string \<Rightarrow> int option) \<Rightarrow> string \<Rightarrow> monitor_row \<Rightarrow> ('z monitor_db_scheme, claimed_monitor) py" where
  "claim_row fromiso now row =
     bnd (lift_result (next_due fromiso now (mo_interval row))) (\<lambda>due.
     bnd uuid4_hex (\<lambda>u.
     seq (update_monitors (\<lambda>r. mo_id r = mo_id row)
            (\<lambda>r. r\<lparr>mo_next_due_at := due, mo_force_once := False, mo_updated_at := now\<rparr>))
     (seq (insert_monitor_run (new_monitor_run row (''dispatch_'' @ u) now))
          (ret (monitor_row.extend row (claimed_monitor.fields (''dispatch_'' @ u)))))))"

definition due_rows :: "string \<Rightarrow> monitor_row list \<Rightarrow> monitor_row list" where
  "due_rows now rows = sort_key mo_next_due_at (filter (\<lambda>r. mo_enabled r \<and> mo_next_due_at r \<le> now) rows)"

definition claim_due ::
    "(string \<Rightarrow> int option) \<Rightarrow> int \<Rightarrow> string option \<Rightarrow> ('z monitor_db_scheme, claimed_monitor list) py" where
  "claim_due fromiso limit now0 =
     bnd (case now0 of Some n \<Rightarrow> (if n = [] then utcnow_text else ret n) | None \<Rightarrow> utcnow_text) (\<lambda>now.
       transaction
         (bnd (asks md_monitors) (\<lambda>rows.
            map_each (take (nat (max 1 (min limit 5))) (due_rows now rows)) (claim_row fromiso now))))"

text \<open>
  finish is two statements, each of them a step of its own: the dispatch leaves the status
  running, then the monitor remembers the check.
\<close>

definition finish_run_row ::
    "string \<Rightarrow> string \<Rightarrow> string \<Rightarrow> string option \<Rightarrow> string option \<Rightarrow> (string, rat) dict \<Rightarrow> (string, pyval) dict \<Rightarrow>
     string option \<Rightarrow> ('z monitor_db_scheme, unit) py" where
  "finish_run_row dispatch_id now status fingerprint run_id metrics ai_review error =
     modify (\<lambda>s. s\<lparr>md_runs := map (\<lambda>r.
       if mr_id r = dispatch_id \<and> mr_status r = ''running''
       then r\<lparr>mr_finished_at := Some now, mr_status := status, mr_fingerprint := fingerprint,
              mr_run_id := run_id, mr_metrics := metrics, mr_ai_review := ai_review, mr_error := error\<rparr>
       else r) (md_runs s)\<rparr>)"

definition finish_monitor_row ::
    "string \<Rightarrow> string \<Rightarrow> string \<Rightarrow> string option \<Rightarrow> string option \<Rightarrow> ('z monitor_db_scheme, unit) py" where
  "finish_monitor_row monitor_id now status fingerprint run_id =
     bnd (update_monitors (\<lambda>r. mo_id r = monitor_id)
       (\<lambda>r. r\<lparr>mo_last_checked_at := Some now,
              mo_last_run_id := (case run_id of None \<Rightarrow> mo_last_run_id r | Some i \<Rightarrow> Some i),
              mo_last_fingerprint := (if status = ''completed'' then fingerprint else mo_last_fingerprint r),
              mo_updated_at := now\<rparr>)) (\<lambda>n. ret ())"

definition finish ::
    "claimed_monitor \<Rightarrow> string \<Rightarrow> string option \<Rightarrow> string option \<Rightarrow> (string, rat) dict \<Rightarrow> (string, pyval) dict \<Rightarrow>
     string option \<Rightarrow> ('z monitor_db_scheme, unit) py" where
  "finish monitor status fingerprint run_id metrics ai_review error =
     seq (guard (status \<in> {''completed'', ''skipped'', ''failed''}) (ValueError ''Invalid monitor dispatch status''))
     (bnd utcnow_text (\<lambda>now.
      seq (finish_run_row (cm_dispatch_id monitor) now status fingerprint run_id metrics ai_review
             (case error of None \<Rightarrow> None | Some e \<Rightarrow> if e = [] then None else Some (take 300 e)))
          (finish_monitor_row (mo_id monitor) now status fingerprint run_id)))"

definition last_completed :: "string \<Rightarrow> ('z monitor_db_scheme, monitor_run option) py" where
  "last_completed monitor_id =
     asks (\<lambda>s. case sort_desc (\<lambda>r. case mr_finished_at r of None \<Rightarrow> [] | Some t \<Rightarrow> t)
         (filter (\<lambda>r. mr_monitor_id r = monitor_id \<and> mr_status r = ''completed'') (md_runs s)) of
       [] \<Rightarrow> None | r # rs \<Rightarrow> Some r)"

definition monitor_history :: "string \<Rightarrow> string \<Rightarrow> string \<Rightarrow> ('z monitor_db_scheme, monitor_run list) py" where
  "monitor_history monitor_id org workspace =
     bnd (get_monitor monitor_id org workspace) (\<lambda>m.
       if m = None then ret []
       else asks (\<lambda>s. take 30 (sort_desc mr_started_at (filter (\<lambda>r. mr_monitor_id r = monitor_id) (md_runs s)))))"

section \<open>Alerts\<close>

text \<open>INSERT OR IGNORE: a row that breaks a uniqueness constraint is dropped.\<close>

definition create_alert ::
    "claimed_monitor \<Rightarrow> string \<Rightarrow> string \<Rightarrow> string \<Rightarrow> string \<Rightarrow> (string, pyval) dict \<Rightarrow> string option \<Rightarrow>
     ('z monitor_db_scheme, unit) py" where
  "create_alert monitor rule severity title description evidence run_id =
     bnd utcnow_text (\<lambda>now. bnd uuid4_hex (\<lambda>u.
     bnd (asks md_alerts) (\<lambda>rows.
       if ''alert_'' @ u \<in> al_id ` set rows
          \<or> (mo_id monitor, cm_dispatch_id monitor, rule) \<in> (\<lambda>a. (al_monitor_id a, al_dispatch_id a, al_rule a)) ` set rows
       then ret ()
       else
         bnd (asks md_monitors) (\<lambda>ms.
         seq (guard (mo_id monitor \<in> mo_id ` set ms) (integrity_error ''FOREIGN KEY constraint failed''))
             (modify (\<lambda>s. s\<lparr>md_alerts := md_alerts s @
                [\<lparr>al_id = ''alert_'' @ u, al_monitor_id = mo_id monitor,
                  al_organization_id = mo_organization_id monitor, al_workspace_id = mo_workspace_id monitor,
                  al_dispatch_id = cm_dispatch_id monitor, al_run_id = run_id, al_rule = rule,
                  al_severity = severity, al_title = take 160 title, al_description = take 400 description,
                  al_evidence = evidence, al_status = ''open'', al_created_at = now, al_updated_at = now\<rparr>]\<rparr>))))))"

definition list_alerts ::
    "string \<Rightarrow> string \<Rightarrow> string option \<Rightarrow> ('z monitor_db_scheme, monitor_alert list) py" where
  "list_alerts org workspace state =
     seq (guard (case state of None \<Rightarrow> True | Some st \<Rightarrow> st \<in> set ALERT_STATES) (ValueError ''Invalid alert state''))
         (asks (\<lambda>s. take 200 (sort_desc al_created_at (filter (\<lambda>a.
            al_organization_id a = org \<and> al_workspace_id a = workspace
            \<and> (case state of None \<Rightarrow> True | Some st \<Rightarrow> al_status a = st)) (md_alerts s)))))"

definition update_alert ::
    "string \<Rightarrow> string \<Rightarrow> string \<Rightarrow> string \<Rightarrow> ('z monitor_db_scheme, bool) py" where
  "update_alert alert_id org workspace state =
     seq (guard (state \<in> set ALERT_STATES) (ValueError ''Invalid alert state''))
     (bnd utcnow_text (\<lambda>now.
      bnd (asks md_alerts) (\<lambda>rows.
        let p = (\<lambda>a. al_id a = alert_id \<and> al_organization_id a = org \<and> al_workspace_id a = workspace) in
        seq (modify (\<lambda>s. s\<lparr>md_alerts := map (\<lambda>a. if p a then a\<lparr>al_status := state, al_updated_at := now\<rparr> else a)
                            (md_alerts s)\<rparr>))
            (ret (list_ex p rows)))))"

section \<open>The summary\<close>

record monitoring_summary =
  su_monitor_count :: nat
  su_enabled_monitors :: nat
  su_open_alerts :: nat
  su_critical_alerts :: nat
  su_worker_online :: bool
  su_worker_last_seen :: "string option"
  su_recent_alerts :: "monitor_alert list"
  su_auto_ai_enabled :: bool
  su_note :: string

text \<open>A worker is online when its last heartbeat is less than 180 seconds old.\<close>

definition recent_worker :: "(string \<Rightarrow> int option) \<Rightarrow> string option \<Rightarrow> ('z env_scheme, bool) py" where
  "recent_worker fromiso heartbeat =
     (case heartbeat of
        None \<Rightarrow> ret False
      | Some h \<Rightarrow>
          (if h = [] then ret False
           else bnd utcnow_text (\<lambda>now.
             case (fromiso now, fromiso h) of
               (Some n, Some t) \<Rightarrow> ret (n - t < 180 * 1000000)
             | _ \<Rightarrow> raise (ValueError ''Invalid isoformat string''))))"

text \<open>escalation is the text of AEAI_MONITOR_AI_ESCALATION_ENABLED, empty when it is not set.\<close>

definition summary ::
    "(string \<Rightarrow> int option) \<Rightarrow> string \<Rightarrow> string \<Rightarrow> string \<Rightarrow> ('z monitor_db_scheme, monitoring_summary) py" where
  "summary fromiso escalation org workspace =
     bnd (list_monitors org workspace) (\<lambda>ms.
     bnd (list_alerts org workspace None) (\<lambda>alerts.
     bnd latest_heartbeat (\<lambda>heartbeat.
     bnd (recent_worker fromiso heartbeat) (\<lambda>online.
       ret \<lparr>su_monitor_count = length ms, su_enabled_monitors = length (filter mo_enabled ms),
            su_open_alerts = length (filter (\<lambda>a. al_status a = ''open'') alerts),
            su_critical_alerts = length (filter (\<lambda>a. al_status a = ''open'' \<and> al_severity a = ''high'') alerts),
            su_worker_online = online, su_worker_last_seen = heartbeat, su_recent_alerts = take 5 alerts,
            su_auto_ai_enabled = (lower escalation \<in> {''true'', ''1'', ''yes''}),
            su_note = ''A separate monitoring worker is required. AI escalation is opt-in and billed via Hugging Face.''\<rparr>))))"

end
