(* ===== verification/Monitor_Engine.thy ===== *)
theory Monitor_Engine
  imports Monitor_Store Workflows Py_Path
begin

text \<open>
  monitoring/engine.py and monitoring/worker.py: a claimed monitor is checked by a run of the
  dynamic workflow, whose figures are compared with thresholds. What a check uses of other
  components is the record monitor_world: the lookup of a registered source, the download of
  an S3 object, a file, the workflow, the artifact store and the model. Each may raise anything
  and change anything of the state it is not forbidden to by a hypothesis.
\<close>

section \<open>Sources\<close>

record monitor_source =
  so_id :: string
  so_name :: string
  so_source_type :: string
  so_dataset_uri :: string
  so_dataset_metadata :: "(string, pyval) dict"

text \<open>urlsplit(uri): port raises ValueError when it is no number.\<close>

record url_parts =
  up_scheme :: string
  up_username :: "string option"
  up_password :: "string option"
  up_netloc :: string
  up_path :: string
  up_query :: string
  up_fragment :: string
  up_port :: "int option result"

definition blank :: "string option \<Rightarrow> bool" where
  "blank x \<longleftrightarrow> x = None \<or> x = Some []"

definition key_char :: "char \<Rightarrow> bool" where
  "key_char c \<longleftrightarrow>
     (CHR ''A'' \<le> c \<and> c \<le> CHR ''Z'') \<or> (CHR ''a'' \<le> c \<and> c \<le> CHR ''z'') \<or> (CHR ''0'' \<le> c \<and> c \<le> CHR ''9'')
     \<or> c \<in> set ''/_=.,+@ -''"

text \<open>allowed is the text of AEAI_MONITOR_S3_ALLOWED_BUCKETS, empty when it is not set.\<close>

definition allowed_s3_reference ::
    "(string \<Rightarrow> url_parts result) \<Rightarrow> string \<Rightarrow> string \<Rightarrow> (string \<times> string) result" where
  "allowed_s3_reference urlsplit allowed uri =
     (case urlsplit uri of Inl e \<Rightarrow> Inl e | Inr u \<Rightarrow>
      if up_scheme u \<noteq> ''s3'' \<or> \<not> blank (up_username u) \<or> \<not> blank (up_password u)
      then Inl (ValueError ''Expected a direct s3://bucket/path.csv reference.'')
      else case up_port u of Inl e \<Rightarrow> Inl e | Inr port \<Rightarrow>
      if port \<notin> {None, Some 0} \<or> up_query u \<noteq> [] \<or> up_fragment u \<noteq> []
      then Inl (ValueError ''Expected a direct s3://bucket/path.csv reference.'')
      else
        (let bucket = up_netloc u; key = lstrip_char CHR ''/'' (up_path u);
             buckets = filter (\<lambda>x. x \<noteq> []) (map strip (split_on CHR '','' allowed))
         in if buckets = [] \<or> bucket \<notin> set buckets then Inl (ValueError ''S3 bucket is not allowlisted for monitoring.'')
            else if key = [] \<or> 450 < length key \<or> \<not> list_all key_char key then Inl (ValueError ''Invalid S3 object key'')
            else if ''..'' \<in> set (path_parts key) \<or> starts_with ''/'' key \<or> lower (path_suffix key) \<notin> {''.csv'', ''.tsv''}
            then Inl (ValueError ''S3 monitoring accepts CSV/TSV objects only'')
            else Inr (bucket, key)))"

text \<open>RemoteSnapshot of a downloaded object: its name and its metadata.\<close>

definition remote_snapshot :: "string \<Rightarrow> string \<Rightarrow> string \<Rightarrow> monitor_source" where
  "remote_snapshot url_path uri dataset_uri =
     \<lparr>so_id = uri, so_name = (if path_name url_path = [] then uri else path_name url_path),
      so_source_type = ''local_file'', so_dataset_uri = dataset_uri,
      so_dataset_metadata =
        [(''source'', PStr ''reference''),
         (''format'', PStr (lstrip_char CHR ''.'' (path_suffix dataset_uri))),
         (''monitoring_source'', PStr ''s3_read_only_snapshot'')]\<rparr>"

text \<open>What the file system says of a path: the resolved name, its kind, its size and, read in the end, its SHA-256 digest.\<close>

record file_answer =
  fa_name :: string
  fa_is_file :: bool
  fa_size :: int
  fa_sha256 :: "string result"

definition fingerprint_source :: "(string \<Rightarrow> file_answer result) \<Rightarrow> monitor_source \<Rightarrow> string result" where
  "fingerprint_source file source =
     (if so_source_type source \<noteq> ''local_file''
      then Inl (ValueError ''Scheduled execution currently requires a registered local CSV/TSV source.'')
      else case file (so_dataset_uri source) of Inl e \<Rightarrow> Inl e | Inr f \<Rightarrow>
      if \<not> fa_is_file f \<or> lower (name_suffix (fa_name f)) \<notin> {''.csv'', ''.tsv''}
      then Inl (ValueError ''Scheduled monitoring requires an existing CSV/TSV file.'')
      else if 50 * 1024 * 1024 < fa_size f
      then Inl (ValueError ''Scheduled dataset exceeds the 50 MB monitoring limit.'')
      else fa_sha256 f)"

section \<open>Figures and thresholds\<close>

definition num :: "floats \<Rightarrow> pyval \<Rightarrow> rat option" where
  "num fl v = (case v of PInt i \<Rightarrow> Some (fl_near fl (of_int i)) | PFloat q \<Rightarrow> Some q | _ \<Rightarrow> None)"

definition metric_keys :: "string list" where
  "metric_keys = [''total_spend'', ''anomaly_count'', ''high_risk_count'', ''row_count'', ''outlier_count'',
     ''completeness'', ''estimated_savings'', ''duplicate_row_count'']"

definition kpi_metrics :: "floats \<Rightarrow> (string, pyval) dict \<Rightarrow> (string, rat) dict" where
  "kpi_metrics fl kpis =
     concat (map (\<lambda>k. case num fl (pget kpis k) of None \<Rightarrow> [] | Some q \<Rightarrow> [(k, fl_round fl 5 q)]) metric_keys)"

text \<open>Completeness from the quality report: the share of cells that are not missing.\<close>

definition quality_completeness :: "floats \<Rightarrow> pyval option \<Rightarrow> (string, rat) dict result" where
  "quality_completeness fl quality =
     (case quality of
        None \<Rightarrow> Inr []
      | Some v \<Rightarrow>
          (if \<not> truthy v then Inr []
           else case v of
             PDict d \<Rightarrow>
               (case (num fl (pget d ''row_count''), num fl (pget d ''column_count''), num fl (pget d ''missing_cells'')) of
                  (Some rows, Some columns, Some missing) \<Rightarrow>
                    (let cells = fl_near fl (rows * columns) in
                     if 0 < cells \<and> 0 \<le> missing \<and> missing \<le> cells
                     then Inr [(''completeness'', fl_round fl 5 (fl_near fl (1 - fl_near fl (missing / cells))))]
                     else Inr [])
                | _ \<Rightarrow> Inr [])
           | _ \<Rightarrow> Inl (AttributeError ''object has no attribute get'')))"

definition extract_metrics :: "floats \<Rightarrow> pyval \<Rightarrow> pyval option \<Rightarrow> (string, rat) dict result" where
  "extract_metrics fl analysis quality =
     (case analysis of
        PDict a \<Rightarrow>
          (case (case dict_get a ''kpis'' of None \<Rightarrow> PDict [] | Some v \<Rightarrow> v) of
             PDict kpis \<Rightarrow>
               (let result = kpi_metrics fl kpis in
                if dict_get result ''completeness'' = None
                then (case quality_completeness fl quality of Inl e \<Rightarrow> Inl e | Inr c \<Rightarrow> Inr (result @ c))
                else Inr result)
           | _ \<Rightarrow> Inr [])
      | _ \<Rightarrow> Inl (AttributeError ''object has no attribute get''))"

record alert_spec =
  as_rule :: string
  as_severity :: string
  as_title :: string
  as_description :: string
  as_evidence :: "(string, pyval) dict"

definition anomaly_alerts :: "'z monitor_row_scheme \<Rightarrow> (string, rat) dict \<Rightarrow> alert_spec list" where
  "anomaly_alerts monitor current =
     (case dict_get current ''anomaly_count'' of
        None \<Rightarrow> []
      | Some anomalies \<Rightarrow>
          (if of_int (mo_anomaly_limit monitor) \<le> anomalies then
             [\<lparr>as_rule = ''anomalies'',
               as_severity = (if of_int (mo_anomaly_limit monitor * 3) \<le> anomalies then ''high'' else ''medium''),
               as_title = ''Transactions need review'',
               as_description = ''The saved analysis flagged transactions for manual verification.'',
               as_evidence = [(''anomaly_count'', PFloat anomalies), (''threshold'', PInt (mo_anomaly_limit monitor))]\<rparr>]
           else []))"

definition completeness_alerts :: "'z monitor_row_scheme \<Rightarrow> (string, rat) dict \<Rightarrow> alert_spec list" where
  "completeness_alerts monitor current =
     (case dict_get current ''completeness'' of
        None \<Rightarrow> []
      | Some completeness \<Rightarrow>
          (if completeness < mo_minimum_completeness monitor then
             [\<lparr>as_rule = ''completeness'', as_severity = ''medium'', as_title = ''Dataset quality below target'',
               as_description = ''The calculated data completeness is below the configured threshold.'',
               as_evidence = [(''completeness'', PFloat completeness),
                              (''threshold'', PFloat (mo_minimum_completeness monitor))]\<rparr>]
           else []))"

definition change_pct :: "floats \<Rightarrow> rat \<Rightarrow> rat \<Rightarrow> rat" where
  "change_pct fl old new = fl_round fl 2 (fl_near fl (fl_near fl (100 * fl_near fl (new - old)) / old))"

definition spend_alerts ::
    "floats \<Rightarrow> 'z monitor_row_scheme \<Rightarrow> (string, rat) dict \<Rightarrow> (string, rat) dict option \<Rightarrow> alert_spec list" where
  "spend_alerts fl monitor current previous =
     (case previous of
        None \<Rightarrow> []
      | Some prev \<Rightarrow>
          (case (dict_get prev ''total_spend'', dict_get current ''total_spend'') of
             (Some old, Some new) \<Rightarrow>
               (if 0 < old \<and> mo_spend_change_pct monitor \<le> \<bar>change_pct fl old new\<bar> then
                  [\<lparr>as_rule = ''spend_change'',
                    as_severity = (if 50 \<le> \<bar>change_pct fl old new\<bar> then ''high'' else ''medium''),
                    as_title = ''Spending changed significantly'',
                    as_description = ''Compare the two completed analyses to verify the change and its cause.'',
                    as_evidence = [(''previous_total'', PFloat old), (''current_total'', PFloat new),
                      (''change_pct'', PFloat (change_pct fl old new)),
                      (''threshold_pct'', PFloat (mo_spend_change_pct monitor))]\<rparr>]
                else [])
           | _ \<Rightarrow> []))"

definition evaluate_thresholds ::
    "floats \<Rightarrow> 'z monitor_row_scheme \<Rightarrow> (string, rat) dict \<Rightarrow> (string, rat) dict option \<Rightarrow> alert_spec list" where
  "evaluate_thresholds fl monitor current previous =
     anomaly_alerts monitor current @ completeness_alerts monitor current @ spend_alerts fl monitor current previous"

section \<open>The optional review by a model\<close>

text \<open>
  The settings of the review: the text of AEAI_MONITOR_AI_ESCALATION_ENABLED, the key and the
  provider, and the policy with its tighter limits, which may be invalid.
\<close>

record review_settings =
  rv_enabled :: string
  rv_api_key :: "string option"
  rv_provider :: string
  rv_model :: string
  rv_policy :: "unit result"

text \<open>str.isdigit of a character: the digits and the three superscripts of Latin-1.\<close>

definition is_digit :: "char \<Rightarrow> bool" where
  "is_digit c \<longleftrightarrow> (CHR ''0'' \<le> c \<and> c \<le> CHR ''9'') \<or> c \<in> {CHR 0xB2, CHR 0xB3, CHR 0xB9}"

definition review_text_ok :: "pyval \<Rightarrow> bool" where
  "review_text_ok v = (case v of PStr t \<Rightarrow> 8 \<le> length t \<and> length t \<le> 400 \<and> \<not> list_ex is_digit t | _ \<Rightarrow> False)"

definition review_request :: "alert_spec list \<Rightarrow> (string, rat) dict \<Rightarrow> pyval" where
  "review_request alerts metrics = PDict
     [(''triggered_rules'', PList (map (\<lambda>a. PStr (as_rule a)) (take 3 alerts))),
      (''verified_metrics'', PDict (concat (map (\<lambda>k. case dict_get metrics k of None \<Rightarrow> [] | Some q \<Rightarrow> [(k, PFloat q)])
         [''anomaly_count'', ''total_spend'', ''completeness''])))]"

text \<open>except (LLMError, ValueError, OSError)\<close>

definition review_catches :: "exn \<Rightarrow> bool" where
  "review_catches e \<longleftrightarrow> exn_class e \<in> {''LLMError'', ''LLMBudgetExceeded''} \<or> dynamic_catches e"

text \<open>ask sends the request within a usage scope of one call and gives the answer and its cost.\<close>

definition optional_ai_review ::
    "review_settings \<Rightarrow> (pyval \<Rightarrow> ('s, (string, pyval) dict \<times> pyval) py) \<Rightarrow> 'z monitor_row_scheme \<Rightarrow> alert_spec list \<Rightarrow>
     (string, rat) dict \<Rightarrow> ('s, (string, pyval) dict) py" where
  "optional_ai_review rv ask monitor alerts metrics =
     (if alerts = [] \<or> \<not> mo_ai_escalation monitor then ret []
      else if lower (strip (rv_enabled rv)) \<notin> {''true'', ''1'', ''yes''} then ret []
      else if blank (rv_api_key rv) \<or> rv_provider rv \<notin> {''huggingface'', ''hf''}
      then ret [(''status'', PStr ''skipped''), (''reason'', PStr ''HF token/provider not configured'')]
      else
        seq (lift_result (rv_policy rv))
          (try_catch
            (bnd (ask (review_request alerts metrics)) (\<lambda>(data, cost).
               if review_text_ok (pget data ''interpretation'') \<and> review_text_ok (pget data ''recommended_next_step'')
               then ret [(''status'', PStr ''created''), (''interpretation'', pget data ''interpretation''),
                         (''recommended_next_step'', pget data ''recommended_next_step''),
                         (''model'', PStr (rv_model rv)), (''estimated_cost_usd'', cost)]
               else raise (ValueError ''AI alert review did not meet evidence policy'')))
            (\<lambda>e. if review_catches e
                  then ret [(''status'', PStr ''unavailable''),
                            (''reason'', PStr ''AI review could not be validated; deterministic alert remains'')]
                  else raise e)))"

section \<open>One claimed monitor\<close>

record 'z monitor_world =
  mw_urlsplit :: "string \<Rightarrow> url_parts result"
  mw_allowed_buckets :: string
  mw_download :: "string \<Rightarrow> string \<Rightarrow> ('z monitor_db_scheme, string) py"
  mw_validate :: "string \<Rightarrow> string \<Rightarrow> string \<Rightarrow> ('z monitor_db_scheme, monitor_source) py"
  mw_file :: "string \<Rightarrow> file_answer result"
  mw_execute :: "string \<Rightarrow> ('z monitor_db_scheme, unit) py"
  mw_read_json :: "string \<Rightarrow> ('z monitor_db_scheme, pyval) py"
  mw_review :: review_settings
  mw_ask :: "pyval \<Rightarrow> ('z monitor_db_scheme, (string, pyval) dict \<times> pyval) py"
  mw_floats :: floats

text \<open>The dictionary a claim is answered with, less its fixed text.\<close>

datatype claim_outcome =
    ClaimSkipped
  | ClaimCompleted string nat "(string, rat) dict"
  | ClaimFailed "string option" string

text \<open>try: m; except Exception: h; else: k. Exceptions of h and of k are not caught here.\<close>

definition attempt ::
    "('s, 'a) py \<Rightarrow> (exn \<Rightarrow> ('s, 'b) py) \<Rightarrow> ('a \<Rightarrow> ('s, 'b) py) \<Rightarrow> ('s, 'b) py" where
  "attempt m h k = (\<lambda>s. case m s of (Inl e, s') \<Rightarrow> h e s' | (Inr x, s') \<Rightarrow> k x s')"

text \<open>download_s3_snapshot after its checks, or the registered source.\<close>

definition claim_source :: "'z monitor_world \<Rightarrow> claimed_monitor \<Rightarrow> ('z monitor_db_scheme, monitor_source) py" where
  "claim_source w monitor =
     (if starts_with ''s3://'' (mo_source_id monitor) then
        bnd (lift_result (allowed_s3_reference (mw_urlsplit w) (mw_allowed_buckets w) (mo_source_id monitor))) (\<lambda>(bucket, key).
        bnd (mw_download w bucket key) (\<lambda>path.
        bnd (lift_result (mw_urlsplit w (mo_source_id monitor))) (\<lambda>u.
          ret (remote_snapshot (up_path u) (mo_source_id monitor) path))))
      else mw_validate w (mo_source_id monitor) (mo_organization_id monitor) (mo_workspace_id monitor))"

definition monitor_run_metadata :: "claimed_monitor \<Rightarrow> monitor_source \<Rightarrow> (string, pyval) dict" where
  "monitor_run_metadata monitor source =
     [(''organization_id'', PStr (mo_organization_id monitor)), (''workspace_id'', PStr (mo_workspace_id monitor)),
      (''monitor_id'', PStr (mo_id monitor)), (''scheduled'', PBool True), (''data_source_id'', PStr (so_id source)),
      (''data_source_name'', PStr (so_name source)), (''data_source_type'', PStr (so_source_type source))]"

text \<open>The latest artifact of a type that an agent wrote as JSON.\<close>

definition latest_json :: "ArtifactType \<Rightarrow> string \<Rightarrow> ArtifactRecord list \<Rightarrow> ArtifactRecord option" where
  "latest_json t agent xs =
     find (\<lambda>a. a_type a = t \<and> pget (a_metadata a) ''source'' = PStr agent \<and> pget (a_metadata a) ''format'' = PStr ''json'')
       (rev xs)"

definition report_failure ::
    "claimed_monitor \<Rightarrow> string option \<Rightarrow> string option \<Rightarrow> exn \<Rightarrow> ('z monitor_db_scheme, claim_outcome) py" where
  "report_failure monitor fingerprint run_id e =
     seq (finish monitor ''failed'' fingerprint run_id [] []
            (Some (''Scheduled check failed ('' @ exn_class e @ ''). Review backend logs.'')))
     (seq (create_alert monitor ''execution_failure'' ''high'' ''Scheduled investigation could not complete''
             ''Check the monitoring worker logs and the registered data source.''
             [(''error_type'', PStr (exn_class e))] run_id)
          (ret (ClaimFailed run_id (exn_class e))))"

text \<open>From the dataset of the new run to the figures of its analysis.\<close>

definition run_analysis :: "'z monitor_world \<Rightarrow> monitor_source \<Rightarrow> string \<Rightarrow> ('z monitor_db_scheme, (string, rat) dict) py" where
  "run_analysis w source run_id =
     bnd (add_artifact run_id DATASET (so_dataset_uri source) (so_dataset_metadata source) [] None None None None None None) (\<lambda>a.
     seq (mw_execute w run_id)
     (bnd (get_run run_id) (\<lambda>finished.
      seq (guard (r_status finished = RunCompleted)
             (RuntimeError ''Scheduled investigation did not complete successfully''))
      (bnd (list_artifacts run_id) (\<lambda>arts.
       case latest_json KPI_TABLE ''analytics_code_agent'' arts of
         None \<Rightarrow> raise (RuntimeError ''Completed run did not produce a verified analytics artifact'')
       | Some table \<Rightarrow>
           bnd (mw_read_json w (a_uri table)) (\<lambda>analysis.
           bnd (list_artifacts run_id) (\<lambda>arts2.
           bnd (case latest_json QUALITY_REPORT ''data_retrieval_agent'' arts2 of
                  None \<Rightarrow> ret None
                | Some q \<Rightarrow> bnd (mw_read_json w (a_uri q)) (\<lambda>v. ret (Some v))) (\<lambda>quality.
           bnd (lift_result (extract_metrics (mw_floats w) analysis quality)) (\<lambda>metrics.
           seq (guard (metrics \<noteq> []) (RuntimeError ''No supported KPI metrics were available''))
               (ret metrics))))))))))"

definition conclude ::
    "'z monitor_world \<Rightarrow> claimed_monitor \<Rightarrow> string \<Rightarrow> string \<Rightarrow> monitor_run option \<Rightarrow> (string, rat) dict \<Rightarrow>
     ('z monitor_db_scheme, claim_outcome) py" where
  "conclude w monitor fingerprint run_id previous metrics =
     (let alerts = evaluate_thresholds (mw_floats w) monitor metrics (map_option mr_metrics previous) in
      seq (for_each alerts (\<lambda>a. create_alert monitor (as_rule a) (as_severity a) (as_title a) (as_description a)
             (as_evidence a) (Some run_id)))
      (bnd (optional_ai_review (mw_review w) (mw_ask w) monitor alerts metrics) (\<lambda>review.
       seq (finish monitor ''completed'' (Some fingerprint) (Some run_id) metrics review None)
           (ret (ClaimCompleted run_id (length alerts) metrics)))))"

definition unchanged :: "claimed_monitor \<Rightarrow> string \<Rightarrow> bool" where
  "unchanged monitor fingerprint \<longleftrightarrow>
     mo_only_on_change monitor \<and> \<not> mo_force_once monitor \<and> mo_last_fingerprint monitor = Some fingerprint"

definition execute_claim :: "'z monitor_world \<Rightarrow> claimed_monitor \<Rightarrow> ('z monitor_db_scheme, claim_outcome) py" where
  "execute_claim w monitor =
     attempt
       (bnd (claim_source w monitor) (\<lambda>source.
        bnd (lift_result (fingerprint_source (mw_file w) source)) (\<lambda>fp. ret (source, fp))))
       (report_failure monitor None None)
       (\<lambda>(source, fp).
          if unchanged monitor fp
          then attempt (finish monitor ''skipped'' (Some fp) None [] [] None)
                 (report_failure monitor (Some fp) None) (\<lambda>_. ret ClaimSkipped)
          else
            attempt
              (bnd (last_completed (mo_id monitor)) (\<lambda>previous.
               bnd (create_run (mo_task monitor) (monitor_run_metadata monitor source) None) (\<lambda>run. ret (previous, r_id run))))
              (report_failure monitor (Some fp) None)
              (\<lambda>(previous, run_id).
                 attempt (bnd (run_analysis w source run_id) (conclude w monitor fp run_id previous))
                   (report_failure monitor (Some fp) (Some run_id)) ret))"

definition process_due ::
    "'z monitor_world \<Rightarrow> (string \<Rightarrow> int option) \<Rightarrow> int \<Rightarrow> ('z monitor_db_scheme, claim_outcome list) py" where
  "process_due w fromiso max_claims =
     bnd (claim_due fromiso max_claims None) (\<lambda>items. map_each items (execute_claim w))"

text \<open>One round of the worker process.\<close>

definition worker_round ::
    "'z monitor_world \<Rightarrow> (string \<Rightarrow> int option) \<Rightarrow> string \<Rightarrow> ('z monitor_db_scheme, claim_outcome list) py" where
  "worker_round w fromiso worker_id = seq (monitor_heartbeat worker_id) (process_due w fromiso 2)"

end
