(* ===== verification/Monitor_Properties.thy ===== *)
theory Monitor_Properties
  imports Monitor_Store
begin

text \<open>
  Histories of the monitoring store: any interleaving of the write statements of the API, of
  any number of workers and of their finishing, where a claim is one transaction.
\<close>

datatype monitor_call =
    MInsert monitor_row
  | MSetEnabled string string string bool
  | MTrigger string string string
  | MHeartbeat string
  | MClaim int
  | MFinishRun string string "string option" "string option" "(string, rat) dict" "(string, pyval) dict" "string option"
  | MFinishMonitor string string "string option" "string option"
  | MCreateAlert claimed_monitor string string string string "(string, pyval) dict" "string option"
  | MUpdateAlert string string string string

text \<open>What a call returns to a worker: the claimed monitors of a claim.\<close>

fun perform_monitor ::
    "(string \<Rightarrow> int option) \<Rightarrow> monitor_call \<Rightarrow> ('z monitor_db_scheme, claimed_monitor list) py" where
  "perform_monitor rd (MInsert row) = seq (insert_monitor row) (ret [])"
| "perform_monitor rd (MSetEnabled i org ws b) = seq (set_enabled i org ws b) (ret [])"
| "perform_monitor rd (MTrigger i org ws) = seq (trigger i org ws) (ret [])"
| "perform_monitor rd (MHeartbeat w) = seq (monitor_heartbeat w) (ret [])"
| "perform_monitor rd (MClaim limit) = claim_due rd limit None"
| "perform_monitor rd (MFinishRun d st fp run metrics review err) =
     bnd utcnow_text (\<lambda>now. seq (finish_run_row d now st fp run metrics review err) (ret []))"
| "perform_monitor rd (MFinishMonitor i st fp run) =
     bnd utcnow_text (\<lambda>now. seq (finish_monitor_row i now st fp run) (ret []))"
| "perform_monitor rd (MCreateAlert c rule sev title desc ev run) =
     seq (create_alert c rule sev title desc ev run) (ret [])"
| "perform_monitor rd (MUpdateAlert a org ws st) = seq (update_alert a org ws st) (ret [])"

text \<open>A call that raises hands out nothing; the history goes on with the state it left.\<close>

fun run_monitor_calls ::
    "(string \<Rightarrow> int option) \<Rightarrow> monitor_call list \<Rightarrow> 'z monitor_db_scheme \<Rightarrow> claimed_monitor list \<times> 'z monitor_db_scheme" where
  "run_monitor_calls rd [] s = ([], s)"
| "run_monitor_calls rd (c # cs) s =
     (case perform_monitor rd c s of (r, s1) \<Rightarrow>
      case run_monitor_calls rd cs s1 of (out, s2) \<Rightarrow>
        ((case r of Inl e \<Rightarrow> [] | Inr xs \<Rightarrow> xs) @ out, s2))"

section \<open>Running the statements\<close>

lemma utcnow_text_run [py_simps]:
  "utcnow_text s = (Inr (isoformat (clock s (ticks s))), s\<lparr>ticks := Suc (ticks s)\<rparr>)"
  by (simp add: utcnow_text_def py_simps)

lemma update_monitors_run [py_simps]:
  "update_monitors p f s = (Inr (length (filter p (md_monitors s))),
     s\<lparr>md_monitors := map (\<lambda>r. if p r then f r else r) (md_monitors s)\<rparr>)"
  by (simp add: update_monitors_def py_simps)

lemmas monitor_writes = set_enabled_def trigger_def monitor_heartbeat_def finish_run_row_def
  finish_monitor_row_def create_alert_def update_alert_def insert_monitor_def Let_def

section \<open>The tables\<close>

text \<open>
  tables_ok: monitor, dispatch and alert ids are distinct, every dispatch belongs to a monitor of
  the same tenant.
\<close>

definition tables_ok :: "'z monitor_db_scheme \<Rightarrow> bool" where
  "tables_ok s \<longleftrightarrow>
     distinct (map mo_id (md_monitors s)) \<and> distinct (map mr_id (md_runs s)) \<and> distinct (map al_id (md_alerts s))
     \<and> (\<forall>r \<in> set (md_runs s). \<exists>m \<in> set (md_monitors s). mo_id m = mr_monitor_id r
          \<and> mo_organization_id m = mr_organization_id r \<and> mo_workspace_id m = mr_workspace_id r)"

text \<open>An update that keeps what identifies a monitor.\<close>

definition same_identity :: "monitor_row \<Rightarrow> monitor_row \<Rightarrow> bool" where
  "same_identity r r' \<longleftrightarrow> mo_id r' = mo_id r \<and> mo_organization_id r' = mo_organization_id r
     \<and> mo_workspace_id r' = mo_workspace_id r"

lemma updated_member:
  assumes "\<And>r. same_identity r (f r)" and "m \<in> set rows"
  shows "\<exists>m' \<in> set (map (\<lambda>r. if p r then f r else r) rows). same_identity m m'"
  using assms by (induction rows) (auto simp: same_identity_def)

lemma tables_ok_update:
  assumes "\<And>r. same_identity r (f r)" and "tables_ok s"
  shows "tables_ok (s\<lparr>md_monitors := map (\<lambda>r. if p r then f r else r) (md_monitors s)\<rparr>)"
proof -
  have "map mo_id (map (\<lambda>r. if p r then f r else r) rows) = map mo_id rows" for rows
    using assms(1) by (induction rows) (auto simp: same_identity_def)
  then show ?thesis
    using assms(2) updated_member [OF assms(1), of _ "md_monitors s" p]
    unfolding tables_ok_def same_identity_def by (simp del: map_map) metis
qed

lemma tables_ok_ticks [simp]: "tables_ok (s\<lparr>ticks := n\<rparr>) = tables_ok s" "tables_ok (s\<lparr>uuid_ix := n\<rparr>) = tables_ok s"
  by (simp_all add: tables_ok_def)

definition rescheduled :: "string \<Rightarrow> string \<Rightarrow> monitor_row \<Rightarrow> monitor_row" where
  "rescheduled due now r = r\<lparr>mo_next_due_at := due, mo_force_once := False, mo_updated_at := now\<rparr>"

lemma rescheduled_simps [simp]:
  "same_identity r (rescheduled due now r)" "mo_id (rescheduled due now r) = mo_id r"
  "mo_next_due_at (rescheduled due now r) = due"
  by (simp_all add: rescheduled_def same_identity_def)

lemma claim_row_run:
  "claim_row rd now row s =
     (case next_due rd now (mo_interval row) of
        Inl e \<Rightarrow> (Inl e, s)
      | Inr due \<Rightarrow>
          (let d = ''dispatch_'' @ uuids s (uuid_ix s);
               ms = map (\<lambda>r. if mo_id r = mo_id row then rescheduled due now r else r)
                      (md_monitors s);
               s1 = s\<lparr>uuid_ix := Suc (uuid_ix s), md_monitors := ms\<rparr>
           in if d \<in> mr_id ` set (md_runs s) then (Inl (integrity_error ''UNIQUE constraint failed: monitor_runs.id''), s1)
              else if mo_id row \<notin> mo_id ` set ms then (Inl (integrity_error ''FOREIGN KEY constraint failed''), s1)
              else (Inr (monitor_row.extend row (claimed_monitor.fields d)),
                    s1\<lparr>md_runs := md_runs s @ [new_monitor_run row d now]\<rparr>)))"
  by (simp add: claim_row_def insert_monitor_run_def py_simps Let_def new_monitor_run_def rescheduled_def split: sum.split)

text \<open>What a successful claim of one row did.\<close>

lemma claim_row_effect:
  assumes "claim_row rd now row s = (Inr c, s')"
  obtains due d ms where
    "next_due rd now (mo_interval row) = Inr due" "d = ''dispatch_'' @ uuids s (uuid_ix s)" "d \<notin> mr_id ` set (md_runs s)"
    "ms = map (\<lambda>r. if mo_id r = mo_id row then rescheduled due now r else r)
            (md_monitors s)"
    "mo_id row \<in> mo_id ` set ms" "c = monitor_row.extend row (claimed_monitor.fields d)"
    "s' = s\<lparr>uuid_ix := Suc (uuid_ix s), md_monitors := ms, md_runs := md_runs s @ [new_monitor_run row d now]\<rparr>"
proof (cases "next_due rd now (mo_interval row)")
  case (Inr due)
  with assms show thesis
    by (simp add: claim_row_run Let_def split: if_splits) (rule that [OF Inr refl _ refl]; simp)
qed (use assms in \<open>simp add: claim_row_run\<close>)

lemma claimed_row_simps [simp]:
  "mo_id (monitor_row.extend row x) = mo_id row" "mo_interval (monitor_row.extend row x) = mo_interval row"
  "mo_organization_id (monitor_row.extend row x) = mo_organization_id row"
  "mo_workspace_id (monitor_row.extend row x) = mo_workspace_id row"
  "cm_dispatch_id (monitor_row.extend row (claimed_monitor.fields d)) = d"
  by (simp_all add: monitor_row.extend_def claimed_monitor.fields_def)

text \<open>A row the claim selected is still in the table, with the same tenant.\<close>

definition known_row :: "monitor_row \<Rightarrow> 'z monitor_db_scheme \<Rightarrow> bool" where
  "known_row r s \<longleftrightarrow> (\<exists>m \<in> set (md_monitors s). same_identity r m)"

lemma claim_row_keeps:
  assumes "row \<in> R"
  shows "ensures (\<lambda>s. tables_ok s \<and> (\<forall>r \<in> R. known_row r s)) (claim_row rd now row)
           (\<lambda>c s. tables_ok s \<and> (\<forall>r \<in> R. known_row r s))"
proof (rule ensuresI)
  fix s c s'
  assume s: "tables_ok s \<and> (\<forall>r \<in> R. known_row r s)" and run: "claim_row rd now row s = (Inr c, s')"
  from run obtain due d ms where e: "d \<notin> mr_id ` set (md_runs s)"
    "ms = map (\<lambda>r. if mo_id r = mo_id row then rescheduled due now r else r)
            (md_monitors s)"
    "s' = s\<lparr>uuid_ix := Suc (uuid_ix s), md_monitors := ms, md_runs := md_runs s @ [new_monitor_run row d now]\<rparr>"
    by (rule claim_row_effect) blast
  have ok: "tables_ok (s\<lparr>md_monitors := ms\<rparr>)"
    unfolding e(2) by (rule tables_ok_update) (use s in simp_all)
  have known: "known_row r (s\<lparr>md_monitors := ms\<rparr>)" if "r \<in> R" for r
  proof -
    from s that obtain m where "m \<in> set (md_monitors s)" "same_identity r m" by (auto simp: known_row_def)
    with updated_member [where f = "rescheduled due now" and m = m and rows = "md_monitors s" and p = "\<lambda>r. mo_id r = mo_id row"]
    obtain m' where "m' \<in> set ms" "same_identity m m'" unfolding e(2) by auto
    with \<open>same_identity r m\<close> show ?thesis by (auto simp: known_row_def same_identity_def)
  qed
  from known [OF assms] ok e(1) have "tables_ok s'"
    by (auto simp: e(3) tables_ok_def known_row_def same_identity_def new_monitor_run_def)
  with known show "tables_ok s' \<and> (\<forall>r \<in> R. known_row r s')"
    by (auto simp: e(3) known_row_def)
qed

section \<open>Claims\<close>

text \<open>waits i due s: the monitor i exists and is next due at the text due.\<close>

definition waits :: "string \<Rightarrow> string \<Rightarrow> 'z monitor_db_scheme \<Rightarrow> bool" where
  "waits i due s \<longleftrightarrow> i \<in> mo_id ` set (md_monitors s) \<and> (\<forall>m \<in> set (md_monitors s). mo_id m = i \<longrightarrow> mo_next_due_at m = due)"

lemma waits_tick [simp]: "waits i due (s\<lparr>ticks := n\<rparr>) = waits i due s"
  by (simp add: waits_def)

text \<open>The loop of a claim over the selected rows.\<close>

lemma claim_row_step:
  assumes "claim_row rd now row s = (Inr c, s')"
  shows "mo_id c = mo_id row \<and> mo_interval c = mo_interval row \<and> (\<exists>due. next_due rd now (mo_interval row) = Inr due \<and> waits (mo_id row) due s')"
    and "i \<noteq> mo_id row \<Longrightarrow> waits i d s \<Longrightarrow> waits i d s'"
    and "md_runs s' = md_runs s @ [new_monitor_run row (cm_dispatch_id c) now]"
    and "md_alerts s' = md_alerts s" and "clock s' = clock s" and "ticks s' = ticks s"
proof -
  from assms obtain due d' where e: "next_due rd now (mo_interval row) = Inr due"
      "c = monitor_row.extend row (claimed_monitor.fields d')"
      "mo_id row \<in> mo_id ` set (map (\<lambda>r. if mo_id r = mo_id row then rescheduled due now r else r) (md_monitors s))"
    and s': "s' = s\<lparr>uuid_ix := Suc (uuid_ix s),
        md_monitors := map (\<lambda>r. if mo_id r = mo_id row then rescheduled due now r else r) (md_monitors s),
        md_runs := md_runs s @ [new_monitor_run row d' now]\<rparr>"
    by (rule claim_row_effect) blast
  have "waits (mo_id row) due s'" using e(3) by (auto simp: s' waits_def)
  then show "mo_id c = mo_id row \<and> mo_interval c = mo_interval row
      \<and> (\<exists>due. next_due rd now (mo_interval row) = Inr due \<and> waits (mo_id row) due s')"
    using e by simp
  show "waits i d s'" if "i \<noteq> mo_id row" "waits i d s" using that by (auto simp: s' waits_def)
  show "md_runs s' = md_runs s @ [new_monitor_run row (cm_dispatch_id c) now]"
    "md_alerts s' = md_alerts s" "clock s' = clock s" "ticks s' = ticks s"
    by (simp_all add: s' e(2))
qed

lemma claim_rows_effect:
  assumes "map_each rows (claim_row rd now) s = (Inr cs, s')" and "distinct (map mo_id rows)"
  shows "list_all2 (\<lambda>c r. mo_id c = mo_id r \<and> mo_interval c = mo_interval r
           \<and> (\<exists>due. next_due rd now (mo_interval r) = Inr due \<and> waits (mo_id r) due s')) cs rows
     \<and> (\<forall>i d. i \<notin> mo_id ` set rows \<longrightarrow> waits i d s \<longrightarrow> waits i d s')
     \<and> md_runs s' = md_runs s @ map2 (\<lambda>c r. new_monitor_run r (cm_dispatch_id c) now) cs rows
     \<and> md_alerts s' = md_alerts s \<and> clock s' = clock s \<and> ticks s' = ticks s"
  using assms
proof (induction rows arbitrary: s cs)
  case (Cons row rows)
  from Cons.prems(1) obtain c s1 cs1 where c: "claim_row rd now row s = (Inr c, s1)"
    and cs: "map_each rows (claim_row rd now) s1 = (Inr cs1, s')" "cs = c # cs1"
    by (auto simp: ret_def elim!: bnd_InrE)
  note st = claim_row_step [OF c]
  have IH: "list_all2 (\<lambda>c r. mo_id c = mo_id r \<and> mo_interval c = mo_interval r
           \<and> (\<exists>due. next_due rd now (mo_interval r) = Inr due \<and> waits (mo_id r) due s')) cs1 rows"
     "\<forall>i d. i \<notin> mo_id ` set rows \<longrightarrow> waits i d s1 \<longrightarrow> waits i d s'"
     "md_runs s' = md_runs s1 @ map2 (\<lambda>c r. new_monitor_run r (cm_dispatch_id c) now) cs1 rows"
     "md_alerts s' = md_alerts s1" "clock s' = clock s1" "ticks s' = ticks s1"
    using Cons.IH [OF cs(1)] Cons.prems(2) by auto
  have new: "mo_id row \<notin> mo_id ` set rows" using Cons.prems(2) by simp
  then have "\<exists>due. next_due rd now (mo_interval row) = Inr due \<and> waits (mo_id row) due s'"
    using st(1) IH(2) by blast
  with st(1) IH(1) have "list_all2 (\<lambda>c r. mo_id c = mo_id r \<and> mo_interval c = mo_interval r
           \<and> (\<exists>due. next_due rd now (mo_interval r) = Inr due \<and> waits (mo_id r) due s')) cs (row # rows)"
    by (simp add: cs(2))
  moreover have "\<forall>i d. i \<notin> mo_id ` set (row # rows) \<longrightarrow> waits i d s \<longrightarrow> waits i d s'"
    using st(2) IH(2) by auto
  ultimately show ?case using st(3-6) IH(3-6) cs(2) by simp
qed (simp add: ret_def)

lemma due_rows_distinct: "distinct (map mo_id rows) \<Longrightarrow> distinct (map mo_id (take n (due_rows now rows)))"
  by (simp add: due_rows_def distinct_map distinct_filter inj_on_def take_map [symmetric] flip: set_take_subset)

lemma claim_row_env: "keeps (\<lambda>s. clock s = C \<and> ticks s = T) (claim_row rd now row)"
  by (rule keepsI) (simp add: claim_row_run Let_def split: sum.split)

text \<open>What a claim by the clock does, when it succeeds and when it is rolled back.\<close>

definition claim_text :: "'z monitor_db_scheme \<Rightarrow> string" where
  "claim_text s = isoformat (clock s (ticks s))"

definition selected :: "int \<Rightarrow> 'z monitor_db_scheme \<Rightarrow> monitor_row list" where
  "selected limit s = take (nat (max 1 (min limit 5))) (due_rows (claim_text s) (md_monitors s))"

lemma claim_due_success:
  assumes "claim_due rd limit None s = (Inr cs, s')"
  shows "map_each (selected limit s) (claim_row rd (claim_text s)) (s\<lparr>ticks := Suc (ticks s)\<rparr>) = (Inr cs, s')"
  using assms by (auto simp: claim_due_def py_simps transaction_def selected_def claim_text_def
      split: prod.splits sum.splits)

lemma claim_due_failure:
  assumes "claim_due rd limit None s = (Inl e, s')"
  shows "md_monitors s' = md_monitors s \<and> md_runs s' = md_runs s \<and> md_alerts s' = md_alerts s
    \<and> clock s' = clock s \<and> ticks s' = Suc (ticks s)"
proof -
  let ?m = "map_each (selected limit s) (claim_row rd (claim_text s))"
  from assms obtain s1 where run: "?m (s\<lparr>ticks := Suc (ticks s)\<rparr>) = (Inl e, s1)"
    and s': "s' = s1\<lparr>md_monitors := md_monitors s, md_runs := md_runs s, md_alerts := md_alerts s, md_workers := md_workers s\<rparr>"
    by (auto simp: claim_due_def py_simps transaction_def selected_def claim_text_def split: prod.splits sum.splits)
  have "keeps (\<lambda>t. clock t = clock s \<and> ticks t = Suc (ticks s)) ?m"
    by (rule keeps_map_each) (rule claim_row_env)
  from keepsD [OF this _ run] have "clock s1 = clock s \<and> ticks s1 = Suc (ticks s)" by simp
  with s' show ?thesis by simp
qed

lemma selected_distinct: "tables_ok s \<Longrightarrow> distinct (map mo_id (selected limit s))"
  by (simp add: selected_def tables_ok_def due_rows_distinct)

lemma selected_due: "r \<in> set (selected limit s) \<Longrightarrow> r \<in> set (md_monitors s) \<and> mo_enabled r \<and> mo_next_due_at r \<le> claim_text s"
  by (auto simp: selected_def due_rows_def dest!: in_set_takeD)

lemma claim_due_effect:
  fixes s :: "'z monitor_db_scheme"
  assumes "claim_due rd limit None s = (Inr cs, s')" and "tables_ok s"
  shows "list_all2 (\<lambda>c r. mo_id c = mo_id r \<and> mo_interval c = mo_interval r
           \<and> (\<exists>due. next_due rd (claim_text s) (mo_interval r) = Inr due \<and> waits (mo_id r) due s')) cs (selected limit s)"
    and "\<And>i d. i \<notin> mo_id ` set (selected limit s) \<Longrightarrow> waits i d s \<Longrightarrow> waits i d s'"
    and "md_runs s' = md_runs s @ map2 (\<lambda>c r. new_monitor_run r (cm_dispatch_id c) (claim_text s)) cs (selected limit s)"
    and "md_alerts s' = md_alerts s" and "clock s' = clock s" and "ticks s' = Suc (ticks s)" and "tables_ok s'"
proof -
  note run = claim_due_success [OF assms(1)]
  note e = claim_rows_effect [OF run selected_distinct [OF assms(2)]]
  show "list_all2 (\<lambda>c r. mo_id c = mo_id r \<and> mo_interval c = mo_interval r
           \<and> (\<exists>due. next_due rd (claim_text s) (mo_interval r) = Inr due \<and> waits (mo_id r) due s')) cs (selected limit s)"
    using e by blast
  show "waits i d s'" if "i \<notin> mo_id ` set (selected limit s)" "waits i d s" for i d
    using conjunct1 [OF conjunct2 [OF e]] that by simp
  show "md_runs s' = md_runs s @ map2 (\<lambda>c r. new_monitor_run r (cm_dispatch_id c) (claim_text s)) cs (selected limit s)"
    "md_alerts s' = md_alerts s" "clock s' = clock s" "ticks s' = Suc (ticks s)"
    using e by simp_all
  let ?I = "\<lambda>t :: 'z monitor_db_scheme. tables_ok t \<and> (\<forall>r \<in> set (selected limit s). known_row r t)"
  have "ensures ?I (map_each rows (claim_row rd (claim_text s))) (\<lambda>_. ?I)" if "set rows \<subseteq> set (selected limit s)" for rows
    using that
  proof (induction rows)
    case Nil show ?case by (simp add: ensures_ret)
  next
    case (Cons r rows)
    from Cons.prems have "ensures ?I (claim_row rd (claim_text s) r) (\<lambda>_. ?I)" by (intro claim_row_keeps) simp
    moreover have "ensures ?I (map_each rows (claim_row rd (claim_text s))) (\<lambda>_. ?I)" using Cons by simp
    ultimately show ?case unfolding map_each.simps by (blast intro: ensures_bnd ensures_ret)
  qed
  moreover have "?I (s\<lparr>ticks := Suc (ticks s)\<rparr>)"
    using assms(2) selected_due [of _ limit s] by (auto simp: known_row_def same_identity_def)
  ultimately show "tables_ok s'" using run by (blast dest: ensuresD)
qed

section \<open>One call\<close>

lemma perform_env:
  assumes "perform_monitor rd c s = (r, s')"
  shows "clock s' = clock s \<and> ticks s \<le> ticks s'"
proof (cases c)
  case (MClaim limit)
  with assms have run: "claim_due rd limit None s = (r, s')" by simp
  show ?thesis
  proof (cases r)
    case (Inl e) with run claim_due_failure show ?thesis by fastforce
  next
    case (Inr cs)
    have "keeps (\<lambda>t. clock t = clock s \<and> ticks t = Suc (ticks s)) (map_each (selected limit s) (claim_row rd (claim_text s)))"
      by (rule keeps_map_each) (rule claim_row_env)
    from keepsD [OF this _ claim_due_success [OF run [unfolded Inr]]] show ?thesis by simp
  qed
qed (use assms in \<open>auto simp: py_simps monitor_writes split: if_splits\<close>)


text \<open>The same for the state after an update.\<close>

lemma updated_tables:
  assumes "md_monitors s' = map (\<lambda>r. if p r then f r else r) (md_monitors s)" "md_runs s' = md_runs s"
    and "md_alerts s' = md_alerts s" and "\<And>r. same_identity r (f r)" and "tables_ok s"
  shows "tables_ok s'"
  using tables_ok_update [OF assms(4,5), of p] assms(1-3) by (simp add: tables_ok_def)

lemma updated_waits:
  assumes "md_monitors s' = map (\<lambda>r. if p r then f r else r) (md_monitors s)" and "\<And>r. same_identity r (f r)"
    and "waits i due s" and "\<And>r. p r \<Longrightarrow> mo_id r = i \<Longrightarrow> mo_next_due_at (f r) = mo_next_due_at r"
  shows "waits i due s'"
proof -
  from assms(3) obtain m where "m \<in> set (md_monitors s)" "mo_id m = i" by (auto simp: waits_def)
  moreover obtain m' where "m' \<in> set (md_monitors s')" "same_identity m m'"
    using updated_member [of f, OF assms(2) calculation(1)] unfolding assms(1) by blast
  ultimately have "i \<in> mo_id ` set (md_monitors s')" by (metis image_eqI same_identity_def)
  moreover have "mo_next_due_at m = due" if "m \<in> set (md_monitors s')" "mo_id m = i" for m
  proof -
    from that(1) obtain r where r: "r \<in> set (md_monitors s)" "m = (if p r then f r else r)"
      unfolding assms(1) by auto
    with that(2) assms(2) [of r] have "mo_id r = i" by (simp add: same_identity_def split: if_splits)
    with r assms(3) assms(4) [of r] show ?thesis by (simp add: waits_def)
  qed
  ultimately show ?thesis by (simp add: waits_def)
qed

text \<open>The calls that update monitors leave everything else alone; only a trigger sets the next due time.\<close>

definition monitor_update ::
    "monitor_call \<Rightarrow> 'z monitor_db_scheme \<Rightarrow> 'z monitor_db_scheme \<Rightarrow> bool" where
  "monitor_update c s s' \<longleftrightarrow>
     (\<exists>p f. md_monitors s' = map (\<lambda>r. if p r then f r else r) (md_monitors s) \<and> md_runs s' = md_runs s
        \<and> md_alerts s' = md_alerts s \<and> (\<forall>r. same_identity r (f r))
        \<and> (\<forall>r. p r \<longrightarrow> mo_next_due_at (f r) = mo_next_due_at r \<or> (\<exists>org ws. c = MTrigger (mo_id r) org ws)))"

lemma monitor_updateI:
  assumes "md_monitors s' = map (\<lambda>r. if p r then f r else r) (md_monitors s)" "md_runs s' = md_runs s"
    "md_alerts s' = md_alerts s" "\<And>r. same_identity r (f r)"
    "\<And>r. p r \<Longrightarrow> mo_next_due_at (f r) = mo_next_due_at r \<or> (\<exists>org ws. c = MTrigger (mo_id r) org ws)"
  shows "monitor_update c s s'"
  unfolding monitor_update_def using assms by blast

lemma set_enabled_update:
  "perform_monitor rd (MSetEnabled i org ws b) s = (r, s') \<Longrightarrow> monitor_update (MSetEnabled i org ws b) s s' \<and> r = Inr []"
  by (auto simp: py_simps monitor_writes same_identity_def intro: monitor_updateI
      [where p = "owned_row i org ws" and f = "\<lambda>r. r\<lparr>mo_enabled := b, mo_updated_at := isoformat (clock s (ticks s))\<rparr>"])

lemma trigger_update:
  "perform_monitor rd (MTrigger i org ws) s = (r, s') \<Longrightarrow> monitor_update (MTrigger i org ws) s s' \<and> r = Inr []"
  by (auto simp: py_simps monitor_writes same_identity_def owned_row_def intro: monitor_updateI
      [where p = "\<lambda>r. owned_row i org ws r \<and> mo_enabled r" and f = "\<lambda>r. r\<lparr>mo_next_due_at := isoformat (clock s (ticks s)),
         mo_force_once := True, mo_updated_at := isoformat (clock s (Suc (ticks s)))\<rparr>"])

lemma finish_monitor_update:
  "perform_monitor rd (MFinishMonitor i st fp run) s = (r, s') \<Longrightarrow> monitor_update (MFinishMonitor i st fp run) s s' \<and> r = Inr []"
  by (auto simp: py_simps monitor_writes same_identity_def intro: monitor_updateI
      [where p = "\<lambda>r. mo_id r = i" and f = "\<lambda>r. r\<lparr>mo_last_checked_at := Some (isoformat (clock s (ticks s))),
         mo_last_run_id := (case run of None \<Rightarrow> mo_last_run_id r | Some i \<Rightarrow> Some i),
         mo_last_fingerprint := (if st = ''completed'' then fp else mo_last_fingerprint r),
         mo_updated_at := isoformat (clock s (ticks s))\<rparr>"])

lemmas monitor_updates = set_enabled_update trigger_update finish_monitor_update

lemma monitor_update_tables: "monitor_update c s s' \<Longrightarrow> tables_ok s \<Longrightarrow> tables_ok s'"
  unfolding monitor_update_def by (blast intro: updated_tables)

lemma monitor_update_waits:
  assumes "monitor_update c s s'" "waits i due s" "\<And>org ws. c \<noteq> MTrigger i org ws"
  shows "waits i due s'"
  using assms unfolding monitor_update_def by (blast intro: updated_waits)

lemma perform_waits:
  assumes "perform_monitor rd c s = (r, s')" and "tables_ok s" and "waits i due s"
    and "\<And>org ws. c \<noteq> MTrigger i org ws" and "\<And>limit. c = MClaim limit \<Longrightarrow> claim_text s < due"
  shows "waits i due s'" and "r = Inr cs \<Longrightarrow> i \<notin> mo_id ` set cs"
proof -
  have "waits i due s' \<and> (r = Inr cs \<longrightarrow> i \<notin> mo_id ` set cs)" for cs
  proof (cases c)
    case (MClaim limit)
    with assms(1) have run: "claim_due rd limit None s = (r, s')" by simp
    have new: "i \<notin> mo_id ` set (selected limit s)"
      using selected_due assms(3) assms(5) [OF MClaim] by (fastforce simp: waits_def)
    show ?thesis
    proof (cases r)
      case (Inl e)
      with claim_due_failure run assms(3) show ?thesis by (fastforce simp: waits_def)
    next
      case (Inr xs)
      note e = claim_due_effect [OF run [unfolded Inr] assms(2)]
      have "mo_id ` set xs = mo_id ` set (selected limit s)"
        using e(1) by (induction rule: list_all2_induct) auto
      with e(2) [OF new assms(3)] new Inr show ?thesis by auto
    qed
  next
    case (MTrigger j org ws)
    with trigger_update assms(1,3,4) show ?thesis by (fastforce intro: monitor_update_waits)
  next
    case (MSetEnabled j org ws b)
    with set_enabled_update assms(1,3) show ?thesis by (fastforce intro: monitor_update_waits)
  next
    case (MFinishMonitor j st fp run)
    with finish_monitor_update assms(1,3) show ?thesis by (fastforce intro: monitor_update_waits)
  qed (use assms(1,3) in \<open>auto simp: py_simps monitor_writes waits_def split: if_splits\<close>)
  then show "waits i due s'" "r = Inr cs \<Longrightarrow> i \<notin> mo_id ` set cs" by auto
qed

lemma mapped_runs_tables:
  assumes "md_runs s' = map f (md_runs s)" "md_monitors s' = md_monitors s" "md_alerts s' = md_alerts s"
    and "\<And>r. mr_id (f r) = mr_id r \<and> mr_monitor_id (f r) = mr_monitor_id r
           \<and> mr_organization_id (f r) = mr_organization_id r \<and> mr_workspace_id (f r) = mr_workspace_id r"
    and "tables_ok s"
  shows "tables_ok s'"
proof -
  have "mr_id \<circ> f = mr_id" by (rule ext) (simp add: assms(4))
  with assms show ?thesis by (simp add: tables_ok_def)
qed

lemma mapped_alerts_tables:
  assumes "md_alerts s' = map f (md_alerts s)" "md_monitors s' = md_monitors s" "md_runs s' = md_runs s"
    and "\<And>a. al_id (f a) = al_id a" and "tables_ok s"
  shows "tables_ok s'"
proof -
  have "al_id \<circ> f = al_id" by (rule ext) (simp add: assms(4))
  with assms show ?thesis by (simp add: tables_ok_def)
qed

text \<open>Finishing a dispatch changes only rows that are running, and not what they belong to.\<close>

lemma finish_run_call:
  assumes "perform_monitor rd (MFinishRun d st fp run metrics review err) s = (r, s')"
  obtains f where "md_runs s' = map f (md_runs s)" "md_monitors s' = md_monitors s" "md_alerts s' = md_alerts s"
    "\<And>r. mr_id (f r) = mr_id r \<and> mr_monitor_id (f r) = mr_monitor_id r
       \<and> mr_organization_id (f r) = mr_organization_id r \<and> mr_workspace_id (f r) = mr_workspace_id r"
    "\<And>r. mr_status r \<noteq> ''running'' \<Longrightarrow> f r = r" "r = Inr []"
proof
  let ?f = "\<lambda>r. if mr_id r = d \<and> mr_status r = ''running''
    then r\<lparr>mr_finished_at := Some (isoformat (clock s (ticks s))), mr_status := st, mr_fingerprint := fp,
           mr_run_id := run, mr_metrics := metrics, mr_ai_review := review, mr_error := err\<rparr> else r"
  show "md_runs s' = map ?f (md_runs s)" "md_monitors s' = md_monitors s" "md_alerts s' = md_alerts s" "r = Inr []"
    using assms by (auto simp: py_simps monitor_writes)
qed simp_all

lemma perform_tables_ok:
  assumes "perform_monitor rd c s = (r, s')" and "tables_ok s"
  shows "tables_ok s'"
proof (cases c)
  case (MClaim limit)
  with assms(1) have run: "claim_due rd limit None s = (r, s')" by simp
  show ?thesis
  proof (cases r)
    case (Inl e)
    with claim_due_failure run assms(2) show ?thesis by (fastforce simp: tables_ok_def)
  next
    case (Inr xs)
    from claim_due_effect(7) [OF run [unfolded Inr] assms(2)] show ?thesis .
  qed
next
  case (MInsert row)
  with assms show ?thesis
    by (auto simp: py_simps monitor_writes tables_ok_def split: if_splits)
next
  case (MSetEnabled i org ws b)
  with assms set_enabled_update show ?thesis by (blast intro: monitor_update_tables)
next
  case (MTrigger i org ws)
  with assms trigger_update show ?thesis by (blast intro: monitor_update_tables)
next
  case (MFinishMonitor i st fp run)
  with assms finish_monitor_update show ?thesis by (blast intro: monitor_update_tables)
next
  case (MFinishRun d st fp run metrics review err)
  with assms(1) obtain f where "md_runs s' = map f (md_runs s)" "md_monitors s' = md_monitors s" "md_alerts s' = md_alerts s"
    "\<And>r. mr_id (f r) = mr_id r \<and> mr_monitor_id (f r) = mr_monitor_id r
       \<and> mr_organization_id (f r) = mr_organization_id r \<and> mr_workspace_id (f r) = mr_workspace_id r"
    by (metis finish_run_call)
  from mapped_runs_tables [OF this assms(2)] show ?thesis .
next
  case (MUpdateAlert a org ws st)
  let ?f = "\<lambda>x. if al_id x = a \<and> al_organization_id x = org \<and> al_workspace_id x = ws
    then x\<lparr>al_status := st, al_updated_at := isoformat (clock s (ticks s))\<rparr> else x"
  have "s' = s \<or> md_alerts s' = map ?f (md_alerts s) \<and> md_monitors s' = md_monitors s \<and> md_runs s' = md_runs s"
    using assms(1) MUpdateAlert by (auto simp: py_simps monitor_writes split: if_splits)
  then show ?thesis
  proof
    assume "md_alerts s' = map ?f (md_alerts s) \<and> md_monitors s' = md_monitors s \<and> md_runs s' = md_runs s"
    then show ?thesis by (elim conjE, intro mapped_alerts_tables [where f = ?f, OF _ _ _ _ assms(2)]) simp_all
  qed (use assms(2) in simp)
qed (use assms in \<open>auto simp: py_simps monitor_writes tables_ok_def split: if_splits\<close>)


section \<open>Dispatches\<close>

text \<open>
  Between two states the list of dispatches only grows at its end, a dispatch that is not
  running stays as it is, and each one keeps its id.
\<close>

definition runs_grow :: "monitor_run list \<Rightarrow> monitor_run list \<Rightarrow> bool" where
  "runs_grow rs rs' \<longleftrightarrow>
     length rs \<le> length rs' \<and>
     (\<forall>k < length rs. mr_id (rs' ! k) = mr_id (rs ! k) \<and> mr_monitor_id (rs' ! k) = mr_monitor_id (rs ! k)
        \<and> (mr_status (rs ! k) \<noteq> ''running'' \<longrightarrow> rs' ! k = rs ! k))"

lemma runs_grow_refl [simp]: "runs_grow rs rs"
  by (simp add: runs_grow_def)

lemma runs_grow_trans:
  assumes "runs_grow a b" "runs_grow b c"
  shows "runs_grow a c"
  unfolding runs_grow_def
proof (intro conjI allI impI)
  show "length a \<le> length c" using assms by (simp add: runs_grow_def)
  fix k assume "k < length a"
  with assms(1) have ab: "k < length b" "mr_id (b ! k) = mr_id (a ! k)" "mr_monitor_id (b ! k) = mr_monitor_id (a ! k)"
    "mr_status (a ! k) \<noteq> ''running'' \<longrightarrow> b ! k = a ! k" by (auto simp: runs_grow_def)
  with assms(2) show "mr_id (c ! k) = mr_id (a ! k)" "mr_monitor_id (c ! k) = mr_monitor_id (a ! k)"
    "mr_status (a ! k) \<noteq> ''running'' \<Longrightarrow> c ! k = a ! k" by (simp_all add: runs_grow_def)
qed

lemma runs_grow_append: "runs_grow rs (rs @ new)"
  by (simp add: runs_grow_def nth_append)

lemma perform_runs_grow:
  assumes "perform_monitor rd c s = (r, s')" and "tables_ok s"
  shows "runs_grow (md_runs s) (md_runs s')"
proof (cases c)
  case (MClaim limit)
  with assms(1) have run: "claim_due rd limit None s = (r, s')" by simp
  show ?thesis
  proof (cases r)
    case (Inl e)
    with claim_due_failure run show ?thesis by fastforce
  next
    case (Inr xs)
    from claim_due_effect(3) [OF run [unfolded Inr] assms(2)] show ?thesis by (simp add: runs_grow_append)
  qed
next
  case (MFinishRun d st fp run metrics review err)
  from assms(1) [unfolded MFinishRun] show ?thesis by (rule finish_run_call) (simp add: runs_grow_def)
qed (use assms in \<open>auto simp: py_simps monitor_writes split: if_splits\<close>)

text \<open>What a history does: the tables stay well formed, dispatches only grow, the clock goes on.\<close>

lemma run_calls_sound:
  assumes "run_monitor_calls rd cs s = (out, s')" and "tables_ok s"
  shows "tables_ok s' \<and> runs_grow (md_runs s) (md_runs s') \<and> clock s' = clock s \<and> ticks s \<le> ticks s'"
  using assms
proof (induction cs arbitrary: s out)
  case (Cons c cs)
  obtain r s1 where c: "perform_monitor rd c s = (r, s1)" by (cases "perform_monitor rd c s") auto
  obtain o2 s2 where cs: "run_monitor_calls rd cs s1 = (o2, s2)" by (cases "run_monitor_calls rd cs s1") auto
  with Cons.prems(1) c have "s2 = s'" by simp
  have ok: "tables_ok s1" by (rule perform_tables_ok [OF c Cons.prems(2)])
  from Cons.IH [OF cs [unfolded \<open>s2 = s'\<close>] ok] perform_runs_grow [OF c Cons.prems(2)] perform_env [OF c]
  show ?case by (auto intro: runs_grow_trans)
qed simp

text \<open>The dispatches a history hands out have ids of their own, and each is a row of the table.\<close>

lemma map2_ids: "length cs = length rs \<Longrightarrow>
    map mr_id (map2 (\<lambda>c r. new_monitor_run r (cm_dispatch_id c) now) cs rs) = map cm_dispatch_id cs"
  by (induction cs rs rule: list_induct2) (auto simp: new_monitor_run_def)

lemma runs_grow_ids: "runs_grow rs rs' \<Longrightarrow> set (map mr_id rs) \<subseteq> set (map mr_id rs')"
proof
  fix i
  assume g: "runs_grow rs rs'" and "i \<in> set (map mr_id rs)"
  then obtain k where "k < length rs" "i = mr_id (rs ! k)" by (auto simp: in_set_conv_nth)
  with g have "k < length rs'" "i = mr_id (rs' ! k)" by (auto simp: runs_grow_def)
  then show "i \<in> set (map mr_id rs')" by simp
qed

lemma perform_dispatches:
  assumes "perform_monitor rd c s = (Inr xs, s')" and "tables_ok s"
  shows "distinct (map cm_dispatch_id xs) \<and> set (map cm_dispatch_id xs) \<inter> set (map mr_id (md_runs s)) = {}
    \<and> set (map cm_dispatch_id xs) \<subseteq> set (map mr_id (md_runs s'))"
proof (cases c)
  case (MClaim limit)
  with assms(1) have run: "claim_due rd limit None s = (Inr xs, s')" by simp
  note e = claim_due_effect [OF run assms(2)]
  have "map mr_id (md_runs s') = map mr_id (md_runs s) @ map cm_dispatch_id xs"
    using e(3) map2_ids list_all2_lengthD [OF e(1)] by simp
  moreover have "distinct (map mr_id (md_runs s'))" using e(7) by (simp add: tables_ok_def)
  ultimately show ?thesis by (metis distinct_append inf_commute set_append sup_ge2)
qed (use assms in \<open>auto simp: py_simps monitor_writes split: if_splits\<close>)

lemma run_calls_dispatches:
  assumes "run_monitor_calls rd cs s = (out, s')" and "tables_ok s"
  shows "distinct (map cm_dispatch_id out) \<and> set (map cm_dispatch_id out) \<inter> set (map mr_id (md_runs s)) = {}
    \<and> set (map cm_dispatch_id out) \<subseteq> set (map mr_id (md_runs s'))"
  using assms
proof (induction cs arbitrary: s out)
  case (Cons c cs)
  obtain r s1 where c: "perform_monitor rd c s = (r, s1)" by (cases "perform_monitor rd c s") auto
  obtain o2 where cs: "run_monitor_calls rd cs s1 = (o2, s')" and out: "out = (case r of Inl e \<Rightarrow> [] | Inr xs \<Rightarrow> xs) @ o2"
    using Cons.prems(1) c by (auto split: prod.splits)
  have ok: "tables_ok s1" by (rule perform_tables_ok [OF c Cons.prems(2)])
  note IH = Cons.IH [OF cs ok]
  have "set (map mr_id (md_runs s)) \<subseteq> set (map mr_id (md_runs s1))"
    by (rule runs_grow_ids [OF perform_runs_grow [OF c Cons.prems(2)]])
  moreover have "set (map mr_id (md_runs s1)) \<subseteq> set (map mr_id (md_runs s'))"
    using run_calls_sound [OF cs ok] runs_grow_ids by blast
  moreover have "distinct (map cm_dispatch_id xs) \<and> set (map cm_dispatch_id xs) \<inter> set (map mr_id (md_runs s)) = {}
    \<and> set (map cm_dispatch_id xs) \<subseteq> set (map mr_id (md_runs s1))" if "r = Inr xs" for xs
    using perform_dispatches c Cons.prems(2) that by blast
  ultimately show ?case
    using IH out by (cases r) (simp_all del: set_map, blast+)
qed simp

lemma claim_due_ticks: "claim_due rd limit None s = (r, s1) \<Longrightarrow> ticks s1 = Suc (ticks s)"
proof (cases r)
  case (Inl e)
  then show "claim_due rd limit None s = (r, s1) \<Longrightarrow> ticks s1 = Suc (ticks s)" using claim_due_failure by fastforce
next
  case (Inr cs)
  assume run: "claim_due rd limit None s = (r, s1)"
  have "keeps (\<lambda>t. clock t = clock s \<and> ticks t = Suc (ticks s)) (map_each (selected limit s) (claim_row rd (claim_text s)))"
    by (rule keeps_map_each) (rule claim_row_env)
  from keepsD [OF this _ claim_due_success [OF run [unfolded Inr]]] show "ticks s1 = Suc (ticks s)" by simp
qed

lemma run_calls_wait:
  assumes "run_monitor_calls rd cs s = (out, s')" and "tables_ok s" and "waits i due s"
    and "\<And>org ws. MTrigger i org ws \<notin> set cs"
    and "\<And>n. ticks s \<le> n \<Longrightarrow> n < ticks s' \<Longrightarrow> isoformat (clock s n) < due"
  shows "i \<notin> mo_id ` set out"
  using assms
proof (induction cs arbitrary: s out)
  case (Cons c cs)
  obtain r s1 where c: "perform_monitor rd c s = (r, s1)" by (cases "perform_monitor rd c s") auto
  obtain o2 where cs: "run_monitor_calls rd cs s1 = (o2, s')" and out: "out = (case r of Inl e \<Rightarrow> [] | Inr xs \<Rightarrow> xs) @ o2"
    using Cons.prems(1) c by (auto split: prod.splits)
  have ok: "tables_ok s1" by (rule perform_tables_ok [OF c Cons.prems(2)])
  note env = perform_env [OF c] run_calls_sound [OF cs ok]
  have late: "claim_text s < due" if "c = MClaim limit" for limit
  proof -
    have "ticks s < ticks s1" using c that claim_due_ticks [of rd limit s r s1] by simp
    with env Cons.prems(5) [of "ticks s"] show ?thesis by (simp add: claim_text_def)
  qed
  note w = perform_waits [OF c Cons.prems(2,3) _ late]
  have "waits i due s1" by (rule w(1)) (use Cons.prems(4) in auto)
  then have "i \<notin> mo_id ` set o2"
    by (rule Cons.IH [OF cs ok]) (use Cons.prems(4,5) env in auto)
  moreover have "i \<notin> mo_id ` set xs" if "r = Inr xs" for xs
    by (rule w(2) [OF _ _ that]) (use Cons.prems(4) in auto)
  ultimately show ?case using out by (cases r) auto
qed simp


lemma list_all2_member: "list_all2 P xs ys \<Longrightarrow> x \<in> set xs \<Longrightarrow> \<exists>y \<in> set ys. P x y"
  by (induction rule: list_all2_induct) auto

section \<open>Properties\<close>

text \<open>
  C36: A monitor that a claim handed to a worker is handed out to nobody, by any interleaving of
  the statements of the API and of any number of workers, before its interval of an hour, a day
  or a week has passed, unless somebody triggers it: the store compares timestamps as texts, and
  their order is the order of the times.
\<close>

theorem monitor_dispatch_spacing:
  assumes "tables_ok s" and "claim_due rd limit None s = (Inr cs, s1)" and "c \<in> set cs"
    and "dict_get INTERVALS (mo_interval c) = Some secs"
    and "rd (isoformat (clock s (ticks s))) = Some (clock s (ticks s))"
    and "datable (clock s (ticks s) + secs * 1000000)"
    and "run_monitor_calls rd calls s1 = (out, s2)" and "\<And>org ws. MTrigger (mo_id c) org ws \<notin> set calls"
    and "\<And>n. ticks s1 \<le> n \<Longrightarrow> n < ticks s2 \<Longrightarrow>
           datable (clock s n) \<and> clock s n < clock s (ticks s) + secs * 1000000"
  shows "mo_id c \<notin> mo_id ` set out"
proof -
  note e = claim_due_effect [OF assms(2,1)]
  from list_all2_member [OF e(1) assms(3)] obtain due where due: "next_due rd (claim_text s) (mo_interval c) = Inr due" "waits (mo_id c) due s1"
    by auto
  then have "due = isoformat (clock s (ticks s) + secs * 1000000)"
    using assms(4,5) by (simp add: next_due_def claim_text_def)
  with assms(6,9) e(5) have "isoformat (clock s1 n) < due" if "ticks s1 \<le> n" "n < ticks s2" for n
    using that by (simp add: isoformat_less)
  from run_calls_wait [OF assms(7) e(7) due(2) assms(8) this] show ?thesis .
qed

text \<open>
  C37: Over any history of the monitoring store each dispatch is handed out once, with an id of
  its own, and is recorded for a monitor of the same tenant; a dispatch that has left the status
  running never changes again, and ids stay distinct.
\<close>

theorem monitor_dispatch_life:
  assumes "tables_ok s" and "run_monitor_calls rd calls1 s = (out1, s1)" and "run_monitor_calls rd calls2 s1 = (out2, s2)"
  shows "tables_ok s2 \<and> distinct (map cm_dispatch_id (out1 @ out2))
    \<and> (\<forall>c \<in> set (out1 @ out2). cm_dispatch_id c \<in> mr_id ` set (md_runs s2))
    \<and> (\<forall>r \<in> set (md_runs s1). mr_status r \<noteq> ''running'' \<longrightarrow> r \<in> set (md_runs s2))"
proof -
  note a = run_calls_sound [OF assms(2,1)] and d1 = run_calls_dispatches [OF assms(2,1)]
  then have ok: "tables_ok s1" by simp
  note b = run_calls_sound [OF assms(3) ok] and d2 = run_calls_dispatches [OF assms(3) ok]
  have ids: "set (map mr_id (md_runs s1)) \<subseteq> set (map mr_id (md_runs s2))" using b runs_grow_ids by blast
  then have "set (map cm_dispatch_id (out1 @ out2)) \<subseteq> set (map mr_id (md_runs s2))"
    using d1 d2 by (simp del: set_map) blast
  moreover have "set (map cm_dispatch_id out1) \<inter> set (map cm_dispatch_id out2) = {}"
    using d1 d2 by blast
  then have "distinct (map cm_dispatch_id (out1 @ out2))"
    using d1 d2 unfolding map_append distinct_append by blast
  moreover have "r \<in> set (md_runs s2)" if "r \<in> set (md_runs s1)" "mr_status r \<noteq> ''running''" for r
  proof -
    from that(1) obtain k where "k < length (md_runs s1)" "r = md_runs s1 ! k" by (auto simp: in_set_conv_nth)
    with b that(2) have "k < length (md_runs s2)" "r = md_runs s2 ! k" by (auto simp: runs_grow_def)
    then show ?thesis by simp
  qed
  ultimately show ?thesis using b by auto
qed

text \<open>The rows of a tenant.\<close>

definition tenant_rows ::
    "string \<Rightarrow> string \<Rightarrow> 'z monitor_db_scheme \<Rightarrow> monitor_row list \<times> monitor_run list \<times> monitor_alert list" where
  "tenant_rows org ws s =
     (filter (\<lambda>m. mo_organization_id m = org \<and> mo_workspace_id m = ws) (md_monitors s),
      filter (\<lambda>r. mr_organization_id r = org \<and> mr_workspace_id r = ws) (md_runs s),
      filter (\<lambda>a. al_organization_id a = org \<and> al_workspace_id a = ws) (md_alerts s))"

lemma filter_map_other:
  assumes "\<And>x. p x \<Longrightarrow> \<not> q x \<and> \<not> q (f x)"
  shows "filter q (map (\<lambda>x. if p x then f x else x) xs) = filter q xs"
  using assms by (induction xs) auto

lemma history_rows:
  assumes "tables_ok s" and "fst (monitor_history i org ws s) = Inr rs"
  shows "set rs \<subseteq> set (fst (snd (tenant_rows org ws s)))"
proof (cases "find (owned_row i org ws) (md_monitors s)")
  case (Some m)
  then have m: "m \<in> set (md_monitors s)" "mo_id m = i" "mo_organization_id m = org" "mo_workspace_id m = ws"
    by (auto simp: find_Some_iff owned_row_def)
  show ?thesis
  proof
    fix r assume "r \<in> set rs"
    with assms(2) Some have r: "r \<in> set (md_runs s)" "mr_monitor_id r = i"
      by (auto simp: monitor_history_def get_monitor_def py_simps sort_desc_def dest!: in_set_takeD)
    with assms(1) obtain m' where m': "m' \<in> set (md_monitors s)" "mo_id m' = i"
      "mo_organization_id m' = mr_organization_id r" "mo_workspace_id m' = mr_workspace_id r"
      by (auto simp: tables_ok_def)
    have "m' = m" using assms(1) m m' by (auto simp: tables_ok_def distinct_map inj_on_def)
    with m m' r show "r \<in> set (fst (snd (tenant_rows org ws s)))" by (simp add: tenant_rows_def)
  qed
qed (use assms(2) in \<open>simp add: monitor_history_def get_monitor_def py_simps\<close>)

lemma sort_desc_set [simp]: "set (sort_desc key xs) = set xs"
  by (simp add: sort_desc_def)

text \<open>
  C38: What a tenant asks of the monitoring store, with whatever ids, changes no monitor,
  dispatch or alert of another tenant, and every monitor, dispatch and alert it is shown is its
  own.
\<close>

theorem monitor_tenants_isolated:
  fixes s :: "'z monitor_db_scheme"
  assumes "tables_ok s" and "(org, ws) \<noteq> (other_org, other_ws)"
  shows "tenant_rows other_org other_ws (snd (set_enabled i org ws b s)) = tenant_rows other_org other_ws s
    \<and> tenant_rows other_org other_ws (snd (trigger i org ws s)) = tenant_rows other_org other_ws s
    \<and> tenant_rows other_org other_ws (snd (update_alert a org ws st s)) = tenant_rows other_org other_ws s
    \<and> tenant_rows other_org other_ws (snd (create_monitor org ws name task src interval only ai most pct least s))
        = tenant_rows other_org other_ws s
    \<and> (\<forall>m. fst (get_monitor i org ws s) = Inr (Some m) \<longrightarrow> m \<in> set (fst (tenant_rows org ws s)))
    \<and> (\<forall>ms. fst (list_monitors org ws s) = Inr ms \<longrightarrow> set ms \<subseteq> set (fst (tenant_rows org ws s)))
    \<and> (\<forall>rs. fst (monitor_history i org ws s) = Inr rs \<longrightarrow> set rs \<subseteq> set (fst (snd (tenant_rows org ws s))))
    \<and> (\<forall>as. fst (list_alerts org ws state s) = Inr as \<longrightarrow> set as \<subseteq> set (snd (snd (tenant_rows org ws s))))"
proof -
  note other = filter_map_other [where q = "\<lambda>m. mo_organization_id m = other_org \<and> mo_workspace_id m = other_ws"]
  have "tenant_rows other_org other_ws (snd (set_enabled i org ws b s)) = tenant_rows other_org other_ws s"
    using assms(2) by (simp add: tenant_rows_def set_enabled_def py_simps)
      (rule other, auto simp: owned_row_def)
  moreover have "tenant_rows other_org other_ws (snd (trigger i org ws s)) = tenant_rows other_org other_ws s"
    using assms(2) by (simp add: tenant_rows_def trigger_def py_simps)
      (rule other, auto simp: owned_row_def)
  moreover have "tenant_rows other_org other_ws (snd (update_alert a org ws st s)) = tenant_rows other_org other_ws s"
    using assms(2) by (simp add: tenant_rows_def update_alert_def py_simps Let_def)
      (rule impI, rule filter_map_other, auto)
  moreover have "tenant_rows other_org other_ws (snd (create_monitor org ws name task src interval only ai most pct least s))
      = tenant_rows other_org other_ws s"
    using assms(2) by (auto simp: tenant_rows_def create_monitor_def insert_monitor_def get_monitor_def py_simps)
  moreover have "m \<in> set (fst (tenant_rows org ws s))" if "fst (get_monitor i org ws s) = Inr (Some m)" for m
    using that by (auto simp: get_monitor_def py_simps tenant_rows_def find_Some_iff owned_row_def)
  moreover have "set ms \<subseteq> set (fst (tenant_rows org ws s))" if "fst (list_monitors org ws s) = Inr ms" for ms
    using that by (auto simp: list_monitors_def py_simps tenant_rows_def)
  moreover have "set rs \<subseteq> set (fst (snd (tenant_rows org ws s)))" if "fst (monitor_history i org ws s) = Inr rs" for rs
    using history_rows [OF assms(1)] that by blast
  moreover have "set as \<subseteq> set (snd (snd (tenant_rows org ws s)))" if "fst (list_alerts org ws state s) = Inr as" for as
    using that by (auto simp: list_alerts_def py_simps tenant_rows_def split: if_splits dest!: in_set_takeD)
  ultimately show ?thesis by blast
qed


section \<open>A store with one enabled monitor\<close>

definition watch_env :: env where
  "watch_env = \<lparr>clock = (\<lambda>n. int n * 1000000), ticks = 0, uuids = nat_str, uuid_ix = 0,
     uri_redactor = (\<lambda>u. u), repr_of = (\<lambda>v. ''...''), active_trace = None,
     mlflow_log = (\<lambda>r v. (''disabled'', None)), langsmith_log = (\<lambda>r v. (''disabled'', None))\<rparr>"

definition watch_monitor :: monitor_row where
  "watch_monitor = \<lparr>mo_id = ''mon_1'', mo_organization_id = ''org'', mo_workspace_id = ''main'', mo_name = ''Daily risk'',
     mo_task = ''Detect unusual spend'', mo_source_id = ''data-1'', mo_interval = ''hourly'', mo_enabled = True,
     mo_only_on_change = True, mo_ai_escalation = False, mo_anomaly_limit = 1, mo_spend_change_pct = 20,
     mo_minimum_completeness = 19 / 20, mo_last_fingerprint = None, mo_last_checked_at = None, mo_last_run_id = None,
     mo_next_due_at = isoformat 0, mo_force_once = False, mo_created_at = isoformat 0, mo_updated_at = isoformat 0\<rparr>"

definition watch_db :: monitor_db where
  "watch_db = repo.extend (empty_repo watch_env)
     \<lparr>md_monitors = [watch_monitor], md_runs = [], md_alerts = [], md_workers = []\<rparr>"

definition watch_reader :: "string \<Rightarrow> int option" where
  "watch_reader x = (if x = isoformat 0 then Some 0 else if x = isoformat 1000000 then Some 1000000 else None)"

lemma watch_ok: "tables_ok watch_db"
  by (simp add: tables_ok_def watch_db_def repo.defs empty_repo_def env.defs)

definition watch_calls :: "monitor_call list" where
  "watch_calls = [MHeartbeat ''w'', MClaim 2]"

lemma watch_tables:
  "md_monitors watch_db = [watch_monitor]" "md_runs watch_db = []" "clock watch_db = (\<lambda>n. int n * 1000000)"
  "ticks watch_db = 0" "uuid_ix watch_db = 0" "uuids watch_db = nat_str"
  by (simp_all add: watch_db_def repo.defs empty_repo_def env.defs watch_env_def)

lemma watch_claims:
  "\<exists>s1. claim_due watch_reader 2 None watch_db = (Inr [monitor_row.extend watch_monitor (claimed_monitor.fields ''dispatch_0'')], s1)
     \<and> ticks s1 = 1"
proof -
  have "nat_str 0 = ''0''" by code_simp
  moreover have "mo_interval watch_monitor = ''hourly''" "mo_enabled watch_monitor" "mo_next_due_at watch_monitor = isoformat 0"
    by (simp_all add: watch_monitor_def)
  moreover have "due_rows (isoformat 0) [watch_monitor] = [watch_monitor]"
    by (simp add: due_rows_def calculation)
  ultimately show ?thesis
    by (simp add: claim_due_def py_simps transaction_def claim_row_run watch_tables Let_def next_due_def watch_reader_def
        INTERVALS_def)
qed

lemma watch_dates: "datable 3600000000" "datable 1000000" "datable 2000000"
  by (code_simp, code_simp, code_simp)

theorem monitor_dispatch_spacing_witness:
  "\<exists>c s1. claim_due watch_reader 2 None watch_db = (Inr [c], s1) \<and> mo_id c = ''mon_1''
     \<and> ''mon_1'' \<notin> mo_id ` set (fst (run_monitor_calls watch_reader watch_calls s1))"
proof -
  let ?c = "monitor_row.extend watch_monitor (claimed_monitor.fields ''dispatch_0'')"
  obtain s1 where run: "claim_due watch_reader 2 None watch_db = (Inr [?c], s1)" and t: "ticks s1 = 1"
    using watch_claims by blast
  obtain out s2 where calls: "run_monitor_calls watch_reader watch_calls s1 = (out, s2)" by fastforce
  obtain r where "claim_due watch_reader 2 None (snd (monitor_heartbeat ''w'' s1)) = (r, s2)"
    using calls by (auto simp: watch_calls_def py_simps monitor_heartbeat_def split: prod.splits)
  from claim_due_ticks [OF this] t have ticks: "ticks s2 = 3" by (simp add: monitor_heartbeat_def py_simps)
  have id: "mo_id ?c = ''mon_1''" "mo_interval ?c = ''hourly''" by (simp_all add: watch_monitor_def)
  have "mo_id ?c \<notin> mo_id ` set out"
  proof (rule monitor_dispatch_spacing [OF watch_ok run _ _ _ _ calls, where secs = 3600])
    fix n assume "ticks s1 \<le> n" "n < ticks s2"
    then have "n = 1 \<or> n = 2" using t ticks by auto
    then show "datable (clock watch_db n) \<and> clock watch_db n < clock watch_db (ticks watch_db) + 3600 * 1000000"
      using watch_dates by (auto simp: watch_tables)
  qed (simp_all add: id watch_monitor_def INTERVALS_def watch_reader_def watch_tables watch_dates watch_calls_def)
  with run calls id show ?thesis by auto
qed

theorem monitor_dispatch_life_witness:
  "\<exists>out s1. run_monitor_calls watch_reader [MClaim 2] watch_db = (out, s1)
     \<and> map cm_dispatch_id out = [''dispatch_0''] \<and> ''dispatch_0'' \<in> mr_id ` set (md_runs s1)"
proof -
  obtain s1 where run: "claim_due watch_reader 2 None watch_db
      = (Inr [monitor_row.extend watch_monitor (claimed_monitor.fields ''dispatch_0'')], s1)"
    using watch_claims by blast
  then have "run_monitor_calls watch_reader [MClaim 2] watch_db
      = ([monitor_row.extend watch_monitor (claimed_monitor.fields ''dispatch_0'')], s1)" by simp
  from monitor_dispatch_life [OF watch_ok this, of "[]" "[]" s1] this show ?thesis by simp
qed

theorem monitor_tenants_isolated_witness:
  "tenant_rows ''org'' ''main'' (snd (set_enabled ''mon_1'' ''org'' ''other'' False watch_db)) = tenant_rows ''org'' ''main'' watch_db
   \<and> fst (tenant_rows ''org'' ''main'' watch_db) = [watch_monitor]"
  using monitor_tenants_isolated [OF watch_ok, of "''org''" "''other''" "''org''" "''main''" "''mon_1''" False]
  by (simp add: tenant_rows_def watch_tables watch_monitor_def)

end
