(* ===== verification/Monitor_Engine_Properties.thy ===== *)
theory Monitor_Engine_Properties
  imports Monitor_Engine Monitor_Properties
begin

text \<open>
  A claimed monitor is always settled: whatever the source, the workflow, the artifacts and the
  model do, the dispatch leaves the status running, and the caller gets an outcome and not an
  exception. The hypothesis is that they do not write the monitoring tables.
\<close>

section \<open>Programs that leave the monitoring tables alone\<close>










section \<open>The dispatches that run\<close>

definition running_ids :: "'z monitor_db_scheme \<Rightarrow> string set" where
  "running_ids s = mr_id ` {r \<in> set (md_runs s). mr_status r = ''running''}"

definition monitor_ids :: "'z monitor_db_scheme \<Rightarrow> string set" where
  "monitor_ids s = mo_id ` set (md_monitors s)"




text \<open>The row of a dispatch after finish.\<close>

definition settled ::
    "claimed_monitor \<Rightarrow> string \<Rightarrow> string option \<Rightarrow> (string, rat) dict \<Rightarrow> string option \<Rightarrow> 'z monitor_db_scheme \<Rightarrow> 'z monitor_db_scheme \<Rightarrow> bool" where
  "settled monitor status run_id metrics error s s' \<longleftrightarrow>
     running_ids s' = running_ids s - {cm_dispatch_id monitor} \<and> monitor_ids s' = monitor_ids s
     \<and> (cm_dispatch_id monitor \<in> running_ids s \<longrightarrow>
          (\<exists>r \<in> set (md_runs s'). mr_id r = cm_dispatch_id monitor \<and> mr_status r = status \<and> mr_run_id r = run_id
             \<and> mr_metrics r = metrics \<and> mr_error r = error))"


lemma finish_settles:
  assumes "st \<in> {''completed'', ''skipped'', ''failed''}"
  shows "\<exists>s'. finish monitor st fp run me rv err s = (Inr (), s')
           \<and> settled monitor st run me (case err of None \<Rightarrow> None | Some e \<Rightarrow> if e = [] then None else Some (take 300 e)) s s'"
proof -
  have st: "st \<noteq> ''running''" using assms by auto
  let ?e = "case err of None \<Rightarrow> None | Some e \<Rightarrow> if e = [] then None else Some (take 300 e)"
  let ?g = "\<lambda>r. r\<lparr>mr_finished_at := Some (isoformat (clock s (ticks s))), mr_status := st, mr_fingerprint := fp,
     mr_run_id := run, mr_metrics := me, mr_ai_review := rv, mr_error := ?e\<rparr>"
  let ?f = "\<lambda>r. if mr_id r = cm_dispatch_id monitor \<and> mr_status r = ''running'' then ?g r else r"
  define s' where "s' = snd (finish monitor st fp run me rv err s)"
  obtain p f where s': "finish monitor st fp run me rv err s = (Inr (), s')"
    and runs: "md_runs s' = map ?f (md_runs s)" and mons: "md_monitors s' = map (\<lambda>r. if p r then f r else r) (md_monitors s)"
    and f: "\<And>r. mo_id (f r) = mo_id r"
  proof
    show "finish monitor st fp run me rv err s = (Inr (), s')" "md_runs s' = map ?f (md_runs s)"
      "md_monitors s' = map (\<lambda>r. if mo_id r = mo_id monitor then
         r\<lparr>mo_last_checked_at := Some (isoformat (clock s (ticks s))),
           mo_last_run_id := (case run of None \<Rightarrow> mo_last_run_id r | Some i \<Rightarrow> Some i),
           mo_last_fingerprint := (if st = ''completed'' then fp else mo_last_fingerprint r),
           mo_updated_at := isoformat (clock s (ticks s))\<rparr> else r) (md_monitors s)"
      using assms by (simp_all add: s'_def finish_def py_simps finish_run_row_def finish_monitor_row_def)
  qed simp
  have "mo_id ` set (map (\<lambda>r. if p r then f r else r) rows) = mo_id ` set rows" for rows
    using f by (induction rows) auto
  then have "monitor_ids s' = monitor_ids s" by (simp only: monitor_ids_def mons)
  moreover have "mr_id ` {r \<in> set (map ?f rows). mr_status r = ''running''}
      = mr_id ` {r \<in> set rows. mr_status r = ''running''} - {cm_dispatch_id monitor}" for rows
    using st by (induction rows) auto
  then have "running_ids s' = running_ids s - {cm_dispatch_id monitor}" by (simp only: running_ids_def runs)
  moreover have "\<exists>r \<in> set (md_runs s'). mr_id r = cm_dispatch_id monitor \<and> mr_status r = st \<and> mr_run_id r = run
      \<and> mr_metrics r = me \<and> mr_error r = ?e" if "cm_dispatch_id monitor \<in> running_ids s"
  proof -
    from that obtain r where r: "r \<in> set (md_runs s)" "mr_id r = cm_dispatch_id monitor" "mr_status r = ''running''"
      by (auto simp: running_ids_def)
    then have "?g r \<in> set (md_runs s')" unfolding runs by (force simp: image_iff)
    with r(2) show ?thesis by (intro bexI [of _ "?g r"]) simp_all
  qed
  ultimately show ?thesis using s' by (auto simp: settled_def)
qed


section \<open>A claim is settled\<close>







lemma finish_outcome:
  assumes "finish monitor st fp run me rv None s = (Inr (), s')" and "st \<in> {''completed'', ''skipped'', ''failed''}"
  shows "settled monitor st run me None s s'"
  using finish_settles [OF assms(2), of monitor fp run me rv None s] assms(1) by simp











section \<open>A round of the worker\<close>






section \<open>A world in which the workflow completes\<close>






end
