(* ===== verification/Spec2Isabelle.thy ===== *)
theory Spec2Isabelle
  imports Job_Properties Exec_Graph Policy_Properties Orchestrator_Properties Queue_Demo Lineage
    Auth_Properties Sql_Properties Workflows Code_Guard
    Llm_Properties Archive_Properties Monitor_Engine_Properties
begin

text \<open>
  A model of aeai_os (src/src/aeai_os), the server that runs analysis workflows of agents for
  an organization, and the theorems that make it correct.

  How the parts interact. A run is a record of the run repository; its execution graph is
  planned (agents/planner.py), validated (orchestration/graph.py) and executed node by node by
  the orchestrator (orchestration/service.py), which asks the tool policy
  (security/policy.py) before each node and stops for approvals. Runs are started by
  workflow jobs: a queue (workflows/queue.py), kept by the repository and optionally
  indexed by Redis lists, hands them to workers (workflows/worker.py). Deployments are jobs
  that wait for a decision (deployments/approvals.py). Everything stored passes the redaction
  of secrets (security/redaction.py). Requests are authenticated and checked against roles
  (security/auth.py, security/oidc.py, api/auth.py).

  The style of the model. A method that reads or writes a repository is a program of the
  exception-and-state monad of Py_Monad: it returns the exception or the value, and the state
  it leaves in both cases. The state of a repository is the record repo of Run_Models, which
  extends the environment env: the clock and uuid4 are streams with a count of the readings
  taken, so that equal calls give different times and ids. Dictionaries are association lists
  in insertion order, values of type Any are pyval (Py_Value), strings are lists of
  characters below code point 256. Floats are the rationals they stand for; no theorem rests
  on floating point arithmetic.

  The theories, in the order of the imports.
  Prelude, Py_Monad, Py_Value: dictionaries and string functions of Python, programs with the
  rules for invariants (keeps), transitions (evolves) and partial correctness (ensures),
  values, int(), isoformat.
  Redaction: security/redaction.py with its three regular expressions as scanners; redaction
  is idempotent on texts and values. redact_uri, which rests on urllib, is a parameter.
  Run_Models, Run_Repository: schemas/enums.py, runs/models.py and every operation of
  InMemoryRunRepository (runs/repository.py).
  Job_Lifecycle, Job_History, Job_Properties: single job records move along a small state
  machine (job_move) and histories of calls refine it; the invariant of the tables, exclusive
  ownership, the bound on claims, finality, order and timeout recovery.
  Exec_Graph: orchestration/graph.py; validation accepts exactly the well formed acyclic
  graphs.
  Agent_Registry, Tool_Policy, Policy_Properties: agents/registry.py and security/policy.py,
  fnmatch included; both registries interpret the locale registry. The strictest matching rule
  decides and the default policy holds back whatever is risky.
  Run_State, Orchestrator, Orchestrator_Frame, Orchestrator_Properties: orchestration/state.py
  and orchestration/service.py. The loop of resume_run runs on fuel; resume_run_ends proves
  that one more round than the attempts the nodes have left is enough. The agents are
  programs over the repository, arguments of the model.
  Workflow_Queue, Queue_Contract, Queue_Properties, Queue_Demo: workflows/queue.py; the locale
  workflow_queue states what a worker may rely on and both backends interpret it. The Redis
  client answers anything and may raise.
  Workflow_Worker, Worker_Properties: workflows/worker.py; the workflows a worker executes are
  parameters.
  Deployment, Deployment_Properties: deployments/approvals.py.
  Lineage: artifacts/lineage.py; the walk runs on fuel, and one more than the number of
  artifacts is proved to be enough.
  Auth, Auth_Properties: security/auth.py, security/oidc.py, api/auth.py. Decoding a JWT, the
  key set of an OIDC issuer and the parsing of JSON texts are parameters.
  Sql_Models, Sql_Repository, Sql_Refinement, Sql_Properties: runs/sqlalchemy_repository.py and
  the mapped classes of storage/sqlalchemy_models.py. The operations of a session are a record
  of functions with the laws sql_laws (a query after an add or a merge finds what was written,
  a rollback restores the state); a history of calls refines one of the in-memory repository.
  Run_Archive, Archive_Properties: runs/archive.py; each kind of record reads back, and a run that is
  exported and imported elsewhere is the same run with its secrets redacted. Parsing a time and
  float() are parameters.
  Dataset_Plan, Planner, Planner_Properties, Workflows: data/intelligence.py, agents/planner.py and
  workflows/. The plan of a dataset is one of four fixed valid graphs, whatever the language model
  answers. Profiling a dataset, the language model and the agents are arguments; the order in which
  Python iterates over a set of aliases and the rounding of floats are parameters.
  Code_Guard: analytics/code_guard.py, the static policy for generated code; ast.parse is a parameter
  and the decision is characterized by the nodes of the tree.
  Llm_Budget, Llm_Gateway, Llm_Properties: llm/budget.py and llm/gateway.py. The network and every
  access of the ledger file may fail in any way, other workers may change the file between the
  calls; what leaves the host is recorded and bounded.

  Time_Text, Monitor_Store, Monitor_Properties: monitoring/store.py. The tables of its SQLite file are
  lists of rows; due times are compared as texts, and Time_Text proves that the order of the texts
  isoformat writes is the order of the times. A claim hands a monitor out at most once per interval,
  a dispatch that has left the status running never changes, and no tenant sees or changes another's.
  Monitor_Engine, Monitor_Engine_Properties: monitoring/engine.py and the loop of monitoring/worker.py.
  The source catalog, the download of an S3 object, files, the workflow, the artifacts and the model are
  arguments that may raise anything; every claim is settled and a round leaves nothing running.

  What the lemmas show. Per operation, an effect lemma states the outcome on every branch and
  what the operation leaves alone; keeps and evolves lemmas state invariants and permitted
  transitions and compose along the program text. The properties, marked C and a number in
  the text before each, combine them for histories of calls, for every queue backend, or for a
  whole workflow, and each one with a hypothesis is applied to a concrete input afterwards.

  Not modelled, and why. Tracing spans and metrics have no effect on the modelled state. The
  heartbeat thread of a worker and its endless process loop only repeat modelled calls; a
  history of calls covers every interleaving of them. The recursion limit of Python is not
  modelled. Agents other than the planner, analytics, connectors, data adapters,
  visualization and reports compute with pandas, floating point numbers, files and external
  services; the HTTP routes convert records and call the modelled components; artifact storage
  is files and object storage.

  What modelling showed. The in-memory repository stores the error summary of a failed job
  unredacted. A sensitive artifact without one of the metadata keys of the sensitive rule is
  read without approval, and an approval of a node whose id reads like a secret is lost when
  it is saved. A non-ASCII token is answered by an exception and not by 401. A deployment
  decision overwrites whatever status the run has, a denied node is executed again by the
  next resume_run, and a restored archive can overwrite the job of another run; an archive
  carries error summaries unredacted. The code guard does not see the mode of an open call
  that is given by unpacking a dictionary. A ledger line that is no object, or an answer that
  breaks off, ends a call of the gateway in an exception its callers do not expect. Requests that
  create monitors at the same time can exceed the limit of a workspace, and a dispatch whose worker
  died stays running for ever. An invalid budget setting fails a check whose analysis is done.
\<close>

end
